(* ===== verification/Kernel_Prelude.thy ===== *)
theory Kernel_Prelude
  imports Complex_Main "HOL-Library.Word" "HOL-Library.Char_ord" "HOL-Library.List_Lexorder"
    "HOL-Library.Sublist" "HOL-Library.Multiset" "HOL-Library.Product_Lexorder"
begin

section \<open>Prelude: strings, numbers, tables and effectful operations\<close>

text \<open>
  What every component of the kernel model shares:
  \<^item> the fact collections of the development (\<open>op_simps\<close>: unfolding of effectful operations;
    \<open>obeys_intros\<close>: the rules that lift a state relation through them; \<open>table_simps\<close>:
    table operations);
  \<^item> Rust strings as lists of UTF-8 bytes (\<^typ>\<open>string\<close>), with the functions of the standard
    library the kernel uses on them (\<open>trim\<close>, \<open>chars().take(n)\<close>, decimal printing);
  \<^item> the SQL statements of the journal as list functions (\<open>UPDATE ... WHERE\<close>,
    \<open>INSERT OR IGNORE\<close>, \<open>SELECT ... ORDER BY ... LIMIT 1\<close>);
  \<^item> a state-and-error type for operations that return \<open>anyhow::Result\<close>, and the contract
    \<open>frame_relation\<close> that lifts a reflexive and transitive relation on states through every
    way the code composes such operations.
\<close>

named_theorems op_simps "unfolding of effectful operations"
named_theorems obeys_intros "lifting of a state relation through operations"
named_theorems table_simps "table operations"

subsection \<open>Decimal printing\<close>

text \<open>\<open>n.to_string()\<close> for unsigned integers.\<close>

fun dec :: "nat \<Rightarrow> string" where
  "dec n = (if n < 10 then [char_of (48 + n)] else dec (n div 10) @ [char_of (48 + n mod 10)])"

declare dec.simps [simp del]

text \<open>\<open>n.to_string()\<close> for signed integers.\<close>

definition dec_int :: "int \<Rightarrow> string" where
  "dec_int i = (if i < 0 then CHR ''-'' # dec (nat (- i)) else dec (nat i))"

definition digit_char :: "char \<Rightarrow> bool" where
  "digit_char c \<longleftrightarrow> 48 \<le> (of_char c :: nat) \<and> (of_char c :: nat) \<le> 57"

definition undec :: "string \<Rightarrow> nat" where
  "undec = foldl (\<lambda>a c. 10 * a + (of_char c - 48)) 0"

lemma digit_char_of: "(n :: nat) < 10 \<Longrightarrow> digit_char (char_of (48 + n))"
  by (simp add: digit_char_def of_char_of)

lemma of_char_digit: "n < 10 \<Longrightarrow> of_char (char_of (48 + n)) - 48 = (n :: nat)"
  by (simp add: of_char_of)

lemma dec_digits: "c \<in> set (dec n) \<Longrightarrow> digit_char c"
proof (induction n rule: dec.induct)
  case (1 n)
  then show ?case
    by (subst (asm) (2) dec.simps) (auto simp: digit_char_of split: if_splits)
qed

lemma dec_nonempty [simp]: "dec n \<noteq> []"
  by (subst dec.simps) simp

lemma undec_dec [simp]: "undec (dec n) = n"
proof (induction n rule: dec.induct)
  case (1 n)
  show ?case
  proof (cases "n < 10")
    case True
    then show ?thesis
      by (simp add: dec.simps [of n] undec_def of_char_digit)
  next
    case False
    with 1 have "undec (dec (n div 10)) = n div 10" by simp
    with False show ?thesis
      by (simp add: dec.simps [of n] undec_def of_char_digit)
  qed
qed

lemma dec_inject [simp]: "dec m = dec n \<longleftrightarrow> m = n"
  by (metis undec_dec)

lemma dec_no_char: "\<not> digit_char c \<Longrightarrow> c \<notin> set (dec n)"
  using dec_digits by blast

lemma dec_int_chars: "c \<in> set (dec_int i) \<Longrightarrow> digit_char c \<or> c = CHR ''-''"
  by (auto simp: dec_int_def dest: dec_digits split: if_splits)

lemma dec_head_not_minus: "dec n \<noteq> CHR ''-'' # xs"
proof
  assume "dec n = CHR ''-'' # xs"
  then have "CHR ''-'' \<in> set (dec n)" by simp
  then have "digit_char CHR ''-''" by (rule dec_digits)
  then show False by (simp add: digit_char_def)
qed

lemma dec_int_inject [simp]: "dec_int i = dec_int j \<longleftrightarrow> i = j"
proof (cases "i < 0"; cases "j < 0")
  assume "i < 0" "j < 0"
  then show ?thesis by (auto simp: dec_int_def nat_eq_iff2 nat_eq_iff)
next
  assume "i < 0" "\<not> j < 0"
  then show ?thesis using dec_head_not_minus [of "nat j" "dec (nat (- i))"] by (auto simp: dec_int_def)
next
  assume "\<not> i < 0" "j < 0"
  then show ?thesis using dec_head_not_minus [of "nat i" "dec (nat (- j))"] by (auto simp: dec_int_def)
next
  assume "\<not> i < 0" "\<not> j < 0"
  then show ?thesis by (auto simp: dec_int_def nat_eq_iff2 nat_eq_iff)
qed

text \<open>Splitting at a separator that does not occur on the left is unambiguous.\<close>

lemma separator_unique:
  assumes "a @ c # x = b @ c # y" "c \<notin> set a" "c \<notin> set b"
  shows "a = b \<and> x = y"
  using assms
proof (induction a arbitrary: b)
  case Nil
  then show ?case by (cases b) auto
next
  case (Cons z a)
  then show ?case by (cases b) auto
qed

subsection \<open>Strings\<close>

text \<open>
  The UTF-8 encodings of the characters with the Unicode property \<open>White_Space\<close>, the ones
  \<open>str::trim\<close> removes: U+0009 to U+000D, U+0020, U+0085, U+00A0, U+1680, U+2000 to U+200A,
  U+2028, U+2029, U+202F, U+205F and U+3000.
\<close>

definition white_space :: "string list" where
  "white_space =
     [[CHR 0x09], [CHR 0x0A], [CHR 0x0B], [CHR 0x0C], [CHR 0x0D], [CHR 0x20],
      [CHR 0xC2, CHR 0x85], [CHR 0xC2, CHR 0xA0], [CHR 0xE1, CHR 0x9A, CHR 0x80],
      [CHR 0xE2, CHR 0x80, CHR 0x80], [CHR 0xE2, CHR 0x80, CHR 0x81],
      [CHR 0xE2, CHR 0x80, CHR 0x82], [CHR 0xE2, CHR 0x80, CHR 0x83],
      [CHR 0xE2, CHR 0x80, CHR 0x84], [CHR 0xE2, CHR 0x80, CHR 0x85],
      [CHR 0xE2, CHR 0x80, CHR 0x86], [CHR 0xE2, CHR 0x80, CHR 0x87],
      [CHR 0xE2, CHR 0x80, CHR 0x88], [CHR 0xE2, CHR 0x80, CHR 0x89],
      [CHR 0xE2, CHR 0x80, CHR 0x8A], [CHR 0xE2, CHR 0x80, CHR 0xA8],
      [CHR 0xE2, CHR 0x80, CHR 0xA9], [CHR 0xE2, CHR 0x80, CHR 0xAF],
      [CHR 0xE2, CHR 0x81, CHR 0x9F], [CHR 0xE3, CHR 0x80, CHR 0x80]]"

lemma white_space_nonempty: "w \<in> set white_space \<Longrightarrow> w \<noteq> []"
  by (auto simp: white_space_def)

function strip_front :: "string list \<Rightarrow> string \<Rightarrow> string" where
  "strip_front ws s =
     (case find (\<lambda>w. w \<noteq> [] \<and> prefix w s) ws of
        None \<Rightarrow> s
      | Some w \<Rightarrow> strip_front ws (drop (length w) s))"
  by pat_completeness auto
termination
proof (relation "measure (\<lambda>(ws, s). length s)")
  fix ws :: "string list" and s w :: string
  assume "find (\<lambda>w. w \<noteq> [] \<and> prefix w s) ws = Some w"
  then have "w \<noteq> []" "prefix w s" by (auto simp: find_Some_iff)
  then have "0 < length w" "length w \<le> length s" by (auto dest: prefix_length_le)
  then have "length s - length w < length s" by linarith
  then show "((ws, drop (length w) s), ws, s) \<in> measure (\<lambda>(ws, s). length s)" by simp
qed simp

declare strip_front.simps [simp del]

text \<open>\<open>str::trim\<close>: white space is removed at the front and at the back.\<close>

definition trim :: "string \<Rightarrow> string" where
  "trim s = rev (strip_front (map rev white_space) (rev (strip_front white_space s)))"

lemma strip_front_Nil [simp]: "strip_front ws [] = []"
  by (subst strip_front.simps) (auto split: option.splits simp: find_Some_iff)

lemma trim_Nil [simp]: "trim [] = []"
  by (simp add: trim_def)

lemma strip_front_id:
  "(\<And>w. w \<in> set ws \<Longrightarrow> w \<noteq> [] \<Longrightarrow> \<not> prefix w s) \<Longrightarrow> strip_front ws s = s"
  by (subst strip_front.simps) (auto split: option.splits simp: find_Some_iff)

lemma strip_front_idem [simp]: "strip_front ws (strip_front ws s) = strip_front ws s"
proof (induction ws s rule: strip_front.induct)
  case (1 ws s)
  show ?case
  proof (cases "find (\<lambda>w. w \<noteq> [] \<and> prefix w s) ws")
    case None
    then show ?thesis by (simp add: strip_front.simps [of ws s])
  next
    case (Some w)
    with 1 show ?thesis by (simp add: strip_front.simps [of ws s])
  qed
qed

lemma strip_front_fixed:
  "w \<in> set ws \<Longrightarrow> w \<noteq> [] \<Longrightarrow> \<not> prefix w (strip_front ws s)"
proof (induction ws s rule: strip_front.induct)
  case (1 ws s)
  show ?case
  proof (cases "find (\<lambda>w. w \<noteq> [] \<and> prefix w s) ws")
    case None
    then have "strip_front ws s = s" by (simp add: strip_front.simps [of ws s])
    with None 1 show ?thesis by (auto simp: find_None_iff)
  next
    case (Some w)
    with 1 show ?thesis by (simp add: strip_front.simps [of ws s])
  qed
qed

lemma strip_front_suffix: "suffix (strip_front ws s) s"
proof (induction ws s rule: strip_front.induct)
  case (1 ws s)
  show ?case
  proof (cases "find (\<lambda>w. w \<noteq> [] \<and> prefix w s) ws")
    case None
    then show ?thesis by (simp add: strip_front.simps [of ws s])
  next
    case (Some w)
    with 1 have "suffix (strip_front ws (drop (length w) s)) (drop (length w) s)" by simp
    then have "suffix (strip_front ws (drop (length w) s)) s"
      using suffix_drop suffix_order.trans by blast
    with Some show ?thesis by (simp add: strip_front.simps [of ws s])
  qed
qed

text \<open>A string is trimmed if it neither begins nor ends with white space.\<close>

definition trimmed :: "string \<Rightarrow> bool" where
  "trimmed s \<longleftrightarrow> (\<forall>w \<in> set white_space. \<not> prefix w s \<and> \<not> suffix w s)"

lemma trim_id: "trimmed s \<Longrightarrow> trim s = s"
proof -
  assume s: "trimmed s"
  then have "strip_front white_space s = s" by (intro strip_front_id) (auto simp: trimmed_def)
  moreover have "strip_front (map rev white_space) (rev s) = rev s"
    using s by (intro strip_front_id) (auto simp: trimmed_def suffix_to_prefix)
  ultimately show ?thesis by (simp add: trim_def)
qed

lemma trimmed_trim: "trimmed (trim s)"
proof -
  let ?f = "strip_front white_space s"
  let ?b = "strip_front (map rev white_space) (rev ?f)"
  have b: "suffix ?b (rev ?f)" by (rule strip_front_suffix)
  { fix w assume w: "w \<in> set white_space"
    then have "w \<noteq> []" by (rule white_space_nonempty)
    then have "\<not> prefix (rev w) ?b" using w by (intro strip_front_fixed) auto
    moreover have "prefix (rev ?b) ?f" using b by (simp add: suffix_to_prefix)
    then have "\<not> prefix w (rev ?b)"
      using strip_front_fixed [OF w \<open>w \<noteq> []\<close>, of s] prefix_order.trans by blast
    ultimately have "\<not> prefix w (trim s) \<and> \<not> suffix w (trim s)"
      by (simp add: trim_def suffix_to_prefix) }
  then show ?thesis by (simp add: trimmed_def)
qed

lemma trim_trim [simp]: "trim (trim s) = trim s"
  by (rule trim_id) (rule trimmed_trim)

text \<open>Characters that occur in no encoding of white space; the graphic ones of ASCII are such.\<close>

definition solid :: "char \<Rightarrow> bool" where
  "solid c \<longleftrightarrow> c \<notin> \<Union> (set ` set white_space)"

definition graphic :: "char \<Rightarrow> bool" where
  "graphic c \<longleftrightarrow> 33 \<le> (of_char c :: nat) \<and> (of_char c :: nat) < 127"

lemma graphic_solid: "graphic c \<Longrightarrow> solid c"
  unfolding solid_def white_space_def graphic_def by (auto simp: of_char_of)

lemma trimmed_solid:
  assumes "s \<noteq> []" and "solid (hd s)" and "solid (last s)"
  shows "trimmed s"
proof -
  { fix w assume w: "w \<in> set white_space"
    then have "w \<noteq> []" by (rule white_space_nonempty)
    then have "hd w \<in> set w" "last w \<in> set w" by simp_all
    with w assms have "hd w \<noteq> hd s" "last w \<noteq> last s" by (auto simp: solid_def)
    with \<open>w \<noteq> []\<close> assms(1) have "\<not> prefix w s \<and> \<not> suffix w s"
      by (auto simp: prefix_def suffix_def hd_append last_append) }
  then show ?thesis by (simp add: trimmed_def)
qed

lemma trimmed_append:
  assumes "p \<noteq> []" and "list_all solid p" and "trimmed x" and "x \<noteq> []"
  shows "trimmed (p @ x)"
proof -
  { fix w assume w: "w \<in> set white_space"
    then have w0: "w \<noteq> []" by (rule white_space_nonempty)
    have disj: "set w \<inter> set p = {}" using w assms(2) by (auto simp: list_all_iff solid_def)
    have "\<not> prefix w (p @ x)"
      using w0 assms(1) disj by (cases w; cases p) auto
    moreover have "\<not> suffix w (p @ x)"
    proof
      assume "suffix w (p @ x)"
      then consider "suffix w x" | y where "suffix y p" "y \<noteq> []" "w = y @ x"
        using suffix_append [of w p x] by (metis append_Nil suffix_order.refl)
      then show False
      proof cases
        case 1
        with w assms(3) show ?thesis by (simp add: trimmed_def)
      next
        case (2 y)
        then have "last y \<in> set w" "last y \<in> set p"
          by (auto simp: suffix_def)
        with disj show ?thesis by blast
      qed
    qed
    ultimately have "\<not> prefix w (p @ x) \<and> \<not> suffix w (p @ x)" by simp }
  then show ?thesis by (simp add: trimmed_def)
qed

text \<open>UTF-8 continuation bytes, and \<open>s.chars().take(n)\<close> on the byte list.\<close>

definition cont_byte :: "char \<Rightarrow> bool" where
  "cont_byte c \<longleftrightarrow> 128 \<le> (of_char c :: nat) \<and> (of_char c :: nat) < 192"

fun take_chars :: "nat \<Rightarrow> string \<Rightarrow> string" where
  "take_chars 0 s = []"
| "take_chars (Suc n) [] = []"
| "take_chars (Suc n) (c # s) = c # takeWhile cont_byte s @ take_chars n (dropWhile cont_byte s)"

definition chars_count :: "string \<Rightarrow> nat" where
  "chars_count s = length (filter (\<lambda>c. \<not> cont_byte c) s)"

lemma take_chars_all:
  "chars_count s \<le> n \<Longrightarrow> (s = [] \<or> \<not> cont_byte (hd s)) \<Longrightarrow> take_chars n s = s"
proof (induction n s rule: take_chars.induct)
  case (1 s)
  then show ?case by (cases s) (auto simp: chars_count_def)
next
  case (3 n c s)
  have "filter (\<lambda>c. \<not> cont_byte c) (takeWhile cont_byte s) = []"
    by (auto simp: filter_empty_conv dest: set_takeWhileD)
  then have "filter (\<lambda>c. \<not> cont_byte c) s = filter (\<lambda>c. \<not> cont_byte c) (dropWhile cont_byte s)"
    by (metis filter_append append_Nil takeWhile_dropWhile_id)
  then have "chars_count (dropWhile cont_byte s) \<le> n"
    using 3(2,3) by (simp add: chars_count_def)
  moreover have "dropWhile cont_byte s = [] \<or> \<not> cont_byte (hd (dropWhile cont_byte s))"
    using hd_dropWhile by blast
  ultimately have "take_chars n (dropWhile cont_byte s) = dropWhile cont_byte s" by (rule 3(1))
  then show ?case by simp
qed simp

text \<open>The printable text of a \<open>'static\<close> string literal outside ASCII, given by its bytes.\<close>

definition utf8 :: "nat list \<Rightarrow> string" where
  "utf8 bs = map char_of bs"

text \<open>\<open>text.contains(pattern)\<close>, \<open>to_ascii_lowercase\<close>, and the \<open>LIKE '%pattern%'\<close> of SQLite, which
  ignores the case of ASCII letters.\<close>

fun contains :: "string \<Rightarrow> string \<Rightarrow> bool" where
  "contains p [] = (p = [])"
| "contains p (c # s) = (prefix p (c # s) \<or> contains p s)"

definition ascii_lower :: "char \<Rightarrow> char" where
  "ascii_lower c = (let n = of_char c :: nat in if 65 \<le> n \<and> n \<le> 90 then char_of (n + 32) else c)"

definition like_contains :: "string \<Rightarrow> string \<Rightarrow> bool" where
  "like_contains p s = contains (map ascii_lower p) (map ascii_lower s)"

lemma contains_iff: "contains p s \<longleftrightarrow> (\<exists>a b. s = a @ p @ b)"
proof
  show "contains p s \<Longrightarrow> \<exists>a b. s = a @ p @ b"
  proof (induction s)
    case (Cons c s)
    from Cons.prems show ?case
    proof (cases "prefix p (c # s)")
      case True
      then obtain b where "c # s = [] @ p @ b" by (auto simp: prefix_def)
      then show ?thesis by blast
    next
      case False
      with Cons obtain a b where "s = a @ p @ b" by auto
      then have "c # s = (c # a) @ p @ b" by simp
      then show ?thesis by blast
    qed
  qed simp
  have "contains p (a @ p @ b)" for a b
    by (induction a) (cases p; cases b; simp)+
  then show "\<exists>a b. s = a @ p @ b \<Longrightarrow> contains p s" by blast
qed

lemma contains_like: "contains p s \<Longrightarrow> like_contains p s"
  unfolding like_contains_def contains_iff by (metis map_append)

subsection \<open>Tables\<close>

text \<open>
  A table is the list of its rows in insertion order. \<open>update_where p f\<close> is
  \<open>UPDATE t SET f WHERE p\<close>; the number of changed rows is \<open>count_where p\<close>;
  \<open>first_by k\<close> is \<open>SELECT ... ORDER BY k LIMIT 1\<close> (SQLite leaves the order of equal keys
  open; the model takes the earliest inserted row).
\<close>

definition update_where :: "('r \<Rightarrow> bool) \<Rightarrow> ('r \<Rightarrow> 'r) \<Rightarrow> 'r list \<Rightarrow> 'r list" where
  "update_where p f t = map (\<lambda>r. if p r then f r else r) t"

definition count_where :: "('r \<Rightarrow> bool) \<Rightarrow> 'r list \<Rightarrow> nat" where
  "count_where p t = length (filter p t)"

definition first_by :: "('r \<Rightarrow> 'k :: linorder) \<Rightarrow> 'r list \<Rightarrow> 'r option" where
  "first_by k t = (case sort_key k t of [] \<Rightarrow> None | r # _ \<Rightarrow> Some r)"

lemma count_where_0: "count_where p t = 0 \<longleftrightarrow> (\<forall>r \<in> set t. \<not> p r)"
  by (auto simp: count_where_def filter_empty_conv)

lemma update_where_none: "(\<And>r. r \<in> set t \<Longrightarrow> \<not> p r) \<Longrightarrow> update_where p f t = t"
  by (simp add: update_where_def map_idI)

lemma map_update_where [table_simps]:
  "(\<And>r. key (f r) = key r) \<Longrightarrow> map key (update_where p f t) = map key t"
  by (simp add: update_where_def)

lemma length_update_where [simp]: "length (update_where p f t) = length t"
  by (simp add: update_where_def)

lemma in_update_where:
  "r \<in> set (update_where p f t) \<longleftrightarrow> (\<exists>r0 \<in> set t. r = (if p r0 then f r0 else r0))"
  by (auto simp: update_where_def)

lemma find_update_where:
  assumes "\<And>r. key (f r) = key r"
  shows "find (\<lambda>r. key r = k) (update_where p f t)
       = map_option (\<lambda>r. if p r then f r else r) (find (\<lambda>r. key r = k) t)"
  using assms by (induction t) (auto simp: update_where_def)

lemma first_by_SomeD:
  assumes "first_by k t = Some r"
  shows "r \<in> set t \<and> (\<forall>r' \<in> set t. k r \<le> k r')"
proof -
  from assms obtain rs where s: "sort_key k t = r # rs"
    by (auto simp: first_by_def split: list.splits)
  have "sorted (map k (sort_key k t))" by simp
  with s have le: "\<forall>r' \<in> set (r # rs). k r \<le> k r'" by auto
  have "set (sort_key k t) = set t" by simp
  with s le show ?thesis by (metis list.set_intros(1))
qed

lemma first_by_None [simp]: "first_by k t = None \<longleftrightarrow> t = []"
proof -
  have "first_by k t = None \<longleftrightarrow> sort_key k t = []"
    by (auto simp: first_by_def split: list.splits)
  also have "\<dots> \<longleftrightarrow> t = []"
    by (metis length_0_conv length_sort)
  finally show ?thesis .
qed

lemma insort_key_map:
  "(\<And>x. k (g x) = k x) \<Longrightarrow> insort_key k (g x) (map g xs) = map g (insort_key k x xs)"
  by (induction xs) simp_all

lemma sort_key_map: "(\<And>x. k (g x) = k x) \<Longrightarrow> sort_key k (map g xs) = map g (sort_key k xs)"
  by (induction xs) (simp_all add: insort_key_map)

subsection \<open>Effectful operations\<close>

text \<open>
  A Rust function that returns \<open>anyhow::Result<T>\<close> and changes the journal is a function from
  the state to the result (\<^const>\<open>Inl\<close> the error message) and the state after it. The state
  after an error is kept: what the function wrote before it failed stays written, unless a
  transaction rolls it back. \<open>op_bind\<close> is the \<open>?\<close> operator, \<open>op_bail\<close> is \<open>bail!\<close>, and
  \<open>op_try\<close> is a call whose \<open>Err\<close> the caller inspects or drops (\<open>match\<close>, \<open>let _ =\<close>).
\<close>

type_synonym ('s, 'a) op = "'s \<Rightarrow> (string + 'a) \<times> 's"

definition op_return :: "'a \<Rightarrow> ('s, 'a) op" where
  "op_return x s = (Inr x, s)"

definition op_bail :: "string \<Rightarrow> ('s, 'a) op" where
  "op_bail e s = (Inl e, s)"

definition op_bind :: "('s, 'a) op \<Rightarrow> ('a \<Rightarrow> ('s, 'b) op) \<Rightarrow> ('s, 'b) op" where
  "op_bind m f s = (case m s of (Inl e, s') \<Rightarrow> (Inl e, s') | (Inr x, s') \<Rightarrow> f x s')"

definition op_then :: "('s, 'a) op \<Rightarrow> ('s, 'b) op \<Rightarrow> ('s, 'b) op" where
  "op_then m n = op_bind m (\<lambda>_. n)"

definition op_query :: "('s \<Rightarrow> 'a) \<Rightarrow> ('s, 'a) op" where
  "op_query q s = (Inr (q s), s)"

definition op_update :: "('s \<Rightarrow> 's) \<Rightarrow> ('s, unit) op" where
  "op_update f s = (Inr (), f s)"

definition op_try :: "('s, 'a) op \<Rightarrow> ('s, string + 'a) op" where
  "op_try m s = (case m s of (r, s') \<Rightarrow> (Inr r, s'))"

definition op_lift :: "string + 'a \<Rightarrow> ('s, 'a) op" where
  "op_lift r s = (r, s)"

text \<open>A loop that runs one operation per element, as \<open>for x in xs { f(x)?; }\<close>.\<close>

fun op_for :: "'b list \<Rightarrow> ('b \<Rightarrow> ('s, unit) op) \<Rightarrow> ('s, unit) op" where
  "op_for [] f = op_return ()"
| "op_for (x # xs) f = op_then (f x) (op_for xs f)"

text \<open>\<open>iter.map(f).collect::<Result<Vec<_>, _>>()\<close>: the first error ends the iteration.\<close>

fun collect_results :: "('a \<Rightarrow> string + 'b) \<Rightarrow> 'a list \<Rightarrow> string + 'b list" where
  "collect_results f [] = Inr []"
| "collect_results f (x # xs) =
    (case f x of Inl e \<Rightarrow> Inl e
     | Inr y \<Rightarrow> (case collect_results f xs of Inl e \<Rightarrow> Inl e | Inr ys \<Rightarrow> Inr (y # ys)))"

lemma collect_results_map:
  "(\<And>x. x \<in> set xs \<Longrightarrow> f (g x) = Inr (h x)) \<Longrightarrow> collect_results f (map g xs) = Inr (map h xs)"
  by (induction xs) simp_all

lemmas op_defs [op_simps] = op_return_def op_bail_def op_bind_def op_then_def op_query_def
  op_update_def op_try_def op_lift_def

lemma op_bind_return [simp]: "op_bind (op_return x) f = f x"
  by (rule ext) (simp add: op_simps)

lemma op_bind_bail [simp]: "op_bind (op_bail e) f = op_bail e"
  by (rule ext) (simp add: op_simps)

lemma op_bind_assoc: "op_bind (op_bind m f) g = op_bind m (\<lambda>x. op_bind (f x) g)"
  by (rule ext) (simp add: op_simps split: prod.splits sum.splits)

text \<open>A result that is no error, read off the composition.\<close>

lemma op_bind_InrD:
  assumes "op_bind m f s = (Inr y, t)"
  obtains x u where "m s = (Inr x, u)" "f x u = (Inr y, t)"
  using assms by (auto simp: op_bind_def split: prod.splits sum.splits)

text \<open>
  Bytes of a name: \<open>is_ascii_lowercase\<close>, \<open>is_ascii_digit\<close> and \<open>is_ascii_hexdigit\<close>.
\<close>

definition ascii_lowercase :: "char \<Rightarrow> bool" where
  "ascii_lowercase c \<longleftrightarrow> c \<in> set ''abcdefghijklmnopqrstuvwxyz''"

definition ascii_digit :: "char \<Rightarrow> bool" where
  "ascii_digit c \<longleftrightarrow> c \<in> set ''0123456789''"

definition ascii_hexdigit :: "char \<Rightarrow> bool" where
  "ascii_hexdigit c \<longleftrightarrow> ascii_digit c \<or> c \<in> set ''abcdefABCDEF''"

subsection \<open>State relations that every composition obeys\<close>

text \<open>\<open>obeys R m\<close>: whatever \<open>m\<close> returns, the state after it is related to the state before.\<close>

definition obeys :: "('s \<Rightarrow> 's \<Rightarrow> bool) \<Rightarrow> ('s, 'a) op \<Rightarrow> bool" where
  "obeys R m \<longleftrightarrow> (\<forall>s. R s (snd (m s)))"

lemma obeysI: "(\<And>s. R s (snd (m s))) \<Longrightarrow> obeys R m"
  by (simp add: obeys_def)

lemma obeysD: "obeys R m \<Longrightarrow> m s = (r, t) \<Longrightarrow> R s t"
  by (metis obeys_def snd_conv)

lemma obeys_if [obeys_intros]:
  "(b \<Longrightarrow> obeys R m) \<Longrightarrow> (\<not> b \<Longrightarrow> obeys R n) \<Longrightarrow> obeys R (if b then m else n)"
  by simp

lemma obeys_option [obeys_intros]:
  "(x = None \<Longrightarrow> obeys R m) \<Longrightarrow> (\<And>y. x = Some y \<Longrightarrow> obeys R (f y)) \<Longrightarrow>
   obeys R (case x of None \<Rightarrow> m | Some y \<Rightarrow> f y)"
  by (cases x) auto

lemma obeys_sum [obeys_intros]:
  "(\<And>e. x = Inl e \<Longrightarrow> obeys R (g e)) \<Longrightarrow> (\<And>y. x = Inr y \<Longrightarrow> obeys R (f y)) \<Longrightarrow>
   obeys R (case x of Inl e \<Rightarrow> g e | Inr y \<Rightarrow> f y)"
  by (cases x) auto

lemma obeys_pair [obeys_intros]:
  "(\<And>a b. x = (a, b) \<Longrightarrow> obeys R (f a b)) \<Longrightarrow> obeys R (case x of (a, b) \<Rightarrow> f a b)"
  by (cases x) auto

lemma obeys_Let [obeys_intros]: "obeys R (f x) \<Longrightarrow> obeys R (let y = x in f y)"
  by simp

text \<open>
  The contract of a state relation that survives composition: it is reflexive and transitive.
  Every lemma below is proved once here and holds for each relation the components interpret
  the contract with.
\<close>

locale frame_relation =
  fixes R :: "'s \<Rightarrow> 's \<Rightarrow> bool"
  assumes frame_refl: "R s s"
    and frame_trans: "R s t \<Longrightarrow> R t u \<Longrightarrow> R s u"
begin

lemma frame_return: "obeys R (op_return x)"
  by (simp add: obeys_def op_simps frame_refl)

lemma frame_bail: "obeys R (op_bail e)"
  by (simp add: obeys_def op_simps frame_refl)

lemma frame_query: "obeys R (op_query q)"
  by (simp add: obeys_def op_simps frame_refl)

lemma frame_lift: "obeys R (op_lift r)"
  by (simp add: obeys_def op_simps frame_refl)

lemma frame_bind:
  assumes "obeys R m" and "\<And>x. obeys R (f x)"
  shows "obeys R (op_bind m f)"
proof (rule obeysI)
  fix s
  obtain r u where m: "m s = (r, u)" by (cases "m s")
  with assms(1) have "R s u" by (rule obeysD)
  show "R s (snd (op_bind m f s))"
  proof (cases r)
    case (Inl e)
    with m \<open>R s u\<close> show ?thesis by (simp add: op_bind_def)
  next
    case (Inr x)
    from assms(2) have "R u (snd (f x u))" by (simp add: obeys_def)
    with \<open>R s u\<close> have "R s (snd (f x u))" by (rule frame_trans)
    with m Inr show ?thesis by (simp add: op_bind_def)
  qed
qed

lemma frame_then: "obeys R m \<Longrightarrow> obeys R n \<Longrightarrow> obeys R (op_then m n)"
  by (simp add: op_then_def frame_bind)

lemma frame_try: "obeys R m \<Longrightarrow> obeys R (op_try m)"
  by (simp add: obeys_def op_try_def split: prod.split) (metis snd_conv)

lemma frame_for: "(\<And>x. x \<in> set xs \<Longrightarrow> obeys R (f x)) \<Longrightarrow> obeys R (op_for xs f)"
  by (induction xs) (simp_all add: frame_return frame_then)

lemmas frame_intros = frame_return frame_bail frame_query frame_lift frame_bind frame_then
  frame_try frame_for

end

text \<open>An invariant is the relation "if it held before, it holds after".\<close>

abbreviation (input) keeps :: "('s \<Rightarrow> bool) \<Rightarrow> 's \<Rightarrow> 's \<Rightarrow> bool" where
  "keeps I s t \<equiv> I s \<longrightarrow> I t"

lemma obeys_keepsI: "(\<And>s r t. I s \<Longrightarrow> m s = (r, t) \<Longrightarrow> I t) \<Longrightarrow> obeys (keeps I) m"
  by (metis obeysI prod.collapse)

interpretation keeping: frame_relation "keeps I" for I
  by unfold_locales auto

end
