(* ===== verification/Json_Value.thy ===== *)
theory Json_Value
  imports Kernel_Prelude
begin

section \<open>JSON values\<close>

text \<open>
  The values of \<open>serde_json::Value\<close>, as the kernel builds and reads them. The crate is used
  without its \<open>preserve_order\<close> feature, so an object is a \<open>BTreeMap\<close>: an association list kept
  sorted by key with one entry per key. \<open>jobj\<close> is the \<open>json!({...})\<close> macro, \<open>minsert\<close> is
  \<open>Map::insert\<close>, and the \<open>as_*\<close> functions are the accessors of \<open>Value\<close>. The text form
  (\<open>serde_json::to_string\<close>) is code of the crate and stays a parameter where it is used.
\<close>

datatype jnum = JInt int | JFloat rat

datatype json =
    JNull
  | JBool bool
  | JNum jnum
  | JStr string
  | JArr "json list"
  | JObj "(string \<times> json) list"

type_synonym jmap = "(string \<times> json) list"

subsection \<open>Objects\<close>

fun minsert :: "string \<Rightarrow> 'v \<Rightarrow> (string \<times> 'v) list \<Rightarrow> (string \<times> 'v) list" where
  "minsert k v [] = [(k, v)]"
| "minsert k v ((k', v') # m) =
     (if k < k' then (k, v) # (k', v') # m
      else if k = k' then (k, v) # m
      else (k', v') # minsert k v m)"

definition mcollect :: "(string \<times> 'v) list \<Rightarrow> (string \<times> 'v) list" where
  "mcollect kvs = foldl (\<lambda>m (k, v). minsert k v m) [] kvs"

definition jobj :: "(string \<times> json) list \<Rightarrow> json" where
  "jobj kvs = JObj (mcollect kvs)"

definition mkeys_ok :: "(string \<times> 'v) list \<Rightarrow> bool" where
  "mkeys_ok m \<longleftrightarrow> sorted (map fst m) \<and> distinct (map fst m)"

lemma set_keys_minsert [simp]: "fst ` set (minsert k v m) = insert k (fst ` set m)"
  by (induction k v m rule: minsert.induct) auto

lemma map_of_minsert [simp]: "map_of (minsert k v m) = (map_of m)(k \<mapsto> v)"
  by (induction k v m rule: minsert.induct) (auto simp: fun_eq_iff)

lemma minsert_ok: "mkeys_ok m \<Longrightarrow> mkeys_ok (minsert k v m)"
proof (induction k v m rule: minsert.induct)
  case (2 k v k' v' m)
  have keys: "set (map fst (minsert k v m)) = insert k (fst ` set m)"
    by simp
  show ?case
    using 2 keys by (auto simp: mkeys_ok_def)
qed (simp add: mkeys_ok_def)

text \<open>Two ordered maps with the same bindings are the same list.\<close>

lemma mkeys_ok_unique:
  assumes "mkeys_ok m" and "mkeys_ok n" and "map_of m = map_of n"
  shows "m = n"
proof -
  from assms have set: "set m = set n"
    by (simp add: mkeys_ok_def map_of_inject_set)
  moreover have "inj_on fst (set m \<union> set n)"
    using assms(1) set by (simp add: mkeys_ok_def distinct_map)
  ultimately show ?thesis
    using assms(1,2) by (intro map_sorted_distinct_set_unique [of fst]) (simp_all add: mkeys_ok_def)
qed

lemma minsert_idem: "mkeys_ok m \<Longrightarrow> map_of m k = Some v \<Longrightarrow> minsert k v m = m"
  by (rule mkeys_ok_unique) (simp_all add: minsert_ok fun_upd_idem)

lemma minsert_commute:
  "mkeys_ok m \<Longrightarrow> k \<noteq> l \<Longrightarrow> minsert k v (minsert l w m) = minsert l w (minsert k v m)"
  by (rule mkeys_ok_unique) (simp_all add: minsert_ok fun_upd_twist)

lemma foldl_minsert_ok:
  "mkeys_ok m \<Longrightarrow> mkeys_ok (foldl (\<lambda>m (k, v). minsert k v m) m kvs)"
  by (induction kvs arbitrary: m) (auto simp: minsert_ok split: prod.splits)

lemma mcollect_ok [simp]: "mkeys_ok (mcollect kvs)"
  unfolding mcollect_def by (rule foldl_minsert_ok) (simp add: mkeys_ok_def)

lemma map_of_foldl_minsert:
  "mkeys_ok m \<Longrightarrow>
   map_of (foldl (\<lambda>m (k, v). minsert k v m) m kvs) = map_of m ++ map_of (rev kvs)"
proof (induction kvs arbitrary: m)
  case (Cons a kvs)
  obtain k v where a: "a = (k, v)" by (cases a)
  from Cons.prems have "mkeys_ok (minsert k v m)" by (rule minsert_ok)
  from Cons.IH [OF this] show ?case
    by (auto simp: a fun_eq_iff map_add_def split: option.splits)
qed simp

text \<open>The last binding of a key wins, as in repeated \<open>insert\<close>s.\<close>

lemma map_of_mcollect: "map_of (mcollect kvs) = map_of (rev kvs)"
  unfolding mcollect_def by (subst map_of_foldl_minsert) (simp_all add: mkeys_ok_def)

subsection \<open>Accessors\<close>

text \<open>\<open>value.get(key)\<close> and \<open>value[key]\<close> (which is \<open>Null\<close> when the key is missing).\<close>

fun jget :: "json \<Rightarrow> string \<Rightarrow> json option" where
  "jget (JObj m) k = map_of m k"
| "jget _ k = None"

definition jindex :: "json \<Rightarrow> string \<Rightarrow> json" where
  "jindex v k = (case jget v k of None \<Rightarrow> JNull | Some x \<Rightarrow> x)"

fun as_str :: "json \<Rightarrow> string option" where
  "as_str (JStr s) = Some s"
| "as_str _ = None"

fun as_bool :: "json \<Rightarrow> bool option" where
  "as_bool (JBool b) = Some b"
| "as_bool _ = None"

fun as_array :: "json \<Rightarrow> json list option" where
  "as_array (JArr xs) = Some xs"
| "as_array _ = None"

fun as_object :: "json \<Rightarrow> jmap option" where
  "as_object (JObj m) = Some m"
| "as_object _ = None"

fun as_u64 :: "json \<Rightarrow> nat option" where
  "as_u64 (JNum (JInt i)) = (if 0 \<le> i \<and> i < 2 ^ 64 then Some (nat i) else None)"
| "as_u64 _ = None"

fun as_i64 :: "json \<Rightarrow> int option" where
  "as_i64 (JNum (JInt i)) = (if - (2 ^ 63) \<le> i \<and> i < 2 ^ 63 then Some i else None)"
| "as_i64 _ = None"

text \<open>The nearest \<open>f64\<close> of an integer, ties to even (\<open>n as f64\<close>).\<close>

fun bit_length :: "nat \<Rightarrow> nat" where
  "bit_length n = (if n = 0 then 0 else Suc (bit_length (n div 2)))"

declare bit_length.simps [simp del]

definition f64_of_nat :: "nat \<Rightarrow> nat" where
  "f64_of_nat n =
     (let e = bit_length n - 53; q = n div 2 ^ e; r = n mod 2 ^ e; h = 2 ^ e div 2 in
      if e = 0 then n
      else if r > h \<or> (r = h \<and> odd q) then (q + 1) * 2 ^ e
      else q * 2 ^ e)"

definition f64_of_int :: "int \<Rightarrow> rat" where
  "f64_of_int i =
     (if i < 0 then - of_nat (f64_of_nat (nat (- i))) else of_nat (f64_of_nat (nat i)))"

fun as_f64 :: "json \<Rightarrow> rat option" where
  "as_f64 (JNum (JInt i)) = Some (f64_of_int i)"
| "as_f64 (JNum (JFloat r)) = Some r"
| "as_f64 _ = None"

lemma jget_jobj [simp]: "jget (jobj kvs) k = map_of (rev kvs) k"
  by (simp add: jobj_def map_of_mcollect)

lemma jindex_jobj [simp]:
  "jindex (jobj kvs) k = (case map_of (rev kvs) k of None \<Rightarrow> JNull | Some x \<Rightarrow> x)"
  by (simp add: jindex_def)

lemma as_str_iff: "as_str v = Some s \<longleftrightarrow> v = JStr s"
  by (cases v) auto

lemma as_object_iff: "as_object v = Some m \<longleftrightarrow> v = JObj m"
  by (cases v) auto

lemma as_array_iff: "as_array v = Some xs \<longleftrightarrow> v = JArr xs"
  by (cases v) auto

text \<open>A string field of an object, read by \<open>v.get(key).and_then(Value::as_str)\<close>.\<close>

definition str_field :: "json \<Rightarrow> string \<Rightarrow> string option" where
  "str_field v k = Option.bind (jget v k) as_str"

text \<open>\<open>Option<String>\<close> in a \<open>json!\<close> value.\<close>

definition jopt :: "string option \<Rightarrow> json" where
  "jopt x = (case x of None \<Rightarrow> JNull | Some s \<Rightarrow> JStr s)"

definition jnat :: "nat \<Rightarrow> json" where
  "jnat n = JNum (JInt (int n))"

lemma str_field_jobj [simp]: "str_field (jobj kvs) k = Option.bind (map_of (rev kvs) k) as_str"
  by (simp add: str_field_def)

end
