(* ===== verification/Domain_Types.thy ===== *)
theory Domain_Types
  imports Json_Value
begin

section \<open>Domain types\<close>

text \<open>
  The types of \<open>src/src/domain/mod.rs\<close> and \<open>src/src/domain/status.rs\<close>: identifiers, agents' runs and
  sessions, principals and their grants, ingress envelopes, invocations and receipts, and the
  kinds of journal events with the text they are stored as. Enums keep the constructors of the
  source (qualified by their type where two enums share a name); the fields of a struct carry a
  prefix of their struct. Instants (\<open>DateTime<Utc>\<close>) are integers counting nanoseconds.
\<close>

subsection \<open>Identifiers\<close>

type_synonym AgentId = string
type_synonym SessionId = string
type_synonym RunId = string
type_synonym EventId = string
type_synonym InvocationId = string
type_synonym PrincipalId = string
type_synonym instant = int

text \<open>The text of a fresh identifier, from its prefix and the simple form of a UUID.\<close>

definition fresh_id :: "string \<Rightarrow> string \<Rightarrow> string" where
  "fresh_id px u = px @ ''_'' @ u"

subsection \<open>Sessions, principals and runs\<close>

datatype ChannelKind = Cli | Feishu

datatype SessionStatus = Active | Archived

record Session =
  s_id :: SessionId
  s_agent_id :: AgentId
  s_channel :: ChannelKind
  s_conversation_key :: string
  s_summary :: "string option"
  s_summarized_until_event_id :: "EventId option"
  s_last_active_at :: instant
  s_status :: SessionStatus
  s_version :: int

datatype PrincipalSubject = LocalUser | FeishuOpenId string

datatype PrincipalSource = Cli | Feishu

record CapabilityGrant =
  cg_operation :: string
  cg_scope :: string

record RunPrincipal =
  rp_principal_id :: PrincipalId
  rp_subject :: PrincipalSubject
  rp_source :: PrincipalSource
  rp_grants :: "CapabilityGrant list"
  rp_requester_id :: "string option"

datatype RunMode = Default | Hcr (hcr_id: string) (hcr_harness_id: string) (hcr_claim_id: string)

datatype RunStatus = Running | WaitingDispatch | Completed | Failed | AwaitingApproval | Unknown

datatype ExhaustionAction = Terminate | Yield

record Run =
  r_id :: RunId
  r_session_id :: SessionId
  r_agent_id :: AgentId
  r_trigger_event_id :: EventId
  r_principal :: RunPrincipal
  r_parent_run_id :: "RunId option"
  r_delegated_by :: "PrincipalId option"
  r_status :: RunStatus
  r_created_at :: instant
  r_updated_at :: instant
  r_registry_snapshot_id :: string
  r_mode :: RunMode
  r_budget_hook_id :: "string option"
  r_budget_hook_version :: "string option"
  r_budget_decision_digest :: "string option"
  r_budget_max_tool_rounds :: "32 word option"
  r_budget_max_wall_time_ms :: "64 word option"
  r_budget_exhaustion_action :: "ExhaustionAction option"

text \<open>\<open>format!("{:?}", ...)\<close> of the enums that the journal stores by their variant name.\<close>

fun channel_debug :: "ChannelKind \<Rightarrow> string" where
  "channel_debug ChannelKind.Cli = ''Cli''"
| "channel_debug ChannelKind.Feishu = ''Feishu''"

fun session_status_debug :: "SessionStatus \<Rightarrow> string" where
  "session_status_debug Active = ''Active''"
| "session_status_debug Archived = ''Archived''"

fun run_status_debug :: "RunStatus \<Rightarrow> string" where
  "run_status_debug RunStatus.Running = ''Running''"
| "run_status_debug WaitingDispatch = ''WaitingDispatch''"
| "run_status_debug Completed = ''Completed''"
| "run_status_debug RunStatus.Failed = ''Failed''"
| "run_status_debug AwaitingApproval = ''AwaitingApproval''"
| "run_status_debug RunStatus.Unknown = ''Unknown''"

subsection \<open>Ingress and validated events\<close>

datatype ExternalSource = Cli | Feishu

record IngressEnvelope =
  ie_protocol_version :: string
  ie_source :: ExternalSource
  ie_external_event_id :: string
  ie_received_at :: instant
  ie_payload :: json
  ie_authenticated :: bool
  ie_routing_agent :: "AgentId option option"

datatype EventSource = Cli | Feishu

record SessionTarget =
  st_agent_id :: AgentId
  st_channel :: ChannelKind
  st_conversation_key :: string

datatype RuntimeEventPayload =
  UserMessage (um_text: string) (um_message_id: "string option") (um_chat_id: "string option")

record ValidatedEvent =
  ve_event_id :: EventId
  ve_source :: EventSource
  ve_principal :: RunPrincipal
  ve_session_target :: SessionTarget
  ve_payload :: RuntimeEventPayload
  ve_dedupe_key :: string
  ve_occurred_at :: instant
  ve_chat_type :: "string option"

subsection \<open>Invocations and receipts\<close>

record InvocationIntent =
  ii_invocation_id :: InvocationId
  ii_run_id :: RunId
  ii_operation :: string
  ii_arguments :: json
  ii_idempotency_key :: "string option"

record ApprovedInvocation =
  ai_intent :: InvocationIntent
  ai_decision_id :: string

datatype ReceiptStatus = Succeeded | Failed | Unknown

fun receipt_status_debug :: "ReceiptStatus \<Rightarrow> string" where
  "receipt_status_debug ReceiptStatus.Succeeded = ''Succeeded''"
| "receipt_status_debug ReceiptStatus.Failed = ''Failed''"
| "receipt_status_debug ReceiptStatus.Unknown = ''Unknown''"

record Receipt =
  rc_invocation_id :: InvocationId
  rc_status :: ReceiptStatus
  rc_external_ref :: "string option"
  rc_output :: json
  rc_occurred_at :: instant

text \<open>
  Errors of an adapter: a typed \<open>AdapterError\<close>, or any other \<open>anyhow::Error\<close>
  (\<open>downcast_ref\<close> fails on it).
\<close>

datatype AdapterError =
    Timeout
  | ExecuteFailed
  | MalformedResponse
  | InvalidArgument string
  | Transport string

datatype adapter_failure = Typed AdapterError | Untyped string

datatype DispatchErrorCategory =
    AdapterTimeout
  | ConnectorExecuteFailed
  | AdapterFailed
  | InvalidApprovedInvocation
  | UnsupportedOperation
  | UnknownTransportError

fun category_as_str :: "DispatchErrorCategory \<Rightarrow> string" where
  "category_as_str AdapterTimeout = ''adapter_timeout''"
| "category_as_str ConnectorExecuteFailed = ''connector_execute_failed''"
| "category_as_str AdapterFailed = ''adapter_failed''"
| "category_as_str InvalidApprovedInvocation = ''invalid_approved_invocation''"
| "category_as_str UnsupportedOperation = ''unsupported_operation''"
| "category_as_str UnknownTransportError = ''unknown_transport_error''"

fun category_from_error :: "adapter_failure \<Rightarrow> DispatchErrorCategory" where
  "category_from_error (Typed Timeout) = AdapterTimeout"
| "category_from_error (Typed ExecuteFailed) = ConnectorExecuteFailed"
| "category_from_error (Typed MalformedResponse) = AdapterFailed"
| "category_from_error (Typed (InvalidArgument _)) = InvalidApprovedInvocation"
| "category_from_error (Typed (Transport _)) = UnknownTransportError"
| "category_from_error (Untyped _) = UnknownTransportError"

record LeasedOutboxDispatch =
  ld_invocation_id :: InvocationId
  ld_run_id :: RunId
  ld_session_id :: "SessionId option"
  ld_operation :: string
  ld_arguments :: json
  ld_idempotency_key :: string
  ld_decision_id :: string

record UnknownInvocation =
  ui_invocation_id :: string
  ui_run_id :: "RunId option"
  ui_session_id :: "SessionId option"
  ui_first_dispatch_at :: instant

subsection \<open>Queue statuses\<close>

datatype WorkerJobStatus =
  Queued | Leased | Running | Succeeded | RetryableFailed | Dead | Failed

fun worker_as_str :: "WorkerJobStatus \<Rightarrow> string" where
  "worker_as_str Queued = ''queued''"
| "worker_as_str WorkerJobStatus.Leased = ''leased''"
| "worker_as_str WorkerJobStatus.Running = ''running''"
| "worker_as_str WorkerJobStatus.Succeeded = ''succeeded''"
| "worker_as_str WorkerJobStatus.RetryableFailed = ''retryable_failed''"
| "worker_as_str WorkerJobStatus.Dead = ''dead''"
| "worker_as_str WorkerJobStatus.Failed = ''failed''"

definition worker_parse_opt :: "string \<Rightarrow> WorkerJobStatus option" where
  "worker_parse_opt t = map_of [
     (''queued'', Queued),
     (''leased'', WorkerJobStatus.Leased),
     (''running'', WorkerJobStatus.Running),
     (''succeeded'', WorkerJobStatus.Succeeded),
     (''retryable_failed'', WorkerJobStatus.RetryableFailed),
     (''dead'', WorkerJobStatus.Dead),
     (''failed'', WorkerJobStatus.Failed)] t"

datatype OutboxDispatchStatus =
  Pending | Leased | Dispatching | Succeeded | Failed | RetryableFailed | Unknown | Dead

fun outbox_as_str :: "OutboxDispatchStatus \<Rightarrow> string" where
  "outbox_as_str Pending = ''pending''"
| "outbox_as_str OutboxDispatchStatus.Leased = ''leased''"
| "outbox_as_str Dispatching = ''dispatching''"
| "outbox_as_str OutboxDispatchStatus.Succeeded = ''succeeded''"
| "outbox_as_str OutboxDispatchStatus.Failed = ''failed''"
| "outbox_as_str OutboxDispatchStatus.RetryableFailed = ''retryable_failed''"
| "outbox_as_str OutboxDispatchStatus.Unknown = ''unknown''"
| "outbox_as_str OutboxDispatchStatus.Dead = ''dead''"

definition outbox_parse_opt :: "string \<Rightarrow> OutboxDispatchStatus option" where
  "outbox_parse_opt t = map_of [
     (''pending'', Pending),
     (''leased'', OutboxDispatchStatus.Leased),
     (''dispatching'', Dispatching),
     (''succeeded'', OutboxDispatchStatus.Succeeded),
     (''failed'', OutboxDispatchStatus.Failed),
     (''retryable_failed'', OutboxDispatchStatus.RetryableFailed),
     (''unknown'', OutboxDispatchStatus.Unknown),
     (''dead'', OutboxDispatchStatus.Dead)] t"

subsection \<open>Journal events\<close>

datatype (plugins only: code) JournalEventKind =
    IngressAccepted | SessionReady | RunStarted | ContextBuilt | LlmCompleted |
    ModelInvocationStarted | ModelInvocationCompleted | ModelInvocationFailed |
    ToolCallIssued | ToolCallRejected | InvocationProposed | InvocationApproved |
    WorkerJobQueued | WorkerJobStarted | WorkerJobSucceeded | WorkerJobFailed | OutboxQueued |
    OutboxDispatchFailed | OutboxDispatchUnknown | OutboxDispatchDead | DispatchStarted |
    ReceiptReceived | CodingSubmissionOutcomeUnknown | AssistantReplyDelivered |
    WorkerJobDead | RunCompleted | RunFailed | ApprovalRequested | ApprovalGranted |
    ApprovalDenied | ApprovalExpired | HarnessManifestRegistered | HookCallRecorded |
    RegistrySnapshotActivated | CapabilityChangeProposed | CapabilityChangeApproved |
    CapabilityChangeRejected | CapabilityChangeActivated | CapabilityChangeActivationFailed |
    CapabilityChangeExpired | DeploymentIntentRecorded | DeploymentReceiptRecorded |
    ComponentRegistered | ComponentControlIntentRecorded | ComponentControlReceiptRecorded |
    ComponentDisabled | ComponentRolledBack | ExternalOperationGranted |
    ExternalOperationRevoked | Unknown | HarnessChangeRequested | HcrClaimSucceeded |
    HcrClaimRejected | HcrRunCreated | HcrEvidenceRegistered | HcrSettlementSucceeded |
    HcrSettlementFailed | ToolBudgetExhausted | ToolLoopWallClockExceeded | ToolLoopDetected |
    RunBudgetResolved | RunBudgetTerminated | SessionContinuationRequested

text \<open>\<open>format!("{other:?}")\<close>: the derived \<open>Debug\<close> text of a variant is its name.\<close>

primrec kind_debug :: "JournalEventKind \<Rightarrow> string" where
  "kind_debug IngressAccepted = ''IngressAccepted''"
| "kind_debug SessionReady = ''SessionReady''"
| "kind_debug RunStarted = ''RunStarted''"
| "kind_debug ContextBuilt = ''ContextBuilt''"
| "kind_debug LlmCompleted = ''LlmCompleted''"
| "kind_debug ModelInvocationStarted = ''ModelInvocationStarted''"
| "kind_debug ModelInvocationCompleted = ''ModelInvocationCompleted''"
| "kind_debug ModelInvocationFailed = ''ModelInvocationFailed''"
| "kind_debug ToolCallIssued = ''ToolCallIssued''"
| "kind_debug ToolCallRejected = ''ToolCallRejected''"
| "kind_debug InvocationProposed = ''InvocationProposed''"
| "kind_debug InvocationApproved = ''InvocationApproved''"
| "kind_debug WorkerJobQueued = ''WorkerJobQueued''"
| "kind_debug WorkerJobStarted = ''WorkerJobStarted''"
| "kind_debug WorkerJobSucceeded = ''WorkerJobSucceeded''"
| "kind_debug WorkerJobFailed = ''WorkerJobFailed''"
| "kind_debug OutboxQueued = ''OutboxQueued''"
| "kind_debug OutboxDispatchFailed = ''OutboxDispatchFailed''"
| "kind_debug OutboxDispatchUnknown = ''OutboxDispatchUnknown''"
| "kind_debug OutboxDispatchDead = ''OutboxDispatchDead''"
| "kind_debug DispatchStarted = ''DispatchStarted''"
| "kind_debug ReceiptReceived = ''ReceiptReceived''"
| "kind_debug CodingSubmissionOutcomeUnknown = ''CodingSubmissionOutcomeUnknown''"
| "kind_debug AssistantReplyDelivered = ''AssistantReplyDelivered''"
| "kind_debug WorkerJobDead = ''WorkerJobDead''"
| "kind_debug RunCompleted = ''RunCompleted''"
| "kind_debug RunFailed = ''RunFailed''"
| "kind_debug ApprovalRequested = ''ApprovalRequested''"
| "kind_debug ApprovalGranted = ''ApprovalGranted''"
| "kind_debug ApprovalDenied = ''ApprovalDenied''"
| "kind_debug ApprovalExpired = ''ApprovalExpired''"
| "kind_debug HarnessManifestRegistered = ''HarnessManifestRegistered''"
| "kind_debug HookCallRecorded = ''HookCallRecorded''"
| "kind_debug RegistrySnapshotActivated = ''RegistrySnapshotActivated''"
| "kind_debug CapabilityChangeProposed = ''CapabilityChangeProposed''"
| "kind_debug CapabilityChangeApproved = ''CapabilityChangeApproved''"
| "kind_debug CapabilityChangeRejected = ''CapabilityChangeRejected''"
| "kind_debug CapabilityChangeActivated = ''CapabilityChangeActivated''"
| "kind_debug CapabilityChangeActivationFailed = ''CapabilityChangeActivationFailed''"
| "kind_debug CapabilityChangeExpired = ''CapabilityChangeExpired''"
| "kind_debug DeploymentIntentRecorded = ''DeploymentIntentRecorded''"
| "kind_debug DeploymentReceiptRecorded = ''DeploymentReceiptRecorded''"
| "kind_debug ComponentRegistered = ''ComponentRegistered''"
| "kind_debug ComponentControlIntentRecorded = ''ComponentControlIntentRecorded''"
| "kind_debug ComponentControlReceiptRecorded = ''ComponentControlReceiptRecorded''"
| "kind_debug ComponentDisabled = ''ComponentDisabled''"
| "kind_debug ComponentRolledBack = ''ComponentRolledBack''"
| "kind_debug ExternalOperationGranted = ''ExternalOperationGranted''"
| "kind_debug ExternalOperationRevoked = ''ExternalOperationRevoked''"
| "kind_debug JournalEventKind.Unknown = ''Unknown''"
| "kind_debug HarnessChangeRequested = ''HarnessChangeRequested''"
| "kind_debug HcrClaimSucceeded = ''HcrClaimSucceeded''"
| "kind_debug HcrClaimRejected = ''HcrClaimRejected''"
| "kind_debug HcrRunCreated = ''HcrRunCreated''"
| "kind_debug HcrEvidenceRegistered = ''HcrEvidenceRegistered''"
| "kind_debug HcrSettlementSucceeded = ''HcrSettlementSucceeded''"
| "kind_debug HcrSettlementFailed = ''HcrSettlementFailed''"
| "kind_debug ToolBudgetExhausted = ''ToolBudgetExhausted''"
| "kind_debug ToolLoopWallClockExceeded = ''ToolLoopWallClockExceeded''"
| "kind_debug ToolLoopDetected = ''ToolLoopDetected''"
| "kind_debug RunBudgetResolved = ''RunBudgetResolved''"
| "kind_debug RunBudgetTerminated = ''RunBudgetTerminated''"
| "kind_debug SessionContinuationRequested = ''SessionContinuationRequested''"

definition storage_name :: "JournalEventKind \<Rightarrow> string" where
  "storage_name k = (case k of
       ModelInvocationStarted \<Rightarrow> ''model.invocation.started.v0''
     | ModelInvocationCompleted \<Rightarrow> ''model.invocation.completed.v0''
     | ModelInvocationFailed \<Rightarrow> ''model.invocation.failed.v0''
     | DeploymentIntentRecorded \<Rightarrow> ''deployment.intent.v0''
     | DeploymentReceiptRecorded \<Rightarrow> ''deployment.receipt.v0''
     | ComponentRegistered \<Rightarrow> ''component.registered.v0''
     | ComponentControlIntentRecorded \<Rightarrow> ''component.control.intent.v0''
     | ComponentControlReceiptRecorded \<Rightarrow> ''component.control.receipt.v0''
     | ComponentDisabled \<Rightarrow> ''component.disabled.v0''
     | ComponentRolledBack \<Rightarrow> ''component.rolled_back.v0''
     | other \<Rightarrow> kind_debug other)"

text \<open>The arms of \<open>parse_kind\<close>, in the order of the source; every other text is \<open>Unknown\<close>.\<close>

definition kind_arms :: "(string \<times> JournalEventKind) list" where
  "kind_arms = [
    (''IngressAccepted'', IngressAccepted),
    (''SessionReady'', SessionReady),
    (''RunStarted'', RunStarted),
    (''ContextBuilt'', ContextBuilt),
    (''LlmCompleted'', LlmCompleted),
    (''model.invocation.started.v0'', ModelInvocationStarted),
    (''model.invocation.completed.v0'', ModelInvocationCompleted),
    (''model.invocation.failed.v0'', ModelInvocationFailed),
    (''ToolCallIssued'', ToolCallIssued),
    (''ToolCallRejected'', ToolCallRejected),
    (''InvocationProposed'', InvocationProposed),
    (''InvocationApproved'', InvocationApproved),
    (''WorkerJobQueued'', WorkerJobQueued),
    (''WorkerJobStarted'', WorkerJobStarted),
    (''WorkerJobSucceeded'', WorkerJobSucceeded),
    (''WorkerJobFailed'', WorkerJobFailed),
    (''OutboxQueued'', OutboxQueued),
    (''OutboxDispatchFailed'', OutboxDispatchFailed),
    (''OutboxDispatchUnknown'', OutboxDispatchUnknown),
    (''OutboxDispatchDead'', OutboxDispatchDead),
    (''DispatchStarted'', DispatchStarted),
    (''ReceiptReceived'', ReceiptReceived),
    (''CodingSubmissionOutcomeUnknown'', CodingSubmissionOutcomeUnknown),
    (''AssistantReplyDelivered'', AssistantReplyDelivered),
    (''WorkerJobDead'', WorkerJobDead),
    (''RunCompleted'', RunCompleted),
    (''RunFailed'', RunFailed),
    (''ApprovalRequested'', ApprovalRequested),
    (''ApprovalGranted'', ApprovalGranted),
    (''ApprovalDenied'', ApprovalDenied),
    (''ApprovalExpired'', ApprovalExpired),
    (''HarnessManifestRegistered'', HarnessManifestRegistered),
    (''HookCallRecorded'', HookCallRecorded),
    (''RegistrySnapshotActivated'', RegistrySnapshotActivated),
    (''CapabilityChangeProposed'', CapabilityChangeProposed),
    (''CapabilityChangeApproved'', CapabilityChangeApproved),
    (''CapabilityChangeActivated'', CapabilityChangeActivated),
    (''CapabilityChangeActivationFailed'', CapabilityChangeActivationFailed),
    (''CapabilityChangeRejected'', CapabilityChangeRejected),
    (''CapabilityChangeExpired'', CapabilityChangeExpired),
    (''deployment.intent.v0'', DeploymentIntentRecorded),
    (''deployment.receipt.v0'', DeploymentReceiptRecorded),
    (''component.registered.v0'', ComponentRegistered),
    (''component.control.intent.v0'', ComponentControlIntentRecorded),
    (''component.control.receipt.v0'', ComponentControlReceiptRecorded),
    (''component.disabled.v0'', ComponentDisabled),
    (''component.rolled_back.v0'', ComponentRolledBack),
    (''ToolBudgetExhausted'', ToolBudgetExhausted),
    (''ToolLoopWallClockExceeded'', ToolLoopWallClockExceeded),
    (''ToolLoopDetected'', ToolLoopDetected),
    (''RunBudgetResolved'', RunBudgetResolved),
    (''RunBudgetTerminated'', RunBudgetTerminated),
    (''ExternalOperationGranted'', ExternalOperationGranted),
    (''ExternalOperationRevoked'', ExternalOperationRevoked),
    (''HarnessChangeRequested'', HarnessChangeRequested),
    (''HcrClaimSucceeded'', HcrClaimSucceeded),
    (''HcrClaimRejected'', HcrClaimRejected),
    (''HcrRunCreated'', HcrRunCreated),
    (''HcrEvidenceRegistered'', HcrEvidenceRegistered),
    (''HcrSettlementSucceeded'', HcrSettlementSucceeded),
    (''HcrSettlementFailed'', HcrSettlementFailed),
    (''SessionContinuationRequested'', SessionContinuationRequested)]"

definition parse_kind :: "string \<Rightarrow> JournalEventKind" where
  "parse_kind t = (case map_of kind_arms t of
       Some k \<Rightarrow> k
     | None \<Rightarrow> JournalEventKind.Unknown)"

record JournalEvent =
  je_sequence :: int
  je_event_id :: EventId
  je_run_id :: "RunId option"
  je_session_id :: "SessionId option"
  je_correlation_id :: "string option"
  je_kind :: JournalEventKind
  je_payload :: json
  je_previous_hash :: "string option"
  je_hash :: string
  je_created_at :: instant

subsection \<open>Stored names read back\<close>

lemma parse_kind_storage_name: "parse_kind (storage_name k) = k"
  by (cases k) (simp_all add: parse_kind_def storage_name_def kind_arms_def)

lemma storage_name_inject [simp]: "storage_name k = storage_name k' \<longleftrightarrow> k = k'"
  by (metis parse_kind_storage_name)

lemma kind_arms_stored: "(t, k) \<in> set kind_arms \<Longrightarrow> storage_name k = t"
  by (auto simp: kind_arms_def storage_name_def)

text \<open>A text that is not the stored name of a kind is read as the sentinel.\<close>

lemma parse_kind_known:
  "parse_kind t \<noteq> JournalEventKind.Unknown \<Longrightarrow> storage_name (parse_kind t) = t"
  by (auto simp: parse_kind_def dest!: map_of_SomeD kind_arms_stored split: option.splits)

lemma storage_name_ascii: "set (storage_name k) \<inter> {CHR ''|''} = {}"
  by (cases k) (simp_all add: storage_name_def)

lemma worker_as_str_inject [simp]: "worker_as_str a = worker_as_str b \<longleftrightarrow> a = b"
  by (cases a; cases b) simp_all

lemma outbox_as_str_inject [simp]: "outbox_as_str a = outbox_as_str b \<longleftrightarrow> a = b"
  by (cases a; cases b) simp_all

lemma run_status_debug_inject [simp]: "run_status_debug a = run_status_debug b \<longleftrightarrow> a = b"
  by (cases a; cases b) simp_all

lemma channel_debug_inject [simp]: "channel_debug a = channel_debug b \<longleftrightarrow> a = b"
  by (cases a; cases b) simp_all

lemma worker_parse_as_str: "worker_parse_opt (worker_as_str w) = Some w"
  by (cases w) (simp_all add: worker_parse_opt_def)

lemma outbox_parse_as_str: "outbox_parse_opt (outbox_as_str w) = Some w"
  by (cases w) (simp_all add: outbox_parse_opt_def)

lemma worker_parse_opt_SomeD: "worker_parse_opt t = Some w \<Longrightarrow> worker_as_str w = t"
  by (auto simp: worker_parse_opt_def split: if_splits)

lemma outbox_parse_opt_SomeD: "outbox_parse_opt t = Some w \<Longrightarrow> outbox_as_str w = t"
  by (auto simp: outbox_parse_opt_def split: if_splits)

end
