(* ===== verification/Journal_Tables.thy ===== *)
theory Journal_Tables
  imports Domain_Types
begin

section \<open>The journal database\<close>

text \<open>
  The state every component of the kernel works on: the tables of the SQLite journal
  (\<open>migrations/0001_init.sql\<close>, \<open>0018\<close>, \<open>0020\<close> and \<open>queue.rs::migrate\<close>) as lists of rows, and the
  environment: the third-party code the kernel calls.

  \<open>env\<close> holds the functions of other crates as parameters: SHA-256 in hexadecimal,
  \<open>serde_json\<close> printing and parsing, the RFC 3339 text of an instant, the UUIDs drawn, the
  readings of the clock, and whether SQLite fails. A state carries a counter \<open>tick\<close>: every UUID,
  clock reading and transaction uses the next index of its parameter. Nothing is assumed of the
  parameters here: a theorem that needs a property of one states it.

  A transaction \<open>tx\<close> either fails as a whole (the lock is poisoned, SQLite reports an error) or
  runs its body; if the body ends in an error, every table is as before. Columns that hold an
  RFC 3339 text are compared by SQLite as text; the texts that \<open>chrono\<close> prints order like the
  instants, so the model stores the instant.
\<close>

record env =
  sha256_hex :: "string \<Rightarrow> string"
  json_text :: "json \<Rightarrow> string"
  json_parse :: "string \<Rightarrow> json option"
  rfc3339 :: "instant \<Rightarrow> string"
  uuid_at :: "nat \<Rightarrow> string"
  clock_at :: "nat \<Rightarrow> instant"
  fault_at :: "nat \<Rightarrow> bool"

subsection \<open>Rows\<close>

record JournalRow =
  jr_sequence :: int
  jr_event_id :: string
  jr_run_id :: "string option"
  jr_session_id :: "string option"
  jr_correlation_id :: "string option"
  jr_kind :: string
  jr_payload_json :: string
  jr_previous_hash :: "string option"
  jr_hash :: string
  jr_created_at :: instant

record SessionRow =
  sr_id :: string
  sr_agent_id :: string
  sr_channel :: string
  sr_conversation_key :: string
  sr_last_active_at :: instant
  sr_status :: string
  sr_version :: int

record RunRow =
  rr_id :: string
  rr_session_id :: string
  rr_agent_id :: string
  rr_trigger_event_id :: string
  rr_principal :: RunPrincipal
  rr_parent_run_id :: "string option"
  rr_delegated_by :: "string option"
  rr_status :: string
  rr_created_at :: instant
  rr_updated_at :: instant
  rr_registry_snapshot_id :: "string option"
  rr_mode :: RunMode
  rr_budget_hook_id :: "string option"
  rr_budget_max_tool_rounds :: "int option"
  rr_budget_max_wall_time_ms :: "int option"
  rr_budget_exhaustion_action :: "string option"

record DedupRow =
  dd_source :: string
  dd_external_event_id :: string
  dd_event_id :: string
  dd_first_seen_at :: instant

record WorkerJobRow =
  wj_job_id :: string
  wj_job_type :: string
  wj_source_event_id :: string
  wj_status :: string
  wj_attempts :: int
  wj_available_at :: instant
  wj_locked_by :: "string option"
  wj_locked_until :: "instant option"
  wj_last_error :: "string option"
  wj_created_at :: instant
  wj_updated_at :: instant

record OutboxRow =
  od_dispatch_id :: string
  od_invocation_id :: string
  od_run_id :: string
  od_session_id :: "string option"
  od_operation :: string
  od_arguments_json :: string
  od_idempotency_key :: string
  od_decision_id :: string
  od_acked_unknown :: bool
  od_status :: string
  od_attempts :: int
  od_available_at :: instant
  od_locked_by :: "string option"
  od_locked_until :: "instant option"
  od_last_error :: "string option"
  od_created_at :: instant
  od_updated_at :: instant

record ContinuationRow =
  sc_idempotency_key :: string
  sc_session_id :: string
  sc_trigger_run_id :: string
  sc_event_id :: string
  sc_next_run_id :: string
  sc_created_at :: instant

record SnapshotRow =
  sn_snapshot_id :: string
  sn_created_at :: instant
  sn_operation_count :: int
  sn_canonical_digest :: string

record SnapshotOperationRow =
  so_snapshot_id :: string
  so_operation_name :: string
  so_risk :: string
  so_description :: string
  so_parameters_json :: string
  so_idempotent :: int
  so_binding_kind :: string
  so_binding_key :: string

record SnapshotBindingRow =
  sb_snapshot_id :: string
  sb_contract :: string
  sb_hook_id :: string
  sb_hook_version :: string
  sb_binding_kind :: string
  sb_binding_key :: string
  sb_provider_id :: string
  sb_endpoint :: string

text \<open>The row of a table with a single row (\<open>registry_state\<close>, \<open>component_registry_state\<close>).\<close>

record StateRow =
  st_active_snapshot_id :: string
  st_version :: int
  st_updated_at :: instant

record ComponentSnapshotRow =
  cs_snapshot_id :: string
  cs_created_at :: instant
  cs_component_count :: int
  cs_canonical_digest :: string

record ComponentEntryRow =
  ce_snapshot_id :: string
  ce_component_id :: string
  ce_kind :: string
  ce_manifest_id :: string
  ce_manifest_digest :: string
  ce_artifact_digest :: string
  ce_version :: string
  ce_endpoint :: string
  ce_deployment_id :: string
  ce_deployment_receipt_id :: string
  ce_status :: string
  ce_required_contracts_json :: string
  ce_requested_permissions_json :: string

record GrantRow =
  eg_grant_id :: string
  eg_operation :: string
  eg_grantee_principal_id :: string
  eg_channel :: string
  eg_conversation_kind :: string
  eg_scope :: string
  eg_risk :: string
  eg_capability_id :: "string option"
  eg_snapshot_id :: string
  eg_status :: string
  eg_created_at :: instant
  eg_revoked_at :: "instant option"
  eg_created_by_principal_id :: "string option"
  eg_decision_reference :: "string option"

record ManifestRow =
  mf_manifest_id :: string
  mf_harness_id :: string
  mf_artifact_digest :: string
  mf_protocol_version :: string
  mf_endpoint :: string
  mf_operation_name :: string
  mf_description :: string
  mf_input_schema_json :: string
  mf_output_schema_json :: string
  mf_idempotent :: int
  mf_created_at :: instant
  mf_canonical_digest :: string

text \<open>
  The tables, and behind them the one piece of process memory the journal keeps: the cached
  identifier of the current registry snapshot.
\<close>

record store =
  journal_events :: "JournalRow list"
  sessions :: "SessionRow list"
  runs :: "RunRow list"
  ingress_dedup :: "DedupRow list"
  worker_jobs :: "WorkerJobRow list"
  outbox_dispatches :: "OutboxRow list"
  session_continuations :: "ContinuationRow list"
  tick :: nat
  registry_snapshots :: "SnapshotRow list"
  registry_snapshot_operations :: "SnapshotOperationRow list"
  registry_snapshot_hook_bindings :: "SnapshotBindingRow list"
  registry_state :: "StateRow option"
  component_registry_snapshots :: "ComponentSnapshotRow list"
  component_registry_entries :: "ComponentEntryRow list"
  component_registry_state :: "StateRow option"
  external_operation_grants :: "GrantRow list"
  harness_manifests :: "ManifestRow list"
  current_snapshot_id :: "string option"

definition empty_store :: store where
  "empty_store = \<lparr>journal_events = [], sessions = [], runs = [], ingress_dedup = [],
     worker_jobs = [], outbox_dispatches = [], session_continuations = [], tick = 0,
     registry_snapshots = [], registry_snapshot_operations = [],
     registry_snapshot_hook_bindings = [], registry_state = None,
     component_registry_snapshots = [], component_registry_entries = [],
     component_registry_state = None, external_operation_grants = [],
     harness_manifests = [], current_snapshot_id = None\<rparr>"

type_synonym 'a jop = "(store, 'a) op"

subsection \<open>Drawing from the environment\<close>

definition draw :: "nat jop" where
  "draw s = (Inr (tick s), s\<lparr>tick := Suc (tick s)\<rparr>)"

definition utc_now :: "env \<Rightarrow> instant jop" where
  "utc_now E = op_bind draw (\<lambda>n. op_return (clock_at E n))"

definition new_id :: "env \<Rightarrow> string \<Rightarrow> string jop" where
  "new_id E px = op_bind draw (\<lambda>n. op_return (fresh_id px (uuid_at E n)))"

subsection \<open>Transactions and statements\<close>

definition db_error :: string where
  "db_error = ''database error''"

definition tx :: "env \<Rightarrow> 'a jop \<Rightarrow> 'a jop" where
  "tx E body s =
     (let s0 = s\<lparr>tick := Suc (tick s)\<rparr> in
      if fault_at E (tick s) then (Inl db_error, s0)
      else case body s0 of
          (Inr x, s') \<Rightarrow> (Inr x, s')
        | (Inl e, s') \<Rightarrow> (Inl e, s0\<lparr>tick := max (tick s0) (tick s')\<rparr>))"

text \<open>
  The statements of the kernel. An \<open>INSERT\<close> that meets a primary key or unique index of its table
  fails (or changes nothing, with \<open>OR IGNORE\<close>); an \<open>UPDATE\<close> returns the number of rows it changed.
\<close>

definition constraint_error :: string where
  "constraint_error = ''UNIQUE constraint failed''"

definition insert_event :: "JournalRow \<Rightarrow> unit jop" where
  "insert_event r = op_update (\<lambda>s. s\<lparr>journal_events := journal_events s @ [r]\<rparr>)"

definition insert_session :: "SessionRow \<Rightarrow> unit jop" where
  "insert_session r =
     op_bind (op_query (\<lambda>s. list_ex (\<lambda>x. sr_id x = sr_id r \<or>
       sr_agent_id x = sr_agent_id r \<and> sr_channel x = sr_channel r \<and>
       sr_conversation_key x = sr_conversation_key r) (sessions s))) (\<lambda>clash.
     if clash then op_bail constraint_error
     else op_update (\<lambda>s. s\<lparr>sessions := sessions s @ [r]\<rparr>))"

definition insert_run_row :: "RunRow \<Rightarrow> unit jop" where
  "insert_run_row r =
     op_bind (op_query (\<lambda>s. list_ex (\<lambda>x. rr_id x = rr_id r \<or>
       rr_trigger_event_id x = rr_trigger_event_id r) (runs s))) (\<lambda>clash.
     if clash then op_bail constraint_error
     else op_update (\<lambda>s. s\<lparr>runs := runs s @ [r]\<rparr>))"

definition insert_dedup_or_ignore :: "DedupRow \<Rightarrow> nat jop" where
  "insert_dedup_or_ignore r =
     op_bind (op_query (\<lambda>s. list_ex (\<lambda>x. dd_source x = dd_source r \<and>
       dd_external_event_id x = dd_external_event_id r) (ingress_dedup s))) (\<lambda>clash.
     if clash then op_return 0
     else op_then (op_update (\<lambda>s. s\<lparr>ingress_dedup := ingress_dedup s @ [r]\<rparr>)) (op_return 1))"

definition insert_job :: "WorkerJobRow \<Rightarrow> unit jop" where
  "insert_job r =
     op_bind (op_query (\<lambda>s. list_ex (\<lambda>x. wj_job_id x = wj_job_id r) (worker_jobs s))) (\<lambda>clash.
     if clash then op_bail constraint_error
     else op_update (\<lambda>s. s\<lparr>worker_jobs := worker_jobs s @ [r]\<rparr>))"

definition insert_job_or_ignore :: "WorkerJobRow \<Rightarrow> nat jop" where
  "insert_job_or_ignore r =
     op_bind (op_query (\<lambda>s. list_ex (\<lambda>x. wj_job_id x = wj_job_id r) (worker_jobs s))) (\<lambda>clash.
     if clash then op_return 0
     else op_then (op_update (\<lambda>s. s\<lparr>worker_jobs := worker_jobs s @ [r]\<rparr>)) (op_return 1))"

definition insert_outbox_or_ignore :: "OutboxRow \<Rightarrow> nat jop" where
  "insert_outbox_or_ignore r =
     op_bind (op_query (\<lambda>s. list_ex (\<lambda>x. od_dispatch_id x = od_dispatch_id r \<or>
       od_invocation_id x = od_invocation_id r) (outbox_dispatches s))) (\<lambda>clash.
     if clash then op_return 0
     else op_then (op_update (\<lambda>s. s\<lparr>outbox_dispatches := outbox_dispatches s @ [r]\<rparr>))
            (op_return 1))"

definition insert_continuation :: "ContinuationRow \<Rightarrow> unit jop" where
  "insert_continuation r =
     op_bind (op_query (\<lambda>s. list_ex (\<lambda>x. sc_idempotency_key x = sc_idempotency_key r \<or>
       sc_trigger_run_id x = sc_trigger_run_id r) (session_continuations s))) (\<lambda>clash.
     if clash then op_bail constraint_error
     else op_update (\<lambda>s. s\<lparr>session_continuations := session_continuations s @ [r]\<rparr>))"

definition update_runs :: "(RunRow \<Rightarrow> bool) \<Rightarrow> (RunRow \<Rightarrow> RunRow) \<Rightarrow> nat jop" where
  "update_runs p f =
     op_bind (op_query (\<lambda>s. count_where p (runs s))) (\<lambda>changed.
     op_then (op_update (\<lambda>s. s\<lparr>runs := update_where p f (runs s)\<rparr>)) (op_return changed))"

definition update_jobs ::
  "(WorkerJobRow \<Rightarrow> bool) \<Rightarrow> (WorkerJobRow \<Rightarrow> WorkerJobRow) \<Rightarrow> nat jop" where
  "update_jobs p f =
     op_bind (op_query (\<lambda>s. count_where p (worker_jobs s))) (\<lambda>changed.
     op_then (op_update (\<lambda>s. s\<lparr>worker_jobs := update_where p f (worker_jobs s)\<rparr>))
       (op_return changed))"

definition update_outbox ::
  "(OutboxRow \<Rightarrow> bool) \<Rightarrow> (OutboxRow \<Rightarrow> OutboxRow) \<Rightarrow> nat jop" where
  "update_outbox p f =
     op_bind (op_query (\<lambda>s. count_where p (outbox_dispatches s))) (\<lambda>changed.
     op_then (op_update (\<lambda>s. s\<lparr>outbox_dispatches := update_where p f (outbox_dispatches s)\<rparr>))
       (op_return changed))"

lemmas statement_defs [op_simps] = insert_event_def insert_session_def insert_run_row_def
  insert_dedup_or_ignore_def insert_job_def insert_job_or_ignore_def
  insert_outbox_or_ignore_def insert_continuation_def update_runs_def update_jobs_def
  update_outbox_def

lemmas draw_defs [op_simps] = draw_def utc_now_def new_id_def

subsection \<open>Relations every transaction respects\<close>

text \<open>
  The contract of a relation between journal states: besides composing
  (\<open>frame_relation\<close>), it allows the tick to advance. Transactions and draws then respect it as
  soon as their bodies do.
\<close>

locale store_frame = frame_relation R for R :: "store \<Rightarrow> store \<Rightarrow> bool" +
  assumes frame_tick: "tick s \<le> n \<Longrightarrow> R s (s\<lparr>tick := n\<rparr>)"
begin

lemma frame_draw: "obeys R draw"
  by (simp add: obeys_def draw_def frame_tick)

lemma frame_now: "obeys R (utc_now E)"
  by (simp add: utc_now_def frame_bind frame_draw frame_return)

lemma frame_new_id: "obeys R (new_id E px)"
  by (simp add: new_id_def frame_bind frame_draw frame_return)

lemma frame_tx:
  assumes "obeys R body"
  shows "obeys R (tx E body)"
proof (rule obeysI)
  fix s :: store
  let ?s0 = "s\<lparr>tick := Suc (tick s)\<rparr>"
  have s0: "R s ?s0" by (simp add: frame_tick)
  obtain r t where b: "body ?s0 = (r, t)" by (cases "body ?s0")
  with assms have "R ?s0 t" by (rule obeysD)
  with s0 have st: "R s t" by (rule frame_trans)
  have rolled: "R s (?s0\<lparr>tick := max (Suc (tick s)) (tick t)\<rparr>)"
    using frame_tick [of s "max (Suc (tick s)) (tick t)"] by simp
  show "R s (snd (tx E body s))"
    using s0 b st rolled by (cases r) (simp_all add: tx_def Let_def)
qed

lemmas store_intros = frame_intros frame_draw frame_now frame_new_id frame_tx

end

subsection \<open>Outcomes of a transaction\<close>

text \<open>\<open>unchanged s t\<close>: every table is as before; only the tick may have advanced.\<close>

definition unchanged :: "store \<Rightarrow> store \<Rightarrow> bool" where
  "unchanged s t \<longleftrightarrow> t = s\<lparr>tick := tick t\<rparr>"

lemma unchanged_refl [simp]: "unchanged s s"
  by (simp add: unchanged_def)

lemma unchanged_tick [simp]: "unchanged s (s\<lparr>tick := n\<rparr>)"
  by (simp add: unchanged_def)

lemma unchanged_trans: "unchanged s t \<Longrightarrow> unchanged t u \<Longrightarrow> unchanged s u"
  by (cases s; cases t; cases u) (simp add: unchanged_def)

lemma unchangedD:
  assumes "unchanged s t"
  shows "journal_events t = journal_events s" "sessions t = sessions s" "runs t = runs s"
    "ingress_dedup t = ingress_dedup s" "worker_jobs t = worker_jobs s"
    "outbox_dispatches t = outbox_dispatches s"
    "session_continuations t = session_continuations s"
    "registry_snapshots t = registry_snapshots s"
    "registry_snapshot_operations t = registry_snapshot_operations s"
    "registry_snapshot_hook_bindings t = registry_snapshot_hook_bindings s"
    "registry_state t = registry_state s"
    "component_registry_snapshots t = component_registry_snapshots s"
    "component_registry_entries t = component_registry_entries s"
    "component_registry_state t = component_registry_state s"
    "external_operation_grants t = external_operation_grants s"
    "current_snapshot_id t = current_snapshot_id s"
  using assms by (cases s; cases t; simp add: unchanged_def)+

lemma tx_InlD: "tx E body s = (Inl e, t) \<Longrightarrow> unchanged s t"
  by (auto simp: tx_def Let_def unchanged_def split: if_splits prod.splits sum.splits)

lemma tx_InrD:
  "tx E body s = (Inr x, t) \<Longrightarrow>
   \<not> fault_at E (tick s) \<and> body (s\<lparr>tick := Suc (tick s)\<rparr>) = (Inr x, t)"
  by (auto simp: tx_def Let_def split: if_splits prod.splits sum.splits)

lemma tx_ok:
  "\<not> fault_at E (tick s) \<Longrightarrow> body (s\<lparr>tick := Suc (tick s)\<rparr>) = (Inr x, t) \<Longrightarrow>
   tx E body s = (Inr x, t)"
  by (simp add: tx_def Let_def)

lemma tx_query:
  "tx E (op_query q) s =
     (if fault_at E (tick s) then Inl db_error else Inr (q (s\<lparr>tick := Suc (tick s)\<rparr>)),
      s\<lparr>tick := Suc (tick s)\<rparr>)"
  by (simp add: tx_def op_query_def Let_def)

subsection \<open>How tables evolve\<close>

text \<open>
  No statement of the kernel deletes a row or rewrites its identity. \<open>grows_by core keys\<close>: the
  immutable part \<open>core\<close> of every old row is kept, in order, and each key in \<open>keys\<close> stays unique.
\<close>

definition grows_by :: "('r \<Rightarrow> 'c) \<Rightarrow> ('r \<Rightarrow> string) list \<Rightarrow> 'r list \<Rightarrow> 'r list \<Rightarrow> bool" where
  "grows_by core keys t u \<longleftrightarrow> prefix (map core t) (map core u) \<and>
     (\<forall>key \<in> set keys. distinct (map key t) \<longrightarrow> distinct (map key u))"

lemma grows_by_refl [simp]: "grows_by core keys t t"
  by (simp add: grows_by_def)

lemma grows_by_trans: "grows_by core keys t u \<Longrightarrow> grows_by core keys u v \<Longrightarrow> grows_by core keys t v"
  by (auto simp: grows_by_def intro: prefix_order.trans)

lemma grows_by_update_where:
  assumes "\<And>r. core (f r) = core r" and "\<And>key r. key \<in> set keys \<Longrightarrow> key (f r) = key r"
  shows "grows_by core keys t (update_where p f t)"
proof -
  have "map key (update_where p f t) = map key t" if "key \<in> set keys" for key
    using assms(2) that by (simp add: map_update_where)
  then show ?thesis using assms(1) by (simp add: grows_by_def map_update_where)
qed

lemma grows_by_append:
  "(\<And>key. key \<in> set keys \<Longrightarrow> key r \<notin> key ` set t) \<Longrightarrow> grows_by core keys t (t @ [r])"
  by (auto simp: grows_by_def)

text \<open>The immutable part of a row: everything but the columns the kernel updates.\<close>

definition run_core :: "RunRow \<Rightarrow> RunRow" where
  "run_core r = r\<lparr>rr_status := [], rr_updated_at := 0\<rparr>"

definition job_core :: "WorkerJobRow \<Rightarrow> WorkerJobRow" where
  "job_core r = r\<lparr>wj_status := [], wj_attempts := 0, wj_available_at := 0, wj_locked_by := None,
     wj_locked_until := None, wj_last_error := None, wj_updated_at := 0\<rparr>"

definition outbox_core :: "OutboxRow \<Rightarrow> OutboxRow" where
  "outbox_core r = r\<lparr>od_status := [], od_attempts := 0, od_available_at := 0, od_locked_by := None,
     od_locked_until := None, od_last_error := None, od_updated_at := 0\<rparr>"

lemmas core_defs = run_core_def job_core_def outbox_core_def

lemma run_core_keys:
  "run_core r = run_core r' \<Longrightarrow> rr_id r = rr_id r' \<and> rr_trigger_event_id r = rr_trigger_event_id r'"
  by (cases r; cases r'; simp add: run_core_def)

lemma job_core_keys: "job_core r = job_core r' \<Longrightarrow> wj_job_id r = wj_job_id r'"
  by (cases r; cases r'; simp add: job_core_def)

lemma outbox_core_keys:
  "outbox_core r = outbox_core r' \<Longrightarrow>
     od_dispatch_id r = od_dispatch_id r' \<and> od_invocation_id r = od_invocation_id r'"
  by (cases r; cases r'; simp add: outbox_core_def)

definition tables_grow :: "store \<Rightarrow> store \<Rightarrow> bool" where
  "tables_grow s t \<longleftrightarrow>
     grows_by id [sr_id] (sessions s) (sessions t) \<and>
     grows_by run_core [rr_id, rr_trigger_event_id] (runs s) (runs t) \<and>
     grows_by id [] (ingress_dedup s) (ingress_dedup t) \<and>
     grows_by job_core [wj_job_id] (worker_jobs s) (worker_jobs t) \<and>
     grows_by outbox_core [od_dispatch_id, od_invocation_id]
       (outbox_dispatches s) (outbox_dispatches t) \<and>
     grows_by id [sc_idempotency_key, sc_trigger_run_id]
       (session_continuations s) (session_continuations t)"

lemma tables_grow_refl [simp]: "tables_grow s s"
  by (simp add: tables_grow_def)

lemma tables_grow_trans: "tables_grow s t \<Longrightarrow> tables_grow t u \<Longrightarrow> tables_grow s u"
  unfolding tables_grow_def by (blast intro: grows_by_trans)

subsection \<open>Settled rows\<close>

text \<open>
  The contract of a queue table: rows in a final status are never rewritten. The clients are the
  worker queue and the outbox; the contract lifts from statements to whole operations.
\<close>

definition settled_kept :: "(store \<Rightarrow> 'r list) \<Rightarrow> ('r \<Rightarrow> bool) \<Rightarrow> store \<Rightarrow> store \<Rightarrow> bool" where
  "settled_kept table final s t \<longleftrightarrow>
     (\<forall>i < length (table s). final (table s ! i) \<longrightarrow>
        i < length (table t) \<and> table t ! i = table s ! i)"

locale lifecycle =
  fixes table :: "store \<Rightarrow> 'r list" and final :: "'r \<Rightarrow> bool"
  assumes table_tick: "table (s\<lparr>tick := n\<rparr>) = table s"
    and table_events: "table (s\<lparr>journal_events := es\<rparr>) = table s"
begin

lemma settled_refl: "settled_kept table final s s"
  by (simp add: settled_kept_def)

lemma settled_trans:
  "settled_kept table final s t \<Longrightarrow> settled_kept table final t u \<Longrightarrow> settled_kept table final s u"
  by (simp add: settled_kept_def)

lemma settled_same: "table t = table s \<Longrightarrow> settled_kept table final s t"
  by (simp add: settled_kept_def)

lemma settled_append: "table t = table s @ rs \<Longrightarrow> settled_kept table final s t"
  by (simp add: settled_kept_def nth_append)

lemma settled_update:
  "table t = update_where p f (table s) \<Longrightarrow> (\<And>r. p r \<Longrightarrow> \<not> final r) \<Longrightarrow>
   settled_kept table final s t"
  by (auto simp: settled_kept_def update_where_def)

lemma settled_insert_event: "obeys (settled_kept table final) (insert_event r)"
  by (simp add: obeys_def op_simps settled_same table_events)

end

sublocale lifecycle \<subseteq> lc: store_frame "settled_kept table final"
  by unfold_locales (blast intro: settled_refl settled_trans settled_same table_tick)+

end
