(* ===== verification/Sample_Env.thy ===== *)
theory Sample_Env
  imports Journal_Tables
begin

section \<open>A concrete environment\<close>

text \<open>
  An environment in which the parameters are concrete functions, so that theorems with a
  hypothesis on a parameter can be applied at a concrete state: a compact JSON printer with a
  parser for it (floating-point numbers aside), an injective stand-in for the digest that prints no separator, one
  clock text, decimal UUIDs, and a database that never fails. It models no code.
\<close>

subsection \<open>A JSON printer and parser\<close>

fun escape :: "string \<Rightarrow> string" where
  "escape [] = []"
| "escape (c # cs) =
     (if c = CHR 0x22 \<or> c = CHR 0x5C then CHR 0x5C # c # escape cs else c # escape cs)"

fun join :: "string \<Rightarrow> string list \<Rightarrow> string" where
  "join sep [] = []"
| "join sep [x] = x"
| "join sep (x # xs) = x @ sep @ join sep xs"

definition quoted :: "string \<Rightarrow> string" where
  "quoted s = CHR 0x22 # escape s @ [CHR 0x22]"

fun print_json :: "json \<Rightarrow> string" where
  "print_json JNull = ''null''"
| "print_json (JBool b) = (if b then ''true'' else ''false'')"
| "print_json (JNum (JInt i)) = dec_int i"
| "print_json (JNum (JFloat _)) = ''0.0''"
| "print_json (JStr s) = quoted s"
| "print_json (JArr xs) = ''['' @ join '','' (map print_json xs) @ '']''"
| "print_json (JObj m) =
     ''{'' @ join '','' (map (\<lambda>kv. quoted (fst kv) @ '':'' @ print_json (snd kv)) m) @ ''}''"

fun read_string :: "string \<Rightarrow> (string \<times> string) option" where
  "read_string [] = None"
| "read_string (c # cs) =
     (if c = CHR 0x22 then Some ([], cs)
      else if c = CHR 0x5C then
        (case cs of [] \<Rightarrow> None
         | d # ds \<Rightarrow> map_option (\<lambda>(s, r). (d # s, r)) (read_string ds))
      else map_option (\<lambda>(s, r). (c # s, r)) (read_string cs))"

definition read_nat :: "string \<Rightarrow> (nat \<times> string) option" where
  "read_nat s = (let ds = takeWhile digit_char s in
     if ds = [] then None else Some (undec ds, dropWhile digit_char s))"

definition read_number :: "string \<Rightarrow> (json \<times> string) option" where
  "read_number s =
     (case s of
        [] \<Rightarrow> None
      | c # cs \<Rightarrow>
          (if c = CHR ''-'' then map_option (\<lambda>(n, r). (JNum (JInt (- int n)), r)) (read_nat cs)
           else map_option (\<lambda>(n, r). (JNum (JInt (int n)), r)) (read_nat s)))"

fun read_json :: "nat \<Rightarrow> string \<Rightarrow> (json \<times> string) option"
  and read_elems :: "nat \<Rightarrow> string \<Rightarrow> (json list \<times> string) option"
  and read_members :: "nat \<Rightarrow> string \<Rightarrow> (jmap \<times> string) option" where
  "read_json 0 s = None"
| "read_json (Suc n) s =
     (if take 4 s = ''null'' then Some (JNull, drop 4 s)
      else if take 4 s = ''true'' then Some (JBool True, drop 4 s)
      else if take 5 s = ''false'' then Some (JBool False, drop 5 s)
      else case s of
          [] \<Rightarrow> None
        | c # cs \<Rightarrow>
            (if c = CHR 0x22 then map_option (\<lambda>(t, r). (JStr t, r)) (read_string cs)
             else if c = CHR ''['' then
               (if take 1 cs = '']'' then Some (JArr [], drop 1 cs)
                else map_option (\<lambda>(xs, r). (JArr xs, r)) (read_elems n cs))
             else if c = CHR ''{'' then
               (if take 1 cs = ''}'' then Some (JObj [], drop 1 cs)
                else map_option (\<lambda>(m, r). (JObj m, r)) (read_members n cs))
             else read_number s))"
| "read_elems 0 s = None"
| "read_elems (Suc n) s =
     (case read_json n s of
        Some (v, c # r) \<Rightarrow>
          (if c = CHR '','' then map_option (\<lambda>(vs, r'). (v # vs, r')) (read_elems n r)
           else if c = CHR '']'' then Some ([v], r) else None)
      | _ \<Rightarrow> None)"
| "read_members 0 s = None"
| "read_members (Suc n) s =
     (case s of
        [] \<Rightarrow> None
      | q # cs \<Rightarrow>
          (if q \<noteq> CHR 0x22 then None
           else case read_string cs of
               Some (k, d # r) \<Rightarrow>
                 (if d \<noteq> CHR '':'' then None
                  else case read_json n r of
                      Some (v, c # r') \<Rightarrow>
                        (if c = CHR '','' then
                           map_option (\<lambda>(m, r''). (minsert k v m, r'')) (read_members n r')
                         else if c = CHR ''}'' then Some ([(k, v)], r') else None)
                    | _ \<Rightarrow> None)
             | _ \<Rightarrow> None))"

definition parse_json :: "string \<Rightarrow> json option" where
  "parse_json s = (case read_json (Suc (length s)) s of Some (v, []) \<Rightarrow> Some v | _ \<Rightarrow> None)"

subsection \<open>The environment\<close>

definition digest_text :: "string \<Rightarrow> string" where
  "digest_text s = ''h'' @ concat (map (\<lambda>c. if c = CHR ''|'' then ''!b''
     else if c = CHR ''!'' then ''!e'' else [c]) s)"

definition sample_env :: env where
  "sample_env = \<lparr>sha256_hex = digest_text, json_text = print_json, json_parse = parse_json,
     rfc3339 = (\<lambda>_. ''2026-01-01T00:00:00+00:00''), uuid_at = dec, clock_at = (\<lambda>n. int n * 1000000), fault_at = (\<lambda>_. False)\<rparr>"

lemma sample_env_simps [simp]:
  "sha256_hex sample_env = digest_text" "json_text sample_env = print_json"
  "json_parse sample_env = parse_json" "rfc3339 sample_env i = ''2026-01-01T00:00:00+00:00''"
  "uuid_at sample_env = dec" "clock_at sample_env n = int n * 1000000"
  "fault_at sample_env n = False"
  by (simp_all add: sample_env_def)

lemma digest_text_no_bar: "CHR ''|'' \<notin> set (digest_text s)"
  by (induction s) (simp_all add: digest_text_def)

lemma digest_text_inject: "digest_text s = digest_text t \<Longrightarrow> s = t"
proof (induction s arbitrary: t)
  case Nil
  then show ?case by (cases t) (auto simp: digest_text_def split: if_splits)
next
  case (Cons c s)
  then show ?case by (cases t) (auto simp: digest_text_def split: if_splits)
qed

end
