(* ===== verification/Hash_Chain.thy ===== *)
theory Hash_Chain
  imports Sample_Env
begin

section \<open>The hash chain of the journal\<close>

text \<open>
  \<open>src/src/journal/hash_chain.rs\<close>, the appending operations of \<open>sqlite.rs\<close> and \<open>queue.rs\<close>, and the
  read side (\<open>sqlite_read.rs\<close>, \<open>events\<close>, \<open>verify_hash_chain\<close>).

  \<open>journal_ok\<close> is the well-formedness of the journal: rows numbered from 1 without gaps, each
  naming the hash of its predecessor, each hash computed from the stored columns, each kind the
  stored name of a known kind. \<open>extends\<close> is what every operation of the kernel does to the
  journal: it only appends, and keeps it well formed.
\<close>

subsection \<open>Hashing and appending\<close>

definition event_hash :: "env \<Rightarrow> string option \<Rightarrow> int \<Rightarrow> string \<Rightarrow> string \<Rightarrow> string" where
  "event_hash E previous_hash n kind payload =
     sha256_hex E ((case previous_hash of None \<Rightarrow> [] | Some h \<Rightarrow> h)
       @ ''|'' @ dec_int n @ ''|'' @ kind @ ''|'' @ payload)"

definition last_row :: "JournalRow list \<Rightarrow> JournalRow option" where
  "last_row t = first_by (\<lambda>r. - jr_sequence r) t"

text \<open>The part of appending that both \<open>append_event\<close> and \<open>append_event_tx\<close> run in a transaction.\<close>

definition append_row ::
  "env \<Rightarrow> EventId \<Rightarrow> instant \<Rightarrow> JournalEventKind \<Rightarrow> RunId option \<Rightarrow> SessionId option \<Rightarrow>
   string option \<Rightarrow> json \<Rightarrow> JournalEvent jop" where
  "append_row E event_id created_at k run_id session_id correlation_id payload =
     (let payload_json = json_text E payload; kind_text = storage_name k in
      op_bind (op_query (\<lambda>s. last_row (journal_events s))) (\<lambda>previous.
      let n = (case previous of None \<Rightarrow> 1 | Some r \<Rightarrow> jr_sequence r + 1);
          previous_hash = map_option jr_hash previous;
          h = event_hash E previous_hash n kind_text payload_json in
      op_then
        (insert_event \<lparr>jr_sequence = n, jr_event_id = event_id, jr_run_id = run_id,
           jr_session_id = session_id, jr_correlation_id = correlation_id,
           jr_kind = kind_text, jr_payload_json = payload_json,
           jr_previous_hash = previous_hash, jr_hash = h, jr_created_at = created_at\<rparr>)
        (op_return \<lparr>je_sequence = n, je_event_id = event_id, je_run_id = run_id,
           je_session_id = session_id, je_correlation_id = correlation_id,
           je_kind = k, je_payload = payload,
           je_previous_hash = previous_hash, je_hash = h, je_created_at = created_at\<rparr>)))"

definition append_event_tx ::
  "env \<Rightarrow> JournalEventKind \<Rightarrow> RunId option \<Rightarrow> SessionId option \<Rightarrow> string option \<Rightarrow> json \<Rightarrow>
   JournalEvent jop" where
  "append_event_tx E k run_id session_id correlation_id payload =
     op_bind (new_id E ''event'') (\<lambda>event_id.
     op_bind (utc_now E) (\<lambda>created_at.
     append_row E event_id created_at k run_id session_id correlation_id payload))"

definition append_event ::
  "env \<Rightarrow> JournalEventKind \<Rightarrow> RunId option \<Rightarrow> SessionId option \<Rightarrow> string option \<Rightarrow> json \<Rightarrow>
   JournalEvent jop" where
  "append_event E k run_id session_id correlation_id payload =
     op_bind (new_id E ''event'') (\<lambda>event_id.
     op_bind (utc_now E) (\<lambda>created_at.
     tx E (append_row E event_id created_at k run_id session_id correlation_id payload)))"

subsection \<open>Reading\<close>

definition row_to_event :: "env \<Rightarrow> JournalRow \<Rightarrow> JournalEvent" where
  "row_to_event E r =
     \<lparr>je_sequence = jr_sequence r, je_event_id = jr_event_id r, je_run_id = jr_run_id r,
      je_session_id = jr_session_id r, je_correlation_id = jr_correlation_id r,
      je_kind = parse_kind (jr_kind r),
      je_payload = (case json_parse E (jr_payload_json r) of None \<Rightarrow> jobj [] | Some v \<Rightarrow> v),
      je_previous_hash = jr_previous_hash r, je_hash = jr_hash r,
      je_created_at = jr_created_at r\<rparr>"

definition events_of :: "env \<Rightarrow> JournalRow list \<Rightarrow> JournalEvent list" where
  "events_of E t = map (row_to_event E) (sort_key jr_sequence t)"

definition events :: "env \<Rightarrow> JournalEvent list jop" where
  "events E = tx E (op_query (\<lambda>s. events_of E (journal_events s)))"

definition event_count :: "env \<Rightarrow> nat jop" where
  "event_count E = tx E (op_query (\<lambda>s. length (journal_events s)))"

fun verify_from :: "env \<Rightarrow> string option \<Rightarrow> JournalEvent list \<Rightarrow> bool" where
  "verify_from E previous_hash [] = True"
| "verify_from E previous_hash (e # es) =
     (let expected = event_hash E previous_hash (je_sequence e) (storage_name (je_kind e))
            (json_text E (je_payload e)) in
      if je_previous_hash e \<noteq> previous_hash \<or> je_hash e \<noteq> expected then False
      else verify_from E (Some (je_hash e)) es)"

definition verify_hash_chain :: "env \<Rightarrow> bool jop" where
  "verify_hash_chain E = op_bind (events E) (\<lambda>es. op_return (verify_from E None es))"

subsection \<open>Well-formed journals\<close>

definition row_ok :: "env \<Rightarrow> string option \<Rightarrow> int \<Rightarrow> JournalRow \<Rightarrow> bool" where
  "row_ok E previous_hash n r \<longleftrightarrow>
     jr_sequence r = n \<and> jr_previous_hash r = previous_hash \<and>
     jr_hash r = event_hash E previous_hash n (jr_kind r) (jr_payload_json r) \<and>
     storage_name (parse_kind (jr_kind r)) = jr_kind r"

fun chain_from :: "env \<Rightarrow> string option \<Rightarrow> int \<Rightarrow> JournalRow list \<Rightarrow> bool" where
  "chain_from E previous_hash n [] = True"
| "chain_from E previous_hash n (r # rs) =
     (row_ok E previous_hash n r \<and> chain_from E (Some (jr_hash r)) (n + 1) rs)"

definition journal_ok :: "env \<Rightarrow> JournalRow list \<Rightarrow> bool" where
  "journal_ok E t = chain_from E None 1 t"

definition head_hash :: "JournalRow list \<Rightarrow> string option" where
  "head_hash t = (if t = [] then None else Some (jr_hash (last t)))"

definition extends :: "env \<Rightarrow> JournalRow list \<Rightarrow> JournalRow list \<Rightarrow> bool" where
  "extends E t u \<longleftrightarrow> prefix t u \<and> (journal_ok E t \<longrightarrow> journal_ok E u)"

lemma chain_from_append:
  "chain_from E p n (t @ [r]) \<longleftrightarrow>
   chain_from E p n t \<and>
   row_ok E (if t = [] then p else Some (jr_hash (last t))) (n + int (length t)) r"
  by (induction t arbitrary: p n) (auto simp: algebra_simps)

lemma journal_ok_append:
  "journal_ok E (t @ [r]) \<longleftrightarrow> journal_ok E t \<and> row_ok E (head_hash t) (1 + int (length t)) r"
  by (simp add: journal_ok_def chain_from_append head_hash_def)

lemma journal_ok_Nil [simp]: "journal_ok E []"
  by (simp add: journal_ok_def)

lemma journal_ok_prefix: "journal_ok E (t @ u) \<Longrightarrow> journal_ok E t"
proof (induction u rule: rev_induct)
  case (snoc r u)
  from snoc.prems have "journal_ok E ((t @ u) @ [r])" by simp
  then have "journal_ok E (t @ u)" unfolding journal_ok_append by blast
  then show ?case by (rule snoc.IH)
qed simp

lemma chain_from_sequences:
  "chain_from E p n t \<Longrightarrow> map jr_sequence t = map (\<lambda>i. n + int i) [0..<length t]"
  by (induction t arbitrary: p n) (auto simp: row_ok_def map_upt_Suc algebra_simps simp del: upt_Suc)

lemma journal_ok_sequences:
  "journal_ok E t \<Longrightarrow> map jr_sequence t = map (\<lambda>i. 1 + int i) [0..<length t]"
  by (simp add: journal_ok_def chain_from_sequences)

lemma journal_ok_nth: "journal_ok E t \<Longrightarrow> i < length t \<Longrightarrow> jr_sequence (t ! i) = 1 + int i"
proof -
  assume "journal_ok E t" and i: "i < length t"
  then have "map jr_sequence t ! i = map (\<lambda>i. 1 + int i) [0..<length t] ! i"
    by (simp only: journal_ok_sequences)
  with i show ?thesis by simp
qed

lemma journal_ok_sorted: "journal_ok E t \<Longrightarrow> sort_key jr_sequence t = t"
  by (rule sort_key_id_if_sorted)
     (auto simp: sorted_iff_nth_mono journal_ok_nth)

lemma last_row_Nil [simp]: "last_row [] = None"
  by (simp add: last_row_def)

text \<open>The row with the greatest sequence number is the one appended last.\<close>

lemma journal_ok_last_row:
  assumes "journal_ok E t"
  shows "last_row t = (if t = [] then None else Some (last t))"
proof (cases "t = []")
  case False
  then obtain r where r: "last_row t = Some r"
    by (metis first_by_None last_row_def not_None_eq)
  then have mem: "r \<in> set t" and le: "\<forall>r' \<in> set t. jr_sequence r' \<le> jr_sequence r"
    unfolding last_row_def by (auto dest: first_by_SomeD)
  from mem obtain i where i: "i < length t" "r = t ! i"
    by (auto simp: in_set_conv_nth)
  from False have "jr_sequence (last t) \<le> jr_sequence r"
    using le by simp
  with False i assms have "i = length t - 1"
    by (auto simp: last_conv_nth journal_ok_nth)
  with False i r show ?thesis by (simp add: last_conv_nth)
qed simp

lemma append_row_result:
  "append_row E event_id created_at k run_id session_id correlation_id payload s =
     (let p = last_row (journal_events s);
          n = (case p of None \<Rightarrow> 1 | Some r \<Rightarrow> jr_sequence r + 1);
          h = event_hash E (map_option jr_hash p) n (storage_name k) (json_text E payload) in
      (Inr \<lparr>je_sequence = n, je_event_id = event_id, je_run_id = run_id,
         je_session_id = session_id, je_correlation_id = correlation_id, je_kind = k,
         je_payload = payload, je_previous_hash = map_option jr_hash p, je_hash = h,
         je_created_at = created_at\<rparr>,
       s\<lparr>journal_events := journal_events s @
         [\<lparr>jr_sequence = n, jr_event_id = event_id, jr_run_id = run_id,
           jr_session_id = session_id, jr_correlation_id = correlation_id,
           jr_kind = storage_name k, jr_payload_json = json_text E payload,
           jr_previous_hash = map_option jr_hash p, jr_hash = h,
           jr_created_at = created_at\<rparr>]\<rparr>))"
  by (simp add: append_row_def op_simps Let_def)

lemma append_row_ok:
  assumes "journal_ok E t"
  shows "row_ok E (head_hash t) (1 + int (length t))
    \<lparr>jr_sequence = (case last_row t of None \<Rightarrow> 1 | Some r \<Rightarrow> jr_sequence r + 1),
     jr_event_id = i, jr_run_id = ri, jr_session_id = si, jr_correlation_id = ci,
     jr_kind = storage_name k, jr_payload_json = pj,
     jr_previous_hash = map_option jr_hash (last_row t),
     jr_hash = event_hash E (map_option jr_hash (last_row t))
       (case last_row t of None \<Rightarrow> 1 | Some r \<Rightarrow> jr_sequence r + 1) (storage_name k) pj,
     jr_created_at = c\<rparr>"
proof (cases "t = []")
  case False
  with assms have "jr_sequence (last t) = int (length t)"
    by (cases t rule: rev_cases) (simp_all add: journal_ok_append row_ok_def)
  with False assms show ?thesis
    by (simp add: journal_ok_last_row row_ok_def head_hash_def parse_kind_storage_name add.commute)
qed (simp add: row_ok_def head_hash_def parse_kind_storage_name)

subsection \<open>Every operation only appends\<close>

text \<open>
  The relation between the states before and after any operation of the kernel: the journal is
  extended, and the other tables only grow.
\<close>

definition evolves :: "env \<Rightarrow> store \<Rightarrow> store \<Rightarrow> bool" where
  "evolves E s t \<longleftrightarrow> extends E (journal_events s) (journal_events t) \<and> tables_grow s t"

interpretation ev: store_frame "evolves E" for E
proof unfold_locales
  fix s t u :: store
  show "evolves E s s" by (simp add: evolves_def extends_def)
  show "evolves E s t \<Longrightarrow> evolves E t u \<Longrightarrow> evolves E s u"
    unfolding evolves_def extends_def
    by (blast intro: tables_grow_trans prefix_order.trans)
  show "tick s \<le> n \<Longrightarrow> evolves E s (s\<lparr>tick := n\<rparr>)" for n
    by (simp add: evolves_def extends_def tables_grow_def)
qed

lemma evolves_append_row: "obeys (evolves E) (append_row E i c k ri si ci p)"
proof (rule obeysI)
  fix s :: store
  let ?t = "journal_events s"
  obtain r where r: "snd (append_row E i c k ri si ci p s) = s\<lparr>journal_events := ?t @ [r]\<rparr>"
      and ok: "journal_ok E ?t \<Longrightarrow> row_ok E (head_hash ?t) (1 + int (length ?t)) r"
    using append_row_ok [of E ?t] by (simp add: append_row_result Let_def)
  then show "evolves E s (snd (append_row E i c k ri si ci p s))"
    by (simp add: evolves_def extends_def journal_ok_append tables_grow_def)
qed

lemma evolves_inserts:
  "obeys (evolves E) (insert_session r1)"
  "obeys (evolves E) (insert_run_row r2)"
  "obeys (evolves E) (insert_dedup_or_ignore r3)"
  "obeys (evolves E) (insert_job r4)"
  "obeys (evolves E) (insert_job_or_ignore r4)"
  "obeys (evolves E) (insert_outbox_or_ignore r5)"
  "obeys (evolves E) (insert_continuation r6)"
  by (rule obeysI; auto simp: op_simps evolves_def extends_def tables_grow_def list_ex_iff
      intro!: grows_by_append; metis)+

lemma evolves_update_runs:
  assumes "\<And>r. run_core (f r) = run_core r"
  shows "obeys (evolves E) (update_runs p f)"
  using run_core_keys [OF assms] assms
  by (intro obeysI) (auto simp: op_simps evolves_def extends_def tables_grow_def
      intro!: grows_by_update_where)

lemma evolves_update_jobs:
  assumes "\<And>r. job_core (f r) = job_core r"
  shows "obeys (evolves E) (update_jobs p f)"
  using job_core_keys [OF assms] assms
  by (intro obeysI) (auto simp: op_simps evolves_def extends_def tables_grow_def
      intro!: grows_by_update_where)

lemma evolves_update_outbox:
  assumes "\<And>r. outbox_core (f r) = outbox_core r"
  shows "obeys (evolves E) (update_outbox p f)"
  using outbox_core_keys [OF assms] assms
  by (intro obeysI) (auto simp: op_simps evolves_def extends_def tables_grow_def
      intro!: grows_by_update_where)

lemmas evolves_basic = ev.store_intros evolves_append_row evolves_inserts evolves_update_runs
  evolves_update_jobs evolves_update_outbox obeys_intros

lemma evolves_append_event_tx: "obeys (evolves E) (append_event_tx E k ri si ci p)"
  unfolding append_event_tx_def by (intro evolves_basic)

lemma evolves_append_event: "obeys (evolves E) (append_event E k ri si ci p)"
  unfolding append_event_def by (intro evolves_basic)

lemma evolves_events: "obeys (evolves E) (events E)"
  unfolding events_def by (intro evolves_basic)

lemmas evolves_intros = evolves_append_event evolves_append_event_tx evolves_events evolves_basic

lemma obeys_evolvesD:
  assumes "obeys (evolves E) m" and "m s = (r, t)"
  shows "prefix (journal_events s) (journal_events t)"
    and "journal_ok E (journal_events s) \<Longrightarrow> journal_ok E (journal_events t)"
    and "tables_grow s t"
  using obeysD [OF assms] by (simp_all add: evolves_def extends_def)

text \<open>
  The row and the event that \<open>append_event_tx\<close> produces in a state, as functions of the state, so
  that the outcome of an operation is a rewrite rule.
\<close>

definition tx_row ::
  "env \<Rightarrow> JournalEventKind \<Rightarrow> RunId option \<Rightarrow> SessionId option \<Rightarrow> string option \<Rightarrow> json \<Rightarrow>
   store \<Rightarrow> JournalRow" where
  "tx_row E k ri si ci p s = last (journal_events (snd (append_event_tx E k ri si ci p s)))"

definition tx_event ::
  "env \<Rightarrow> JournalEventKind \<Rightarrow> RunId option \<Rightarrow> SessionId option \<Rightarrow> string option \<Rightarrow> json \<Rightarrow>
   store \<Rightarrow> JournalEvent" where
  "tx_event E k ri si ci p s = projr (fst (append_event_tx E k ri si ci p s))"

lemma append_event_tx_run:
  "append_event_tx E k ri si ci p s =
     (Inr (tx_event E k ri si ci p s),
      s\<lparr>tick := Suc (Suc (tick s)),
        journal_events := journal_events s @ [tx_row E k ri si ci p s]\<rparr>)"
  by (simp add: tx_event_def tx_row_def append_event_tx_def op_simps append_row_result Let_def)

lemma tx_row_simps [simp]:
  "jr_kind (tx_row E k ri si ci p s) = storage_name k"
  "jr_run_id (tx_row E k ri si ci p s) = ri"
  "jr_session_id (tx_row E k ri si ci p s) = si"
  "jr_correlation_id (tx_row E k ri si ci p s) = ci"
  "jr_payload_json (tx_row E k ri si ci p s) = json_text E p"
  "jr_event_id (tx_row E k ri si ci p s) = fresh_id ''event'' (uuid_at E (tick s))"
  "je_event_id (tx_event E k ri si ci p s) = fresh_id ''event'' (uuid_at E (tick s))"
  by (simp_all add: tx_event_def tx_row_def append_event_tx_def op_simps append_row_result Let_def)

text \<open>Appending an event settles nothing in any queue table.\<close>

context lifecycle
begin

lemma settled_append_row: "obeys (settled_kept table final) (append_row E i c k ri si ci p)"
  unfolding append_row_def by (intro lc.store_intros obeys_intros settled_insert_event)

lemma settled_append_event_tx: "obeys (settled_kept table final) (append_event_tx E k ri si ci p)"
  unfolding append_event_tx_def by (intro lc.store_intros settled_append_row)

lemma settled_append_event: "obeys (settled_kept table final) (append_event E k ri si ci p)"
  unfolding append_event_def by (intro lc.store_intros settled_append_row)

lemmas settled_intros = settled_append_event settled_append_event_tx lc.store_intros obeys_intros

end

subsection \<open>What verification accepts\<close>

text \<open>
  The text of a payload is stable when printing the value parsed from it gives the text again,
  which \<open>serde_json\<close> guarantees for the values it prints (floating-point numbers aside, since the
  crate is built without \<open>float_roundtrip\<close>).
\<close>

definition stable_payload :: "env \<Rightarrow> JournalRow \<Rightarrow> bool" where
  "stable_payload E r \<longleftrightarrow> json_text E (je_payload (row_to_event E r)) = jr_payload_json r"

lemma verify_from_chain:
  assumes "chain_from E p n t" and "\<forall>r \<in> set t. stable_payload E r"
  shows "verify_from E p (map (row_to_event E) t)"
  using assms
  by (induction t arbitrary: p n) (auto simp: row_ok_def stable_payload_def row_to_event_def)

lemma verify_from_append:
  "verify_from E p (es @ fs) \<longleftrightarrow>
   verify_from E p es \<and> verify_from E (if es = [] then p else Some (je_hash (last es))) fs"
  by (induction es arbitrary: p) (auto simp: Let_def)

lemma verify_hash_chain_result:
  assumes "\<not> fault_at E (tick s)"
  shows "verify_hash_chain E s =
    (Inr (verify_from E None (events_of E (journal_events s))), s\<lparr>tick := Suc (tick s)\<rparr>)"
  using assms by (simp add: verify_hash_chain_def events_def tx_def op_simps)

subsection \<open>Tamper evidence\<close>

text \<open>What the hash of an event covers: its sequence number, its kind and its payload text.\<close>

definition hashed_content :: "env \<Rightarrow> JournalEvent \<Rightarrow> int \<times> JournalEventKind \<times> string" where
  "hashed_content E e = (je_sequence e, je_kind e, json_text E (je_payload e))"

definition hash_input :: "string option \<Rightarrow> int \<Rightarrow> string \<Rightarrow> string \<Rightarrow> string" where
  "hash_input p n kind payload =
     (case p of None \<Rightarrow> [] | Some h \<Rightarrow> h) @ ''|'' @ dec_int n @ ''|'' @ kind @ ''|'' @ payload"

definition collision :: "env \<Rightarrow> string \<Rightarrow> string \<Rightarrow> bool" where
  "collision E x y \<longleftrightarrow> x \<noteq> y \<and> sha256_hex E x = sha256_hex E y"

text \<open>A digest printed in hexadecimal is not empty and holds no separator.\<close>

definition hex_digests :: "env \<Rightarrow> bool" where
  "hex_digests E \<longleftrightarrow> (\<forall>x. sha256_hex E x \<noteq> [] \<and> CHR ''|'' \<notin> set (sha256_hex E x))"

lemma sample_hex_digests: "hex_digests sample_env"
  by (simp add: hex_digests_def digest_text_no_bar) (simp add: digest_text_def)

lemma event_hash_input: "event_hash E p n k v = sha256_hex E (hash_input p n k v)"
  by (simp add: event_hash_def hash_input_def)

lemma bar_not_digit: "\<not> digit_char CHR ''|''" "CHR ''|'' \<noteq> CHR ''-''"
  by (simp_all add: digit_char_def)

lemma dec_int_no_bar: "CHR ''|'' \<notin> set (dec_int i)"
  using dec_int_chars bar_not_digit by blast

definition digest_like :: "string option \<Rightarrow> bool" where
  "digest_like p \<longleftrightarrow> (case p of None \<Rightarrow> True | Some h \<Rightarrow> h \<noteq> [] \<and> CHR ''|'' \<notin> set h)"

lemma hash_input_inject:
  assumes eq: "hash_input p n (storage_name k) v = hash_input q m (storage_name l) w"
    and "digest_like p" and "digest_like q"
  shows "p = q \<and> n = m \<and> k = l \<and> v = w"
proof -
  let ?f = "\<lambda>p. case p of None \<Rightarrow> [] | Some h \<Rightarrow> h"
  have bars: "CHR ''|'' \<notin> set (?f p)" "CHR ''|'' \<notin> set (?f q)"
    using assms(2,3) by (auto simp: digest_like_def split: option.splits)
  from eq have "?f p @ CHR ''|'' # (dec_int n @ CHR ''|'' # (storage_name k @ CHR ''|'' # v)) =
      ?f q @ CHR ''|'' # (dec_int m @ CHR ''|'' # (storage_name l @ CHR ''|'' # w))"
    by (simp add: hash_input_def)
  then have pq: "?f p = ?f q" and
    r: "dec_int n @ CHR ''|'' # (storage_name k @ CHR ''|'' # v) =
        dec_int m @ CHR ''|'' # (storage_name l @ CHR ''|'' # w)"
    using separator_unique [OF _ bars] by blast+
  from r have n: "dec_int n = dec_int m" and
    r': "storage_name k @ CHR ''|'' # v = storage_name l @ CHR ''|'' # w"
    using separator_unique [OF _ dec_int_no_bar dec_int_no_bar] by blast+
  from r' have "storage_name k = storage_name l" and "v = w"
    using separator_unique [of "storage_name k" "CHR ''|''" v "storage_name l" w]
      storage_name_ascii by blast+
  moreover have "p = q"
    using pq assms(2,3) by (auto simp: digest_like_def split: option.splits)
  ultimately show ?thesis using n by simp
qed

lemma verify_from_hash:
  "verify_from E p es \<Longrightarrow> e \<in> set es \<Longrightarrow> \<exists>x. je_hash e = sha256_hex E x"
  by (induction es arbitrary: p) (auto simp: Let_def event_hash_input split: if_splits)

lemma verify_from_digest_like:
  assumes "hex_digests E" and "verify_from E None es"
  shows "digest_like (if es = [] then None else Some (je_hash (last es)))"
proof (cases "es = []")
  case False
  then obtain x where "je_hash (last es) = sha256_hex E x"
    using verify_from_hash [OF assms(2), of "last es"] by auto
  with assms(1) False show ?thesis
    by (simp add: digest_like_def hex_digests_def)
qed (simp add: digest_like_def)

lemma same_head_same_content:
  assumes "hex_digests E" and "\<nexists>x y. collision E x y"
    and "verify_from E None es" and "verify_from E None fs"
    and "map_option je_hash (if es = [] then None else Some (last es)) =
         map_option je_hash (if fs = [] then None else Some (last fs))"
  shows "map (hashed_content E) es = map (hashed_content E) fs"
  using assms(3-)
proof (induction es arbitrary: fs rule: rev_induct)
  case Nil
  then show ?case by (auto split: if_splits)
next
  case (snoc e es)
  let ?p = "\<lambda>es. if es = [] then None else Some (je_hash (last es))"
  from snoc.prems(3) obtain f gs where fs: "fs = gs @ [f]"
    by (cases fs rule: rev_cases) auto
  have v: "verify_from E None es" "verify_from E None gs"
    using snoc.prems(1,2) by (simp_all add: fs verify_from_append)
  have hash: "sha256_hex E (hash_input (?p es) (je_sequence e) (storage_name (je_kind e))
        (json_text E (je_payload e))) =
      sha256_hex E (hash_input (?p gs) (je_sequence f) (storage_name (je_kind f))
        (json_text E (je_payload f)))"
    using snoc.prems unfolding fs
    by (simp add: verify_from_append Let_def event_hash_input split: if_splits)
  with assms(2) have "hash_input (?p es) (je_sequence e) (storage_name (je_kind e))
        (json_text E (je_payload e)) =
      hash_input (?p gs) (je_sequence f) (storage_name (je_kind f)) (json_text E (je_payload f))"
    unfolding collision_def by blast
  from hash_input_inject [OF this verify_from_digest_like [OF assms(1) v(1)]
      verify_from_digest_like [OF assms(1) v(2)]]
  have heads: "?p es = ?p gs" and "hashed_content E e = hashed_content E f"
    by (simp_all add: hashed_content_def)
  moreover from heads have "map_option je_hash (if es = [] then None else Some (last es)) =
      map_option je_hash (if gs = [] then None else Some (last gs))"
    by (simp split: if_splits)
  ultimately show ?case
    using snoc.IH [OF v] by (simp add: fs)
qed

subsection \<open>Properties\<close>

text \<open>C2: Appending is total and exact. On a well-formed journal, when SQLite does not fail,
  \<open>append_event\<close> returns the event it was given with the next sequence number, the journal is the
  old journal followed by exactly one row that reads back as the returned event, and the journal
  is well formed again.\<close>

theorem append_event_appends:
  assumes "journal_ok E (journal_events s)" and "\<not> fault_at E (Suc (Suc (tick s)))"
  shows "\<exists>ev r t. append_event E k run_id session_id correlation_id payload s = (Inr ev, t) \<and>
    journal_events t = journal_events s @ [r] \<and> journal_ok E (journal_events t) \<and>
    je_sequence ev = 1 + int (length (journal_events s)) \<and> je_kind ev = k \<and>
    je_payload ev = payload \<and> je_hash ev = jr_hash r \<and>
    jr_payload_json r = json_text E payload \<and> row_to_event E r =
      ev\<lparr>je_payload := (case json_parse E (json_text E payload) of None \<Rightarrow> jobj [] | Some v \<Rightarrow> v)\<rparr>"
proof -
  define s1 where "s1 = s\<lparr>tick := Suc (Suc (Suc (tick s)))\<rparr>"
  define i where "i = fresh_id ''event'' (uuid_at E (tick s))"
  define c where "c = clock_at E (Suc (tick s))"
  have run: "append_event E k run_id session_id correlation_id payload s =
      append_row E i c k run_id session_id correlation_id payload s1"
    using assms(2)
    by (simp add: append_event_def op_simps tx_def append_row_result Let_def s1_def i_def c_def)
  have same: "journal_events s1 = journal_events s" by (simp add: s1_def)
  have "journal_ok E (journal_events (snd (append_row E i c k run_id session_id
      correlation_id payload s1)))"
    using obeys_evolvesD(2) [OF evolves_append_row surjective_pairing] assms(1) same by metis
  moreover have "(case last_row (journal_events s) of None \<Rightarrow> 1 | Some r \<Rightarrow> jr_sequence r + 1) =
      1 + int (length (journal_events s))"
    using append_row_ok [OF assms(1)] by (simp add: row_ok_def)
  ultimately show ?thesis
    unfolding run by (auto simp: append_row_result Let_def same row_to_event_def
        parse_kind_storage_name)
qed

text \<open>A journal of one event in the sample environment.\<close>

definition sample_journal :: store where
  "sample_journal = snd (append_event sample_env RunStarted (Some ''run_1'') None None
     (jobj [(''run_id'', JStr ''run_1''), (''round'', jnat 3)]) empty_store)"

theorem append_event_appends_witness:
  "\<exists>ev r t. append_event sample_env RunCompleted (Some ''run_1'') None None (jobj []) sample_journal
     = (Inr ev, t) \<and> journal_events t = journal_events sample_journal @ [r] \<and>
     je_sequence ev = 2 \<and> je_kind ev = RunCompleted"
proof -
  have "journal_ok sample_env (journal_events sample_journal)" by code_simp
  moreover have "1 + int (length (journal_events sample_journal)) = 2" by code_simp
  ultimately show ?thesis
    using append_event_appends [of sample_env sample_journal RunCompleted "Some ''run_1''" None
        None "jobj []"] by auto
qed

text \<open>Verification accepts every well-formed journal whose payload texts are stable: when
  SQLite does not fail, \<open>verify_hash_chain\<close> returns \<open>true\<close> and changes no table.\<close>

theorem verify_accepts_well_formed:
  assumes "journal_ok E (journal_events s)"
    and "\<forall>r \<in> set (journal_events s). stable_payload E r" and "\<not> fault_at E (tick s)"
  shows "verify_hash_chain E s = (Inr True, s\<lparr>tick := Suc (tick s)\<rparr>)"
proof -
  from assms(1) have "events_of E (journal_events s) = map (row_to_event E) (journal_events s)"
    by (simp add: events_of_def journal_ok_sorted)
  moreover have "verify_from E None (map (row_to_event E) (journal_events s))"
    using assms(1,2) by (intro verify_from_chain) (simp_all add: journal_ok_def)
  ultimately show ?thesis
    using assms(3) by (simp add: verify_hash_chain_result)
qed

theorem verify_accepts_well_formed_witness:
  "fst (verify_hash_chain sample_env sample_journal) = Inr True \<and>
   length (journal_events sample_journal) = 1"
proof -
  have "journal_ok sample_env (journal_events sample_journal)" by code_simp
  moreover have "\<forall>r \<in> set (journal_events sample_journal). stable_payload sample_env r"
    by code_simp
  moreover have "length (journal_events sample_journal) = 1" by code_simp
  ultimately show ?thesis
    using verify_accepts_well_formed [of sample_env sample_journal] by simp
qed



text \<open>The hash does not cover the identity and the links of an event: any change of the
  columns \<open>event_id\<close>, \<open>run_id\<close>, \<open>session_id\<close>, \<open>correlation_id\<close> and \<open>created_at\<close>, in any
  rows, leaves the verdict of \<open>verify_hash_chain\<close> as it was.\<close>

theorem verify_ignores_metadata:
  "fst (verify_hash_chain E (s\<lparr>journal_events := map (\<lambda>r. r\<lparr>jr_event_id := f1 r,
      jr_run_id := f2 r, jr_session_id := f3 r, jr_correlation_id := f4 r,
      jr_created_at := f5 r\<rparr>) (journal_events s)\<rparr>)) = fst (verify_hash_chain E s)"
proof -
  let ?g = "\<lambda>r. r\<lparr>jr_event_id := f1 r, jr_run_id := f2 r, jr_session_id := f3 r,
      jr_correlation_id := f4 r, jr_created_at := f5 r\<rparr>"
  have sorted: "sort_key jr_sequence (map ?g t) = map ?g (sort_key jr_sequence t)" for t
    by (rule sort_key_map) simp
  have "verify_from E p (map (row_to_event E) (map ?g t)) =
      verify_from E p (map (row_to_event E) t)" for p t
    by (induction t arbitrary: p) (simp_all add: row_to_event_def)
  then show ?thesis
    by (simp add: verify_hash_chain_def events_def tx_def op_simps Let_def events_of_def sorted)
qed

end
