(* ===== verification/Journal_Store.thy ===== *)
theory Journal_Store
  imports Hash_Chain
begin

section \<open>Sessions, runs, ingress and continuations\<close>

text \<open>
  The operations of \<open>JournalStore\<close> in \<open>src/src/journal/sqlite.rs\<close> on the tables \<open>sessions\<close>,
  \<open>runs\<close>, \<open>ingress_dedup\<close> and \<open>session_continuations\<close>, and \<open>insert_run_tx\<close> of \<open>queue.rs\<close>. A statement
  outside a transaction is a transaction of its own. Every operation evolves the store: the
  lemmas \<open>evolves_*\<close> are the frame facts that the components above use.
\<close>

subsection \<open>Ingress and sessions\<close>

definition reserve_ingress :: "env \<Rightarrow> string \<Rightarrow> string \<Rightarrow> EventId \<Rightarrow> bool jop" where
  "reserve_ingress E source external_event_id event_id =
     op_bind (utc_now E) (\<lambda>now.
     op_bind (tx E (insert_dedup_or_ignore \<lparr>dd_source = source,
       dd_external_event_id = external_event_id, dd_event_id = event_id,
       dd_first_seen_at = now\<rparr>)) (\<lambda>changed.
     op_return (changed = 1)))"

definition session_status_of :: "string \<Rightarrow> SessionStatus" where
  "session_status_of t = (if t = ''Archived'' then Archived else Active)"

definition find_session :: "env \<Rightarrow> SessionTarget \<Rightarrow> Session option jop" where
  "find_session E target =
     tx E (op_query (\<lambda>s. map_option (\<lambda>r.
       \<lparr>s_id = sr_id r, s_agent_id = st_agent_id target, s_channel = st_channel target,
        s_conversation_key = st_conversation_key target, s_summary = None,
        s_summarized_until_event_id = None, s_last_active_at = sr_last_active_at r,
        s_status = session_status_of (sr_status r), s_version = sr_version r\<rparr>)
       (find (\<lambda>r. sr_agent_id r = st_agent_id target \<and>
                sr_channel r = channel_debug (st_channel target) \<and>
                sr_conversation_key r = st_conversation_key target) (sessions s))))"

definition get_or_create_session :: "env \<Rightarrow> SessionTarget \<Rightarrow> Session jop" where
  "get_or_create_session E target =
     op_bind (find_session E target) (\<lambda>found.
     case found of
       Some session \<Rightarrow> op_return session
     | None \<Rightarrow>
         op_bind (new_id E ''session'') (\<lambda>i.
         op_bind (utc_now E) (\<lambda>now.
         let session = \<lparr>s_id = i, s_agent_id = st_agent_id target,
               s_channel = st_channel target, s_conversation_key = st_conversation_key target,
               s_summary = None, s_summarized_until_event_id = None, s_last_active_at = now,
               s_status = Active, s_version = 1\<rparr> in
         op_then (tx E (insert_session \<lparr>sr_id = s_id session, sr_agent_id = s_agent_id session,
             sr_channel = channel_debug (s_channel session),
             sr_conversation_key = s_conversation_key session,
             sr_last_active_at = s_last_active_at session,
             sr_status = session_status_debug (s_status session),
             sr_version = s_version session\<rparr>))
           (op_return session))))"

definition channel_of_text :: "string \<Rightarrow> ChannelKind option" where
  "channel_of_text t =
     (if t = ''Cli'' then Some ChannelKind.Cli
      else if t = ''Feishu'' then Some ChannelKind.Feishu else None)"

definition session_by_id :: "env \<Rightarrow> SessionId \<Rightarrow> Session option jop" where
  "session_by_id E session_id =
     tx E (op_bind (op_query (\<lambda>s. find (\<lambda>r. sr_id r = session_id) (sessions s))) (\<lambda>row.
     case row of
       None \<Rightarrow> op_return None
     | Some r \<Rightarrow>
         (case channel_of_text (sr_channel r) of
            None \<Rightarrow> op_bail (''unknown channel: '' @ sr_channel r)
          | Some ch \<Rightarrow> op_return (Some \<lparr>s_id = sr_id r, s_agent_id = sr_agent_id r,
              s_channel = ch, s_conversation_key = sr_conversation_key r, s_summary = None,
              s_summarized_until_event_id = None, s_last_active_at = sr_last_active_at r,
              s_status = session_status_of (sr_status r), s_version = sr_version r\<rparr>))))"

subsection \<open>Runs\<close>

fun exhaustion_as_str :: "ExhaustionAction \<Rightarrow> string" where
  "exhaustion_as_str Terminate = ''terminate''"
| "exhaustion_as_str Yield = ''yield''"

text \<open>The columns a run is stored as; \<open>v as i64\<close> reads the bits of a \<open>u64\<close> as signed.\<close>

definition run_row :: "Run \<Rightarrow> RunRow" where
  "run_row r =
     \<lparr>rr_id = r_id r, rr_session_id = r_session_id r, rr_agent_id = r_agent_id r,
      rr_trigger_event_id = r_trigger_event_id r, rr_principal = r_principal r,
      rr_parent_run_id = r_parent_run_id r, rr_delegated_by = r_delegated_by r,
      rr_status = run_status_debug (r_status r), rr_created_at = r_created_at r,
      rr_updated_at = r_updated_at r,
      rr_registry_snapshot_id =
        (if r_registry_snapshot_id r = [] then None else Some (r_registry_snapshot_id r)),
      rr_mode = r_mode r, rr_budget_hook_id = r_budget_hook_id r,
      rr_budget_max_tool_rounds = map_option uint (r_budget_max_tool_rounds r),
      rr_budget_max_wall_time_ms = map_option sint (r_budget_max_wall_time_ms r),
      rr_budget_exhaustion_action = map_option exhaustion_as_str (r_budget_exhaustion_action r)\<rparr>"

definition insert_run_tx :: "Run \<Rightarrow> unit jop" where
  "insert_run_tx r = insert_run_row (run_row r)"

definition insert_run :: "env \<Rightarrow> Run \<Rightarrow> unit jop" where
  "insert_run E r = tx E (insert_run_row (run_row r))"

definition insert_run_and_start :: "env \<Rightarrow> Run \<Rightarrow> SessionId \<Rightarrow> string \<Rightarrow> RunId \<Rightarrow> unit jop" where
  "insert_run_and_start E r session_id correlation_id trigger_run_id =
     tx E (op_then (insert_run_tx r)
       (op_then (append_event_tx E RunStarted (Some (r_id r)) (Some session_id)
           (Some correlation_id)
           (jobj [(''run_id'', JStr (r_id r)),
                  (''trigger_event_id'', JStr (r_trigger_event_id r)),
                  (''principal_id'', JStr (rp_principal_id (r_principal r))),
                  (''continuation_of'', JStr trigger_run_id)]))
         (op_return ())))"

definition is_kind :: "JournalEventKind \<Rightarrow> JournalRow \<Rightarrow> bool" where
  "is_kind k r \<longleftrightarrow> jr_kind r = storage_name k"

definition run_has_started :: "env \<Rightarrow> RunId \<Rightarrow> bool jop" where
  "run_has_started E run_id =
     tx E (op_query (\<lambda>s. 0 < count_where (\<lambda>r. jr_run_id r = Some run_id \<and> is_kind RunStarted r)
       (journal_events s)))"

definition set_run_status :: "RunId \<Rightarrow> string \<Rightarrow> instant \<Rightarrow> unit jop" where
  "set_run_status run_id status now =
     op_then (update_runs (\<lambda>r. rr_id r = run_id)
        (\<lambda>r. r\<lparr>rr_status := status, rr_updated_at := now\<rparr>))
       (op_return ())"

definition update_run_status :: "env \<Rightarrow> RunId \<Rightarrow> string \<Rightarrow> unit jop" where
  "update_run_status E run_id status =
     op_bind (utc_now E) (\<lambda>now. tx E (set_run_status run_id status now))"

definition complete_run :: "env \<Rightarrow> RunId \<Rightarrow> unit jop" where
  "complete_run E run_id =
     op_bind (utc_now E) (\<lambda>now. tx E (set_run_status run_id ''Completed'' now))"

definition fail_run :: "env \<Rightarrow> RunId \<Rightarrow> unit jop" where
  "fail_run E run_id =
     op_bind (utc_now E) (\<lambda>now. tx E (set_run_status run_id ''Failed'' now))"

definition status_of_run :: "RunId \<Rightarrow> store \<Rightarrow> string option" where
  "status_of_run run_id s = map_option rr_status (find (\<lambda>r. rr_id r = run_id) (runs s))"

definition run_status :: "env \<Rightarrow> RunId \<Rightarrow> string option jop" where
  "run_status E run_id = tx E (op_query (status_of_run run_id))"

text \<open>
  \<open>json_extract(payload_json, '$.exhaustion_action') = 'yield'\<close>: SQLite reports an error on a text
  that is no JSON.
\<close>

definition run_yielded :: "env \<Rightarrow> RunId \<Rightarrow> bool jop" where
  "run_yielded E run_id =
     tx E (op_bind (op_query (\<lambda>s. filter (\<lambda>r. jr_run_id r = Some run_id \<and>
         (is_kind ToolBudgetExhausted r \<or> is_kind ToolLoopWallClockExceeded r))
         (journal_events s))) (\<lambda>rows.
       if list_ex (\<lambda>r. json_parse E (jr_payload_json r) = None) rows
       then op_bail ''malformed JSON''
       else op_return (0 < count_where (\<lambda>r.
         Option.bind (json_parse E (jr_payload_json r)) (\<lambda>v. jget v ''exhaustion_action'')
           = Some (JStr ''yield'')) rows)))"

definition run_status_of :: "string \<Rightarrow> RunStatus" where
  "run_status_of t =
     (if t = ''Running'' then RunStatus.Running
      else if t = ''WaitingDispatch'' then WaitingDispatch
      else if t = ''Completed'' then Completed
      else if t = ''Failed'' then RunStatus.Failed
      else if t = ''AwaitingApproval'' then AwaitingApproval
      else RunStatus.Unknown)"

definition run_of_row :: "RunRow \<Rightarrow> Run" where
  "run_of_row r =
     \<lparr>r_id = rr_id r, r_session_id = rr_session_id r, r_agent_id = rr_agent_id r,
      r_trigger_event_id = rr_trigger_event_id r, r_principal = rr_principal r,
      r_parent_run_id = rr_parent_run_id r, r_delegated_by = rr_delegated_by r,
      r_status = run_status_of (rr_status r), r_created_at = rr_created_at r,
      r_updated_at = rr_updated_at r,
      r_registry_snapshot_id =
        (case rr_registry_snapshot_id r of None \<Rightarrow> [] | Some i \<Rightarrow> i),
      r_mode = Default, r_budget_hook_id = None, r_budget_hook_version = None,
      r_budget_decision_digest = None, r_budget_max_tool_rounds = None,
      r_budget_max_wall_time_ms = None, r_budget_exhaustion_action = None\<rparr>"

definition run_by_id :: "env \<Rightarrow> RunId \<Rightarrow> Run option jop" where
  "run_by_id E run_id =
     tx E (op_query (\<lambda>s. map_option run_of_row (find (\<lambda>r. rr_id r = run_id) (runs s))))"

subsection \<open>Continuations\<close>

definition worker_job_id :: "EventId \<Rightarrow> string" where
  "worker_job_id source_event_id = ''job:deliver:'' @ source_event_id"

definition new_job :: "string \<Rightarrow> EventId \<Rightarrow> instant \<Rightarrow> WorkerJobRow" where
  "new_job job_type source_event_id now =
     \<lparr>wj_job_id = worker_job_id source_event_id, wj_job_type = job_type,
      wj_source_event_id = source_event_id, wj_status = worker_as_str Queued, wj_attempts = 0,
      wj_available_at = now, wj_locked_by = None, wj_locked_until = None, wj_last_error = None,
      wj_created_at = now, wj_updated_at = now\<rparr>"

definition accept_session_continuation ::
  "env \<Rightarrow> string \<Rightarrow> SessionId \<Rightarrow> RunId \<Rightarrow> string \<Rightarrow> string \<Rightarrow> RunId \<Rightarrow>
   (string \<times> string) option jop" where
  "accept_session_continuation E request_id session_id trigger_run_id requesting_principal
      idempotency_key next_run_id =
     op_bind (utc_now E) (\<lambda>now.
     tx E (op_bind (op_query (\<lambda>s. find (\<lambda>r. sc_trigger_run_id r = trigger_run_id)
         (session_continuations s))) (\<lambda>existing.
       case existing of
         Some _ \<Rightarrow> op_return None
       | None \<Rightarrow>
           op_bind (append_event_tx E SessionContinuationRequested None (Some session_id)
               (Some request_id)
               (jobj [(''request_id'', JStr request_id),
                      (''trigger_run_id'', JStr trigger_run_id),
                      (''session_id'', JStr session_id),
                      (''requesting_principal'', JStr requesting_principal),
                      (''idempotency_key'', JStr idempotency_key),
                      (''next_run_id'', JStr next_run_id)])) (\<lambda>appended.
           let event_id = je_event_id appended in
           op_then (insert_continuation \<lparr>sc_idempotency_key = idempotency_key,
               sc_session_id = session_id, sc_trigger_run_id = trigger_run_id,
               sc_event_id = event_id, sc_next_run_id = next_run_id, sc_created_at = now\<rparr>)
           (op_then (insert_job (new_job ''schedule_continuation'' event_id now))
           (op_return (Some (event_id, next_run_id))))))))"

definition continuation_by_trigger_run :: "env \<Rightarrow> RunId \<Rightarrow> (string \<times> string) option jop" where
  "continuation_by_trigger_run E trigger_run_id =
     tx E (op_query (\<lambda>s. map_option (\<lambda>r. (sc_event_id r, sc_next_run_id r))
       (find (\<lambda>r. sc_trigger_run_id r = trigger_run_id) (session_continuations s))))"

definition continuation_request_by_event_id :: "env \<Rightarrow> string \<Rightarrow> JournalEvent option jop" where
  "continuation_request_by_event_id E event_id =
     tx E (op_query (\<lambda>s. map_option (row_to_event E) (last_row (filter (\<lambda>r.
       jr_event_id r = event_id \<and> is_kind SessionContinuationRequested r)
       (journal_events s)))))"

subsection \<open>Backfill of message deduplication\<close>

definition feishu_message_key :: "env \<Rightarrow> JournalRow \<Rightarrow> string option" where
  "feishu_message_key E r =
     (case json_parse E (jr_payload_json r) of
        None \<Rightarrow> None
      | Some payload \<Rightarrow>
          if str_field payload ''source'' \<noteq> Some ''feishu'' then None
          else case str_field payload ''message_id'' of
              None \<Rightarrow> None
            | Some m \<Rightarrow> if m = [] then None else Some (''message:'' @ m))"

definition backfill_feishu_message_dedup :: "env \<Rightarrow> unit jop" where
  "backfill_feishu_message_dedup E =
     op_bind (tx E (op_query (\<lambda>s. filter (is_kind IngressAccepted) (journal_events s)))) (\<lambda>rows.
     op_for rows (\<lambda>r.
       case feishu_message_key E r of
         None \<Rightarrow> op_return ()
       | Some key \<Rightarrow> op_then (tx E (insert_dedup_or_ignore \<lparr>dd_source = ''feishu'',
           dd_external_event_id = key, dd_event_id = jr_event_id r,
           dd_first_seen_at = jr_created_at r\<rparr>)) (op_return ())))"

subsection \<open>Every operation evolves the store\<close>

lemma evolves_store_ops:
  "obeys (evolves E) (reserve_ingress E a b c)"
  "obeys (evolves E) (find_session E target)"
  "obeys (evolves E) (session_by_id E i)"
  "obeys (evolves E) (insert_run E r)"
  "obeys (evolves E) (run_has_started E i)"
  "obeys (evolves E) (run_status E i)"
  "obeys (evolves E) (run_yielded E i)"
  "obeys (evolves E) (run_by_id E i)"
  "obeys (evolves E) (continuation_by_trigger_run E i)"
  "obeys (evolves E) (continuation_request_by_event_id E i)"
  unfolding reserve_ingress_def find_session_def session_by_id_def insert_run_def
    run_has_started_def run_status_def run_yielded_def run_by_id_def
    continuation_by_trigger_run_def continuation_request_by_event_id_def
  by (intro evolves_intros)+

lemma evolves_get_or_create_session: "obeys (evolves E) (get_or_create_session E target)"
  unfolding get_or_create_session_def by (intro evolves_store_ops evolves_intros)

lemma evolves_insert_run_and_start: "obeys (evolves E) (insert_run_and_start E r a b c)"
  unfolding insert_run_and_start_def insert_run_tx_def by (intro evolves_intros)

lemma evolves_set_run_status: "obeys (evolves E) (set_run_status i st now)"
  unfolding set_run_status_def by (intro evolves_intros) (simp add: run_core_def)

lemma evolves_run_updates:
  "obeys (evolves E) (update_run_status E i st)"
  "obeys (evolves E) (complete_run E i)"
  "obeys (evolves E) (fail_run E i)"
  unfolding update_run_status_def complete_run_def fail_run_def
  by (intro evolves_set_run_status evolves_intros)+

lemma evolves_accept_session_continuation:
  "obeys (evolves E) (accept_session_continuation E a b c d e f)"
  unfolding accept_session_continuation_def by (intro evolves_intros)

lemma evolves_backfill: "obeys (evolves E) (backfill_feishu_message_dedup E)"
  unfolding backfill_feishu_message_dedup_def by (intro evolves_intros)

lemmas evolves_store_intros = evolves_store_ops evolves_get_or_create_session
  evolves_insert_run_and_start evolves_set_run_status evolves_run_updates
  evolves_accept_session_continuation evolves_intros

subsection \<open>Rows persist\<close>

lemma find_prefix: "prefix t u \<Longrightarrow> find p t = Some r \<Longrightarrow> find p u = Some r"
  by (auto simp: prefix_def find_Some_iff nth_append)

lemma find_append: "find p (t @ u) = (case find p t of None \<Rightarrow> find p u | Some r \<Rightarrow> Some r)"
  by (induction t) auto

lemma find_None_list_ex: "find p t = None \<longleftrightarrow> \<not> list_ex p t"
  by (auto simp: find_None_iff list_ex_iff)

lemma reserve_ingress_result:
  assumes "reserve_ingress E source ext event_id s = (Inr b, t)"
  shows "b \<longleftrightarrow> \<not> list_ex (\<lambda>r. dd_source r = source \<and> dd_external_event_id r = ext) (ingress_dedup s)"
    and "list_ex (\<lambda>r. dd_source r = source \<and> dd_external_event_id r = ext) (ingress_dedup t)"
  using assms unfolding reserve_ingress_def
  by (auto simp: op_simps tx_def Let_def split: if_splits)

lemma reserve_ingress_again:
  assumes "list_ex (\<lambda>r. dd_source r = source \<and> dd_external_event_id r = ext) (ingress_dedup u)"
    and "\<not> fault_at E (Suc (tick u))"
  shows "\<exists>v. reserve_ingress E source ext event_id u = (Inr False, v) \<and> unchanged u v"
  using assms unfolding reserve_ingress_def by (simp add: op_simps tx_def Let_def unchanged_def)

text \<open>A run keeps its immutable columns under every evolution.\<close>

lemma run_persists:
  assumes "tables_grow s t" and "find (\<lambda>r. rr_id r = i) (runs s) = Some r"
    and "distinct (map rr_id (runs s))"
  shows "\<exists>r'. find (\<lambda>r. rr_id r = i) (runs t) = Some r' \<and> run_core r' = run_core r"
proof -
  from assms(1) have pre: "prefix (map run_core (runs s)) (map run_core (runs t))"
    by (simp add: tables_grow_def grows_by_def)
  have core: "map_option run_core (find (\<lambda>r. rr_id r = i) u) = find (\<lambda>r. rr_id r = i) (map run_core u)"
    for u by (induction u) (simp_all add: run_core_def)
  from assms(2) core [of "runs s"] have "find (\<lambda>r. rr_id r = i) (map run_core (runs s)) = Some (run_core r)"
    by simp
  with pre have "find (\<lambda>r. rr_id r = i) (map run_core (runs t)) = Some (run_core r)"
    by (rule find_prefix)
  with core [of "runs t"] show ?thesis by (simp add: map_option_eq_Some)
qed

lemma continuation_persists:
  "evolves E s t \<Longrightarrow> find p (session_continuations s) = Some r \<Longrightarrow>
   find p (session_continuations t) = Some r"
  by (auto simp: evolves_def tables_grow_def grows_by_def intro: find_prefix)

lemma dedup_persists:
  "evolves E s t \<Longrightarrow> list_ex p (ingress_dedup s) \<Longrightarrow> list_ex p (ingress_dedup t)"
  by (auto simp: evolves_def tables_grow_def grows_by_def prefix_def)

lemma session_persists:
  "evolves E s t \<Longrightarrow> find p (sessions s) = Some r \<Longrightarrow> find p (sessions t) = Some r"
  by (auto simp: evolves_def tables_grow_def grows_by_def intro: find_prefix)

subsection \<open>Outcomes\<close>

lemma accept_session_continuation_Some:
  assumes "accept_session_continuation E request_id session_id trigger_run_id caller key nxt s
    = (Inr (Some (e, n)), t)"
  shows "n = nxt \<and> find (\<lambda>r. sc_trigger_run_id r = trigger_run_id) (session_continuations s) = None \<and>
    (\<exists>r j. session_continuations t = session_continuations s @ [r] \<and>
       sc_trigger_run_id r = trigger_run_id \<and> sc_event_id r = e \<and> sc_next_run_id r = nxt \<and>
       sc_session_id r = session_id \<and>
       worker_jobs t = worker_jobs s @ [new_job ''schedule_continuation'' e (clock_at E (tick s))] \<and>
       journal_events t = journal_events s @ [j] \<and> jr_event_id j = e \<and>
       is_kind SessionContinuationRequested j \<and> jr_session_id j = Some session_id \<and>
       jr_correlation_id j = Some request_id)"
  using assms unfolding accept_session_continuation_def append_event_tx_def
  by (auto simp: op_simps append_row_result Let_def is_kind_def dest!: tx_InrD
      split: option.splits if_splits)

lemma accept_session_continuation_dup:
  assumes "find (\<lambda>r. sc_trigger_run_id r = trigger_run_id) (session_continuations s) = Some r"
    and "\<not> fault_at E (Suc (tick s))"
  shows "\<exists>t. accept_session_continuation E request_id session_id trigger_run_id caller key nxt s
    = (Inr None, t) \<and> unchanged s t"
  using assms unfolding accept_session_continuation_def
  by (simp add: op_simps tx_def Let_def unchanged_def)

subsection \<open>Properties\<close>

text \<open>C7: A trigger run is continued at most once. After \<open>accept_session_continuation\<close> accepts a
  trigger run, then in every later state of the journal another acceptance of the same trigger
  run, by whatever request, key or proposed run, is answered with \<open>None\<close> and changes no table, and
  \<open>continuation_by_trigger_run\<close> returns the event and the next run allocated at first.\<close>

theorem continuation_at_most_once:
  assumes "accept_session_continuation E request_id session_id trigger_run_id caller key nxt s
      = (Inr (Some (e, n)), t)"
    and "evolves E t u" and "\<not> fault_at E (tick u)" and "\<not> fault_at E (Suc (tick u))"
  shows "(\<exists>v. accept_session_continuation E request_id' session_id' trigger_run_id caller' key'
      nxt' u = (Inr None, v) \<and> unchanged u v) \<and>
    fst (continuation_by_trigger_run E trigger_run_id u) = Inr (Some (e, nxt))"
proof -
  from accept_session_continuation_Some [OF assms(1)] obtain r where
    r: "find (\<lambda>r. sc_trigger_run_id r = trigger_run_id) (session_continuations t) = Some r"
      "sc_event_id r = e" "sc_next_run_id r = nxt"
    by (auto simp: find_append)
  from continuation_persists [OF assms(2) r(1)]
  have u: "find (\<lambda>r. sc_trigger_run_id r = trigger_run_id) (session_continuations u) = Some r" .
  show ?thesis
    using accept_session_continuation_dup [OF u assms(4)] u r(2,3) assms(3)
    by (simp add: continuation_by_trigger_run_def tx_query)
qed

definition sample_continued :: "(string + (string \<times> string) option) \<times> store" where
  "sample_continued = accept_session_continuation sample_env ''req'' ''session_1'' ''run_1''
     ''principal_1'' ''continuation:run_1'' ''run_2'' empty_store"

theorem continuation_at_most_once_witness:
  "(\<exists>v. accept_session_continuation sample_env ''req2'' ''session_1'' ''run_1'' ''principal_2''
      ''other'' ''run_3'' (snd sample_continued) = (Inr None, v) \<and>
      unchanged (snd sample_continued) v) \<and>
   fst (continuation_by_trigger_run sample_env ''run_1'' (snd sample_continued)) =
     Inr (Some (''event_2'', ''run_2''))"
proof -
  have "fst sample_continued = Inr (Some (''event_2'', ''run_2''))" by code_simp
  then have "accept_session_continuation sample_env ''req'' ''session_1'' ''run_1''
     ''principal_1'' ''continuation:run_1'' ''run_2'' empty_store =
     (Inr (Some (''event_2'', ''run_2'')), snd sample_continued)"
    by (simp add: sample_continued_def prod_eq_iff)
  from continuation_at_most_once [OF this ev.frame_refl] show ?thesis by simp
qed

text \<open>Creating a run and starting it is atomic: \<open>insert_run_and_start\<close> either fails and leaves
  every table as it was, or stores the run and appends exactly one event, its \<open>RunStarted\<close>.\<close>

theorem insert_run_and_start_atomic:
  "case insert_run_and_start E r session_id correlation_id trigger_run_id s of
     (Inl _, t) \<Rightarrow> unchanged s t
   | (Inr _, t) \<Rightarrow> runs t = runs s @ [run_row r] \<and>
       (\<exists>j. journal_events t = journal_events s @ [j] \<and> is_kind RunStarted j \<and>
          jr_run_id j = Some (r_id r) \<and> jr_session_id j = Some session_id)"
proof (cases "insert_run_and_start E r session_id correlation_id trigger_run_id s")
  case (Pair res t)
  show ?thesis
  proof (cases res)
    case (Inl e)
    with Pair show ?thesis
      by (auto simp: insert_run_and_start_def dest: tx_InlD)
  next
    case (Inr x)
    with Pair show ?thesis
      by (auto simp: insert_run_and_start_def insert_run_tx_def append_event_tx_def op_simps
          append_row_result Let_def is_kind_def dest!: tx_InrD split: if_splits)
  qed
qed

text \<open>An external event is reserved once. \<open>reserve_ingress\<close> answers \<open>true\<close> exactly when the pair of
  source and external id was never reserved; whatever it answered, in every later state it
  answers \<open>false\<close> for that pair and changes no table.\<close>

theorem reserve_ingress_once:
  assumes "reserve_ingress E source ext event_id s = (Inr b, t)"
    and "evolves E t u" and "\<not> fault_at E (Suc (tick u))"
  shows "(b \<longleftrightarrow> \<not> list_ex (\<lambda>r. dd_source r = source \<and> dd_external_event_id r = ext) (ingress_dedup s))
    \<and> (\<exists>v. reserve_ingress E source ext event_id' u = (Inr False, v) \<and> unchanged u v)"
  using reserve_ingress_result [OF assms(1)] assms(3)
    reserve_ingress_again [OF dedup_persists [OF assms(2)]] by blast

definition sample_reserved :: "(string + bool) \<times> store" where
  "sample_reserved = reserve_ingress sample_env ''feishu'' ''ev1'' ''event_x'' empty_store"

theorem reserve_ingress_once_witness:
  "fst sample_reserved = Inr True \<and>
   (\<exists>v. reserve_ingress sample_env ''feishu'' ''ev1'' ''event_y'' (snd sample_reserved)
      = (Inr False, v) \<and> unchanged (snd sample_reserved) v)"
proof -
  have b: "fst sample_reserved = Inr True" by code_simp
  then have "reserve_ingress sample_env ''feishu'' ''ev1'' ''event_x'' empty_store =
      (Inr True, snd sample_reserved)"
    by (simp add: sample_reserved_def prod_eq_iff)
  from reserve_ingress_once [OF this ev.frame_refl] b show ?thesis by simp
qed

text \<open>A conversation has one session. After \<open>get_or_create_session\<close> returned a session for a
  target, every later call for the same target returns a session with the same id and writes
  nothing.\<close>

theorem get_or_create_session_stable:
  assumes "get_or_create_session E target s = (Inr session, t)"
    and "evolves E t u" and "\<not> fault_at E (tick u)"
  shows "\<exists>session' v. get_or_create_session E target u = (Inr session', v) \<and>
    s_id session' = s_id session \<and> s_channel session' = st_channel target \<and> unchanged u v"
proof -
  let ?p = "\<lambda>r. sr_agent_id r = st_agent_id target \<and>
    sr_channel r = channel_debug (st_channel target) \<and>
    sr_conversation_key r = st_conversation_key target"
  obtain r where r: "find ?p (sessions t) = Some r" "sr_id r = s_id session"
  proof (cases "find ?p (sessions s)")
    case None
    with assms(1) that show thesis
      unfolding get_or_create_session_def find_session_def
      by (auto simp: op_simps tx_def Let_def find_append split: if_splits)
  next
    case (Some r)
    with assms(1) that show thesis
      unfolding get_or_create_session_def find_session_def
      by (auto simp: op_simps tx_def Let_def split: if_splits)
  qed
  from session_persists [OF assms(2) r(1)] r(2) assms(3) show ?thesis
    unfolding get_or_create_session_def find_session_def
    by (simp add: op_simps tx_def Let_def unchanged_def)
qed

definition sample_target :: SessionTarget where
  "sample_target = \<lparr>st_agent_id = ''main'', st_channel = ChannelKind.Feishu,
     st_conversation_key = ''oc_1''\<rparr>"

theorem get_or_create_session_stable_witness:
  "\<exists>session session' t v. get_or_create_session sample_env sample_target empty_store
      = (Inr session, t) \<and> s_id session = ''session_1'' \<and>
    get_or_create_session sample_env sample_target t = (Inr session', v) \<and>
    s_id session' = ''session_1'' \<and> unchanged t v"
proof -
  obtain session t where run: "get_or_create_session sample_env sample_target empty_store
      = (Inr session, t)" "s_id session = ''session_1''"
  proof -
    have "map_sum id s_id (fst (get_or_create_session sample_env sample_target empty_store))
        = Inr ''session_1''" by code_simp
    then show thesis
      using that by (cases "get_or_create_session sample_env sample_target empty_store";
          cases "fst (get_or_create_session sample_env sample_target empty_store)") auto
  qed
  from get_or_create_session_stable [OF run(1) ev.frame_refl] run show ?thesis by auto
qed

lemma run_status_of_debug [simp]: "run_status_of (run_status_debug st) = st"
  by (cases st) (simp_all add: run_status_of_def)

text \<open>A run that was inserted is read back: \<open>run_by_id\<close> returns the run with the fields it loads,
  and with the mode and the frozen budget reset to their defaults.\<close>

theorem insert_run_read_back:
  assumes "insert_run E r s = (Inr (), t)" and "\<not> fault_at E (tick t)"
  shows "fst (run_by_id E (r_id r) t) = Inr (Some (r\<lparr>r_mode := Default, r_budget_hook_id := None,
    r_budget_hook_version := None, r_budget_decision_digest := None,
    r_budget_max_tool_rounds := None, r_budget_max_wall_time_ms := None,
    r_budget_exhaustion_action := None\<rparr>))"
proof -
  have t: "runs t = runs s @ [run_row r]" and fresh: "\<not> list_ex (\<lambda>x. rr_id x = r_id r) (runs s)"
    using assms(1) unfolding insert_run_def
    by (auto simp: op_simps list_ex_iff run_row_def dest!: tx_InrD split: if_splits)
  from fresh have "find (\<lambda>x. rr_id x = r_id r) (runs s) = None"
    by (simp add: find_None_list_ex)
  then have "find (\<lambda>x. rr_id x = r_id r) (runs t) = Some (run_row r)"
    by (simp add: t find_append run_row_def)
  with assms(2) show ?thesis
    by (simp add: run_by_id_def tx_query) (cases r; simp add: run_of_row_def run_row_def)
qed

definition sample_principal :: RunPrincipal where
  "sample_principal = \<lparr>rp_principal_id = ''principal_1'', rp_subject = LocalUser,
     rp_source = PrincipalSource.Cli, rp_grants = [], rp_requester_id = None\<rparr>"

definition sample_run :: Run where
  "sample_run = \<lparr>r_id = ''run_1'', r_session_id = ''session_1'', r_agent_id = ''main'',
     r_trigger_event_id = ''event_1'', r_principal = sample_principal, r_parent_run_id = None,
     r_delegated_by = None, r_status = RunStatus.Running, r_created_at = 0, r_updated_at = 0,
     r_registry_snapshot_id = ''snap'', r_mode = Default, r_budget_hook_id = None,
     r_budget_hook_version = None, r_budget_decision_digest = None,
     r_budget_max_tool_rounds = Some 8, r_budget_max_wall_time_ms = None,
     r_budget_exhaustion_action = Some Yield\<rparr>"

theorem insert_run_read_back_witness:
  "fst (run_by_id sample_env ''run_1'' (snd (insert_run sample_env sample_run empty_store)))
   = Inr (Some (sample_run\<lparr>r_budget_max_tool_rounds := None, r_budget_exhaustion_action := None\<rparr>))"
proof -
  have "insert_run sample_env sample_run empty_store =
      (Inr (), snd (insert_run sample_env sample_run empty_store))"
    by (rule prod_eqI) (simp_all add: insert_run_def tx_def op_simps empty_store_def Let_def)
  from insert_run_read_back [OF this] show ?thesis by (simp add: sample_run_def)
qed

end
