(* ===== verification/Retry_Policy.thy ===== *)
theory Retry_Policy
  imports Domain_Types
begin

section \<open>Retry policy\<close>

text \<open>
  \<open>src/src/domain/retry.rs\<close>: the exponential back-off of failed jobs, on 64-bit words as the code
  computes it (\<open>i64\<close> arguments read as \<open>u64\<close>, a checked shift by a truncated exponent, a
  saturating product), and the delay it means on natural numbers.
\<close>

record RetryPolicy =
  max_worker_attempts :: int
  max_outbox_attempts :: int
  base_retry_delay_ms :: "64 word"
  max_retry_delay_ms :: "64 word"
  lease_timeout_ms :: "64 word"

definition default_policy :: RetryPolicy where
  "default_policy = \<lparr>max_worker_attempts = 3, max_outbox_attempts = 3,
     base_retry_delay_ms = 1000, max_retry_delay_ms = 30000, lease_timeout_ms = 30000\<rparr>"

definition checked_shl1 :: "32 word \<Rightarrow> 64 word" where
  "checked_shl1 e = (if unat e < 64 then push_bit (unat e) 1 else - 1)"

definition saturating_mul :: "64 word \<Rightarrow> 64 word \<Rightarrow> 64 word" where
  "saturating_mul a b = (if unat a * unat b < 2 ^ 64 then a * b else - 1)"

definition next_retry_delay_ms :: "64 word \<Rightarrow> 64 word \<Rightarrow> 64 word \<Rightarrow> 64 word" where
  "next_retry_delay_ms attempts base_ms max_ms =
     (let exponent = (if 0 < sint attempts then attempts - 1 else 0);
          shift = checked_shl1 (ucast exponent);
          delay = saturating_mul base_ms (min shift 100000) in
      min delay max_ms)"

definition compute_available_at :: "64 word \<Rightarrow> 64 word \<Rightarrow> 64 word \<Rightarrow> 64 word \<Rightarrow> 64 word" where
  "compute_available_at now_ms attempts base_ms max_ms =
     now_ms + next_retry_delay_ms attempts base_ms max_ms"

subsection \<open>The delay on natural numbers\<close>

lemma unat_min: "unat (min a b) = min (unat a) (unat (b :: 64 word))"
  by (simp add: min_def word_le_nat_alt)

lemma unat_max: "unat (- 1 :: 64 word) = 2 ^ 64 - 1"
  by (simp add: unsigned_minus_1_eq_mask mask_eq_exp_minus_1)

lemma unat_saturating_mul: "unat (saturating_mul a b) = min (unat a * unat b) (2 ^ 64 - 1)"
proof (cases "unat a * unat b < 2 ^ 64")
  case True
  then have "unat (a * b) = unat a * unat b"
    by (simp add: unat_mult_lem [symmetric])
  with True show ?thesis by (simp add: saturating_mul_def min_def)
next
  case False
  then show ?thesis by (simp add: saturating_mul_def min_def unat_max)
qed

lemma unat_checked_shl1:
  "unat (checked_shl1 e) = (if unat e < 64 then 2 ^ unat e else 2 ^ 64 - 1)"
proof (cases "unat e < 64")
  case True
  then have "(2 :: nat) ^ unat e < 2 ^ 64"
    by (rule power_strict_increasing) simp
  then have "unat (of_nat (2 ^ unat e) :: 64 word) = 2 ^ unat e"
    by (simp only: unat_of_nat) simp
  with True show ?thesis
    by (simp add: checked_shl1_def push_bit_eq_mult)
qed (simp add: checked_shl1_def unat_max)

lemma min_power_cap: "64 \<le> (n::nat) \<Longrightarrow> min (2 ^ n) 100000 = (100000 :: nat)"
  using power_increasing [of 64 n "2 :: nat"] by (simp add: min_def)

lemma unat_shift:
  assumes "n < 2 ^ 32"
  shows "min (unat (checked_shl1 (of_nat n))) 100000 = min (2 ^ n) (100000 :: nat)"
proof -
  have n: "unat (of_nat n :: 32 word) = n"
    using assms by (simp add: unat_of_nat)
  show ?thesis
    by (cases "n < 64") (simp_all add: unat_checked_shl1 n min_power_cap)
qed

text \<open>The back-off doubles from the base delay and is capped: for attempt \<open>n\<close> from 1 up to
  \<open>2^32\<close> and non-negative \<open>base\<close> and \<open>max\<close>, the delay is
  \<open>min max (base * min (2^(n-1)) 100000)\<close>, without wrap-around.\<close>

theorem next_retry_delay_value:
  assumes "1 \<le> n" and "n \<le> 2 ^ 32" and "base < 2 ^ 63" and "cap < 2 ^ 63"
  shows "unat (next_retry_delay_ms (of_nat n) (of_nat base) (of_nat cap)) =
    min cap (base * min (2 ^ (n - 1)) 100000)"
proof -
  obtain k where n: "n = Suc k" using assms(1) by (cases n) auto
  have pos: "0 < sint (of_nat n :: 64 word)"
    using assms(1,2) by (simp add: signed_of_nat signed_take_bit_int_eq_self)
  have minus: "(of_nat n :: 64 word) - 1 = of_nat k"
    by (simp add: n)
  have cast: "(ucast (of_nat k :: 64 word) :: 32 word) = of_nat k"
    using assms(2) n by (simp add: unsigned_of_nat take_bit_nat_eq_self)
  have b: "unat (of_nat base :: 64 word) = base" and c: "unat (of_nat cap :: 64 word) = cap"
    using assms(3,4) by (simp_all add: unat_of_nat)
  have "min (unat (checked_shl1 (of_nat k))) 100000 = min (2 ^ k) (100000 :: nat)"
    by (rule unat_shift) (use assms(2) n in simp)
  then have "unat (next_retry_delay_ms (of_nat n) (of_nat base) (of_nat cap)) =
      min (min (base * min (2 ^ k) 100000) (2 ^ 64 - 1)) cap"
    unfolding next_retry_delay_ms_def Let_def
    by (simp only: pos minus cast unat_min unat_saturating_mul b c if_True) simp
  also have "\<dots> = min cap (base * min (2 ^ (n - 1)) 100000)"
    using assms(4) by (simp add: n min_def)
  finally show ?thesis .
qed

theorem next_retry_delay_value_witness:
  "unat (next_retry_delay_ms 3 1000 30000) = 4000 \<and>
   unat (next_retry_delay_ms 40 1000 30000) = 30000"
  using next_retry_delay_value [of 3 1000 30000] next_retry_delay_value [of 40 1000 30000] by simp

text \<open>The exponent is truncated to 32 bits: at attempt \<open>2^32 + 1\<close> the back-off starts again at
  the base delay instead of staying at the cap.\<close>

theorem retry_exponent_truncates:
  "next_retry_delay_ms (2 ^ 32 + 1) 1000 30000 = 1000 \<and>
   next_retry_delay_ms (2 ^ 32) 1000 30000 = 30000"
  by (simp add: next_retry_delay_ms_def checked_shl1_def saturating_mul_def min_def Let_def
      word_le_nat_alt unat_max)

end
