(* ===== verification/Worker_Queue.thy ===== *)
theory Worker_Queue
  imports Journal_Store Retry_Policy
begin

section \<open>The worker queue\<close>

text \<open>
  \<open>src/src/journal/worker.rs\<close>: jobs that deliver an accepted event or schedule a continuation. A job
  is leased for five minutes at a time; every change of a job is recorded in the journal in the
  same transaction.
\<close>

definition minutes :: "int \<Rightarrow> int" where
  "minutes n = n * 60 * 1000000000"

definition millis :: "int \<Rightarrow> int" where
  "millis n = n * 1000000"

subsection \<open>Operations\<close>

definition append_worker_event_tx ::
  "env \<Rightarrow> JournalEventKind \<Rightarrow> string \<Rightarrow> EventId \<Rightarrow> json \<Rightarrow> JournalEvent jop" where
  "append_worker_event_tx E k job_id source_event_id extra_payload =
     append_event_tx E k None None (Some job_id)
       (jobj ([(''job_id'', JStr job_id), (''job_type'', JStr ''deliver_event''),
               (''source_event_id'', JStr source_event_id)]
          @ (case as_object extra_payload of None \<Rightarrow> [] | Some m \<Rightarrow> m)))"

text \<open>The part of the two \<open>WHERE\<close> clauses of the lease that they share.\<close>

definition leasable :: "instant \<Rightarrow> WorkerJobRow \<Rightarrow> bool" where
  "leasable now r \<longleftrightarrow>
     wj_status r = worker_as_str Queued \<or>
     wj_status r = worker_as_str WorkerJobStatus.RetryableFailed \<and> wj_available_at r \<le> now \<or>
     wj_status r = worker_as_str WorkerJobStatus.Running \<and>
       (case wj_locked_until r of None \<Rightarrow> True | Some l \<Rightarrow> l \<le> now)"

definition next_job :: "instant \<Rightarrow> WorkerJobRow list \<Rightarrow> WorkerJobRow option" where
  "next_job now jobs = first_by (\<lambda>r. (wj_available_at r, wj_created_at r))
     (filter (\<lambda>r. wj_available_at r \<le> now \<and> leasable now r) jobs)"

definition lease_next_worker_job :: "env \<Rightarrow> (string \<times> EventId) option jop" where
  "lease_next_worker_job E =
     tx E (op_bind (utc_now E) (\<lambda>now.
       op_bind (op_query (\<lambda>s. next_job now (worker_jobs s))) (\<lambda>row.
       case row of
         None \<Rightarrow> op_return None
       | Some j \<Rightarrow>
           let locked_until = now + minutes 5 in
           op_bind (update_jobs (\<lambda>r. wj_job_id r = wj_job_id j \<and> leasable now r)
              (\<lambda>r. r\<lparr>wj_status := worker_as_str WorkerJobStatus.Running,
                 wj_attempts := wj_attempts r + 1, wj_locked_by := Some ''kernel-worker'',
                 wj_locked_until := Some locked_until, wj_updated_at := now\<rparr>)) (\<lambda>changed.
           if changed = 0 then op_return None
           else op_then
             (append_event_tx E WorkerJobStarted None None (Some (wj_job_id j))
                (jobj [(''job_id'', JStr (wj_job_id j)), (''job_type'', JStr (wj_job_type j)),
                       (''source_event_id'', JStr (wj_source_event_id j)),
                       (''status'', JStr (worker_as_str WorkerJobStatus.Running)),
                       (''attempted_at'', JStr (rfc3339 E now)),
                       (''locked_until'', JStr (rfc3339 E locked_until))]))
             (op_return (Some (wj_job_type j, wj_source_event_id j)))))))"

definition accept_ingress_with_worker_job :: "env \<Rightarrow> ValidatedEvent \<Rightarrow> json \<Rightarrow> string jop" where
  "accept_ingress_with_worker_job E event payload =
     (let job_id = worker_job_id (ve_event_id event) in
      op_bind (utc_now E) (\<lambda>now.
      tx E (op_then
        (append_event_tx E IngressAccepted None None (Some (ve_dedupe_key event)) payload)
        (op_bind (insert_job_or_ignore (new_job ''deliver_event'' (ve_event_id event) now))
           (\<lambda>changed.
         op_then
           (if changed = 1 then
              op_then (append_worker_event_tx E WorkerJobQueued job_id (ve_event_id event)
                 (jobj [(''status'', JStr (worker_as_str Queued))])) (op_return ())
            else op_return ())
           (op_return job_id))))))"

definition enqueue_worker_job :: "env \<Rightarrow> EventId \<Rightarrow> string jop" where
  "enqueue_worker_job E source_event_id =
     (let job_id = worker_job_id source_event_id in
      op_bind (utc_now E) (\<lambda>now.
      tx E (op_bind (insert_job_or_ignore (new_job ''deliver_event'' source_event_id now))
         (\<lambda>changed.
       op_then
         (if changed = 1 then
            op_then (append_worker_event_tx E WorkerJobQueued job_id source_event_id
               (jobj [(''status'', JStr (worker_as_str Queued))])) (op_return ())
          else op_return ())
         (op_return job_id)))))"

definition worker_job_status :: "env \<Rightarrow> string \<Rightarrow> WorkerJobStatus option jop" where
  "worker_job_status E job_id =
     tx E (op_query (\<lambda>s. Option.bind (map_option wj_status
       (find (\<lambda>r. wj_job_id r = job_id) (worker_jobs s))) worker_parse_opt))"

definition update_worker_job ::
  "env \<Rightarrow> EventId \<Rightarrow> WorkerJobStatus \<Rightarrow> JournalEventKind \<Rightarrow> jmap \<Rightarrow> unit jop" where
  "update_worker_job E source_event_id status event_kind payload =
     (let job_id = worker_job_id source_event_id;
          open_job = (\<lambda>r. wj_job_id r = job_id \<and>
            wj_status r \<noteq> worker_as_str WorkerJobStatus.Succeeded) in
      op_bind (utc_now E) (\<lambda>now.
      tx E (op_bind
        (if status = WorkerJobStatus.Running then
           update_jobs open_job (\<lambda>r. r\<lparr>wj_status := worker_as_str status,
             wj_attempts := wj_attempts r + 1, wj_updated_at := now\<rparr>)
         else
           update_jobs open_job (\<lambda>r. r\<lparr>wj_status := worker_as_str status,
             wj_last_error := Some (case str_field (JObj payload) ''error_category'' of
                None \<Rightarrow> [] | Some c \<Rightarrow> c),
             wj_locked_by := None, wj_locked_until := None, wj_updated_at := now\<rparr>)) (\<lambda>changed.
       if 0 < changed then
         op_then (append_worker_event_tx E event_kind job_id source_event_id
             (JObj (minsert ''attempted_at'' (JStr (rfc3339 E now)) payload)))
           (op_return ())
       else op_return ()))))"

definition start_worker_job :: "env \<Rightarrow> EventId \<Rightarrow> unit jop" where
  "start_worker_job E source_event_id =
     update_worker_job E source_event_id WorkerJobStatus.Running WorkerJobStarted
       (mcollect [(''status'', JStr (worker_as_str WorkerJobStatus.Running))])"

definition succeed_worker_job :: "env \<Rightarrow> EventId \<Rightarrow> unit jop" where
  "succeed_worker_job E source_event_id =
     update_worker_job E source_event_id WorkerJobStatus.Succeeded WorkerJobSucceeded
       (mcollect [(''status'', JStr (worker_as_str WorkerJobStatus.Succeeded))])"

definition fail_worker_job :: "env \<Rightarrow> EventId \<Rightarrow> string \<Rightarrow> unit jop" where
  "fail_worker_job E source_event_id error_category =
     update_worker_job E source_event_id WorkerJobStatus.Failed WorkerJobFailed
       (mcollect [(''status'', JStr (worker_as_str WorkerJobStatus.Failed)),
                  (''error_category'', JStr error_category)])"

definition mark_worker_dead :: "env \<Rightarrow> EventId \<Rightarrow> string \<Rightarrow> RetryPolicy \<Rightarrow> unit jop" where
  "mark_worker_dead E source_event_id err policy =
     (let job_id = worker_job_id source_event_id in
      op_bind (utc_now E) (\<lambda>now.
      tx E (op_then
        (append_worker_event_tx E WorkerJobDead job_id source_event_id
           (jobj [(''status'', JStr (worker_as_str WorkerJobStatus.Dead)), (''error'', JStr err)]))
        (op_then
          (update_jobs (\<lambda>r. wj_job_id r = job_id)
             (\<lambda>r. r\<lparr>wj_status := worker_as_str WorkerJobStatus.Dead, wj_last_error := Some err,
                wj_locked_by := None, wj_locked_until := None, wj_updated_at := now\<rparr>))
          (op_return ())))))"

definition job_attempts :: "string \<Rightarrow> store \<Rightarrow> int" where
  "job_attempts job_id s =
     (case find (\<lambda>r. wj_job_id r = job_id) (worker_jobs s) of None \<Rightarrow> 0 | Some r \<Rightarrow> wj_attempts r)"

text \<open>
  The transaction is dropped, not committed, when the attempts are used up; it has written
  nothing by then.
\<close>

definition mark_worker_retryable_failed ::
  "env \<Rightarrow> EventId \<Rightarrow> string \<Rightarrow> RetryPolicy \<Rightarrow> unit jop" where
  "mark_worker_retryable_failed E source_event_id err policy =
     (let job_id = worker_job_id source_event_id in
      op_bind (utc_now E) (\<lambda>now.
      op_bind (tx E (op_bind (op_query (job_attempts job_id)) (\<lambda>attempts.
        if max_worker_attempts policy \<le> attempts then op_return False
        else
          let delay_ms = next_retry_delay_ms (word_of_int (attempts + 1))
                (base_retry_delay_ms policy) (max_retry_delay_ms policy);
              available_at = now + millis (sint delay_ms) in
          op_then (append_worker_event_tx E WorkerJobFailed job_id source_event_id
             (jobj [(''status'', JStr (worker_as_str WorkerJobStatus.RetryableFailed)),
                    (''error'', JStr err), (''retryable'', JBool True),
                    (''next_available_at'', JStr (rfc3339 E available_at)),
                    (''attempts'', JNum (JInt attempts))]))
          (op_then (update_jobs (\<lambda>r. wj_job_id r = job_id)
             (\<lambda>r. r\<lparr>wj_status := worker_as_str WorkerJobStatus.RetryableFailed,
                wj_last_error := Some err, wj_locked_by := None, wj_locked_until := None,
                wj_available_at := available_at, wj_updated_at := now\<rparr>))
          (op_return True))))) (\<lambda>retried.
      if retried then op_return () else mark_worker_dead E source_event_id err policy)))"

subsection \<open>Every operation evolves the store\<close>

lemma evolves_append_worker_event_tx:
  "obeys (evolves E) (append_worker_event_tx E k j i p)"
  unfolding append_worker_event_tx_def by (intro evolves_intros)

lemma evolves_worker_leases:
  "obeys (evolves E) (lease_next_worker_job E)"
  "obeys (evolves E) (accept_ingress_with_worker_job E event p)"
  "obeys (evolves E) (enqueue_worker_job E i)"
  "obeys (evolves E) (worker_job_status E j)"
  unfolding lease_next_worker_job_def accept_ingress_with_worker_job_def enqueue_worker_job_def
    worker_job_status_def
  by ((intro evolves_append_worker_event_tx evolves_intros; simp add: job_core_def)+)

lemma evolves_update_worker_job: "obeys (evolves E) (update_worker_job E i st k p)"
  unfolding update_worker_job_def
  by (intro evolves_append_worker_event_tx evolves_intros; simp add: job_core_def)

lemma evolves_worker_updates:
  "obeys (evolves E) (start_worker_job E i)"
  "obeys (evolves E) (succeed_worker_job E i)"
  "obeys (evolves E) (fail_worker_job E i c)"
  by (simp_all add: start_worker_job_def succeed_worker_job_def fail_worker_job_def
      evolves_update_worker_job)

lemma evolves_mark_worker_dead: "obeys (evolves E) (mark_worker_dead E i err policy)"
  unfolding mark_worker_dead_def
  by (intro evolves_append_worker_event_tx evolves_intros; simp add: job_core_def)

lemma evolves_mark_worker_retryable_failed:
  "obeys (evolves E) (mark_worker_retryable_failed E i err policy)"
  unfolding mark_worker_retryable_failed_def
  by (intro evolves_mark_worker_dead evolves_append_worker_event_tx evolves_intros;
      simp add: job_core_def)

lemmas evolves_worker_intros = evolves_worker_leases evolves_update_worker_job
  evolves_worker_updates evolves_mark_worker_dead evolves_mark_worker_retryable_failed

subsection \<open>Outcomes\<close>

definition worker_payload :: "string \<Rightarrow> EventId \<Rightarrow> json \<Rightarrow> json" where
  "worker_payload job_id source_event_id extra_payload =
     jobj ([(''job_id'', JStr job_id), (''job_type'', JStr ''deliver_event''),
            (''source_event_id'', JStr source_event_id)]
          @ (case as_object extra_payload of None \<Rightarrow> [] | Some m \<Rightarrow> m))"

lemma append_worker_event_tx_alt:
  "append_worker_event_tx E k job_id i p =
   append_event_tx E k None None (Some job_id) (worker_payload job_id i p)"
  by (simp add: append_worker_event_tx_def worker_payload_def)

lemmas event_simps = append_worker_event_tx_alt append_event_tx_run op_simps

lemma next_job_Some:
  "next_job now jobs = Some j \<Longrightarrow>
   j \<in> set jobs \<and> wj_available_at j \<le> now \<and> leasable now j \<and>
   (\<forall>r \<in> set jobs. wj_available_at r \<le> now \<and> leasable now r \<longrightarrow>
      (wj_available_at j, wj_created_at j) \<le> (wj_available_at r, wj_created_at r))"
  unfolding next_job_def by (drule first_by_SomeD) auto

lemma next_job_None:
  "next_job now jobs = None \<longleftrightarrow> (\<forall>r \<in> set jobs. \<not> (wj_available_at r \<le> now \<and> leasable now r))"
  by (simp add: next_job_def filter_empty_conv)

text \<open>The row a job becomes when it is leased at \<open>now\<close>.\<close>

definition leased_job :: "instant \<Rightarrow> WorkerJobRow \<Rightarrow> WorkerJobRow" where
  "leased_job now r = r\<lparr>wj_status := worker_as_str WorkerJobStatus.Running,
     wj_attempts := wj_attempts r + 1, wj_locked_by := Some ''kernel-worker'',
     wj_locked_until := Some (now + minutes 5), wj_updated_at := now\<rparr>"

lemma lease_next_worker_job_result:
  assumes "\<not> fault_at E (tick s)" and "now = clock_at E (Suc (tick s))"
  shows "case next_job now (worker_jobs s) of
      None \<Rightarrow> \<exists>t. lease_next_worker_job E s = (Inr None, t) \<and> unchanged s t
    | Some j \<Rightarrow> \<exists>t e. lease_next_worker_job E s =
          (Inr (Some (wj_job_type j, wj_source_event_id j)), t) \<and>
        worker_jobs t = update_where (\<lambda>r. wj_job_id r = wj_job_id j \<and> leasable now r)
          (leased_job now) (worker_jobs s) \<and>
        journal_events t = journal_events s @ [e] \<and> is_kind WorkerJobStarted e \<and>
        jr_correlation_id e = Some (wj_job_id j)"
proof (cases "next_job now (worker_jobs s)")
  case None
  with assms show ?thesis
    by (simp add: lease_next_worker_job_def tx_def op_simps Let_def unchanged_def)
next
  case (Some j)
  let ?p = "\<lambda>r. wj_job_id r = wj_job_id j \<and> leasable now r"
  from next_job_Some [OF Some] have "count_where ?p (worker_jobs s) \<noteq> 0"
    unfolding count_where_0 by auto
  with assms Some show ?thesis
    by (simp add: lease_next_worker_job_def tx_def event_simps Let_def leased_job_def [abs_def]
        is_kind_def)
qed

subsection \<open>Settled jobs\<close>

definition job_succeeded :: "WorkerJobRow \<Rightarrow> bool" where
  "job_succeeded r \<longleftrightarrow> wj_status r = worker_as_str WorkerJobStatus.Succeeded"

interpretation wl: lifecycle worker_jobs job_succeeded
  by unfold_locales simp_all

lemma settled_update_jobs:
  "(\<And>r. p r \<Longrightarrow> \<not> job_succeeded r) \<Longrightarrow> obeys (settled_kept worker_jobs job_succeeded) (update_jobs p f)"
  by (rule obeysI, rule wl.settled_update [of _ p f]) (simp_all add: op_simps)

lemma settled_insert_job:
  "obeys (settled_kept worker_jobs job_succeeded) (insert_job_or_ignore r)"
  by (rule obeysI) (auto simp: op_simps intro: wl.settled_append wl.settled_same)

lemma settled_append_worker_event:
  "obeys (settled_kept worker_jobs job_succeeded) (append_worker_event_tx E k j i p)"
  by (simp add: append_worker_event_tx_alt wl.settled_append_event_tx)

lemmas settled_job_intros = settled_update_jobs settled_insert_job settled_append_worker_event
  wl.settled_intros

lemma leasable_not_succeeded: "leasable now r \<Longrightarrow> \<not> job_succeeded r"
  by (auto simp: leasable_def job_succeeded_def)

lemma settled_update_worker_job:
  "obeys (settled_kept worker_jobs job_succeeded) (update_worker_job E i st k p)"
  unfolding update_worker_job_def by (intro settled_job_intros; simp add: job_succeeded_def)

subsection \<open>Properties\<close>

text \<open>A lease takes the first job that is due. When SQLite does not fail, the lease returns
  \<open>None\<close> and changes nothing exactly if no job is available and leasable; otherwise it returns a
  leasable job that comes first by availability and creation, marks that job alone as running,
  locked for five minutes and with one more attempt, and records one \<open>WorkerJobStarted\<close>.\<close>

theorem lease_takes_earliest:
  assumes "\<not> fault_at E (tick s)" and "distinct (map wj_job_id (worker_jobs s))"
    and "now = clock_at E (Suc (tick s))"
  shows "(\<exists>t. lease_next_worker_job E s = (Inr None, t) \<and> unchanged s t \<and>
      (\<forall>r \<in> set (worker_jobs s). \<not> (wj_available_at r \<le> now \<and> leasable now r))) \<or>
    (\<exists>j t e. lease_next_worker_job E s = (Inr (Some (wj_job_type j, wj_source_event_id j)), t) \<and>
      j \<in> set (worker_jobs s) \<and> wj_available_at j \<le> now \<and> leasable now j \<and>
      (\<forall>r \<in> set (worker_jobs s). wj_available_at r \<le> now \<and> leasable now r \<longrightarrow>
         (wj_available_at j, wj_created_at j) \<le> (wj_available_at r, wj_created_at r)) \<and>
      worker_jobs t = map (\<lambda>r. if r = j then leased_job now r else r) (worker_jobs s) \<and>
      journal_events t = journal_events s @ [e] \<and> is_kind WorkerJobStarted e)"
proof (cases "next_job now (worker_jobs s)")
  case None
  with lease_next_worker_job_result [OF assms(1,3)] show ?thesis
    by (simp add: next_job_None)
next
  case (Some j)
  note j = next_job_Some [OF Some]
  have "wj_job_id r = wj_job_id j \<and> leasable now r \<longleftrightarrow> r = j" if "r \<in> set (worker_jobs s)" for r
    using that j assms(2) by (auto simp: distinct_map inj_on_def)
  then have "update_where (\<lambda>r. wj_job_id r = wj_job_id j \<and> leasable now r) (leased_job now)
      (worker_jobs s) = map (\<lambda>r. if r = j then leased_job now r else r) (worker_jobs s)"
    by (simp add: update_where_def)
  with lease_next_worker_job_result [OF assms(1,3)] Some j show ?thesis
    by auto
qed

text \<open>Two queued jobs, the second available later than the first.\<close>

definition sample_jobs :: store where
  "sample_jobs = empty_store\<lparr>worker_jobs :=
     [new_job ''deliver_event'' ''event_b'' 5, new_job ''deliver_event'' ''event_a'' 0]\<rparr>"

theorem lease_takes_earliest_witness:
  "(\<exists>r t. lease_next_worker_job sample_env sample_jobs = (Inr r, t)) \<and>
   fst (lease_next_worker_job sample_env sample_jobs) = Inr (Some (''deliver_event'', ''event_a''))"
proof
  have "distinct (map wj_job_id (worker_jobs sample_jobs))" by code_simp
  then show "\<exists>r t. lease_next_worker_job sample_env sample_jobs = (Inr r, t)"
    using lease_takes_earliest [of sample_env sample_jobs, OF _ _ refl] by auto
  show "fst (lease_next_worker_job sample_env sample_jobs) =
      Inr (Some (''deliver_event'', ''event_a''))" by code_simp
qed



text \<open>A job that succeeded stays as it is under the operations of the delivery path: leasing,
  accepting, queueing, starting, succeeding and failing never rewrite its row.\<close>

theorem succeeded_jobs_settled:
  "settled_kept worker_jobs job_succeeded s (snd (lease_next_worker_job E s)) \<and>
   settled_kept worker_jobs job_succeeded s (snd (accept_ingress_with_worker_job E event p s)) \<and>
   settled_kept worker_jobs job_succeeded s (snd (enqueue_worker_job E i s)) \<and>
   settled_kept worker_jobs job_succeeded s (snd (start_worker_job E i s)) \<and>
   settled_kept worker_jobs job_succeeded s (snd (succeed_worker_job E i s)) \<and>
   settled_kept worker_jobs job_succeeded s (snd (fail_worker_job E i c s))"
proof -
  have "obeys (settled_kept worker_jobs job_succeeded) (lease_next_worker_job E)"
    unfolding lease_next_worker_job_def by (intro settled_job_intros; blast dest: leasable_not_succeeded)
  moreover have "obeys (settled_kept worker_jobs job_succeeded) (accept_ingress_with_worker_job E event p)"
    unfolding accept_ingress_with_worker_job_def by (intro settled_job_intros)
  moreover have "obeys (settled_kept worker_jobs job_succeeded) (enqueue_worker_job E i)"
    unfolding enqueue_worker_job_def by (intro settled_job_intros)
  ultimately show ?thesis
    using settled_update_worker_job
    unfolding start_worker_job_def succeed_worker_job_def fail_worker_job_def
    by (simp add: obeys_def)
qed

text \<open>C9: A failed job is retried until its attempts are used up. When SQLite does not fail,
  \<open>mark_worker_retryable_failed\<close> on an existing job records exactly one event: with attempts left,
  \<open>WorkerJobFailed\<close>, and the job becomes available again after the back-off delay; otherwise
  \<open>WorkerJobDead\<close>, and the job is dead. The status of the job before does not matter.\<close>

theorem retry_until_dead:
  assumes "find (\<lambda>r. wj_job_id r = worker_job_id i) (worker_jobs s) = Some j"
    and "\<And>n. \<not> fault_at E n"
  shows "\<exists>t e j'. mark_worker_retryable_failed E i err policy s = (Inr (), t) \<and>
    journal_events t = journal_events s @ [e] \<and>
    find (\<lambda>r. wj_job_id r = worker_job_id i) (worker_jobs t) = Some j' \<and>
    wj_locked_until j' = None \<and>
    (if max_worker_attempts policy \<le> wj_attempts j
     then is_kind WorkerJobDead e \<and> wj_status j' = worker_as_str WorkerJobStatus.Dead
     else is_kind WorkerJobFailed e \<and>
       wj_status j' = worker_as_str WorkerJobStatus.RetryableFailed \<and>
       wj_available_at j' = clock_at E (tick s) + millis (sint (next_retry_delay_ms
         (word_of_int (wj_attempts j + 1)) (base_retry_delay_ms policy)
         (max_retry_delay_ms policy))))"
proof -
  have id: "wj_job_id j = worker_job_id i"
    using assms(1) by (auto simp: find_Some_iff)
  have find: "find (\<lambda>r. wj_job_id r = worker_job_id i)
      (update_where (\<lambda>r. wj_job_id r = worker_job_id i) f (worker_jobs s)) = Some (f j)"
    if "\<And>r. wj_job_id (f r) = wj_job_id r" for f
    using assms(1) id by (simp add: find_update_where [where key = wj_job_id, OF that])
  show ?thesis
    using assms
    by (simp add: mark_worker_retryable_failed_def mark_worker_dead_def job_attempts_def tx_def
        event_simps Let_def is_kind_def find)
qed

theorem retry_until_dead_witness:
  "\<exists>t e j'. mark_worker_retryable_failed sample_env ''event_a'' ''boom'' default_policy sample_jobs
      = (Inr (), t) \<and> journal_events t = [e] \<and> is_kind WorkerJobFailed e \<and>
    find (\<lambda>r. wj_job_id r = worker_job_id ''event_a'') (worker_jobs t) = Some j' \<and>
    wj_status j' = ''retryable_failed''"
proof -
  have "find (\<lambda>r. wj_job_id r = worker_job_id ''event_a'') (worker_jobs sample_jobs) =
      Some (new_job ''deliver_event'' ''event_a'' 0)"
    by (simp add: sample_jobs_def new_job_def worker_job_id_def)
  from retry_until_dead [OF this, of sample_env "''boom''" default_policy] show ?thesis
    by (auto simp: default_policy_def new_job_def sample_jobs_def empty_store_def)
qed

text \<open>Accepting an ingress event is atomic. \<open>accept_ingress_with_worker_job\<close> either fails and
  leaves every table as it was, or records the event and has a job for it: the first time it
  adds a queued job and the two events \<open>IngressAccepted\<close> and \<open>WorkerJobQueued\<close>; if the job exists
  already, it adds only \<open>IngressAccepted\<close> and leaves the jobs alone.\<close>

theorem accept_ingress_atomic:
  "case accept_ingress_with_worker_job E event payload s of
     (Inl _, t) \<Rightarrow> unchanged s t
   | (Inr job, t) \<Rightarrow> job = worker_job_id (ve_event_id event) \<and>
       (\<exists>e. is_kind IngressAccepted e \<and> jr_correlation_id e = Some (ve_dedupe_key event) \<and>
          jr_payload_json e = json_text E payload \<and>
          (if list_ex (\<lambda>r. wj_job_id r = job) (worker_jobs s)
           then worker_jobs t = worker_jobs s \<and> journal_events t = journal_events s @ [e]
           else worker_jobs t =
               worker_jobs s @ [new_job ''deliver_event'' (ve_event_id event) (clock_at E (tick s))] \<and>
             (\<exists>q. is_kind WorkerJobQueued q \<and> journal_events t = journal_events s @ [e, q])))"
proof (cases "accept_ingress_with_worker_job E event payload s")
  case (Pair res t)
  show ?thesis
  proof (cases res)
    case (Inl e)
    with Pair have "unchanged (s\<lparr>tick := Suc (tick s)\<rparr>) t"
      by (auto simp: accept_ingress_with_worker_job_def Let_def op_simps dest!: tx_InlD)
    with unchanged_trans [OF unchanged_tick this] Inl Pair show ?thesis by simp
  next
    case (Inr job)
    with Pair show ?thesis
      by (auto simp: accept_ingress_with_worker_job_def Let_def event_simps is_kind_def
          new_job_def dest!: tx_InrD split: if_splits)
  qed
qed

end
