(* ===== verification/Outbox_Queue.thy ===== *)
theory Outbox_Queue
  imports Worker_Queue
begin

section \<open>The outbox\<close>

text \<open>
  \<open>src/src/journal/outbox_queue.rs\<close>, \<open>src/src/journal/outbox.rs\<close> and
  \<open>src/src/runtime/outbox_dispatcher.rs\<close>: approved invocations wait in the outbox, are leased,
  handed to an adapter once, and settled by what the adapter answers. The adapter is a parameter:
  a function of the number of the call and of the approved invocation.
\<close>

definition terminal_transition_error :: string where
  "terminal_transition_error = ''outbox_dispatch_terminal_transition_not_allowed''"

definition od_is :: "OutboxDispatchStatus \<Rightarrow> OutboxRow \<Rightarrow> bool" where
  "od_is st r \<longleftrightarrow> od_status r = outbox_as_str st"

subsection \<open>Queueing and leasing\<close>

definition queue_outbox_dispatch ::
  "env \<Rightarrow> ApprovedInvocation \<Rightarrow> SessionId option \<Rightarrow> string jop" where
  "queue_outbox_dispatch E approved session_id =
     (let intent = ai_intent approved;
          dispatch_id = ''dispatch:'' @ ii_invocation_id intent;
          idempotency_key = (case ii_idempotency_key intent of
             None \<Rightarrow> ii_invocation_id intent | Some k \<Rightarrow> k);
          arguments_json = json_text E (ii_arguments intent) in
      op_bind (utc_now E) (\<lambda>now.
      tx E (op_bind (insert_outbox_or_ignore
          \<lparr>od_dispatch_id = dispatch_id, od_invocation_id = ii_invocation_id intent,
           od_run_id = ii_run_id intent, od_session_id = session_id,
           od_operation = ii_operation intent, od_arguments_json = arguments_json,
           od_idempotency_key = idempotency_key, od_decision_id = ai_decision_id approved,
           od_acked_unknown = False, od_status = outbox_as_str Pending, od_attempts = 0,
           od_available_at = now, od_locked_by = None, od_locked_until = None,
           od_last_error = None, od_created_at = now, od_updated_at = now\<rparr>) (\<lambda>changed.
        op_then
          (if changed = 1 then
             op_then (append_event_tx E OutboxQueued (Some (ii_run_id intent)) session_id
                (Some (ii_invocation_id intent))
                (jobj [(''dispatch_id'', JStr dispatch_id),
                       (''invocation_id'', JStr (ii_invocation_id intent)),
                       (''decision_id'', JStr (ai_decision_id approved)),
                       (''operation'', JStr (ii_operation intent)),
                       (''idempotency_key'', JStr idempotency_key),
                       (''status'', JStr (outbox_as_str Pending))])) (op_return ())
           else op_return ())
          (op_return dispatch_id)))))"

definition outbox_dispatch_status :: "env \<Rightarrow> InvocationId \<Rightarrow> OutboxDispatchStatus option jop" where
  "outbox_dispatch_status E invocation_id =
     tx E (op_query (\<lambda>s. Option.bind (map_option od_status
       (find (\<lambda>r. od_invocation_id r = invocation_id) (outbox_dispatches s))) outbox_parse_opt))"

definition start_outbox_dispatch ::
  "env \<Rightarrow> ApprovedInvocation \<Rightarrow> SessionId option \<Rightarrow> unit jop" where
  "start_outbox_dispatch E approved session_id =
     (let intent = ai_intent approved in
      op_bind (utc_now E) (\<lambda>now.
      tx E (op_bind (update_outbox
          (\<lambda>r. od_invocation_id r = ii_invocation_id intent \<and> od_is Pending r)
          (\<lambda>r. r\<lparr>od_status := outbox_as_str Dispatching, od_attempts := od_attempts r + 1,
             od_updated_at := now\<rparr>)) (\<lambda>changed.
        if changed = 0 then op_bail ''outbox_dispatch_not_startable''
        else op_then (append_event_tx E DispatchStarted (Some (ii_run_id intent)) session_id
               (Some (ii_invocation_id intent))
               (jobj [(''operation'', JStr (ii_operation intent))]))
             (op_return ())))))"

text \<open>The part of the two \<open>WHERE\<close> clauses of the lease that they share.\<close>

definition dispatchable :: "instant \<Rightarrow> OutboxRow \<Rightarrow> bool" where
  "dispatchable now r \<longleftrightarrow>
     od_is Pending r \<or> od_is OutboxDispatchStatus.RetryableFailed r \<and> od_available_at r \<le> now"

definition next_dispatch :: "instant \<Rightarrow> OutboxRow list \<Rightarrow> OutboxRow option" where
  "next_dispatch now t = first_by (\<lambda>r. (od_available_at r, od_created_at r))
     (filter (\<lambda>r. dispatchable now r \<and> od_available_at r \<le> now) t)"

definition lease_next_outbox_dispatch :: "env \<Rightarrow> LeasedOutboxDispatch option jop" where
  "lease_next_outbox_dispatch E =
     tx E (op_bind (utc_now E) (\<lambda>now.
       op_bind (op_query (\<lambda>s. next_dispatch now (outbox_dispatches s))) (\<lambda>row.
       case row of
         None \<Rightarrow> op_return None
       | Some d \<Rightarrow>
           (case json_parse E (od_arguments_json d) of
              None \<Rightarrow> op_bail ''invalid arguments_json''
            | Some arguments \<Rightarrow>
                let locked_until = now + minutes 5 in
                op_bind (update_outbox
                   (\<lambda>r. od_invocation_id r = od_invocation_id d \<and> dispatchable now r)
                   (\<lambda>r. r\<lparr>od_status := outbox_as_str Dispatching, od_attempts := od_attempts r + 1,
                      od_locked_by := Some ''kernel-outbox'', od_locked_until := Some locked_until,
                      od_updated_at := now\<rparr>)) (\<lambda>changed.
                if changed = 0 then op_return None
                else op_then (append_event_tx E DispatchStarted (Some (od_run_id d))
                       (od_session_id d) (Some (od_invocation_id d))
                       (jobj [(''operation'', JStr (od_operation d)),
                              (''attempted_at'', JStr (rfc3339 E now)),
                              (''locked_until'', JStr (rfc3339 E locked_until))]))
                  (op_return (Some \<lparr>ld_invocation_id = od_invocation_id d,
                     ld_run_id = od_run_id d, ld_session_id = od_session_id d,
                     ld_operation = od_operation d, ld_arguments = arguments,
                     ld_idempotency_key = od_idempotency_key d,
                     ld_decision_id = od_decision_id d\<rparr>)))))))"

subsection \<open>Settling\<close>

definition assistant_reply_exists :: "string \<Rightarrow> bool jop" where
  "assistant_reply_exists invocation_id =
     op_query (\<lambda>s. 0 < count_where (\<lambda>r. is_kind AssistantReplyDelivered r \<and>
       jr_correlation_id r = Some invocation_id) (journal_events s))"

definition maybe_record_assistant_reply :: "env \<Rightarrow> Receipt \<Rightarrow> RunId \<Rightarrow> SessionId \<Rightarrow> unit jop" where
  "maybe_record_assistant_reply E receipt run_id session_id =
     (let inv_id = rc_invocation_id receipt in
      op_bind (op_query (\<lambda>s. find (\<lambda>r. od_invocation_id r = inv_id) (outbox_dispatches s))) (\<lambda>row.
      case row of
        None \<Rightarrow> op_return ()
      | Some d \<Rightarrow>
          if \<not> (od_operation d = ''stdout.send_text'' \<or> od_operation d = ''feishu.send_message'')
          then op_return ()
          else (case json_parse E (od_arguments_json d) of
                  None \<Rightarrow> op_return ()
                | Some arguments \<Rightarrow>
                    (case str_field arguments ''text'' of
                       None \<Rightarrow> op_return ()
                     | Some txt \<Rightarrow>
                         op_bind (op_try (append_event_tx E AssistantReplyDelivered (Some run_id)
                            (Some session_id) (Some inv_id)
                            (jobj [(''session_id'', JStr session_id), (''run_id'', JStr run_id),
                                   (''invocation_id'', JStr inv_id),
                                   (''channel'', JStr (if od_operation d = ''stdout.send_text''
                                      then ''cli'' else ''feishu'')),
                                   (''text'', JStr txt)]))) (\<lambda>result.
                         case result of
                           Inr _ \<Rightarrow> op_return ()
                         | Inl e \<Rightarrow> op_bind (assistant_reply_exists inv_id) (\<lambda>present.
                             if present then op_return ()
                             else op_bail (''failed to record assistant reply: '' @ e)))))))"

definition succeed_outbox_dispatch ::
  "env \<Rightarrow> Receipt \<Rightarrow> RunId \<Rightarrow> SessionId option \<Rightarrow> unit jop" where
  "succeed_outbox_dispatch E receipt run_id session_id =
     op_bind (utc_now E) (\<lambda>now.
     tx E (op_bind (update_outbox
         (\<lambda>r. od_invocation_id r = rc_invocation_id receipt \<and> od_is Dispatching r)
         (\<lambda>r. r\<lparr>od_status := outbox_as_str OutboxDispatchStatus.Succeeded, od_updated_at := now\<rparr>))
         (\<lambda>changed.
       if changed = 0 then op_bail terminal_transition_error
       else op_then (append_event_tx E ReceiptReceived (Some run_id) session_id
              (Some (rc_invocation_id receipt))
              (jobj [(''status'', JStr (receipt_status_debug (rc_status receipt))),
                     (''external_ref'', jopt (rc_external_ref receipt)),
                     (''output_kind'', JStr ''text'')]))
         (op_then
           (case session_id of
              Some session \<Rightarrow>
                if rc_status receipt = ReceiptStatus.Succeeded
                then maybe_record_assistant_reply E receipt run_id session
                else op_return ()
            | None \<Rightarrow> op_return ())
           (op_bind (op_query (status_of_run run_id)) (\<lambda>current_status.
            if current_status = Some ''Failed'' then op_return ()
            else op_then (set_run_status run_id ''Completed'' now)
              (op_then (append_event_tx E RunCompleted (Some run_id) session_id
                 (Some (rc_invocation_id receipt))
                 (jobj [(''status'', JStr ''Completed''),
                        (''reason'', JStr ''outbox_dispatch_succeeded'')]))
               (op_return ()))))))))"

definition fail_outbox_dispatch ::
  "env \<Rightarrow> InvocationId \<Rightarrow> RunId \<Rightarrow> SessionId option \<Rightarrow> string \<Rightarrow> unit jop" where
  "fail_outbox_dispatch E invocation_id run_id session_id err =
     op_bind (utc_now E) (\<lambda>now.
     tx E (op_bind (update_outbox
         (\<lambda>r. od_invocation_id r = invocation_id \<and> od_is Dispatching r)
         (\<lambda>r. r\<lparr>od_status := outbox_as_str OutboxDispatchStatus.Failed, od_locked_by := None,
            od_locked_until := None, od_last_error := Some err, od_updated_at := now\<rparr>)) (\<lambda>changed.
       if changed = 0 then op_bail terminal_transition_error
       else op_then (append_event_tx E ReceiptReceived (Some run_id) session_id
              (Some invocation_id)
              (jobj [(''status'', JStr ''Failed''), (''error'', JStr err),
                     (''output_kind'', JStr ''error'')]))
         (op_then (set_run_status run_id ''Failed'' now)
         (op_then (append_event_tx E RunFailed (Some run_id) session_id (Some invocation_id)
              (jobj [(''status'', JStr ''Failed''),
                     (''reason'', JStr ''outbox_dispatch_definite_failure''),
                     (''error'', JStr err)]))
         (op_return ()))))))"

definition unknown_outbox_dispatch ::
  "env \<Rightarrow> InvocationId \<Rightarrow> RunId \<Rightarrow> SessionId option \<Rightarrow> string \<Rightarrow> unit jop" where
  "unknown_outbox_dispatch E invocation_id run_id session_id err =
     op_bind (utc_now E) (\<lambda>now.
     tx E (op_bind (update_outbox
         (\<lambda>r. od_invocation_id r = invocation_id \<and> od_is Dispatching r)
         (\<lambda>r. r\<lparr>od_status := outbox_as_str OutboxDispatchStatus.Unknown, od_locked_by := None,
            od_locked_until := None, od_last_error := Some err, od_updated_at := now\<rparr>)) (\<lambda>changed.
       if changed = 0 then op_bail terminal_transition_error
       else op_then (append_event_tx E OutboxDispatchUnknown (Some run_id) session_id
              (Some invocation_id)
              (jobj [(''invocation_id'', JStr invocation_id), (''error'', JStr err),
                     (''status'', JStr (outbox_as_str OutboxDispatchStatus.Unknown))]))
         (op_return ()))))"

definition mark_outbox_dead ::
  "env \<Rightarrow> InvocationId \<Rightarrow> RunId \<Rightarrow> SessionId option \<Rightarrow> string \<Rightarrow> RetryPolicy \<Rightarrow> unit jop" where
  "mark_outbox_dead E invocation_id run_id session_id err policy =
     op_bind (utc_now E) (\<lambda>now.
     tx E (op_then (append_event_tx E OutboxDispatchDead (Some run_id) session_id
           (Some invocation_id)
           (jobj [(''invocation_id'', JStr invocation_id), (''reason_category'', JStr err),
                  (''retryable'', JBool False)]))
       (op_then (update_outbox (\<lambda>r. od_invocation_id r = invocation_id)
           (\<lambda>r. r\<lparr>od_status := outbox_as_str OutboxDispatchStatus.Dead, od_last_error := Some err,
              od_locked_by := None, od_locked_until := None, od_updated_at := now\<rparr>))
       (op_return ()))))"

definition outbox_attempts :: "string \<Rightarrow> store \<Rightarrow> int" where
  "outbox_attempts invocation_id s =
     (case find (\<lambda>r. od_invocation_id r = invocation_id) (outbox_dispatches s) of
        None \<Rightarrow> 0 | Some r \<Rightarrow> od_attempts r)"

definition mark_outbox_retryable_failed ::
  "env \<Rightarrow> InvocationId \<Rightarrow> RunId \<Rightarrow> SessionId option \<Rightarrow> string \<Rightarrow> RetryPolicy \<Rightarrow> unit jop" where
  "mark_outbox_retryable_failed E invocation_id run_id session_id err policy =
     op_bind (utc_now E) (\<lambda>now.
     op_bind (tx E (op_bind (op_query (outbox_attempts invocation_id)) (\<lambda>attempts.
       if max_outbox_attempts policy \<le> attempts then op_return False
       else
         let delay_ms = next_retry_delay_ms (word_of_int (attempts + 1))
               (base_retry_delay_ms policy) (max_retry_delay_ms policy);
             available_at = now + millis (sint delay_ms) in
         op_then (append_event_tx E OutboxDispatchFailed (Some run_id) session_id
            (Some invocation_id)
            (jobj [(''invocation_id'', JStr invocation_id), (''reason_category'', JStr err),
                   (''retryable'', JBool True),
                   (''next_available_at'', JStr (rfc3339 E available_at)),
                   (''attempts'', JNum (JInt attempts))]))
         (op_then (update_outbox (\<lambda>r. od_invocation_id r = invocation_id)
            (\<lambda>r. r\<lparr>od_status := outbox_as_str OutboxDispatchStatus.RetryableFailed,
               od_last_error := Some err, od_locked_by := None, od_locked_until := None,
               od_available_at := available_at, od_updated_at := now\<rparr>))
         (op_return True))))) (\<lambda>retried.
     if retried then op_return ()
     else mark_outbox_dead E invocation_id run_id session_id err policy))"

subsection \<open>The dispatcher\<close>

type_synonym adapter = "nat \<Rightarrow> ApprovedInvocation \<Rightarrow> adapter_failure + Receipt"

definition approved_of_lease :: "LeasedOutboxDispatch \<Rightarrow> ApprovedInvocation" where
  "approved_of_lease d =
     \<lparr>ai_intent = \<lparr>ii_invocation_id = ld_invocation_id d, ii_run_id = ld_run_id d,
        ii_operation = ld_operation d, ii_arguments = ld_arguments d,
        ii_idempotency_key = Some (ld_idempotency_key d)\<rparr>,
      ai_decision_id = ld_decision_id d\<rparr>"

definition settle_dispatch ::
  "env \<Rightarrow> LeasedOutboxDispatch \<Rightarrow> adapter_failure + Receipt \<Rightarrow> unit jop" where
  "settle_dispatch E d outcome =
     (case outcome of
        Inr receipt \<Rightarrow>
          if rc_status receipt = ReceiptStatus.Succeeded then
            succeed_outbox_dispatch E receipt (ld_run_id d) (ld_session_id d)
          else if rc_status receipt = ReceiptStatus.Failed then
            fail_outbox_dispatch E (ld_invocation_id d) (ld_run_id d) (ld_session_id d)
              ''definite_failure''
          else
            unknown_outbox_dispatch E (ld_invocation_id d) (ld_run_id d) (ld_session_id d)
              (''unknown_receipt_status:'' @ receipt_status_debug (rc_status receipt))
      | Inl err \<Rightarrow>
          unknown_outbox_dispatch E (ld_invocation_id d) (ld_run_id d) (ld_session_id d)
            (category_as_str (category_from_error err)))"

definition dispatch_once :: "env \<Rightarrow> adapter \<Rightarrow> bool jop" where
  "dispatch_once E execute =
     op_bind (lease_next_outbox_dispatch E) (\<lambda>leased.
     case leased of
       None \<Rightarrow> op_return False
     | Some d \<Rightarrow>
         op_bind draw (\<lambda>n.
         op_then (settle_dispatch E d (execute n (approved_of_lease d))) (op_return True)))"

subsection \<open>Every operation evolves the store\<close>

lemma evolves_maybe_record: "obeys (evolves E) (maybe_record_assistant_reply E r i j)"
  unfolding maybe_record_assistant_reply_def assistant_reply_exists_def
  by (intro evolves_intros)

lemma evolves_outbox_ops:
  "obeys (evolves E) (queue_outbox_dispatch E a si)"
  "obeys (evolves E) (outbox_dispatch_status E i)"
  "obeys (evolves E) (start_outbox_dispatch E a si)"
  "obeys (evolves E) (lease_next_outbox_dispatch E)"
  "obeys (evolves E) (succeed_outbox_dispatch E rc ri si)"
  "obeys (evolves E) (fail_outbox_dispatch E i ri si err)"
  "obeys (evolves E) (unknown_outbox_dispatch E i ri si err)"
  "obeys (evolves E) (mark_outbox_dead E i ri si err policy)"
  unfolding queue_outbox_dispatch_def outbox_dispatch_status_def start_outbox_dispatch_def
    lease_next_outbox_dispatch_def succeed_outbox_dispatch_def fail_outbox_dispatch_def
    unknown_outbox_dispatch_def mark_outbox_dead_def
  by ((intro evolves_maybe_record evolves_store_intros; simp add: outbox_core_def)+)

lemma evolves_mark_outbox_retryable:
  "obeys (evolves E) (mark_outbox_retryable_failed E i ri si err policy)"
  unfolding mark_outbox_retryable_failed_def
  by (intro evolves_outbox_ops evolves_store_intros; simp add: outbox_core_def)

lemma evolves_settle_dispatch: "obeys (evolves E) (settle_dispatch E d out)"
  unfolding settle_dispatch_def by (intro evolves_outbox_ops evolves_store_intros)

lemma evolves_dispatch_once: "obeys (evolves E) (dispatch_once E execute)"
  unfolding dispatch_once_def
  by (intro evolves_settle_dispatch evolves_outbox_ops evolves_store_intros)

lemmas evolves_outbox_intros = evolves_outbox_ops evolves_mark_outbox_retryable
  evolves_settle_dispatch evolves_dispatch_once evolves_store_intros

subsection \<open>Settled dispatches\<close>

definition od_final :: "OutboxRow \<Rightarrow> bool" where
  "od_final r \<longleftrightarrow> od_is OutboxDispatchStatus.Succeeded r \<or> od_is OutboxDispatchStatus.Failed r \<or>
     od_is OutboxDispatchStatus.Unknown r \<or> od_is OutboxDispatchStatus.Dead r"

interpretation ol: lifecycle outbox_dispatches od_final
  by unfold_locales simp_all

lemma od_open: "od_is Pending r \<Longrightarrow> \<not> od_final r" "od_is Dispatching r \<Longrightarrow> \<not> od_final r"
  "dispatchable now r \<Longrightarrow> \<not> od_final r"
  by (auto simp: od_final_def od_is_def dispatchable_def)

lemma final_update_outbox:
  "(\<And>r. p r \<Longrightarrow> \<not> od_final r) \<Longrightarrow> obeys (settled_kept outbox_dispatches od_final) (update_outbox p f)"
  by (rule obeysI, rule ol.settled_update [of _ p f]) (simp_all add: op_simps)

lemma final_insert_outbox:
  "obeys (settled_kept outbox_dispatches od_final) (insert_outbox_or_ignore r)"
  by (rule obeysI) (auto simp: op_simps intro: ol.settled_append ol.settled_same)

lemma final_set_run_status:
  "obeys (settled_kept outbox_dispatches od_final) (set_run_status i st now)"
  by (rule obeysI, rule ol.settled_same) (simp add: set_run_status_def op_simps)

lemmas final_intros = final_update_outbox final_insert_outbox final_set_run_status
  ol.settled_intros

lemma final_maybe_record:
  "obeys (settled_kept outbox_dispatches od_final) (maybe_record_assistant_reply E r i j)"
  unfolding maybe_record_assistant_reply_def assistant_reply_exists_def by (intro final_intros)

lemma final_outbox_ops:
  "obeys (settled_kept outbox_dispatches od_final) (queue_outbox_dispatch E a si)"
  "obeys (settled_kept outbox_dispatches od_final) (start_outbox_dispatch E a si)"
  "obeys (settled_kept outbox_dispatches od_final) (lease_next_outbox_dispatch E)"
  "obeys (settled_kept outbox_dispatches od_final) (succeed_outbox_dispatch E rc ri si)"
  "obeys (settled_kept outbox_dispatches od_final) (fail_outbox_dispatch E i ri si err)"
  "obeys (settled_kept outbox_dispatches od_final) (unknown_outbox_dispatch E i ri si err)"
  unfolding queue_outbox_dispatch_def start_outbox_dispatch_def lease_next_outbox_dispatch_def
    succeed_outbox_dispatch_def fail_outbox_dispatch_def unknown_outbox_dispatch_def
  by ((intro final_maybe_record final_intros; blast dest: od_open)+)

lemma final_dispatch_once:
  "obeys (settled_kept outbox_dispatches od_final) (dispatch_once E execute)"
  unfolding dispatch_once_def settle_dispatch_def by (intro final_outbox_ops final_intros)

subsection \<open>Dispatches that left the queue\<close>

text \<open>A dispatch waits while it is pending or may be retried; only waiting dispatches are leased.\<close>

definition waiting :: "OutboxRow \<Rightarrow> bool" where
  "waiting r \<longleftrightarrow> od_is Pending r \<or> od_is OutboxDispatchStatus.RetryableFailed r"

definition never_requeued :: "store \<Rightarrow> store \<Rightarrow> bool" where
  "never_requeued s t \<longleftrightarrow>
     (\<forall>i < length (outbox_dispatches s). \<not> waiting (outbox_dispatches s ! i) \<longrightarrow>
        i < length (outbox_dispatches t) \<and> \<not> waiting (outbox_dispatches t ! i))"

interpretation nr: store_frame never_requeued
  by unfold_locales (auto simp: never_requeued_def)

lemma requeued_same: "outbox_dispatches t = outbox_dispatches s \<Longrightarrow> never_requeued s t"
  by (simp add: never_requeued_def)

lemma requeued_update_outbox:
  assumes "\<And>r. p r \<Longrightarrow> \<not> waiting r \<Longrightarrow> \<not> waiting (f r)"
  shows "obeys never_requeued (update_outbox p f)"
  by (rule obeysI) (auto simp: op_simps never_requeued_def update_where_def dest: assms)

lemma requeued_statements:
  "obeys never_requeued (insert_event r1)"
  "obeys never_requeued (insert_session r2)"
  "obeys never_requeued (insert_run_row r3)"
  "obeys never_requeued (insert_dedup_or_ignore r4)"
  "obeys never_requeued (insert_job r5)"
  "obeys never_requeued (insert_job_or_ignore r5)"
  "obeys never_requeued (insert_outbox_or_ignore r6)"
  "obeys never_requeued (insert_continuation r7)"
  "obeys never_requeued (update_runs p f)"
  "obeys never_requeued (update_jobs q g)"
  by (rule obeysI; auto simp: op_simps never_requeued_def nth_append)+

lemma requeued_append_row: "obeys never_requeued (append_row E i c k ri si ci p)"
  unfolding append_row_def by (intro nr.store_intros obeys_intros requeued_statements)

lemma requeued_append:
  "obeys never_requeued (append_event_tx E k ri si ci p)"
  "obeys never_requeued (append_event E k ri si ci p)"
  unfolding append_event_tx_def append_event_def
  by (intro nr.store_intros obeys_intros requeued_append_row)+

lemma requeued_set_run_status: "obeys never_requeued (set_run_status i st now)"
  unfolding set_run_status_def by (intro nr.store_intros requeued_statements)

lemmas requeued_intros = requeued_update_outbox requeued_append requeued_set_run_status
  requeued_statements nr.store_intros obeys_intros

lemma requeued_maybe_record: "obeys never_requeued (maybe_record_assistant_reply E r i j)"
  unfolding maybe_record_assistant_reply_def assistant_reply_exists_def by (intro requeued_intros)

lemma requeued_outbox_ops:
  "obeys never_requeued (queue_outbox_dispatch E a si)"
  "obeys never_requeued (start_outbox_dispatch E a si)"
  "obeys never_requeued (lease_next_outbox_dispatch E)"
  "obeys never_requeued (succeed_outbox_dispatch E rc ri si)"
  "obeys never_requeued (fail_outbox_dispatch E i ri si err)"
  "obeys never_requeued (unknown_outbox_dispatch E i ri si err)"
  unfolding queue_outbox_dispatch_def start_outbox_dispatch_def lease_next_outbox_dispatch_def
    succeed_outbox_dispatch_def fail_outbox_dispatch_def unknown_outbox_dispatch_def
  by ((intro requeued_maybe_record requeued_intros; simp add: waiting_def od_is_def)+)

lemma requeued_dispatch_once: "obeys never_requeued (dispatch_once E execute)"
  unfolding dispatch_once_def settle_dispatch_def by (intro requeued_outbox_ops requeued_intros)

subsection \<open>Outcomes\<close>

lemma maybe_record_run:
  "\<exists>n es. maybe_record_assistant_reply E rc ri sj s =
     (Inr (), s\<lparr>tick := n, journal_events := journal_events s @ es\<rparr>) \<and>
   (\<forall>e \<in> set es. is_kind AssistantReplyDelivered e)"
proof -
  have "\<exists>n es. (Inr (), s) = (Inr (), s\<lparr>tick := n, journal_events := journal_events s @ es\<rparr>) \<and>
      (\<forall>e \<in> set es. is_kind AssistantReplyDelivered e)"
    by (intro exI [of _ "tick s"] exI [of _ "[]"]) simp
  moreover have "\<exists>n es. (Inr (), s\<lparr>tick := Suc (Suc (tick s)),
        journal_events := journal_events s @ [tx_row E AssistantReplyDelivered a b c d s]\<rparr>) =
      (Inr (), s\<lparr>tick := n, journal_events := journal_events s @ es\<rparr>) \<and>
      (\<forall>e \<in> set es. is_kind AssistantReplyDelivered e)" for a b c d
    by (intro exI [of _ "Suc (Suc (tick s))"]
        exI [of _ "[tx_row E AssistantReplyDelivered a b c d s]"]) (simp add: is_kind_def)
  ultimately show ?thesis
    unfolding maybe_record_assistant_reply_def Let_def
    by (auto simp: event_simps split: option.splits)
qed

text \<open>The row a dispatch becomes when it is settled at \<open>now\<close>.\<close>

definition settled_row :: "OutboxDispatchStatus \<Rightarrow> string \<Rightarrow> instant \<Rightarrow> OutboxRow \<Rightarrow> OutboxRow" where
  "settled_row st err now r =
     (if st = OutboxDispatchStatus.Succeeded
      then r\<lparr>od_status := outbox_as_str st, od_updated_at := now\<rparr>
      else r\<lparr>od_status := outbox_as_str st, od_locked_by := None, od_locked_until := None,
             od_last_error := Some err, od_updated_at := now\<rparr>)"

definition dispatching_row :: "InvocationId \<Rightarrow> OutboxRow \<Rightarrow> bool" where
  "dispatching_row i r \<longleftrightarrow> od_invocation_id r = i \<and> od_is Dispatching r"

lemma status_of_run_store [simp]:
  "status_of_run i (s\<lparr>tick := n\<rparr>) = status_of_run i s"
  "status_of_run i (s\<lparr>journal_events := es\<rparr>) = status_of_run i s"
  "status_of_run i (s\<lparr>outbox_dispatches := t\<rparr>) = status_of_run i s"
  by (simp_all add: status_of_run_def)

lemma fail_outbox_dispatch_run:
  assumes "\<not> fault_at E (Suc (tick s))" and "count_where (dispatching_row i) (outbox_dispatches s) \<noteq> 0"
  shows "\<exists>t e1 e2. fail_outbox_dispatch E i ri si err s = (Inr (), t) \<and>
    outbox_dispatches t = update_where (dispatching_row i)
      (settled_row OutboxDispatchStatus.Failed err (clock_at E (tick s))) (outbox_dispatches s) \<and>
    runs t = update_where (\<lambda>r. rr_id r = ri)
      (\<lambda>r. r\<lparr>rr_status := ''Failed'', rr_updated_at := clock_at E (tick s)\<rparr>) (runs s) \<and>
    journal_events t = journal_events s @ [e1, e2] \<and> is_kind ReceiptReceived e1 \<and>
    jr_correlation_id e1 = Some i \<and> is_kind RunFailed e2 \<and> jr_run_id e2 = Some ri \<and>
    jr_payload_json e1 = json_text E (jobj [(''status'', JStr ''Failed''), (''error'', JStr err),
      (''output_kind'', JStr ''error'')])"
  using assms
  by (simp add: fail_outbox_dispatch_def tx_def event_simps set_run_status_def Let_def is_kind_def
      dispatching_row_def [abs_def] settled_row_def [abs_def])

lemma unknown_outbox_dispatch_run:
  assumes "\<not> fault_at E (Suc (tick s))" and "count_where (dispatching_row i) (outbox_dispatches s) \<noteq> 0"
  shows "\<exists>t e. unknown_outbox_dispatch E i ri si err s = (Inr (), t) \<and>
    outbox_dispatches t = update_where (dispatching_row i)
      (settled_row OutboxDispatchStatus.Unknown err (clock_at E (tick s))) (outbox_dispatches s) \<and>
    runs t = runs s \<and> journal_events t = journal_events s @ [e] \<and>
    is_kind OutboxDispatchUnknown e \<and> jr_correlation_id e = Some i"
  using assms
  by (simp add: unknown_outbox_dispatch_def tx_def event_simps Let_def is_kind_def
      dispatching_row_def [abs_def] settled_row_def [abs_def])

lemma succeed_outbox_dispatch_run:
  assumes "\<not> fault_at E (Suc (tick s))"
    and "count_where (dispatching_row (rc_invocation_id rc)) (outbox_dispatches s) \<noteq> 0"
  shows "\<exists>t e es. succeed_outbox_dispatch E rc ri si s = (Inr (), t) \<and>
    outbox_dispatches t = update_where (dispatching_row (rc_invocation_id rc))
      (settled_row OutboxDispatchStatus.Succeeded [] (clock_at E (tick s))) (outbox_dispatches s) \<and>
    journal_events t = journal_events s @ e # es \<and> is_kind ReceiptReceived e \<and>
    jr_correlation_id e = Some (rc_invocation_id rc) \<and>
    jr_payload_json e = json_text E
      (jobj [(''status'', JStr (receipt_status_debug (rc_status rc))),
             (''external_ref'', jopt (rc_external_ref rc)), (''output_kind'', JStr ''text'')]) \<and>
    (\<forall>c \<in> set es. is_kind AssistantReplyDelivered c \<or> is_kind RunCompleted c) \<and>
    (if status_of_run ri s = Some ''Failed''
     then runs t = runs s \<and> (\<forall>e \<in> set es. is_kind AssistantReplyDelivered e)
     else runs t = update_where (\<lambda>r. rr_id r = ri)
         (\<lambda>r. r\<lparr>rr_status := ''Completed'', rr_updated_at := clock_at E (tick s)\<rparr>) (runs s) \<and>
       (\<exists>c \<in> set es. is_kind RunCompleted c \<and> jr_run_id c = Some ri))"
proof -
  define p where "p = jobj [(''status'', JStr (receipt_status_debug (rc_status rc))),
      (''external_ref'', jopt (rc_external_ref rc)), (''output_kind'', JStr ''text'')]"
  define now where "now = clock_at E (tick s)"
  define s1 where "s1 = s\<lparr>tick := Suc (Suc (tick s)), outbox_dispatches :=
      update_where (dispatching_row (rc_invocation_id rc))
        (settled_row OutboxDispatchStatus.Succeeded [] now) (outbox_dispatches s)\<rparr>"
  define r where "r = tx_row E ReceiptReceived (Some ri) si (Some (rc_invocation_id rc)) p s1"
  define s2 where "s2 = s1\<lparr>tick := Suc (Suc (tick s1)), journal_events := journal_events s1 @ [r]\<rparr>"
  define reply where "reply = (case si of Some session \<Rightarrow>
      if rc_status rc = ReceiptStatus.Succeeded
      then maybe_record_assistant_reply E rc ri session else op_return () | None \<Rightarrow> op_return ())"
  have "\<exists>n es. reply s2 = (Inr (), s2\<lparr>tick := n, journal_events := journal_events s2 @ es\<rparr>) \<and>
      (\<forall>e \<in> set es. is_kind AssistantReplyDelivered e)"
  proof -
    have "\<exists>n es. op_return () s2 = (Inr (), s2\<lparr>tick := n, journal_events := journal_events s2 @ es\<rparr>) \<and>
        (\<forall>e \<in> set es. is_kind AssistantReplyDelivered e)"
      by (intro exI [of _ "tick s2"] exI [of _ "[]"]) (simp add: op_return_def)
    then show ?thesis
      unfolding reply_def by (auto simp: maybe_record_run split: option.splits)
  qed
  then obtain n es where rep: "reply s2 = (Inr (), s2\<lparr>tick := n, journal_events := journal_events s2 @ es\<rparr>)"
    and es: "\<forall>e \<in> set es. is_kind AssistantReplyDelivered e" by blast
  have "is_kind ReceiptReceived r" "jr_correlation_id r = Some (rc_invocation_id rc)"
    "jr_payload_json r = json_text E p"
    by (simp_all add: r_def is_kind_def)
  moreover have "succeed_outbox_dispatch E rc ri si s =
      (op_then reply (op_bind (op_query (status_of_run ri)) (\<lambda>current_status.
            if current_status = Some ''Failed'' then op_return ()
            else op_then (set_run_status ri ''Completed'' now)
              (op_then (append_event_tx E RunCompleted (Some ri) si (Some (rc_invocation_id rc))
                 (jobj [(''status'', JStr ''Completed''),
                        (''reason'', JStr ''outbox_dispatch_succeeded'')]))
               (op_return ()))))) s2"
    using assms rep
    unfolding succeed_outbox_dispatch_def p_def [symmetric] reply_def [symmetric]
    by (simp add: tx_def event_simps set_run_status_def Let_def now_def s1_def s2_def r_def
        dispatching_row_def [abs_def] settled_row_def [abs_def])
  ultimately show ?thesis
    using rep es
    by (simp add: event_simps set_run_status_def s2_def s1_def now_def is_kind_def p_def)
qed

lemma next_dispatch_Some:
  "next_dispatch now t = Some d \<Longrightarrow>
   d \<in> set t \<and> dispatchable now d \<and> od_available_at d \<le> now \<and>
   (\<forall>r \<in> set t. dispatchable now r \<and> od_available_at r \<le> now \<longrightarrow>
      (od_available_at d, od_created_at d) \<le> (od_available_at r, od_created_at r))"
  unfolding next_dispatch_def by (drule first_by_SomeD) auto

definition leased_row :: "instant \<Rightarrow> OutboxRow \<Rightarrow> OutboxRow" where
  "leased_row now r = r\<lparr>od_status := outbox_as_str Dispatching, od_attempts := od_attempts r + 1,
     od_locked_by := Some ''kernel-outbox'', od_locked_until := Some (now + minutes 5),
     od_updated_at := now\<rparr>"

definition lease_of :: "OutboxRow \<Rightarrow> json \<Rightarrow> LeasedOutboxDispatch" where
  "lease_of d arguments = \<lparr>ld_invocation_id = od_invocation_id d, ld_run_id = od_run_id d,
     ld_session_id = od_session_id d, ld_operation = od_operation d, ld_arguments = arguments,
     ld_idempotency_key = od_idempotency_key d, ld_decision_id = od_decision_id d\<rparr>"

lemma lease_outbox_result:
  assumes "\<not> fault_at E (tick s)" and "now = clock_at E (Suc (tick s))"
  shows "case next_dispatch now (outbox_dispatches s) of
      None \<Rightarrow> \<exists>t. lease_next_outbox_dispatch E s = (Inr None, t) \<and> unchanged s t
    | Some d \<Rightarrow> (case json_parse E (od_arguments_json d) of
        None \<Rightarrow> \<exists>e t. lease_next_outbox_dispatch E s = (Inl e, t) \<and> unchanged s t
      | Some a \<Rightarrow> \<exists>t e. lease_next_outbox_dispatch E s = (Inr (Some (lease_of d a)), t) \<and>
          outbox_dispatches t = update_where
            (\<lambda>r. od_invocation_id r = od_invocation_id d \<and> dispatchable now r)
            (leased_row now) (outbox_dispatches s) \<and>
          runs t = runs s \<and> journal_events t = journal_events s @ [e] \<and>
          is_kind DispatchStarted e \<and> jr_correlation_id e = Some (od_invocation_id d))"
proof (cases "next_dispatch now (outbox_dispatches s)")
  case None
  with assms show ?thesis
    by (simp add: lease_next_outbox_dispatch_def tx_def op_simps Let_def unchanged_def)
next
  case (Some d)
  let ?p = "\<lambda>r. od_invocation_id r = od_invocation_id d \<and> dispatchable now r"
  from next_dispatch_Some [OF Some] have "count_where ?p (outbox_dispatches s) \<noteq> 0"
    unfolding count_where_0 by auto
  with assms Some show ?thesis
    by (cases "json_parse E (od_arguments_json d)")
       (simp_all add: lease_next_outbox_dispatch_def tx_def event_simps Let_def is_kind_def
        unchanged_def leased_row_def [abs_def] lease_of_def)
qed

lemma lease_updates_one:
  assumes "distinct (map od_invocation_id t)" and "d \<in> set t" and "dispatchable now d"
  shows "update_where (\<lambda>r. od_invocation_id r = od_invocation_id d \<and> dispatchable now r) f t
       = map (\<lambda>r. if r = d then f r else r) t"
proof -
  have "od_invocation_id r = od_invocation_id d \<and> dispatchable now r \<longleftrightarrow> r = d" if "r \<in> set t" for r
    using that assms by (auto simp: distinct_map inj_on_def)
  then show ?thesis by (simp add: update_where_def)
qed

text \<open>The status the outcome of an adapter settles a dispatch in.\<close>

fun outcome_status :: "adapter_failure + Receipt \<Rightarrow> OutboxDispatchStatus" where
  "outcome_status (Inl _) = OutboxDispatchStatus.Unknown"
| "outcome_status (Inr receipt) =
     (case rc_status receipt of
        ReceiptStatus.Succeeded \<Rightarrow> OutboxDispatchStatus.Succeeded
      | ReceiptStatus.Failed \<Rightarrow> OutboxDispatchStatus.Failed
      | ReceiptStatus.Unknown \<Rightarrow> OutboxDispatchStatus.Unknown)"

lemma settle_dispatch_run:
  assumes "\<not> fault_at E (Suc (tick s))"
    and "count_where (dispatching_row (ld_invocation_id d)) (outbox_dispatches s) \<noteq> 0"
    and "\<And>rc. outcome = Inr rc \<Longrightarrow> rc_invocation_id rc = ld_invocation_id d"
  shows "\<exists>t err. settle_dispatch E d outcome s = (Inr (), t) \<and>
    outbox_dispatches t = update_where (dispatching_row (ld_invocation_id d))
      (settled_row (outcome_status outcome) err (clock_at E (tick s))) (outbox_dispatches s)"
proof (cases outcome)
  case (Inl e)
  then show ?thesis
    using unknown_outbox_dispatch_run [OF assms(1,2), of "ld_run_id d" "ld_session_id d"
        "category_as_str (category_from_error e)"]
    by (auto simp: settle_dispatch_def)
next
  case (Inr rc)
  note id = assms(3) [OF Inr]
  show ?thesis
  proof (cases "rc_status rc")
    case Succeeded
    with Inr id show ?thesis
      using succeed_outbox_dispatch_run [of E s rc "ld_run_id d" "ld_session_id d"] assms(1,2)
      by (auto simp: settle_dispatch_def)
  next
    case Failed
    with Inr show ?thesis
      using fail_outbox_dispatch_run [OF assms(1,2), of "ld_run_id d" "ld_session_id d"
          "''definite_failure''"]
      by (auto simp: settle_dispatch_def)
  next
    case Unknown
    with Inr show ?thesis
      using unknown_outbox_dispatch_run [OF assms(1,2), of "ld_run_id d" "ld_session_id d"
          "''unknown_receipt_status:'' @ receipt_status_debug ReceiptStatus.Unknown"]
      by (auto simp: settle_dispatch_def)
  qed
qed

subsection \<open>Properties\<close>


text \<open>A store with one pending reply and an adapter that delivers everything.\<close>

definition sample_approved :: ApprovedInvocation where
  "sample_approved = \<lparr>ai_intent = \<lparr>ii_invocation_id = ''reply:run_1'', ii_run_id = ''run_1'',
     ii_operation = ''stdout.send_text'', ii_arguments = jobj [(''text'', JStr ''hi'')],
     ii_idempotency_key = None\<rparr>, ai_decision_id = ''decision_1''\<rparr>"

definition sample_outbox :: store where
  "sample_outbox = snd (queue_outbox_dispatch sample_env sample_approved (Some ''session_1'')
     (snd (insert_run sample_env sample_run empty_store)))"

definition delivering :: adapter where
  "delivering n a = Inr \<lparr>rc_invocation_id = ii_invocation_id (ai_intent a),
     rc_status = ReceiptStatus.Succeeded, rc_external_ref = None, rc_output = JNull,
     rc_occurred_at = 0\<rparr>"

definition sample_due :: OutboxRow where
  "sample_due = hd (outbox_dispatches sample_outbox)"



text \<open>Queueing is idempotent. After \<open>queue_outbox_dispatch\<close> returned, queueing an invocation with
  the same id again, in any later state and with any content, returns the dispatch id and
  changes no table.\<close>

theorem queue_outbox_idempotent:
  assumes "queue_outbox_dispatch E approved si s = (Inr i, t)" and "evolves E t u"
    and "ii_invocation_id (ai_intent approved') = ii_invocation_id (ai_intent approved)"
    and "\<not> fault_at E (Suc (tick u))"
  shows "\<exists>v. queue_outbox_dispatch E approved' si' u = (Inr i, v) \<and> unchanged u v"
proof -
  let ?i = "ii_invocation_id (ai_intent approved)"
  have i: "i = ''dispatch:'' @ ?i"
    using assms(1) by (auto simp: queue_outbox_dispatch_def Let_def event_simps dest!: tx_InrD
        split: if_splits)
  have "list_ex (\<lambda>r. od_dispatch_id r = ''dispatch:'' @ ?i \<or> od_invocation_id r = ?i)
      (outbox_dispatches t)"
    using assms(1) by (auto simp: queue_outbox_dispatch_def Let_def event_simps
        dest!: tx_InrD split: if_splits)
  then have "list_ex (\<lambda>r. od_dispatch_id r = ''dispatch:'' @ ?i \<or> od_invocation_id r = ?i)
      (map outbox_core (outbox_dispatches t))"
    by (auto simp: list_ex_iff outbox_core_def)
  with assms(2) have "list_ex (\<lambda>r. od_dispatch_id r = ''dispatch:'' @ ?i \<or> od_invocation_id r = ?i)
      (map outbox_core (outbox_dispatches u))"
    by (auto simp: evolves_def tables_grow_def grows_by_def prefix_def)
  then have "list_ex (\<lambda>r. od_dispatch_id r = ''dispatch:'' @ ?i \<or> od_invocation_id r = ?i)
      (outbox_dispatches u)"
    by (auto simp: list_ex_iff outbox_core_def)
  with assms(3,4) show ?thesis
    by (simp add: queue_outbox_dispatch_def Let_def op_simps tx_def unchanged_def i)
qed

theorem queue_outbox_idempotent_witness:
  "\<exists>i t v. queue_outbox_dispatch sample_env sample_approved None empty_store = (Inr i, t) \<and>
    queue_outbox_dispatch sample_env (sample_approved\<lparr>ai_decision_id := ''other''\<rparr>) None t =
      (Inr i, v) \<and> unchanged t v"
proof -
  have "fst (queue_outbox_dispatch sample_env sample_approved None empty_store) =
      Inr ''dispatch:reply:run_1''" by code_simp
  then obtain t where "queue_outbox_dispatch sample_env sample_approved None empty_store =
      (Inr ''dispatch:reply:run_1'', t)" by (metis prod.collapse)
  with queue_outbox_idempotent [OF this ev.frame_refl] show ?thesis by fastforce
qed

text \<open>A failed run is not completed by a delivery. If the run of a dispatch is \<open>Failed\<close> when
  its delivery succeeds, the run stays \<open>Failed\<close> and no \<open>RunCompleted\<close> is recorded.\<close>

theorem failed_run_not_completed:
  assumes "status_of_run run_id s = Some ''Failed''"
    and "succeed_outbox_dispatch E receipt run_id si s = (r, t)"
  shows "status_of_run run_id t = Some ''Failed'' \<and>
    count_where (is_kind RunCompleted) (journal_events t) =
    count_where (is_kind RunCompleted) (journal_events s)"
proof (cases r)
  case (Inl e)
  then have "unchanged (s\<lparr>tick := Suc (tick s)\<rparr>) t"
    using assms(2) by (auto simp: succeed_outbox_dispatch_def op_simps dest!: tx_InlD)
  with assms(1) show ?thesis
    by (simp add: unchangedD status_of_run_def)
next
  case (Inr x)
  have ok: "\<not> fault_at E (Suc (tick s))"
    using assms(2) Inr by (auto simp: succeed_outbox_dispatch_def op_simps dest!: tx_InrD)
  have nz: "count_where (dispatching_row (rc_invocation_id receipt)) (outbox_dispatches s) \<noteq> 0"
    using assms(2) Inr
    by (auto simp: succeed_outbox_dispatch_def op_simps dispatching_row_def [abs_def]
        dest!: tx_InrD split: if_splits)
  from succeed_outbox_dispatch_run [OF ok nz, of run_id si] assms obtain e es where
    "runs t = runs s" "journal_events t = journal_events s @ e # es" "is_kind ReceiptReceived e"
    "\<forall>e \<in> set es. is_kind AssistantReplyDelivered e"
    by auto
  then show ?thesis
    using assms(1) by (simp add: status_of_run_def count_where_def is_kind_def filter_empty_conv)
qed

definition sample_failed_dispatch :: store where
  "sample_failed_dispatch = snd (lease_next_outbox_dispatch sample_env
     (snd (fail_run sample_env ''run_1'' sample_outbox)))"

definition sample_receipt :: Receipt where
  "sample_receipt = \<lparr>rc_invocation_id = ''reply:run_1'', rc_status = ReceiptStatus.Succeeded,
     rc_external_ref = None, rc_output = JNull, rc_occurred_at = 0\<rparr>"

theorem failed_run_not_completed_witness:
  "status_of_run ''run_1'' (snd (succeed_outbox_dispatch sample_env sample_receipt ''run_1'' None
     sample_failed_dispatch)) = Some ''Failed''"
proof -
  have "status_of_run ''run_1'' sample_failed_dispatch = Some ''Failed''" by code_simp
  from failed_run_not_completed [OF this prod.collapse [symmetric]] show ?thesis by blast
qed

end
