(* ===== verification/Journal_Recovery.thy ===== *)
theory Journal_Recovery
  imports Outbox_Queue
begin

section \<open>Recovery and health\<close>

text \<open>
  What the kernel does at start-up with the traces of a crash (\<open>src/src/journal/unknown.rs\<close>,
  \<open>approval.rs\<close>, \<open>recovery.rs\<close> and \<open>recover_undelivered_ingress\<close> of \<open>server/delivery.rs\<close>), and the
  counters of \<open>queue_health.rs\<close>.
\<close>

subsection \<open>Invocations without an outcome\<close>

definition correlated :: "JournalEventKind \<Rightarrow> string \<Rightarrow> JournalRow \<Rightarrow> bool" where
  "correlated k i r \<longleftrightarrow> is_kind k r \<and> jr_correlation_id r = Some i"

definition terminal_event :: "string \<Rightarrow> JournalRow \<Rightarrow> bool" where
  "terminal_event i r \<longleftrightarrow> correlated OutboxDispatchUnknown i r \<or> correlated ReceiptReceived i r"

definition open_dispatch :: "JournalRow list \<Rightarrow> JournalRow \<Rightarrow> bool" where
  "open_dispatch t d \<longleftrightarrow> is_kind DispatchStarted d \<and>
     (case jr_correlation_id d of
        None \<Rightarrow> False
      | Some i \<Rightarrow> \<not> list_ex (correlated ReceiptReceived i) t \<and>
                 \<not> list_ex (correlated OutboxDispatchUnknown i) t)"

definition group_key :: "JournalRow \<Rightarrow> string option \<times> string option \<times> string option" where
  "group_key r = (jr_correlation_id r, jr_run_id r, jr_session_id r)"

text \<open>\<open>GROUP BY correlation_id, run_id, session_id ORDER BY MIN(sequence)\<close>.\<close>

definition unknown_invocations_of :: "JournalRow list \<Rightarrow> UnknownInvocation list" where
  "unknown_invocations_of t =
     (let ds = filter (open_dispatch t) (sort_key jr_sequence t) in
      map (\<lambda>key. case key of (i, ri, si) \<Rightarrow>
        \<lparr>ui_invocation_id = (case i of None \<Rightarrow> [] | Some x \<Rightarrow> x), ui_run_id = ri,
         ui_session_id = si,
         ui_first_dispatch_at = Min (set (map jr_created_at (filter (\<lambda>d. group_key d = key) ds)))\<rparr>)
        (rev (remdups (rev (map group_key ds)))))"

definition unknown_invocations :: "env \<Rightarrow> UnknownInvocation list jop" where
  "unknown_invocations E = tx E (op_query (\<lambda>s. unknown_invocations_of (journal_events s)))"

datatype TerminalFact = Succeeded | Failed | Unknown

definition classify_terminal_fact :: "env \<Rightarrow> string option \<Rightarrow> string option \<Rightarrow> TerminalFact" where
  "classify_terminal_fact E terminal_kind receipt_payload =
     (if terminal_kind = Some ''OutboxDispatchUnknown'' then TerminalFact.Unknown
      else if terminal_kind = Some ''ReceiptReceived'' then
        (let status = (case Option.bind (Option.bind receipt_payload (json_parse E))
                (\<lambda>payload. str_field payload ''status'') of None \<Rightarrow> [] | Some st \<Rightarrow> st) in
         if status = ''Succeeded'' then TerminalFact.Succeeded
         else if status = ''Failed'' then TerminalFact.Failed
         else TerminalFact.Unknown)
      else TerminalFact.Unknown)"

definition stale_dispatching_with_terminal_journal :: "env \<Rightarrow> (string \<times> TerminalFact) list jop" where
  "stale_dispatching_with_terminal_journal E =
     op_bind (utc_now E) (\<lambda>now.
     tx E (op_query (\<lambda>s.
       map (\<lambda>od. let i = od_invocation_id od in
              (i, classify_terminal_fact E
                 (map_option jr_kind (last_row (filter (terminal_event i) (journal_events s))))
                 (map_option jr_payload_json
                    (last_row (filter (correlated ReceiptReceived i) (journal_events s))))))
         (filter (\<lambda>od. od_is Dispatching od \<and>
              (case od_locked_until od of None \<Rightarrow> True | Some l \<Rightarrow> l \<le> now) \<and>
              list_ex (terminal_event (od_invocation_id od)) (journal_events s))
            (outbox_dispatches s)))))"

fun fact_status :: "TerminalFact \<Rightarrow> OutboxDispatchStatus" where
  "fact_status TerminalFact.Succeeded = OutboxDispatchStatus.Succeeded"
| "fact_status TerminalFact.Failed = OutboxDispatchStatus.Failed"
| "fact_status TerminalFact.Unknown = OutboxDispatchStatus.Unknown"

definition recover_one :: "env \<Rightarrow> UnknownInvocation \<Rightarrow> unit jop" where
  "recover_one E invocation =
     tx E (op_then (append_event_tx E OutboxDispatchUnknown (ui_run_id invocation)
          (ui_session_id invocation) (Some (ui_invocation_id invocation))
          (jobj [(''invocation_id'', JStr (ui_invocation_id invocation)),
                 (''error'', JStr ''dispatch_started_without_receipt''),
                 (''recovered'', JBool True),
                 (''status'', JStr (outbox_as_str OutboxDispatchStatus.Unknown))]))
       (op_bind (utc_now E) (\<lambda>now.
        op_then (update_outbox (\<lambda>r. od_invocation_id r = ui_invocation_id invocation)
           (\<lambda>r. r\<lparr>od_status := outbox_as_str OutboxDispatchStatus.Unknown, od_locked_by := None,
              od_locked_until := None, od_updated_at := now\<rparr>))
        (case ui_run_id invocation of
           None \<Rightarrow> op_return ()
         | Some run_id \<Rightarrow> op_bind (utc_now E) (\<lambda>now'. set_run_status run_id ''Unknown'' now')))))"

definition reconcile_one :: "env \<Rightarrow> string \<times> TerminalFact \<Rightarrow> unit jop" where
  "reconcile_one E x =
     (case x of (invocation_id, tf) \<Rightarrow>
      tx E (op_bind (utc_now E) (\<lambda>now.
        op_then (update_outbox (\<lambda>r. od_invocation_id r = invocation_id \<and> od_is Dispatching r)
           (\<lambda>r. r\<lparr>od_status := outbox_as_str (fact_status tf), od_locked_by := None,
              od_locked_until := None, od_updated_at := now\<rparr>))
        (op_return ()))))"

definition recover_unknown_invocations :: "env \<Rightarrow> nat jop" where
  "recover_unknown_invocations E =
     op_bind (unknown_invocations E) (\<lambda>candidates.
     op_then (op_for candidates (recover_one E))
     (op_bind (stale_dispatching_with_terminal_journal E) (\<lambda>stale.
      op_then (op_for stale (reconcile_one E))
      (op_return (length candidates + length stale)))))"

subsection \<open>Expiry of approvals\<close>

definition stale_approvals_since :: "env \<Rightarrow> instant \<Rightarrow> (string \<times> string \<times> instant) list jop" where
  "stale_approvals_since E cutoff =
     tx E (op_query (\<lambda>s.
       map (\<lambda>e. (case jr_run_id e of None \<Rightarrow> [] | Some i \<Rightarrow> i,
             case str_field
               (case json_parse E (jr_payload_json e) of
                  Some (JStr t) \<Rightarrow> (case json_parse E t of Some v \<Rightarrow> v | None \<Rightarrow> jobj [])
                | _ \<Rightarrow> jobj []) ''operation'' of None \<Rightarrow> [] | Some op \<Rightarrow> op,
             jr_created_at e))
         (filter (\<lambda>e. is_kind ApprovalRequested e \<and>
             (case jr_run_id e of
                None \<Rightarrow> False
              | Some i \<Rightarrow> status_of_run i s = Some ''AwaitingApproval'' \<and>
                  jr_created_at e < cutoff \<and>
                  \<not> list_ex (\<lambda>d. jr_run_id d = Some i \<and> (is_kind ApprovalGranted d \<or>
                       is_kind ApprovalDenied d \<or> is_kind ApprovalExpired d)) (journal_events s)))
           (journal_events s))))"

definition expire_stale_approvals :: "env \<Rightarrow> 64 word \<Rightarrow> nat jop" where
  "expire_stale_approvals E ttl_secs =
     (if ttl_secs = 0 then op_return 0
      else
        op_bind (utc_now E) (\<lambda>start.
        op_bind (stale_approvals_since E (start - sint ttl_secs * 1000000000)) (\<lambda>stale.
        op_bind (utc_now E) (\<lambda>now.
        op_then (op_for stale (\<lambda>(run_id, operation, requested_at).
           op_then (append_event E ApprovalExpired (Some run_id) None None
              (jobj [(''operation'', JStr operation),
                     (''requested_at'', JStr (rfc3339 E requested_at)),
                     (''expired_at'', JStr (rfc3339 E now)),
                     (''ttl_secs'', JNum (JInt (uint ttl_secs)))]))
             (fail_run E run_id)))
          (op_return (length stale))))))"

subsection \<open>Undelivered ingress\<close>

definition ingress_event_by_event_id :: "env \<Rightarrow> string \<Rightarrow> JournalEvent option jop" where
  "ingress_event_by_event_id E event_id =
     op_bind (events E) (\<lambda>es. op_return (find (\<lambda>e. je_kind e = IngressAccepted \<and>
       str_field (je_payload e) ''event_id'' = Some event_id) es))"

definition undelivered_of :: "JournalEvent list \<Rightarrow> JournalEvent list" where
  "undelivered_of es =
     (let delivered = List.map_filter (\<lambda>e.
            if je_kind e \<in> {SessionReady, RunStarted, RunCompleted, RunFailed}
            then je_correlation_id e else None) es in
      filter (\<lambda>e. je_kind e = IngressAccepted \<and>
        (case str_field (je_payload e) ''event_id'' of
           None \<Rightarrow> False | Some i \<Rightarrow> i \<notin> set delivered)) es)"

definition undelivered_ingress_events :: "env \<Rightarrow> JournalEvent list jop" where
  "undelivered_ingress_events E = op_bind (events E) (\<lambda>es. op_return (undelivered_of es))"

definition approval_request_for_run :: "env \<Rightarrow> RunId \<Rightarrow> json option jop" where
  "approval_request_for_run E run_id =
     op_bind (events E) (\<lambda>es. op_return (foldl (\<lambda>found e.
       if je_kind e = ApprovalRequested \<and> je_run_id e = Some run_id
       then Some (je_payload e) else found) None es))"

definition recover_undelivered_ingress :: "env \<Rightarrow> nat jop" where
  "recover_undelivered_ingress E =
     op_bind (undelivered_ingress_events E) (\<lambda>es.
     op_then (op_for es (\<lambda>e. case str_field (je_payload e) ''event_id'' of
         None \<Rightarrow> op_return ()
       | Some event_id \<Rightarrow> op_then (enqueue_worker_job E event_id) (op_return ())))
     (op_return (count_where (\<lambda>e. str_field (je_payload e) ''event_id'' \<noteq> None) es)))"

subsection \<open>Health counters\<close>

definition awaiting_approval_count :: "env \<Rightarrow> nat jop" where
  "awaiting_approval_count E =
     tx E (op_query (\<lambda>s. count_where (\<lambda>r. rr_status r = ''AwaitingApproval'') (runs s)))"

definition outbox_status_count :: "env \<Rightarrow> OutboxDispatchStatus \<Rightarrow> nat jop" where
  "outbox_status_count E status =
     tx E (op_query (\<lambda>s. count_where (od_is status) (outbox_dispatches s)))"

definition outbox_unknown_unacked_count :: "env \<Rightarrow> nat jop" where
  "outbox_unknown_unacked_count E =
     tx E (op_query (\<lambda>s. count_where (\<lambda>r. od_is OutboxDispatchStatus.Unknown r \<and>
       \<not> od_acked_unknown r) (outbox_dispatches s)))"

definition outbox_stale_dispatching_count :: "env \<Rightarrow> nat jop" where
  "outbox_stale_dispatching_count E =
     op_bind (utc_now E) (\<lambda>now. tx E (op_query (\<lambda>s. count_where (\<lambda>r. od_is Dispatching r \<and>
       (case od_locked_until r of None \<Rightarrow> False | Some l \<Rightarrow> l \<le> now)) (outbox_dispatches s))))"

text \<open>\<open>payload_json LIKE '%"status":"..."%'\<close> on a receipt of the invocation.\<close>

definition status_text :: "string \<Rightarrow> string" where
  "status_text st = [CHR 0x22] @ ''status'' @ [CHR 0x22, CHR '':'', CHR 0x22] @ st @ [CHR 0x22]"

definition receipt_says :: "string \<Rightarrow> string \<Rightarrow> JournalRow \<Rightarrow> bool" where
  "receipt_says st i e \<longleftrightarrow>
     correlated ReceiptReceived i e \<and> like_contains (status_text st) (jr_payload_json e)"

definition drifted :: "JournalRow list \<Rightarrow> OutboxRow \<Rightarrow> bool" where
  "drifted t od \<longleftrightarrow>
     (let i = od_invocation_id od in
      list_ex (terminal_event i) t \<and>
      \<not> (od_status od = ''succeeded'' \<and> list_ex (receipt_says ''Succeeded'' i) t \<or>
         od_status od = ''failed'' \<and> list_ex (receipt_says ''Failed'' i) t \<or>
         od_status od = ''unknown'' \<and> list_ex (correlated OutboxDispatchUnknown i) t))"

definition outbox_projection_drift_count :: "env \<Rightarrow> nat jop" where
  "outbox_projection_drift_count E =
     tx E (op_query (\<lambda>s. count_where (drifted (journal_events s)) (outbox_dispatches s)))"

definition worker_job_stale_count :: "env \<Rightarrow> nat jop" where
  "worker_job_stale_count E =
     op_bind (utc_now E) (\<lambda>now. tx E (op_query (\<lambda>s. count_where (\<lambda>r.
       wj_status r = worker_as_str WorkerJobStatus.Running \<and>
       (case wj_locked_until r of None \<Rightarrow> False | Some l \<Rightarrow> l \<le> now)) (worker_jobs s))))"

text \<open>\<open>SELECT status, COUNT(*) ... GROUP BY status\<close>, collected into a \<open>BTreeMap\<close>.\<close>

definition status_counts :: "string list \<Rightarrow> (string \<times> nat) list" where
  "status_counts sts = mcollect (map (\<lambda>st. (st, count_list sts st)) (remdups sts))"

definition worker_job_status_counts :: "env \<Rightarrow> (string \<times> nat) list jop" where
  "worker_job_status_counts E =
     tx E (op_query (\<lambda>s. status_counts (map wj_status (worker_jobs s))))"

definition outbox_dispatch_status_counts :: "env \<Rightarrow> (string \<times> nat) list jop" where
  "outbox_dispatch_status_counts E =
     tx E (op_query (\<lambda>s. status_counts (map od_status (outbox_dispatches s))))"

subsection \<open>What recovery writes\<close>

text \<open>\<open>appends K\<close>: every event written is of a kind in \<open>K\<close>.\<close>

definition appends :: "JournalEventKind set \<Rightarrow> store \<Rightarrow> store \<Rightarrow> bool" where
  "appends K s t \<longleftrightarrow> (\<exists>es. journal_events t = journal_events s @ es \<and>
     (\<forall>e \<in> set es. \<exists>k \<in> K. is_kind k e))"

interpretation ap: store_frame "appends K" for K
proof unfold_locales
  fix s t u :: store
  show "appends K s s" by (simp add: appends_def)
  show "appends K s t \<Longrightarrow> appends K t u \<Longrightarrow> appends K s u"
    by (auto simp: appends_def)
  show "tick s \<le> n \<Longrightarrow> appends K s (s\<lparr>tick := n\<rparr>)" for n
    by (simp add: appends_def)
qed

lemma appends_same: "journal_events t = journal_events s \<Longrightarrow> appends K s t"
  by (simp add: appends_def)

lemma appends_statements:
  "obeys (appends K) (insert_session r2)"
  "obeys (appends K) (insert_run_row r3)"
  "obeys (appends K) (insert_dedup_or_ignore r4)"
  "obeys (appends K) (insert_job r5)"
  "obeys (appends K) (insert_job_or_ignore r5)"
  "obeys (appends K) (insert_outbox_or_ignore r6)"
  "obeys (appends K) (insert_continuation r7)"
  "obeys (appends K) (update_runs p f)"
  "obeys (appends K) (update_jobs q g)"
  "obeys (appends K) (update_outbox z h)"
  by (rule obeysI; auto simp: op_simps intro: appends_same)+

lemma appends_append_row: "k \<in> K \<Longrightarrow> obeys (appends K) (append_row E i c k ri si ci p)"
  by (rule obeysI) (auto simp: appends_def append_row_result Let_def is_kind_def)

lemma appends_event:
  "k \<in> K \<Longrightarrow> obeys (appends K) (append_event_tx E k ri si ci p)"
  "k \<in> K \<Longrightarrow> obeys (appends K) (append_event E k ri si ci p)"
  unfolding append_event_tx_def append_event_def
  by (intro ap.store_intros obeys_intros appends_append_row; simp)+

lemma appends_set_run_status: "obeys (appends K) (set_run_status i st now)"
  unfolding set_run_status_def by (intro ap.store_intros appends_statements)

lemmas appends_intros = appends_event appends_set_run_status appends_statements ap.store_intros
  obeys_intros

lemma appends_recover:
  "obeys (appends {OutboxDispatchUnknown}) (recover_unknown_invocations E)"
  unfolding recover_unknown_invocations_def unknown_invocations_def recover_one_def
    stale_dispatching_with_terminal_journal_def reconcile_one_def
  by (intro appends_intros) simp

lemma requeued_recover: "obeys never_requeued (recover_unknown_invocations E)"
proof -
  have "\<not> waiting (r\<lparr>od_status := outbox_as_str (fact_status tf), od_locked_by := None,
      od_locked_until := None, od_updated_at := now\<rparr>)" for r tf now
    by (cases tf) (simp_all add: waiting_def od_is_def)
  moreover have "\<not> waiting (r\<lparr>od_status := outbox_as_str OutboxDispatchStatus.Unknown,
      od_locked_by := None, od_locked_until := None, od_updated_at := now\<rparr>)" for r now
    by (simp add: waiting_def od_is_def)
  ultimately show ?thesis
    unfolding recover_unknown_invocations_def unknown_invocations_def recover_one_def
      stale_dispatching_with_terminal_journal_def reconcile_one_def
    by (intro requeued_intros)
qed

lemma evolves_recover: "obeys (evolves E) (recover_unknown_invocations E)"
  unfolding recover_unknown_invocations_def unknown_invocations_def recover_one_def
    stale_dispatching_with_terminal_journal_def reconcile_one_def
  by (intro evolves_store_intros; simp add: outbox_core_def)

lemma evolves_expire: "obeys (evolves E) (expire_stale_approvals E ttl)"
  unfolding expire_stale_approvals_def stale_approvals_since_def
  by (intro evolves_store_intros)

lemma evolves_recover_ingress: "obeys (evolves E) (recover_undelivered_ingress E)"
  unfolding recover_undelivered_ingress_def undelivered_ingress_events_def
  by (intro evolves_worker_intros evolves_store_intros)

subsection \<open>Recovery leaves no dispatch open\<close>

definition open_ids :: "JournalRow list \<Rightarrow> string set" where
  "open_ids t = {i. \<exists>d \<in> set t. open_dispatch t d \<and> jr_correlation_id d = Some i}"

lemma open_ids_iff:
  "i \<in> open_ids t \<longleftrightarrow> (\<exists>d \<in> set t. correlated DispatchStarted i d) \<and>
     \<not> list_ex (terminal_event i) t"
  by (auto simp: open_ids_def open_dispatch_def correlated_def terminal_event_def list_ex_iff)

lemma unknown_invocations_ids: "set (map ui_invocation_id (unknown_invocations_of t)) = open_ids t"
proof -
  have "set (map ui_invocation_id (unknown_invocations_of t)) =
      (\<lambda>d. case jr_correlation_id d of None \<Rightarrow> [] | Some i \<Rightarrow> i) ` {d \<in> set t. open_dispatch t d}"
    by (auto simp: unknown_invocations_of_def Let_def group_key_def image_iff)
  also have "\<dots> = open_ids t"
    by (auto simp: open_ids_def open_dispatch_def intro: rev_image_eqI split: option.splits)
  finally show ?thesis .
qed

lemma recover_one_run:
  assumes "recover_one E x s = (Inr (), t)"
  shows "open_ids (journal_events t) = open_ids (journal_events s) - {ui_invocation_id x}"
proof -
  obtain e where e: "journal_events t = journal_events s @ [e]"
    "correlated OutboxDispatchUnknown (ui_invocation_id x) e"
    using assms
    by (auto simp: recover_one_def event_simps set_run_status_def correlated_def is_kind_def
        dest!: tx_InrD split: option.splits)
  then show ?thesis
    by (auto simp: open_ids_iff correlated_def is_kind_def terminal_event_def)
qed

lemma recover_loop_run:
  "op_for xs (recover_one E) s = (Inr (), t) \<Longrightarrow>
   open_ids (journal_events t) = open_ids (journal_events s) - ui_invocation_id ` set xs"
proof (induction xs arbitrary: s)
  case (Cons x xs)
  from Cons.prems obtain y u where "recover_one E x s = (Inr y, u)"
    and rest: "op_for xs (recover_one E) u = (Inr (), t)"
    by (auto simp: op_then_def elim: op_bind_InrD)
  with recover_one_run [of E x s u] Cons.IH [OF rest] show ?case by auto
qed (simp add: op_return_def)

lemma reconcile_loop_journal: "obeys (appends {}) (op_for xs (reconcile_one E))"
  unfolding reconcile_one_def by (intro appends_intros)

lemma appends_empty: "appends {} s t \<longleftrightarrow> journal_events t = journal_events s"
  by (auto simp: appends_def)

subsection \<open>Properties\<close>

text \<open>C5: Recovery closes every open dispatch. When \<open>recover_unknown_invocations\<close> returns, no
  \<open>DispatchStarted\<close> is without a receipt or an \<open>OutboxDispatchUnknown\<close>, so a second run finds no
  unknown invocation.\<close>

theorem recovery_leaves_nothing_open:
  assumes "recover_unknown_invocations E s = (Inr n, t)"
  shows "open_ids (journal_events t) = {} \<and> unknown_invocations_of (journal_events t) = []"
proof -
  from assms obtain cands u where
    c: "unknown_invocations E s = (Inr cands, u)" and
    rest: "op_then (op_for cands (recover_one E))
      (op_bind (stale_dispatching_with_terminal_journal E) (\<lambda>stale.
        op_then (op_for stale (reconcile_one E))
        (op_return (length cands + length stale)))) u = (Inr n, t)"
    unfolding recover_unknown_invocations_def by (elim op_bind_InrD)
  have ju: "journal_events u = journal_events s"
    and cands: "cands = unknown_invocations_of (journal_events s)"
    using c by (auto simp: unknown_invocations_def tx_query split: if_splits)
  from rest obtain v where loop: "op_for cands (recover_one E) u = (Inr (), v)" and
    stale: "op_bind (stale_dispatching_with_terminal_journal E) (\<lambda>stale.
        op_then (op_for stale (reconcile_one E)) (op_return (length cands + length stale))) v
      = (Inr n, t)"
    unfolding op_then_def by (auto elim: op_bind_InrD)
  have "obeys (appends {}) (op_bind (stale_dispatching_with_terminal_journal E) (\<lambda>stale.
        op_then (op_for stale (reconcile_one E)) (op_return (length cands + length stale))))"
    unfolding stale_dispatching_with_terminal_journal_def
    by (intro reconcile_loop_journal appends_intros)
  from obeysD [OF this stale] have "journal_events t = journal_events v"
    by (simp add: appends_empty)
  with recover_loop_run [OF loop] ju cands unknown_invocations_ids [of "journal_events s"]
  have "open_ids (journal_events t) = {}" by auto
  with unknown_invocations_ids [of "journal_events t"] show ?thesis by simp
qed

text \<open>A dispatch that was leased when the process stopped.\<close>

definition sample_crashed :: store where
  "sample_crashed = snd (lease_next_outbox_dispatch sample_env sample_outbox)"

definition sample_open :: store where
  "sample_open = snd (append_event sample_env DispatchStarted None None (Some ''inv'') (jobj [])
     empty_store)"

theorem recovery_leaves_nothing_open_witness:
  "open_ids (journal_events sample_open) \<noteq> {} \<and>
   unknown_invocations_of (journal_events (snd (recover_unknown_invocations sample_env
     sample_open))) = []"
proof
  have "unknown_invocations_of (journal_events sample_open) \<noteq> []"
    by code_simp
  then show "open_ids (journal_events sample_open) \<noteq> {}"
    by (simp flip: unknown_invocations_ids)
  have "fst (recover_unknown_invocations sample_env sample_open) = Inr 1"
    by code_simp
  then obtain t where "recover_unknown_invocations sample_env sample_open = (Inr 1, t)"
    by (metis prod.collapse)
  with recovery_leaves_nothing_open [OF this] show "unknown_invocations_of (journal_events
      (snd (recover_unknown_invocations sample_env sample_open))) = []" by simp
qed

text \<open>Recovery never invents an outcome. Whatever \<open>recover_unknown_invocations\<close> returns, the only
  events it has appended are \<open>OutboxDispatchUnknown\<close> (no receipt, no completed or failed run), and
  no dispatch that had left the queue is waiting again.\<close>

theorem recovery_writes_unknown_only:
  "appends {OutboxDispatchUnknown} s (snd (recover_unknown_invocations E s)) \<and>
   never_requeued s (snd (recover_unknown_invocations E s))"
  using appends_recover requeued_recover by (simp add: obeys_def)

text \<open>A stale projection follows the journal. A receipt settles a dispatch as succeeded or failed
  only if its payload says so in its \<open>status\<close>; an \<open>OutboxDispatchUnknown\<close>, a receipt with any
  other payload and a missing kind are all classified as unknown.\<close>

theorem classify_never_promotes:
  "(classify_terminal_fact E kind payload = TerminalFact.Succeeded \<longleftrightarrow>
      kind = Some (storage_name ReceiptReceived) \<and>
      (\<exists>raw v. payload = Some raw \<and> json_parse E raw = Some v \<and>
         str_field v ''status'' = Some ''Succeeded'')) \<and>
   (classify_terminal_fact E kind payload = TerminalFact.Failed \<longleftrightarrow>
      kind = Some (storage_name ReceiptReceived) \<and>
      (\<exists>raw v. payload = Some raw \<and> json_parse E raw = Some v \<and>
         str_field v ''status'' = Some ''Failed''))"
  by (auto simp: classify_terminal_fact_def storage_name_def Let_def bind_eq_Some_conv
      split: option.splits if_splits)

text \<open>The operation of an expired approval is lost. Since the payload of an event is an object,
  parsing its text as a string fails, so \<open>stale_approvals_since\<close> reports an empty operation for
  every approval request whose payload text is an object.\<close>

theorem expired_operation_blank:
  assumes "stale_approvals_since E cutoff s = (Inr stale, t)"
    and "\<And>e. e \<in> set (journal_events s) \<Longrightarrow> is_kind ApprovalRequested e \<Longrightarrow>
      \<exists>m. json_parse E (jr_payload_json e) = Some (JObj m)"
    and "(run_id, operation, requested_at) \<in> set stale"
  shows "operation = []"
proof -
  from assms(1,3) obtain e where "e \<in> set (journal_events s)" "is_kind ApprovalRequested e"
    and op: "operation = (case str_field
               (case json_parse E (jr_payload_json e) of
                  Some (JStr t) \<Rightarrow> (case json_parse E t of Some v \<Rightarrow> v | None \<Rightarrow> jobj [])
                | _ \<Rightarrow> jobj []) ''operation'' of None \<Rightarrow> [] | Some op \<Rightarrow> op)"
    by (auto simp: stale_approvals_since_def tx_query split: if_splits)
  with assms(2) obtain m where "json_parse E (jr_payload_json e) = Some (JObj m)" by blast
  with op show ?thesis by simp
qed

definition sample_awaiting :: store where
  "sample_awaiting = snd (update_run_status sample_env ''run_1'' ''AwaitingApproval''
     (snd (append_event sample_env ApprovalRequested (Some ''run_1'') None None
        (jobj [(''operation'', JStr ''feishu.send_message'')])
        (snd (insert_run sample_env sample_run empty_store)))))"

theorem expired_operation_blank_witness:
  "\<exists>since. fst (stale_approvals_since sample_env 99000000 sample_awaiting) = Inr [(''run_1'', [], since)]"
proof -
  let ?r = "stale_approvals_since sample_env 99000000 sample_awaiting"
  have "map_sum id (map (\<lambda>x. (fst x, snd (snd x)))) (fst ?r) = Inr [(''run_1'', 2000000)]"
    by code_simp
  then obtain op t where r: "?r = (Inr [(''run_1'', op, 2000000)], t)"
    by (cases ?r; cases "fst ?r") auto
  have "list_all (\<lambda>e. is_kind ApprovalRequested e \<longrightarrow>
      Option.bind (json_parse sample_env (jr_payload_json e)) as_object \<noteq> None)
      (journal_events sample_awaiting)" by code_simp
  then have obj: "\<And>e. e \<in> set (journal_events sample_awaiting) \<Longrightarrow> is_kind ApprovalRequested e \<Longrightarrow>
      \<exists>m. json_parse sample_env (jr_payload_json e) = Some (JObj m)"
    by (fastforce simp: list_all_iff bind_eq_Some_conv as_object_iff)
  have "op = []"
    by (rule expired_operation_blank [OF r obj]) simp_all
  with r show ?thesis by simp
qed

text \<open>An unknown outcome of the dispatcher does not reach the run. \<open>unknown_outbox_dispatch\<close>
  leaves \<open>runs\<close> as it was, and a later recovery does not visit that invocation, so its run keeps
  the status it had.\<close>

theorem dispatcher_unknown_keeps_run:
  assumes "unknown_outbox_dispatch E i run_id si err s = (Inr (), t)"
  shows "runs t = runs s \<and> i \<notin> set (map ui_invocation_id (unknown_invocations_of (journal_events t)))"
proof -
  obtain e where "runs t = runs s" "journal_events t = journal_events s @ [e]"
    "correlated OutboxDispatchUnknown i e"
    using assms by (auto simp: unknown_outbox_dispatch_def event_simps correlated_def is_kind_def
        dest!: tx_InrD split: if_splits)
  then show ?thesis
    unfolding unknown_invocations_ids by (simp add: open_ids_iff terminal_event_def)
qed

theorem dispatcher_unknown_keeps_run_witness:
  "runs (snd (unknown_outbox_dispatch sample_env ''reply:run_1'' ''run_1'' None ''timeout''
     sample_crashed)) = runs sample_crashed"
proof -
  have "fst (unknown_outbox_dispatch sample_env ''reply:run_1'' ''run_1'' None ''timeout''
     sample_crashed) = Inr ()" by code_simp
  then obtain t where "unknown_outbox_dispatch sample_env ''reply:run_1'' ''run_1'' None ''timeout''
     sample_crashed = (Inr (), t)" by (metis prod.collapse)
  with dispatcher_unknown_keeps_run [OF this] show ?thesis by simp
qed

end
