(* ===== verification/Outbox_Projection.thy ===== *)
theory Outbox_Projection
  imports Journal_Recovery
begin

section \<open>The outbox agrees with the journal\<close>

text \<open>
  The table \<open>outbox_dispatches\<close> is a projection of the journal. This theory proves that the kernel
  never lets the two drift apart: in every state reached by queueing, dispatching and recovering,
  with other events appended in between, the counter \<open>outbox_projection_drift_count\<close> is 0.

  The counter searches the text of a payload, so the result rests on a documented property of
  \<open>serde_json::to_string\<close>: an object is printed without white space, and a string that needs no
  escape is printed between quotes as it is.
\<close>

definition plain :: "string \<Rightarrow> bool" where
  "plain s \<longleftrightarrow> (\<forall>c \<in> set s. 32 \<le> (of_char c :: nat) \<and> c \<noteq> CHR 0x22 \<and> c \<noteq> CHR 0x5C)"

definition compact_printing :: "env \<Rightarrow> bool" where
  "compact_printing E \<longleftrightarrow> (\<forall>m k v. (k, JStr v) \<in> set m \<and> plain k \<and> plain v \<longrightarrow>
     contains ([CHR 0x22] @ k @ [CHR 0x22, CHR '':'', CHR 0x22] @ v @ [CHR 0x22])
       (json_text E (JObj m)))"

lemma escape_plain: "plain s \<Longrightarrow> escape s = s"
  by (induction s) (simp_all add: plain_def)

lemma join_contains: "x \<in> set xs \<Longrightarrow> contains x (join sep xs)"
proof (induction sep xs rule: join.induct)
  case (2 sep y)
  then show ?case by (auto simp: contains_iff intro: exI [of _ "[]"])
next
  case (3 sep y z zs)
  show ?case
  proof (cases "x = y")
    case True
    then have "join sep (y # z # zs) = [] @ x @ (sep @ join sep (z # zs))" by simp
    then show ?thesis unfolding contains_iff by blast
  next
    case False
    with 3 obtain a b where "join sep (z # zs) = a @ x @ b" by (auto simp: contains_iff)
    then have "join sep (y # z # zs) = (y @ sep @ a) @ x @ b" by simp
    then show ?thesis unfolding contains_iff by blast
  qed
qed simp

lemma sample_compact_printing: "compact_printing sample_env"
  unfolding compact_printing_def
proof (intro allI impI)
  fix m k v assume a: "(k, JStr v) \<in> set m \<and> plain k \<and> plain v"
  let ?x = "[CHR 0x22] @ k @ [CHR 0x22, CHR '':'', CHR 0x22] @ v @ [CHR 0x22]"
  have "?x \<in> set (map (\<lambda>kv. quoted (fst kv) @ '':'' @ print_json (snd kv)) m)"
    using a by (force simp: quoted_def escape_plain)
  from join_contains [OF this, of "'',''"] obtain p q where
    "join '','' (map (\<lambda>kv. quoted (fst kv) @ '':'' @ print_json (snd kv)) m) = p @ ?x @ q"
    unfolding contains_iff by blast
  then have "print_json (JObj m) = (''{'' @ p) @ ?x @ (q @ ''}'')" by simp
  then show "contains ?x (json_text sample_env (JObj m))"
    unfolding contains_iff sample_env_simps by blast
qed

lemma compact_status:
  assumes "compact_printing E" and "map_of (rev kvs) ''status'' = Some (JStr st)" and "plain st"
  shows "like_contains (status_text st) (json_text E (jobj kvs))"
proof -
  have "(''status'', JStr st) \<in> set (mcollect kvs)"
    using assms(2) by (simp add: map_of_SomeD map_of_mcollect)
  moreover have "plain ''status''" by (simp add: plain_def)
  ultimately have "contains (status_text st) (json_text E (JObj (mcollect kvs)))"
    using assms(1,3) unfolding compact_printing_def status_text_def by blast
  then show ?thesis by (simp add: jobj_def contains_like)
qed

subsection \<open>The invariant\<close>

definition row_agrees :: "JournalRow list \<Rightarrow> OutboxRow \<Rightarrow> bool" where
  "row_agrees t od \<longleftrightarrow>
     (let i = od_invocation_id od in
      if od_is OutboxDispatchStatus.Succeeded od then list_ex (receipt_says ''Succeeded'' i) t
      else if od_is OutboxDispatchStatus.Failed od then list_ex (receipt_says ''Failed'' i) t
      else if od_is OutboxDispatchStatus.Unknown od
        then list_ex (correlated OutboxDispatchUnknown i) t
      else \<not> list_ex (terminal_event i) t)"

definition projection_ok :: "store \<Rightarrow> bool" where
  "projection_ok s \<longleftrightarrow> distinct (map od_invocation_id (outbox_dispatches s)) \<and>
     (\<forall>od \<in> set (outbox_dispatches s). row_agrees (journal_events s) od)"

lemma row_agrees_not_drifted: "row_agrees t od \<Longrightarrow> \<not> drifted t od"
  by (auto simp: row_agrees_def drifted_def od_is_def Let_def split: if_splits)

lemma row_agrees_append:
  assumes "row_agrees t od" and "\<And>e. e \<in> set es \<Longrightarrow> \<not> terminal_event (od_invocation_id od) e"
  shows "row_agrees (t @ es) od"
  using assms by (auto simp: row_agrees_def Let_def list_ex_iff split: if_splits)

lemma projection_unchanged: "unchanged s t \<Longrightarrow> projection_ok s \<Longrightarrow> projection_ok t"
  by (simp add: projection_ok_def unchangedD)

lemma projection_settle:
  assumes "projection_ok s"
    and "outbox_dispatches t = update_where p f (outbox_dispatches s)"
    and "\<And>r. p r \<Longrightarrow> od_invocation_id r = i" and "\<And>r. od_invocation_id (f r) = od_invocation_id r"
    and "journal_events t = journal_events s @ e # es"
    and "\<And>c j. c \<in> set es \<Longrightarrow> \<not> terminal_event j c"
    and "\<And>j. terminal_event j e \<Longrightarrow> j = i"
    and "\<And>r. r \<in> set (outbox_dispatches s) \<Longrightarrow> od_invocation_id r = i \<Longrightarrow>
      p r \<and> row_agrees (journal_events t) (f r)"
  shows "projection_ok t"
  unfolding projection_ok_def
proof
  show "distinct (map od_invocation_id (outbox_dispatches t))"
    using assms(1,2,4) by (simp add: projection_ok_def map_update_where)
  show "\<forall>od \<in> set (outbox_dispatches t). row_agrees (journal_events t) od"
  proof
    fix od assume "od \<in> set (outbox_dispatches t)"
    then obtain r where r: "r \<in> set (outbox_dispatches s)" "od = (if p r then f r else r)"
      by (auto simp: assms(2) in_update_where)
    show "row_agrees (journal_events t) od"
    proof (cases "od_invocation_id r = i")
      case True
      with assms(8) [OF r(1)] r(2) show ?thesis by simp
    next
      case False
      with assms(3) r(2) have "od = r" by auto
      moreover have "row_agrees (journal_events s) r"
        using assms(1) r(1) by (simp add: projection_ok_def)
      ultimately show ?thesis
        using False assms(6,7) unfolding assms(5) by (intro row_agrees_append) auto
    qed
  qed
qed

subsection \<open>The operations keep it\<close>

lemma terminal_event_kinds:
  "terminal_event j e \<Longrightarrow> is_kind OutboxDispatchUnknown e \<or> is_kind ReceiptReceived e"
  by (auto simp: terminal_event_def correlated_def)

lemma not_terminal:
  "is_kind k e \<Longrightarrow> k \<noteq> OutboxDispatchUnknown \<Longrightarrow> k \<noteq> ReceiptReceived \<Longrightarrow> \<not> terminal_event j e"
  by (auto simp: is_kind_def dest: terminal_event_kinds)

lemma dispatching_unique:
  assumes "projection_ok s" and "count_where (dispatching_row i) (outbox_dispatches s) \<noteq> 0"
    and "r \<in> set (outbox_dispatches s)" and "od_invocation_id r = i"
  shows "dispatching_row i r"
proof -
  from assms(2) obtain r' where "r' \<in> set (outbox_dispatches s)" "dispatching_row i r'"
    by (auto simp: count_where_0)
  moreover with assms(1,3,4) have "r = r'"
    by (auto simp: projection_ok_def distinct_map inj_on_def dispatching_row_def)
  ultimately show ?thesis by simp
qed

lemma settled_row_id [simp]: "od_invocation_id (settled_row st err now r) = od_invocation_id r"
  by (simp add: settled_row_def)

lemma settled_row_status [simp]: "od_status (settled_row st err now r) = outbox_as_str st"
  by (simp add: settled_row_def)

lemma projection_fail:
  assumes "compact_printing E" and "projection_ok s"
    and "fail_outbox_dispatch E i ri si err s = (r, t)"
  shows "projection_ok t"
proof (cases r)
  case (Inl e)
  with assms(3) have "unchanged (s\<lparr>tick := Suc (tick s)\<rparr>) t"
    by (auto simp: fail_outbox_dispatch_def op_simps dest!: tx_InlD)
  from projection_unchanged [OF unchanged_trans [OF unchanged_tick this] assms(2)] show ?thesis .
next
  case (Inr x)
  have "\<not> fault_at E (Suc (tick s))" and
    nz: "count_where (dispatching_row i) (outbox_dispatches s) \<noteq> 0"
    using assms(3) Inr by (auto simp: fail_outbox_dispatch_def op_simps dispatching_row_def [abs_def]
        dest!: tx_InrD split: if_splits)
  from fail_outbox_dispatch_run [OF this, of ri si err] assms(3) obtain e1 e2 where
    o: "outbox_dispatches t = update_where (dispatching_row i)
      (settled_row OutboxDispatchStatus.Failed err (clock_at E (tick s))) (outbox_dispatches s)" and
    j: "journal_events t = journal_events s @ [e1, e2]" and
    e1: "is_kind ReceiptReceived e1" "jr_correlation_id e1 = Some i" and e2: "is_kind RunFailed e2" and
    p: "jr_payload_json e1 = json_text E (jobj [(''status'', JStr ''Failed''), (''error'', JStr err),
      (''output_kind'', JStr ''error'')])"
    by auto
  have "receipt_says ''Failed'' i e1"
    using e1 compact_status [OF assms(1)] unfolding p receipt_says_def
    by (auto simp: correlated_def plain_def)
  with e1 e2 j show ?thesis
    by (intro projection_settle [OF assms(2) o, of i e1 "[e2]"])
       (auto simp: dispatching_row_def row_agrees_def od_is_def terminal_event_def correlated_def
         is_kind_def dest: dispatching_unique [OF assms(2) nz])
qed

lemma projection_unknown:
  assumes "projection_ok s" and "unknown_outbox_dispatch E i ri si err s = (r, t)"
  shows "projection_ok t"
proof (cases r)
  case (Inl e)
  with assms(2) have "unchanged (s\<lparr>tick := Suc (tick s)\<rparr>) t"
    by (auto simp: unknown_outbox_dispatch_def op_simps dest!: tx_InlD)
  from projection_unchanged [OF unchanged_trans [OF unchanged_tick this] assms(1)] show ?thesis .
next
  case (Inr x)
  have "\<not> fault_at E (Suc (tick s))" and
    nz: "count_where (dispatching_row i) (outbox_dispatches s) \<noteq> 0"
    using assms(2) Inr by (auto simp: unknown_outbox_dispatch_def op_simps
        dispatching_row_def [abs_def] dest!: tx_InrD split: if_splits)
  from unknown_outbox_dispatch_run [OF this, of ri si err] assms(2) obtain e where
    o: "outbox_dispatches t = update_where (dispatching_row i)
      (settled_row OutboxDispatchStatus.Unknown err (clock_at E (tick s))) (outbox_dispatches s)" and
    j: "journal_events t = journal_events s @ [e]" and
    e: "is_kind OutboxDispatchUnknown e" "jr_correlation_id e = Some i"
    by auto
  then show ?thesis
    by (intro projection_settle [OF assms(1) o, of i e "[]"])
       (auto simp: dispatching_row_def row_agrees_def od_is_def terminal_event_def correlated_def
         is_kind_def dest: dispatching_unique [OF assms(1) nz])
qed

lemma projection_succeed:
  assumes "compact_printing E" and "projection_ok s" and "rc_status rc = ReceiptStatus.Succeeded"
    and "succeed_outbox_dispatch E rc ri si s = (r, t)"
  shows "projection_ok t"
proof (cases r)
  case (Inl e)
  with assms(4) have "unchanged (s\<lparr>tick := Suc (tick s)\<rparr>) t"
    by (auto simp: succeed_outbox_dispatch_def op_simps dest!: tx_InlD)
  from projection_unchanged [OF unchanged_trans [OF unchanged_tick this] assms(2)] show ?thesis .
next
  case (Inr x)
  let ?i = "rc_invocation_id rc"
  have "\<not> fault_at E (Suc (tick s))" and
    nz: "count_where (dispatching_row ?i) (outbox_dispatches s) \<noteq> 0"
    using assms(4) Inr by (auto simp: succeed_outbox_dispatch_def op_simps
        dispatching_row_def [abs_def] dest!: tx_InrD split: if_splits)
  from succeed_outbox_dispatch_run [OF this, of ri si] assms(4) obtain e es where
    o: "outbox_dispatches t = update_where (dispatching_row ?i)
      (settled_row OutboxDispatchStatus.Succeeded [] (clock_at E (tick s))) (outbox_dispatches s)" and
    j: "journal_events t = journal_events s @ e # es" and
    e: "is_kind ReceiptReceived e" "jr_correlation_id e = Some ?i" and
    p: "jr_payload_json e = json_text E
      (jobj [(''status'', JStr (receipt_status_debug (rc_status rc))),
             (''external_ref'', jopt (rc_external_ref rc)), (''output_kind'', JStr ''text'')])" and
    es: "\<forall>c \<in> set es. is_kind AssistantReplyDelivered c \<or> is_kind RunCompleted c"
    by auto
  have "receipt_says ''Succeeded'' ?i e"
    using e compact_status [OF assms(1)] unfolding p receipt_says_def
    by (auto simp: correlated_def plain_def assms(3))
  moreover have "\<not> terminal_event k c" if "c \<in> set es" for c k
    using es that by (auto dest: not_terminal [where j = k])
  ultimately show ?thesis
    using e j
    by (intro projection_settle [OF assms(2) o, of ?i e es])
       (auto simp: dispatching_row_def row_agrees_def od_is_def terminal_event_def correlated_def
         is_kind_def dest: dispatching_unique [OF assms(2) nz])
qed

lemma waiting_agrees:
  "row_agrees t r \<Longrightarrow> waiting r \<or> od_is Dispatching r \<Longrightarrow> \<not> list_ex (terminal_event (od_invocation_id r)) t"
  by (auto simp: row_agrees_def waiting_def od_is_def Let_def)

lemma dispatchable_waiting: "dispatchable now r \<Longrightarrow> waiting r"
  by (auto simp: dispatchable_def waiting_def)

lemma projection_lease:
  assumes "projection_ok s" and "lease_next_outbox_dispatch E s = (r, t)"
  shows "projection_ok t"
proof (cases "fault_at E (tick s)")
  case True
  with assms(2) have "unchanged s t"
    by (auto simp: lease_next_outbox_dispatch_def tx_def Let_def)
  from projection_unchanged [OF this assms(1)] show ?thesis .
next
  case False
  let ?now = "clock_at E (Suc (tick s))"
  note res = lease_outbox_result [OF False refl] assms(2)
  consider "unchanged s t" | d e where "next_dispatch ?now (outbox_dispatches s) = Some d"
    "outbox_dispatches t = update_where
            (\<lambda>r. od_invocation_id r = od_invocation_id d \<and> dispatchable ?now r)
            (leased_row ?now) (outbox_dispatches s)"
    "journal_events t = journal_events s @ [e]" "is_kind DispatchStarted e"
    using res by (auto split: option.splits)
  then show ?thesis
  proof cases
    case 1
    from projection_unchanged [OF this assms(1)] show ?thesis .
  next
    case (2 d e)
    note d = next_dispatch_Some [OF 2(1)]
    have same: "r = d" if "r \<in> set (outbox_dispatches s)" "od_invocation_id r = od_invocation_id d" for r
      using that assms(1) d by (auto simp: projection_ok_def distinct_map inj_on_def)
    have "\<not> list_ex (terminal_event (od_invocation_id d)) (journal_events s)"
      using assms(1) d by (intro waiting_agrees) (auto simp: projection_ok_def dispatchable_waiting)
    moreover have "\<not> terminal_event k e" for k
      using 2(4) by (rule not_terminal) simp_all
    ultimately have "row_agrees (journal_events t) (leased_row ?now d)"
      by (simp add: 2(3) row_agrees_def leased_row_def od_is_def)
    then show ?thesis
      using 2(3,4) d same not_terminal [OF 2(4)]
      by (intro projection_settle [OF assms(1) 2(2), of "od_invocation_id d" e "[]"])
         (auto simp: leased_row_def)
  qed
qed

lemma projection_dispatch_once:
  assumes "compact_printing E"
  shows "obeys (keeps projection_ok) (dispatch_once E execute)"
proof -
  have lease: "obeys (keeps projection_ok) (lease_next_outbox_dispatch E)"
    by (rule obeys_keepsI) (rule projection_lease)
  have draw: "obeys (keeps projection_ok) draw"
    by (rule obeysI) (auto simp: draw_def intro: projection_unchanged [OF unchanged_tick])
  have fail: "obeys (keeps projection_ok) (fail_outbox_dispatch E i ri si err)" for i ri si err
    by (rule obeys_keepsI) (rule projection_fail [OF assms])
  have unknown: "obeys (keeps projection_ok) (unknown_outbox_dispatch E i ri si err)" for i ri si err
    by (rule obeys_keepsI) (rule projection_unknown)
  have succeed: "obeys (keeps projection_ok) (succeed_outbox_dispatch E rc ri si)"
    if "rc_status rc = ReceiptStatus.Succeeded" for rc ri si
    by (rule obeys_keepsI) (rule projection_succeed [OF assms _ that])
  show ?thesis
    unfolding dispatch_once_def settle_dispatch_def
    by (intro keeping.frame_intros obeys_intros lease draw fail unknown succeed)
qed

lemma projection_queue:
  assumes "projection_ok s"
    and "\<not> list_ex (terminal_event (ii_invocation_id (ai_intent approved))) (journal_events s)"
    and "queue_outbox_dispatch E approved si s = (r, t)"
  shows "projection_ok t"
proof (cases r)
  case (Inl e)
  with assms(3) have "unchanged (s\<lparr>tick := Suc (tick s)\<rparr>) t"
    by (auto simp: queue_outbox_dispatch_def Let_def op_simps dest!: tx_InlD)
  from projection_unchanged [OF unchanged_trans [OF unchanged_tick this] assms(1)] show ?thesis .
next
  case (Inr i)
  let ?i = "ii_invocation_id (ai_intent approved)"
  show ?thesis
  proof (cases "list_ex (\<lambda>x. od_dispatch_id x = ''dispatch:'' @ ?i \<or> od_invocation_id x = ?i)
      (outbox_dispatches s)")
    case True
    with assms(3) Inr have "unchanged s t"
      by (auto simp: queue_outbox_dispatch_def Let_def op_simps dest!: tx_InrD)
    from projection_unchanged [OF this assms(1)] show ?thesis .
  next
    case False
    with assms(3) Inr obtain x e where x: "outbox_dispatches t = outbox_dispatches s @ [x]"
      "od_invocation_id x = ?i" "od_is Pending x" and
      j: "journal_events t = journal_events s @ [e]" and e: "is_kind OutboxQueued e"
      by (auto simp: queue_outbox_dispatch_def Let_def event_simps is_kind_def od_is_def
          dest!: tx_InrD)
    note nt = not_terminal [OF e, simplified]
    have "row_agrees (journal_events t) x"
      using assms(2) x(2,3) nt by (simp add: j row_agrees_def od_is_def)
    with assms(1) x(1,2) False j nt show ?thesis
      by (auto simp: projection_ok_def list_ex_iff intro: row_agrees_append)
  qed
qed

lemma projection_recover_one:
  assumes "projection_ok s" and "recover_one E x s = (r, t)"
  shows "projection_ok t"
proof (cases r)
  case (Inl e)
  with assms(2) have "unchanged s t"
    by (auto simp: recover_one_def dest: tx_InlD)
  from projection_unchanged [OF this assms(1)] show ?thesis .
next
  case (Inr y)
  let ?i = "ui_invocation_id x"
  define f where "f = (\<lambda>now (r :: OutboxRow). r\<lparr>od_status := outbox_as_str OutboxDispatchStatus.Unknown,
    od_locked_by := None, od_locked_until := None, od_updated_at := now\<rparr>)"
  obtain e now where
    o: "outbox_dispatches t = update_where (\<lambda>r. od_invocation_id r = ?i) (f now) (outbox_dispatches s)"
    and j: "journal_events t = journal_events s @ e # []"
    and e: "correlated OutboxDispatchUnknown ?i e"
    using assms(2) Inr
    by (auto simp: recover_one_def event_simps set_run_status_def correlated_def is_kind_def
        f_def [abs_def] dest!: tx_InrD split: option.splits)
  then show ?thesis
    by (intro projection_settle [OF assms(1) o, of ?i e "[]"])
       (auto simp: f_def row_agrees_def od_is_def terminal_event_def correlated_def)
qed

lemma projection_no_stale:
  assumes "projection_ok s" and "stale_dispatching_with_terminal_journal E s = (r, t)"
  shows "unchanged s t \<and> (r = Inr stale \<longrightarrow> stale = [])"
proof -
  have "filter (\<lambda>od. od_is Dispatching od \<and>
      (case od_locked_until od of None \<Rightarrow> True | Some l \<Rightarrow> l \<le> now) \<and>
      list_ex (terminal_event (od_invocation_id od)) (journal_events s)) (outbox_dispatches s) = []"
    for now
    using assms(1) waiting_agrees unfolding projection_ok_def filter_empty_conv by blast
  with assms(2) show ?thesis
    by (auto simp: stale_dispatching_with_terminal_journal_def op_simps tx_def Let_def unchanged_def
        split: if_splits)
qed

lemma projection_recover:
  assumes "projection_ok s" and "recover_unknown_invocations E s = (r, t)"
  shows "projection_ok t"
proof -
  have one: "obeys (keeps projection_ok) (op_for xs (recover_one E))" for xs
    by (intro keeping.frame_for obeys_keepsI) (rule projection_recover_one)
  have cands: "obeys (keeps projection_ok) (unknown_invocations E)"
    by (rule obeys_keepsI)
       (auto simp: unknown_invocations_def tx_query intro: projection_unchanged [OF unchanged_tick])
  have stale: "obeys (keeps projection_ok) (op_bind (stale_dispatching_with_terminal_journal E)
      (\<lambda>stale. op_then (op_for stale (reconcile_one E)) (op_return (n + length stale))))" for n
  proof (rule obeys_keepsI)
    fix s r t assume ok: "projection_ok s" and run: "op_bind (stale_dispatching_with_terminal_journal E)
      (\<lambda>stale. op_then (op_for stale (reconcile_one E)) (op_return (n + length stale))) s = (r, t)"
    obtain q u where q: "stale_dispatching_with_terminal_journal E s = (q, u)"
      by (cases "stale_dispatching_with_terminal_journal E s")
    have "unchanged s u" using projection_no_stale [OF ok q] by blast
    moreover have "t = u"
    proof (cases q)
      case (Inr b)
      with projection_no_stale [OF ok q, of b] have "b = []" by simp
      with run q Inr show ?thesis by (simp add: op_simps)
    qed (use run q in \<open>simp add: op_simps\<close>)
    ultimately show "projection_ok t" using projection_unchanged ok by blast
  qed
  have "obeys (keeps projection_ok) (recover_unknown_invocations E)"
    unfolding recover_unknown_invocations_def
    by (intro keeping.frame_bind keeping.frame_then cands one stale)
  from obeysD [OF this assms(2)] assms(1) show ?thesis by blast
qed

subsection \<open>Reachable states\<close>

text \<open>
  The states of the outbox: it starts empty; an invocation is queued that has no outcome yet; the
  dispatcher makes a pass; recovery runs; and any other operation leaves the outbox alone and
  records no outcome for a queued invocation. Every operation may also fail.
\<close>

inductive outbox_reachable :: "env \<Rightarrow> adapter \<Rightarrow> store \<Rightarrow> bool" for E execute where
  outbox_init: "outbox_reachable E execute empty_store"
| outbox_queue: "outbox_reachable E execute s \<Longrightarrow>
    \<not> list_ex (terminal_event (ii_invocation_id (ai_intent approved))) (journal_events s) \<Longrightarrow>
    queue_outbox_dispatch E approved si s = (r, t) \<Longrightarrow> outbox_reachable E execute t"
| outbox_dispatch: "outbox_reachable E execute s \<Longrightarrow>
    dispatch_once E execute s = (r, t) \<Longrightarrow> outbox_reachable E execute t"
| outbox_recover: "outbox_reachable E execute s \<Longrightarrow>
    recover_unknown_invocations E s = (r, t) \<Longrightarrow> outbox_reachable E execute t"
| outbox_other: "outbox_reachable E execute s \<Longrightarrow> outbox_dispatches t = outbox_dispatches s \<Longrightarrow>
    journal_events t = journal_events s @ es \<Longrightarrow>
    (\<And>e od. e \<in> set es \<Longrightarrow> od \<in> set (outbox_dispatches s) \<Longrightarrow>
       \<not> terminal_event (od_invocation_id od) e) \<Longrightarrow>
    outbox_reachable E execute t"

lemma reachable_projection_ok:
  assumes "compact_printing E"
  shows "outbox_reachable E execute s \<Longrightarrow> projection_ok s"
proof (induction rule: outbox_reachable.induct)
  case outbox_init
  then show ?case by (simp add: projection_ok_def empty_store_def)
next
  case (outbox_queue s approved si r t)
  then show ?case by (blast intro: projection_queue)
next
  case (outbox_dispatch s r t)
  then show ?case using obeysD [OF projection_dispatch_once [OF assms]] by blast
next
  case (outbox_recover s r t)
  then show ?case by (blast intro: projection_recover)
next
  case (outbox_other s t es)
  then show ?case by (auto simp: projection_ok_def intro: row_agrees_append)
qed



end
