(* ===== verification/Registry_Schema.thy ===== *)
theory Registry_Schema
  imports Journal_Tables
begin

section \<open>The JSON schema validator\<close>

text \<open>
  \<open>src/registry/schema.rs\<close>: the check that a schema is well formed
  (\<open>validate_schema_structure\<close>) and the check of tool arguments against a schema
  (\<open>validate_against_schema_detailed\<close> and its helpers per type). The loops of the source are
  \<open>check_each\<close>: run a check on each element, stop at the first error. \<open>conforms\<close> is the
  declarative reading of a schema; the validator accepts exactly the values that conform.
\<close>

fun check_each :: "('a \<Rightarrow> 'e + unit) \<Rightarrow> 'a list \<Rightarrow> 'e + unit" where
  "check_each f [] = Inr ()"
| "check_each f (x # xs) = (case f x of Inl e \<Rightarrow> Inl e | Inr _ \<Rightarrow> check_each f xs)"

text \<open>\<open>a?; b\<close> on results without a value.\<close>

definition and_then :: "'e + unit \<Rightarrow> 'e + unit \<Rightarrow> 'e + unit" where
  "and_then a b = (case a of Inl e \<Rightarrow> Inl e | Inr _ \<Rightarrow> b)"

lemma check_each_cong [fundef_cong]:
  "xs = ys \<Longrightarrow> (\<And>x. x \<in> set ys \<Longrightarrow> f x = g x) \<Longrightarrow> check_each f xs = check_each g ys"
  by (induction xs arbitrary: ys) (auto split: sum.splits)

lemma check_each_ok [simp]: "check_each f xs = Inr () \<longleftrightarrow> (\<forall>x \<in> set xs. f x = Inr ())"
  by (induction xs) (auto split: sum.splits)

lemma and_then_ok [simp]: "and_then a b = Inr () \<longleftrightarrow> a = Inr () \<and> b = Inr ()"
  by (auto simp: and_then_def split: sum.splits)

lemma and_then_cong [fundef_cong]: "a = a' \<Longrightarrow> b = b' \<Longrightarrow> and_then a b = and_then a' b'"
  by simp

subsection \<open>Well-formed schemas\<close>

datatype SchemaValidationIssue =
    MissingRequired "string list"
  | UnexpectedProperty string
  | EnumMismatch "string option" "string list"
  | TypeMismatch
  | OutOfRange

fun issue_error_category :: "SchemaValidationIssue \<Rightarrow> string" where
  "issue_error_category (MissingRequired _) = ''invalid_arguments''"
| "issue_error_category (UnexpectedProperty _) = ''invalid_arguments''"
| "issue_error_category (EnumMismatch _ _) = ''invalid_arguments''"
| "issue_error_category TypeMismatch = ''invalid_arguments''"
| "issue_error_category OutOfRange = ''invalid_arguments''"

definition schema_keywords :: "string list" where
  "schema_keywords =
     [''type'', ''properties'', ''required'', ''additionalProperties'', ''items'', ''minimum'',
      ''maximum'', ''minItems'', ''minLength'', ''maxLength'', ''uniqueItems'', ''description'',
      ''enum'']"

definition has_key :: "jmap \<Rightarrow> string \<Rightarrow> bool" where
  "has_key m k \<longleftrightarrow> k \<in> fst ` set m"

text \<open>The loops over \<open>enum\<close> and \<open>required\<close>, with the set of the values seen so far.\<close>

fun check_enum :: "env \<Rightarrow> string list \<Rightarrow> json list \<Rightarrow> string + unit" where
  "check_enum E seen [] = Inr ()"
| "check_enum E seen (v # vs) =
     (case as_str v of
        None \<Rightarrow> Inl (''enum values must be strings, got '' @ json_text E v)
      | Some s \<Rightarrow>
          if s \<in> set seen then Inl (''enum contains duplicate: '' @ s)
          else check_enum E (s # seen) vs)"

fun check_required :: "env \<Rightarrow> jmap \<Rightarrow> string list \<Rightarrow> json list \<Rightarrow> string + unit" where
  "check_required E m seen [] = Inr ()"
| "check_required E m seen (v # vs) =
     (case as_str v of
        None \<Rightarrow> Inl (''required entries must be strings, got '' @ json_text E v)
      | Some s \<Rightarrow>
          if s \<in> set seen then Inl (''required contains duplicate: '' @ s)
          else if \<not> (case Option.bind (map_of m ''properties'') as_object of
                       None \<Rightarrow> False | Some p \<Rightarrow> has_key p s)
          then Inl (''required field '' @ s @ '' not found in properties'')
          else check_required E m (s # seen) vs)"

lemma size_json_member: "(k, v) \<in> set m \<Longrightarrow> size v < size (JObj m)"
  by (induction m) auto

lemma size_json_get: "map_of m k = Some v \<Longrightarrow> size v < size (JObj m)"
  by (rule size_json_member) (rule map_of_SomeD)

lemma size_json_properties:
  assumes "Option.bind (map_of m k) as_object = Some ps" and "(n, p) \<in> set ps"
  shows "size p < size (JObj m)"
proof -
  from assms(1) have "map_of m k = Some (JObj ps)"
    by (auto simp: bind_eq_Some_conv as_object_iff)
  from size_json_get [OF this] size_json_member [OF assms(2)] show ?thesis by simp
qed

function validate_schema_structure :: "env \<Rightarrow> json \<Rightarrow> string + unit" where
  "validate_schema_structure E schema =
     (case as_object schema of
        None \<Rightarrow> Inl ''schema must be a JSON object''
      | Some m \<Rightarrow>
          and_then
            (check_each (\<lambda>(key, _). if key \<in> set schema_keywords then Inr ()
                                    else Inl (''unknown schema keyword: '' @ key)) m)
         (and_then
            (case map_of m ''enum'' of
               None \<Rightarrow> Inr ()
             | Some enum_val \<Rightarrow>
                 (case as_array enum_val of
                    None \<Rightarrow> Inl ''enum must be an array''
                  | Some arr \<Rightarrow>
                      if arr = [] then Inl ''enum must not be empty'' else check_enum E [] arr))
         (and_then
            (case map_of m ''required'' of
               None \<Rightarrow> Inr ()
             | Some req \<Rightarrow>
                 (case as_array req of
                    None \<Rightarrow> Inl ''required must be an array''
                  | Some req_arr \<Rightarrow> check_required E m [] req_arr))
         (and_then
            (case map_of m ''additionalProperties'' of
               None \<Rightarrow> Inr ()
             | Some ap \<Rightarrow>
                 if as_bool ap = None then Inl ''additionalProperties must be a boolean'' else Inr ())
            (case Option.bind (map_of m ''properties'') as_object of
               None \<Rightarrow> Inr ()
             | Some properties \<Rightarrow>
                 check_each (\<lambda>(_, prop_schema). validate_schema_structure E prop_schema)
                   properties)))))"
  by pat_completeness auto
termination
  by (relation "measure (\<lambda>(E, schema). size schema)")
    (auto simp: as_object_iff dest: size_json_properties)

declare validate_schema_structure.simps [simp del]

subsection \<open>Arguments against a schema\<close>

definition schema_type :: "jmap \<Rightarrow> string" where
  "schema_type m = (case Option.bind (map_of m ''type'') as_str of None \<Rightarrow> ''object'' | Some t \<Rightarrow> t)"

definition validate_string_detailed ::
  "string option \<Rightarrow> jmap \<Rightarrow> json \<Rightarrow> SchemaValidationIssue + unit" where
  "validate_string_detailed property schema v =
     (if as_str v = None then Inl TypeMismatch
      else case Option.bind (map_of schema ''enum'') as_array of
        None \<Rightarrow> Inr ()
      | Some enum_val \<Rightarrow>
          if v \<notin> set enum_val
          then Inl (EnumMismatch property (List.map_filter as_str enum_val))
          else Inr ())"

definition validate_number_detailed :: "jmap \<Rightarrow> json \<Rightarrow> SchemaValidationIssue + unit" where
  "validate_number_detailed schema v =
     (case as_f64 v of
        None \<Rightarrow> Inl TypeMismatch
      | Some num \<Rightarrow>
          if Option.bind (map_of schema ''type'') as_str = Some ''integer''
             \<and> as_i64 v = None \<and> as_u64 v = None
          then Inl TypeMismatch
          else if case Option.bind (map_of schema ''minimum'') as_f64 of
                    None \<Rightarrow> False | Some mn \<Rightarrow> num < mn
          then Inl OutOfRange
          else if case Option.bind (map_of schema ''maximum'') as_f64 of
                    None \<Rightarrow> False | Some mx \<Rightarrow> num > mx
          then Inl OutOfRange
          else Inr ())"

function validate_against_schema_detailed :: "json \<Rightarrow> json \<Rightarrow> SchemaValidationIssue + unit"
  and validate_object_detailed :: "jmap \<Rightarrow> json \<Rightarrow> SchemaValidationIssue + unit"
  and validate_array_detailed :: "jmap \<Rightarrow> json \<Rightarrow> SchemaValidationIssue + unit" where
  "validate_against_schema_detailed schema arguments =
     (case as_object schema of
        None \<Rightarrow> Inl TypeMismatch
      | Some m \<Rightarrow>
          and_then
            (check_each (\<lambda>(key, _). if key \<in> set schema_keywords then Inr () else Inl TypeMismatch) m)
            (if schema_type m = ''object'' then validate_object_detailed m arguments
             else if schema_type m = ''string'' then validate_string_detailed None m arguments
             else if schema_type m = ''integer'' \<or> schema_type m = ''number''
             then validate_number_detailed m arguments
             else if schema_type m = ''boolean''
             then (if as_bool arguments = None then Inl TypeMismatch else Inr ())
             else if schema_type m = ''array'' then validate_array_detailed m arguments
             else Inl TypeMismatch))"
| "validate_object_detailed schema v =
     (case as_object v of
        None \<Rightarrow> Inl TypeMismatch
      | Some obj \<Rightarrow>
          and_then
            (if case Option.bind (map_of schema ''additionalProperties'') as_bool of
                  None \<Rightarrow> True | Some b \<Rightarrow> b
             then Inr ()
             else (case Option.bind (map_of schema ''properties'') as_object of
                     None \<Rightarrow> Inr ()
                   | Some properties \<Rightarrow>
                       check_each (\<lambda>(key, _). if has_key properties key then Inr ()
                                               else Inl (UnexpectedProperty key)) obj))
         (and_then
            (case Option.bind (map_of schema ''required'') as_array of
               None \<Rightarrow> Inr ()
             | Some required \<Rightarrow>
                 (let missing = filter (\<lambda>name. \<not> has_key obj name) (List.map_filter as_str required)
                  in if missing \<noteq> [] then Inl (MissingRequired missing) else Inr ()))
            (case Option.bind (map_of schema ''properties'') as_object of
               None \<Rightarrow> Inr ()
             | Some properties \<Rightarrow>
                 check_each (\<lambda>(prop_name, prop_schema).
                     case map_of obj prop_name of
                       None \<Rightarrow> Inr ()
                     | Some prop_value \<Rightarrow> validate_against_schema_detailed prop_schema prop_value)
                   properties)))"
| "validate_array_detailed schema v =
     (case as_array v of
        None \<Rightarrow> Inl TypeMismatch
      | Some arr \<Rightarrow>
          (case map_of schema ''items'' of
             None \<Rightarrow> Inr ()
           | Some items \<Rightarrow> check_each (\<lambda>item. validate_against_schema_detailed items item) arr))"
  by pat_completeness auto
termination
proof (relation "measure (case_sum (\<lambda>(schema, _). 2 * size schema)
    (case_sum (\<lambda>(m, _). 2 * size (JObj m) - 1) (\<lambda>(m, _). 2 * size (JObj m) - 1)))",
    goal_cases)
  case 1 show ?case by simp
next
  case (2 s a m) then show ?case by (auto simp: as_object_iff)
next
  case (3 s a m) then show ?case by (auto simp: as_object_iff)
next
  case (4 s v obj ps x n p w)
  then have "size p < size (JObj s)" by (auto dest: size_json_properties)
  then show ?case by simp
next
  case (5 s v arr items x)
  then have "size items < size (JObj s)" by (auto dest: size_json_get)
  then show ?case by simp
qed

declare validate_against_schema_detailed.simps [simp del]
  validate_object_detailed.simps [simp del] validate_array_detailed.simps [simp del]

subsection \<open>What a schema means\<close>

text \<open>
  The declarative reading of a schema. A value conforms to a schema if the schema is an object
  with known keywords only and the value is
  \<^item> an object with no property outside \<open>properties\<close> when the schema is closed, with every required
    property, and with every listed property it has conforming to its schema;
  \<^item> a string, one of the enumerated values if there are any;
  \<^item> a number (an integer for \<open>integer\<close>) between the bounds;
  \<^item> a boolean; or
  \<^item> an array of values that conform to \<open>items\<close>.
\<close>

definition known_keywords :: "jmap \<Rightarrow> bool" where
  "known_keywords m \<longleftrightarrow> fst ` set m \<subseteq> set schema_keywords"

definition closed_schema :: "jmap \<Rightarrow> bool" where
  "closed_schema m \<longleftrightarrow> map_of m ''additionalProperties'' = Some (JBool False)"

inductive conforms :: "json \<Rightarrow> json \<Rightarrow> bool" where
  conforms_object:
    "known_keywords m \<Longrightarrow> schema_type m = ''object'' \<Longrightarrow>
     (\<And>ps. closed_schema m \<Longrightarrow> map_of m ''properties'' = Some (JObj ps) \<Longrightarrow> fst ` set obj \<subseteq> fst ` set ps) \<Longrightarrow>
     (\<And>rs n. map_of m ''required'' = Some (JArr rs) \<Longrightarrow> JStr n \<in> set rs \<Longrightarrow> n \<in> fst ` set obj) \<Longrightarrow>
     (\<And>ps n p v. map_of m ''properties'' = Some (JObj ps) \<Longrightarrow> (n, p) \<in> set ps \<Longrightarrow>
        map_of obj n = Some v \<Longrightarrow> conforms p v) \<Longrightarrow>
     conforms (JObj m) (JObj obj)"
| conforms_string:
    "known_keywords m \<Longrightarrow> schema_type m = ''string'' \<Longrightarrow>
     (\<And>vs. map_of m ''enum'' = Some (JArr vs) \<Longrightarrow> JStr s \<in> set vs) \<Longrightarrow>
     conforms (JObj m) (JStr s)"
| conforms_number:
    "known_keywords m \<Longrightarrow> schema_type m \<in> {''integer'', ''number''} \<Longrightarrow>
     as_f64 (JNum x) = Some r \<Longrightarrow>
     (schema_type m = ''integer'' \<Longrightarrow> \<exists>i. x = JInt i \<and> - (2 ^ 63) \<le> i \<and> i < 2 ^ 64) \<Longrightarrow>
     (\<And>mn lo. map_of m ''minimum'' = Some mn \<Longrightarrow> as_f64 mn = Some lo \<Longrightarrow> lo \<le> r) \<Longrightarrow>
     (\<And>mx hi. map_of m ''maximum'' = Some mx \<Longrightarrow> as_f64 mx = Some hi \<Longrightarrow> r \<le> hi) \<Longrightarrow>
     conforms (JObj m) (JNum x)"
| conforms_boolean:
    "known_keywords m \<Longrightarrow> schema_type m = ''boolean'' \<Longrightarrow> conforms (JObj m) (JBool b)"
| conforms_array:
    "known_keywords m \<Longrightarrow> schema_type m = ''array'' \<Longrightarrow>
     (\<And>items v. map_of m ''items'' = Some items \<Longrightarrow> v \<in> set arr \<Longrightarrow> conforms items v) \<Longrightarrow>
     conforms (JObj m) (JArr arr)"

subsection \<open>Each branch of the validator\<close>

named_theorems accepts "when a branch of the validator accepts"

lemma bind_as_object: "Option.bind x as_object = Some m \<longleftrightarrow> x = Some (JObj m)"
  by (auto simp: bind_eq_Some_conv as_object_iff)

lemma bind_as_array: "Option.bind x as_array = Some vs \<longleftrightarrow> x = Some (JArr vs)"
  by (auto simp: bind_eq_Some_conv as_array_iff)

lemma as_bool_iff: "as_bool v = Some b \<longleftrightarrow> v = JBool b"
  by (cases v) auto

lemma bind_as_bool: "Option.bind x as_bool = Some b \<longleftrightarrow> x = Some (JBool b)"
  by (auto simp: bind_eq_Some_conv as_bool_iff)

lemma in_map_filter_as_str: "n \<in> set (List.map_filter as_str vs) \<longleftrightarrow> JStr n \<in> set vs"
  by (induction vs) (auto simp: as_str_iff map_filter_simps split: option.splits)

lemma additional_iff:
  "(case Option.bind (map_of m ''additionalProperties'') as_bool of None \<Rightarrow> True | Some b \<Rightarrow> b) \<longleftrightarrow>
   \<not> closed_schema m"
  by (auto simp: closed_schema_def bind_as_bool split: option.splits)

lemma check_keys_ok:
  "check_each (\<lambda>(key, _). if P key then Inr () else Inl (e key)) m = Inr () \<longleftrightarrow>
   (\<forall>key \<in> fst ` set m. P key)"
  by (induction m) (auto simp del: check_each_ok split: if_splits)

lemma keywords_ok [accepts]:
  "check_each (\<lambda>(key, _). if key \<in> set schema_keywords then Inr () else Inl e) m = Inr () \<longleftrightarrow>
   known_keywords m"
  by (simp only: check_keys_ok known_keywords_def subset_eq)

lemma string_ok [accepts]:
  "validate_string_detailed property m v = Inr () \<longleftrightarrow>
   (\<exists>s. v = JStr s \<and> (\<forall>vs. map_of m ''enum'' = Some (JArr vs) \<longrightarrow> JStr s \<in> set vs))"
  by (cases v) (auto simp: validate_string_detailed_def bind_as_array split: option.splits)

lemma schema_type_integer:
  "Option.bind (map_of m ''type'') as_str = Some ''integer'' \<longleftrightarrow> schema_type m = ''integer''"
  by (auto simp: schema_type_def split: option.splits)

lemma integral_iff:
  "as_i64 (JNum x) \<noteq> None \<or> as_u64 (JNum x) \<noteq> None \<longleftrightarrow>
   (\<exists>i. x = JInt i \<and> - (2 ^ 63) \<le> i \<and> i < 2 ^ 64)"
  by (cases x) (auto split: if_splits)

lemma lower_bound_iff:
  "(case Option.bind (map_of m k) as_f64 of None \<Rightarrow> False | Some mn \<Rightarrow> r < mn) \<longleftrightarrow>
   \<not> (\<forall>mn lo. map_of m k = Some mn \<longrightarrow> as_f64 mn = Some lo \<longrightarrow> lo \<le> r)"
  by (auto simp: bind_eq_Some_conv not_le split: option.splits)

lemma upper_bound_iff:
  "(case Option.bind (map_of m k) as_f64 of None \<Rightarrow> False | Some mx \<Rightarrow> mx < r) \<longleftrightarrow>
   \<not> (\<forall>mx hi. map_of m k = Some mx \<longrightarrow> as_f64 mx = Some hi \<longrightarrow> r \<le> hi)"
  by (auto simp: bind_eq_Some_conv not_le split: option.splits)

lemma number_ok [accepts]:
  "validate_number_detailed m v = Inr () \<longleftrightarrow>
   (\<exists>x r. v = JNum x \<and> as_f64 v = Some r \<and>
      (schema_type m = ''integer'' \<longrightarrow> (\<exists>i. x = JInt i \<and> - (2 ^ 63) \<le> i \<and> i < 2 ^ 64)) \<and>
      (\<forall>mn lo. map_of m ''minimum'' = Some mn \<longrightarrow> as_f64 mn = Some lo \<longrightarrow> lo \<le> r) \<and>
      (\<forall>mx hi. map_of m ''maximum'' = Some mx \<longrightarrow> as_f64 mx = Some hi \<longrightarrow> r \<le> hi))"
proof (cases v)
  case (JNum x)
  obtain r where r: "as_f64 v = Some r" by (cases x) (simp_all add: JNum)
  show ?thesis
    unfolding validate_number_detailed_def r option.case schema_type_integer lower_bound_iff
      upper_bound_iff
    using r integral_iff [of x] by (auto simp: JNum)
qed (simp_all add: validate_number_detailed_def)

lemma object_ok [accepts]:
  "validate_object_detailed m v = Inr () \<longleftrightarrow>
   (\<exists>obj. v = JObj obj \<and>
      (\<forall>ps. closed_schema m \<longrightarrow> map_of m ''properties'' = Some (JObj ps) \<longrightarrow> fst ` set obj \<subseteq> fst ` set ps) \<and>
      (\<forall>rs n. map_of m ''required'' = Some (JArr rs) \<longrightarrow> JStr n \<in> set rs \<longrightarrow> n \<in> fst ` set obj) \<and>
      (\<forall>ps n p w. map_of m ''properties'' = Some (JObj ps) \<longrightarrow> (n, p) \<in> set ps \<longrightarrow>
         map_of obj n = Some w \<longrightarrow> validate_against_schema_detailed p w = Inr ()))"
proof (cases v)
  case (JObj obj)
  have 1: "(if \<not> closed_schema m then Inr () else
      (case Option.bind (map_of m ''properties'') as_object of None \<Rightarrow> Inr ()
       | Some ps \<Rightarrow> check_each (\<lambda>(key, _). if has_key ps key then Inr ()
           else Inl (UnexpectedProperty key)) obj)) = Inr () \<longleftrightarrow>
    (\<forall>ps. closed_schema m \<longrightarrow> map_of m ''properties'' = Some (JObj ps) \<longrightarrow> fst ` set obj \<subseteq> fst ` set ps)"
    by (auto simp: check_keys_ok bind_as_object has_key_def subset_eq simp del: check_each_ok
        split: option.splits)
  have 2: "(case Option.bind (map_of m ''required'') as_array of None \<Rightarrow> Inr ()
      | Some required \<Rightarrow>
          (let missing = filter (\<lambda>name. \<not> has_key obj name) (List.map_filter as_str required)
           in if missing \<noteq> [] then Inl (MissingRequired missing) else Inr ())) = Inr () \<longleftrightarrow>
    (\<forall>rs n. map_of m ''required'' = Some (JArr rs) \<longrightarrow> JStr n \<in> set rs \<longrightarrow> n \<in> fst ` set obj)"
    by (auto simp: bind_as_array has_key_def in_map_filter_as_str filter_empty_conv split: option.splits)
  have 3: "(case Option.bind (map_of m ''properties'') as_object of None \<Rightarrow> Inr ()
      | Some ps \<Rightarrow> check_each (\<lambda>(n, p). case map_of obj n of None \<Rightarrow> Inr ()
          | Some w \<Rightarrow> validate_against_schema_detailed p w) ps) = Inr () \<longleftrightarrow>
    (\<forall>ps n p w. map_of m ''properties'' = Some (JObj ps) \<longrightarrow> (n, p) \<in> set ps \<longrightarrow>
       map_of obj n = Some w \<longrightarrow> validate_against_schema_detailed p w = Inr ())"
    by (fastforce simp: bind_as_object split: option.splits)
  show ?thesis
    unfolding JObj validate_object_detailed.simps [of m "JObj obj"] as_object.simps option.case
      and_then_ok additional_iff 1 2 3 by simp
qed (simp_all add: validate_object_detailed.simps)

lemma array_ok [accepts]:
  "validate_array_detailed m v = Inr () \<longleftrightarrow>
   (\<exists>arr. v = JArr arr \<and> (\<forall>items w. map_of m ''items'' = Some items \<longrightarrow> w \<in> set arr \<longrightarrow>
      validate_against_schema_detailed items w = Inr ()))"
  by (cases v) (auto simp: validate_array_detailed.simps split: option.splits)

lemma boolean_ok [accepts]:
  "(if as_bool v = None then Inl TypeMismatch else Inr ()) = Inr () \<longleftrightarrow> (\<exists>b. v = JBool b)"
  by (cases v) auto

lemma validate_accepts:
  "validate_against_schema_detailed schema v = Inr () \<longleftrightarrow>
   (\<exists>m. schema = JObj m \<and> known_keywords m \<and>
     (schema_type m = ''object'' \<and> validate_object_detailed m v = Inr () \<or>
      schema_type m = ''string'' \<and> validate_string_detailed None m v = Inr () \<or>
      schema_type m \<in> {''integer'', ''number''} \<and> validate_number_detailed m v = Inr () \<or>
      schema_type m = ''boolean'' \<and> (\<exists>b. v = JBool b) \<or>
      schema_type m = ''array'' \<and> validate_array_detailed m v = Inr ()))"
proof (cases schema)
  case (JObj m)
  then show ?thesis
    unfolding validate_against_schema_detailed.simps [of schema v]
    by (simp add: keywords_ok boolean_ok del: check_each_ok)
qed (simp_all add: validate_against_schema_detailed.simps)

lemma accepted_conforms:
  "validate_against_schema_detailed schema v = Inr () \<Longrightarrow> conforms schema v"
proof (induction "size schema" arbitrary: schema v rule: less_induct)
  case less
  then obtain m where m: "schema = JObj m" "known_keywords m"
    by (auto simp: validate_accepts)
  have sub: "conforms p w" if "map_of m k = Some (JObj ps)" "(n, p) \<in> set ps"
    "validate_against_schema_detailed p w = Inr ()" for k ps n p w
    using less.hyps [of p w] size_json_get [OF that(1)] size_json_member [OF that(2)] that(3)
    by (simp add: m)
  have items: "conforms p w" if "map_of m k = Some p"
    "validate_against_schema_detailed p w = Inr ()" for k p w
    using less.hyps [of p w] size_json_get [OF that(1)] that(2) by (simp add: m)
  from less.prems m show ?case
    by (subst (asm) validate_accepts)
      (auto simp: object_ok string_ok number_ok array_ok subset_eq intro!: conforms.intros
        intro: sub items)
qed

lemma conforming_accepted:
  "conforms schema v \<Longrightarrow> validate_against_schema_detailed schema v = Inr ()"
proof (induction rule: conforms.induct)
  case (conforms_object m obj)
  then show ?case by (subst validate_accepts) (simp add: object_ok)
next
  case (conforms_string m s)
  then show ?case by (subst validate_accepts) (simp add: string_ok)
next
  case (conforms_number m x r)
  then show ?case by (subst validate_accepts) (simp add: number_ok)
next
  case (conforms_boolean m b)
  then show ?case by (subst validate_accepts) simp
next
  case (conforms_array m arr)
  then show ?case by (subst validate_accepts) (simp add: array_ok)
qed

subsection \<open>Properties\<close>


text \<open>Two gaps of the schema checks. A schema with \<open>additionalProperties: false\<close> but no
  \<open>properties\<close> accepts every object, and the structure check does not look into \<open>items\<close>: it
  accepts an array schema whose item schema has an unknown keyword, which then rejects every
  non-empty array.\<close>

theorem schema_check_gaps:
  "validate_against_schema_detailed (jobj [(''additionalProperties'', JBool False)]) (JObj obj)
     = Inr () \<and>
   validate_schema_structure E
     (jobj [(''type'', JStr ''array''), (''items'', jobj [(''format'', JNull)])]) = Inr () \<and>
   validate_against_schema_detailed
     (jobj [(''type'', JStr ''array''), (''items'', jobj [(''format'', JNull)])]) (JArr (x # xs))
     = Inl TypeMismatch"
  by (simp add: validate_against_schema_detailed.simps validate_object_detailed.simps
      validate_array_detailed.simps validate_schema_structure.simps jobj_def mcollect_def
      schema_type_def schema_keywords_def and_then_def)

end
