(* ===== verification/Registry_Snapshot.thy ===== *)
theory Registry_Snapshot
  imports Registry_Schema Hash_Chain Sample_Env
begin

section \<open>Registry snapshots\<close>

text \<open>
  \<open>src/registry/snapshot.rs\<close> and the built-in operations of \<open>src/registry/store.rs\<close>: operation
  specifications, hook bindings, the immutable snapshot a run is pinned to, what of it the model
  provider and the context may see, and the canonical digest that names a snapshot. The digest is
  shown to be blind to storage order and to tell any two different snapshots apart, unless
  SHA-256 collides.
\<close>

datatype Risk = ReadOnly | Write

datatype BindingKind = Builtin | External

fun risk_debug :: "Risk \<Rightarrow> string" where
  "risk_debug ReadOnly = ''ReadOnly''"
| "risk_debug Write = ''Write''"

fun binding_kind_debug :: "BindingKind \<Rightarrow> string" where
  "binding_kind_debug Builtin = ''Builtin''"
| "binding_kind_debug External = ''External''"

record OperationSpec =
  os_name :: string
  os_risk :: Risk
  os_description :: string
  os_parameters :: json
  os_idempotent :: bool
  os_binding_kind :: BindingKind
  os_binding_key :: string

fun is_visible_to_provider :: "OperationSpec \<Rightarrow> bool" where
  "is_visible_to_provider op_spec =
     (case os_risk op_spec of ReadOnly \<Rightarrow> True | Write \<Rightarrow> os_binding_kind op_spec = External)"

definition spec_tool_definition :: "OperationSpec \<Rightarrow> json option" where
  "spec_tool_definition op_spec =
     (if \<not> is_visible_to_provider op_spec then None
      else Some (jobj
        [(''type'', JStr ''function''),
         (''function'', jobj
           [(''name'', JStr (os_name op_spec)),
            (''description'', JStr (os_description op_spec)),
            (''parameters'', os_parameters op_spec)])]))"

definition budget_hook_contract :: string where
  "budget_hook_contract = ''run.budget.resolve.v0''"

record HookBinding =
  hb_contract :: string
  hb_hook_id :: string
  hb_hook_version :: string
  hb_binding_kind :: BindingKind
  hb_binding_key :: string
  hb_provider_id :: string
  hb_endpoint :: string

definition builtin_budget :: HookBinding where
  "builtin_budget =
     \<lparr>hb_contract = budget_hook_contract, hb_hook_id = ''builtin:run-budget-default-v0'',
      hb_hook_version = ''v0'', hb_binding_kind = Builtin,
      hb_binding_key = ''builtin.run_budget_default'', hb_provider_id = [], hb_endpoint = []\<rparr>"

record RegistrySnapshot =
  rs_snapshot_id :: string
  rs_created_at :: instant
  rs_operations :: "OperationSpec list"
  rs_hook_bindings :: "HookBinding list"

definition hook_binding :: "RegistrySnapshot \<Rightarrow> string \<Rightarrow> HookBinding option" where
  "hook_binding snap contract =
     (let found = filter (\<lambda>b. hb_contract b = contract) (rs_hook_bindings snap) in
      if length found = 1 then Some (found ! 0) else None)"

definition snapshot_lookup :: "RegistrySnapshot \<Rightarrow> string \<Rightarrow> OperationSpec option" where
  "snapshot_lookup snap name = find (\<lambda>op_spec. os_name op_spec = name) (rs_operations snap)"

definition snapshot_tools_for_grants :: "RegistrySnapshot \<Rightarrow> string list \<Rightarrow> json list" where
  "snapshot_tools_for_grants snap granted =
     List.map_filter spec_tool_definition
       (filter (\<lambda>op_spec. os_name op_spec \<in> set granted) (rs_operations snap))"

definition description_for :: "RegistrySnapshot \<Rightarrow> string \<Rightarrow> string" where
  "description_for snap name =
     (case find (\<lambda>op_spec. os_name op_spec = name) (rs_operations snap) of
        None \<Rightarrow> ''catalogued read-only operation.'' | Some op_spec \<Rightarrow> os_description op_spec)"

fun join_with :: "string \<Rightarrow> string list \<Rightarrow> string" where
  "join_with sep [] = []"
| "join_with sep [x] = x"
| "join_with sep (x # xs) = x @ sep @ join_with sep xs"

definition newline :: string where
  "newline = [CHR 0x0A]"

definition catalog_names :: "RegistrySnapshot \<Rightarrow> string list \<Rightarrow> string list" where
  "catalog_names snap granted =
     map os_name (filter (\<lambda>op_spec. os_name op_spec \<in> set granted \<and> is_visible_to_provider op_spec)
       (rs_operations snap))"

definition snapshot_catalog_for_context :: "RegistrySnapshot \<Rightarrow> string list \<Rightarrow> string" where
  "snapshot_catalog_for_context snap granted =
     (let names = catalog_names snap granted in
      if names = [] then ''No tools are available for this request.''
      else ''Available tools (authorized for this request, read-only):'' @ newline
        @ join_with newline (map (\<lambda>name. name @ '' - '' @ description_for snap name) names))"

subsection \<open>The canonical digest\<close>

definition spec_json :: "OperationSpec \<Rightarrow> json" where
  "spec_json op_spec = jobj
     [(''risk'', JStr (risk_debug (os_risk op_spec))),
      (''description'', JStr (os_description op_spec)),
      (''parameters'', os_parameters op_spec),
      (''idempotent'', JBool (os_idempotent op_spec)),
      (''binding_kind'', JStr (binding_kind_debug (os_binding_kind op_spec))),
      (''binding_key'', JStr (os_binding_key op_spec))]"

definition binding_json :: "HookBinding \<Rightarrow> json" where
  "binding_json b = jobj
     [(''contract'', JStr (hb_contract b)), (''hook_id'', JStr (hb_hook_id b)),
      (''hook_version'', JStr (hb_hook_version b)),
      (''binding_kind'', JStr (binding_kind_debug (hb_binding_kind b))),
      (''binding_key'', JStr (hb_binding_key b)), (''provider_id'', JStr (hb_provider_id b)),
      (''endpoint'', JStr (hb_endpoint b))]"

definition hook_bindings_key :: string where
  "hook_bindings_key = ''__hook_bindings''"

definition canonical_json :: "OperationSpec list \<Rightarrow> HookBinding list \<Rightarrow> json" where
  "canonical_json specs bindings =
     (let sorted_specs = sort_key os_name specs;
          canonical = mcollect (map (\<lambda>spec. (os_name spec, spec_json spec)) sorted_specs);
          sorted_bindings = sort_key hb_contract bindings
      in JObj (if sorted_bindings \<noteq> []
               then minsert hook_bindings_key (JArr (map binding_json sorted_bindings)) canonical
               else canonical))"

definition compute_snapshot_id_with_hook_bindings ::
  "env \<Rightarrow> OperationSpec list \<Rightarrow> HookBinding list \<Rightarrow> string" where
  "compute_snapshot_id_with_hook_bindings E specs bindings =
     ''snap_'' @ sha256_hex E (json_text E (canonical_json specs bindings))"

definition compute_snapshot_id :: "env \<Rightarrow> OperationSpec list \<Rightarrow> string" where
  "compute_snapshot_id E specs = compute_snapshot_id_with_hook_bindings E specs []"

subsection \<open>The built-in operations\<close>

definition builtin_hook_binding :: "string \<Rightarrow> HookBinding option" where
  "builtin_hook_binding contract =
     (if contract = budget_hook_contract then Some builtin_budget else None)"

definition builtin_hook_bindings :: "HookBinding list" where
  "builtin_hook_bindings = [builtin_budget]"

definition task_submit :: string where
  "task_submit = ''external.coding_task_submit''"

definition recall_parameters :: json where
  "recall_parameters = jobj
     [(''type'', JStr ''object''),
      (''properties'', jobj
        [(''limit'', jobj
           [(''type'', JStr ''integer''), (''minimum'', JNum (JInt 1)), (''maximum'', JNum (JInt 20)),
            (''description'', JStr ''Max messages to recall (default 5).'')]),
         (''query'', jobj
           [(''type'', JStr ''string''),
            (''description'', JStr ''Optional case-insensitive substring filter.'')])]),
      (''required'', JArr []), (''additionalProperties'', JBool False)]"

definition status_parameters :: json where
  "status_parameters = jobj
     [(''type'', JStr ''object''), (''properties'', jobj []), (''required'', JArr []),
      (''additionalProperties'', JBool False)]"

definition task_submit_parameters :: json where
  "task_submit_parameters = jobj
     [(''type'', JStr ''object''),
      (''properties'', jobj
        [(''development_request'', jobj
           [(''type'', JStr ''object''),
            (''properties'', jobj
              [(''target_kind'', jobj [(''type'', JStr ''string''), (''enum'', JArr (map JStr
                 [''invocable_capability'', ''hook_consumer_service'', ''context_provider'',
                  ''context_transformer'', ''scheduled_worker'', ''scheduler_service'',
                  ''ingress_router'', ''multi_run_orchestrator'', ''connector_extension'']))]),
               (''name'', jobj [(''type'', JStr ''string'')]),
               (''requirements'', jobj
                 [(''type'', JStr ''array''), (''items'', jobj [(''type'', JStr ''string'')])]),
               (''required_contracts'', jobj
                 [(''type'', JStr ''array''), (''items'', jobj [(''type'', JStr ''string'')])]),
               (''acceptance_criteria'', jobj
                 [(''type'', JStr ''array''), (''items'', jobj [(''type'', JStr ''string'')])])]),
            (''required'', JArr (map JStr
              [''target_kind'', ''name'', ''requirements'', ''required_contracts'',
               ''acceptance_criteria''])),
            (''additionalProperties'', JBool False)])]),
      (''required'', JArr [JStr ''development_request'']),
      (''additionalProperties'', JBool False)]"

definition builtin_specs :: "OperationSpec list" where
  "builtin_specs =
     [\<lparr>os_name = ''stdout.send_text'', os_risk = Write,
       os_description = ''send a text reply to the user (stdout).'',
       os_parameters = jobj [(''type'', JStr ''object'')], os_idempotent = False,
       os_binding_kind = Builtin, os_binding_key = ''builtin.stdout_send_text''\<rparr>,
      \<lparr>os_name = ''feishu.send_message'', os_risk = Write,
       os_description = ''send a message reply to the Feishu chat.'',
       os_parameters = jobj [(''type'', JStr ''object'')], os_idempotent = False,
       os_binding_kind = Builtin, os_binding_key = ''builtin.feishu_send_message''\<rparr>,
      \<lparr>os_name = ''session.recall_recent'', os_risk = ReadOnly,
       os_description =
         ''Recall recent messages from the current session (read-only, current session only).'',
       os_parameters = recall_parameters, os_idempotent = True,
       os_binding_kind = Builtin, os_binding_key = ''builtin.session_recall_recent''\<rparr>,
      \<lparr>os_name = ''system.status'', os_risk = ReadOnly,
       os_description =
         ''Return system health and projection summary (aggregate counts only, no secrets).'',
       os_parameters = status_parameters, os_idempotent = True,
       os_binding_kind = Builtin, os_binding_key = ''builtin.system_status''\<rparr>,
      \<lparr>os_name = task_submit, os_risk = Write,
       os_description = ''Submit a draft DevelopmentRequest to the Coding Harness. '' @
         ''The Kernel binds governance fields from the trusted runtime context.'',
       os_parameters = task_submit_parameters, os_idempotent = True,
       os_binding_kind = External, os_binding_key = ''external.coding_task_submit.v0''\<rparr>]"

subsection \<open>Canonical documents\<close>

lemma risk_debug_inject [simp]: "risk_debug a = risk_debug b \<longleftrightarrow> a = b"
  by (cases a; cases b) simp_all

lemma binding_kind_debug_inject [simp]: "binding_kind_debug a = binding_kind_debug b \<longleftrightarrow> a = b"
  by (cases a; cases b) simp_all

lemma spec_json_inject:
  assumes "spec_json a = spec_json b" and "os_name a = os_name b"
  shows "a = (b :: OperationSpec)"
proof -
  have "jget (spec_json a) k = jget (spec_json b) k" for k using assms(1) by simp
  note * = this [unfolded spec_json_def jget_jobj]
  from * [of "''risk''"] * [of "''description''"] * [of "''parameters''"] * [of "''idempotent''"]
    * [of "''binding_kind''"] * [of "''binding_key''"] assms(2)
  show ?thesis by simp
qed

lemma binding_json_inject: "binding_json a = binding_json b \<Longrightarrow> a = (b :: HookBinding)"
proof -
  assume "binding_json a = binding_json b"
  then have "jget (binding_json a) k = jget (binding_json b) k" for k by simp
  note * = this [unfolded binding_json_def jget_jobj]
  from * [of "''contract''"] * [of "''hook_id''"] * [of "''hook_version''"] * [of "''binding_kind''"]
    * [of "''binding_key''"] * [of "''provider_id''"] * [of "''endpoint''"]
  show "a = b" by simp
qed

text \<open>The specifications of a snapshot are told apart by their names.\<close>

definition named_apart :: "OperationSpec list \<Rightarrow> HookBinding list \<Rightarrow> bool" where
  "named_apart specs bindings \<longleftrightarrow>
     distinct (map os_name specs) \<and> hook_bindings_key \<notin> os_name ` set specs \<and>
     distinct (map hb_contract bindings)"

lemma sort_key_mset_cong:
  assumes "mset xs = mset ys" and "distinct (map f xs)"
  shows "sort_key f xs = sort_key f ys"
proof (rule sort_key_inj_key_eq)
  show "mset xs = mset (sort_key f ys)" using assms(1) by simp
  show "inj_on f (set xs)" using assms(2) by (simp add: distinct_map)
qed simp

lemma canonical_json_cong:
  assumes "mset specs = mset specs'" and "mset bindings = mset bindings'"
    and "named_apart specs bindings"
  shows "canonical_json specs bindings = canonical_json specs' bindings'"
proof -
  have "sort_key os_name specs = sort_key os_name specs'"
    "sort_key hb_contract bindings = sort_key hb_contract bindings'"
    using assms by (auto simp: named_apart_def intro: sort_key_mset_cong)
  then show ?thesis by (simp add: canonical_json_def)
qed

text \<open>What the canonical document says under an operation name, and under the key of the hooks.\<close>

lemma canonical_get:
  "jget (canonical_json specs bindings) n =
   (if bindings \<noteq> [] \<and> n = hook_bindings_key
    then Some (JArr (map binding_json (sort_key hb_contract bindings)))
    else map_of (rev (map (\<lambda>spec. (os_name spec, spec_json spec)) (sort_key os_name specs))) n)"
proof -
  have "sort_key hb_contract bindings = [] \<longleftrightarrow> bindings = []"
    by (metis length_0_conv length_sort)
  then show ?thesis by (simp add: canonical_json_def map_of_mcollect Let_def)
qed

lemma canonical_spec:
  assumes "named_apart specs bindings" and "n \<noteq> hook_bindings_key"
  shows "jget (canonical_json specs bindings) n = Some j \<longleftrightarrow>
    (\<exists>s \<in> set specs. os_name s = n \<and> j = spec_json s)"
proof -
  let ?ps = "map (\<lambda>spec. (os_name spec, spec_json spec)) (sort_key os_name specs)"
  have "distinct (map fst (rev ?ps))"
    using assms(1) by (simp add: named_apart_def distinct_map comp_def rev_map [symmetric])
  from map_of_eq_Some_iff [OF this] show ?thesis
    using assms(2) by (auto simp: canonical_get)
qed

lemma canonical_hooks:
  assumes "named_apart specs bindings"
  shows "jget (canonical_json specs bindings) hook_bindings_key =
    (if bindings = [] then None else Some (JArr (map binding_json (sort_key hb_contract bindings))))"
  using assms by (auto simp: canonical_get named_apart_def map_of_eq_None_iff)

lemma canonical_json_specs:
  assumes "canonical_json specs bindings = canonical_json specs' bindings'"
    and "named_apart specs bindings" and "named_apart specs' bindings'"
  shows "set specs \<subseteq> set specs'"
proof
  fix s assume s: "s \<in> set specs"
  then have "os_name s \<noteq> hook_bindings_key" using assms(2) by (metis named_apart_def image_eqI)
  with s assms canonical_spec [of specs bindings "os_name s" "spec_json s"]
    canonical_spec [of specs' bindings' "os_name s" "spec_json s"]
  obtain s' where "s' \<in> set specs'" "os_name s' = os_name s" "spec_json s = spec_json s'" by auto
  with spec_json_inject [of s s'] show "s \<in> set specs'" by simp
qed

lemma canonical_json_bindings:
  assumes "canonical_json specs bindings = canonical_json specs' bindings'"
    and "named_apart specs bindings" and "named_apart specs' bindings'"
  shows "mset bindings = mset bindings'"
proof (cases "bindings = []")
  case True
  with assms canonical_hooks [of specs bindings] canonical_hooks [of specs' bindings']
  show ?thesis by (simp split: if_splits)
next
  case False
  with assms canonical_hooks [of specs bindings] canonical_hooks [of specs' bindings']
  have "map binding_json (sort_key hb_contract bindings) =
      map binding_json (sort_key hb_contract bindings')" by (auto split: if_splits)
  then have "sort_key hb_contract bindings = sort_key hb_contract bindings'"
    by (rule map_injective) (blast intro: injI binding_json_inject)
  then show ?thesis by (metis mset_sort)
qed

lemma canonical_json_iff:
  assumes "named_apart specs bindings" and "named_apart specs' bindings'"
  shows "canonical_json specs bindings = canonical_json specs' bindings' \<longleftrightarrow>
    mset specs = mset specs' \<and> mset bindings = mset bindings'"
proof
  assume eq: "canonical_json specs bindings = canonical_json specs' bindings'"
  have "set specs = set specs'"
    using canonical_json_specs [OF eq assms] canonical_json_specs [OF eq [symmetric] assms(2,1)]
    by blast
  moreover have "distinct specs" "distinct specs'"
    using assms by (auto simp: named_apart_def distinct_map)
  ultimately have "mset specs = mset specs'" by (simp add: set_eq_iff_mset_eq_distinct)
  with canonical_json_bindings [OF eq assms] show
    "mset specs = mset specs' \<and> mset bindings = mset bindings'" by simp
qed (auto intro: canonical_json_cong assms)

subsection \<open>Properties\<close>

text \<open>C11: The snapshot id names the content. Two snapshots whose operations have distinct names
  (none of them the reserved key of the hooks) and whose bindings have distinct contracts get the
  same id exactly when they have the same operations and the same bindings, in whatever order
  they are stored; the only exception is a collision of SHA-256. The JSON text of the two
  canonical documents is assumed to parse back.\<close>

theorem snapshot_id_names_content:
  assumes "named_apart specs bindings" and "named_apart specs' bindings'"
    and "json_parse E (json_text E (canonical_json specs bindings)) =
      Some (canonical_json specs bindings)"
    and "json_parse E (json_text E (canonical_json specs' bindings')) =
      Some (canonical_json specs' bindings')"
  shows "compute_snapshot_id_with_hook_bindings E specs bindings =
      compute_snapshot_id_with_hook_bindings E specs' bindings' \<longleftrightarrow>
    mset specs = mset specs' \<and> mset bindings = mset bindings' \<or>
    collision E (json_text E (canonical_json specs bindings))
      (json_text E (canonical_json specs' bindings'))"
proof -
  have "json_text E (canonical_json specs bindings) = json_text E (canonical_json specs' bindings')
      \<longleftrightarrow> canonical_json specs bindings = canonical_json specs' bindings'"
    using assms(3,4) by (metis option.inject)
  then show ?thesis
    using canonical_json_iff [OF assms(1,2)]
    by (auto simp: compute_snapshot_id_with_hook_bindings_def collision_def)
qed

definition sample_specs :: "OperationSpec list" where
  "sample_specs =
     [\<lparr>os_name = ''b'', os_risk = Write, os_description = ''x'', os_parameters = jobj [],
       os_idempotent = False, os_binding_kind = External, os_binding_key = ''k''\<rparr>,
      \<lparr>os_name = ''a'', os_risk = ReadOnly, os_description = ''y'', os_parameters = jobj [],
       os_idempotent = True, os_binding_kind = Builtin, os_binding_key = ''l''\<rparr>]"

theorem snapshot_id_names_content_witness:
  "compute_snapshot_id_with_hook_bindings sample_env sample_specs builtin_hook_bindings =
   compute_snapshot_id_with_hook_bindings sample_env (rev sample_specs) builtin_hook_bindings"
proof -
  have "named_apart sample_specs builtin_hook_bindings"
    "named_apart (rev sample_specs) builtin_hook_bindings" by code_simp+
  moreover have "json_parse sample_env (json_text sample_env
      (canonical_json sample_specs builtin_hook_bindings)) =
    Some (canonical_json sample_specs builtin_hook_bindings)"
    "json_parse sample_env (json_text sample_env
      (canonical_json (rev sample_specs) builtin_hook_bindings)) =
    Some (canonical_json (rev sample_specs) builtin_hook_bindings)" by code_simp+
  ultimately show ?thesis using snapshot_id_names_content by simp
qed

text \<open>C12: The model sees the tools it may call. The tools offered to the provider and the names
  listed in the context are the same operations in the same order; each of them is granted and
  in the snapshot, and no built-in writing operation is among them.\<close>

theorem offered_tools_callable:
  "map (\<lambda>t. Option.bind (jget t ''function'') (\<lambda>f. str_field f ''name''))
     (snapshot_tools_for_grants snap granted) = map Some (catalog_names snap granted) \<and>
   set (catalog_names snap granted) =
     {os_name r |r. r \<in> set (rs_operations snap) \<and> os_name r \<in> set granted \<and>
        \<not> (os_risk r = Write \<and> os_binding_kind r = Builtin)}"
proof
  have "map (\<lambda>t. Option.bind (jget t ''function'') (\<lambda>f. str_field f ''name''))
      (List.map_filter spec_tool_definition rs) =
    map Some (map os_name (filter is_visible_to_provider rs))" for rs
    by (induction rs) (auto simp: spec_tool_definition_def map_filter_simps)
  then show "map (\<lambda>t. Option.bind (jget t ''function'') (\<lambda>f. str_field f ''name''))
     (snapshot_tools_for_grants snap granted) = map Some (catalog_names snap granted)"
    by (simp add: snapshot_tools_for_grants_def catalog_names_def conj_commute)
  have "is_visible_to_provider r \<longleftrightarrow> \<not> (os_risk r = Write \<and> os_binding_kind r = Builtin)" for r
    by (cases "os_binding_kind r") (auto split: Risk.splits)
  then show "set (catalog_names snap granted) =
     {os_name r |r. r \<in> set (rs_operations snap) \<and> os_name r \<in> set granted \<and>
        \<not> (os_risk r = Write \<and> os_binding_kind r = Builtin)}"
    unfolding catalog_names_def by auto
qed

end
