(* ===== verification/Operation_Catalog.thy ===== *)
theory Operation_Catalog
  imports Registry_Snapshot
begin

section \<open>The operation catalog and the execution profiles\<close>

text \<open>
  \<open>src/domain/operation.rs\<close> and \<open>src/domain/coding_operations.rs\<close>: the static catalog of
  operations, what of it is shown to the model, and the capability grants a principal receives
  for a channel. The two \<open>Risk\<close> enums of the source (of the catalog and of the registry) have the
  same variants and are one type here.
\<close>

subsection \<open>Names\<close>

definition stdout_send_text :: string where
  "stdout_send_text = ''stdout.send_text''"

definition feishu_send_message :: string where
  "feishu_send_message = ''feishu.send_message''"

definition session_recall_recent :: string where
  "session_recall_recent = ''session.recall_recent''"

definition system_status :: string where
  "system_status = ''system.status''"

definition workspace_list :: string where
  "workspace_list = ''external.coding_workspace_list''"

definition workspace_read :: string where
  "workspace_read = ''external.coding_workspace_read''"

definition workspace_write :: string where
  "workspace_write = ''external.coding_workspace_write''"

definition workspace_exec :: string where
  "workspace_exec = ''external.coding_workspace_exec''"

definition task_status :: string where
  "task_status = ''external.coding_task_status''"

definition capability_propose :: string where
  "capability_propose = ''external.coding_capability_propose''"

lemmas operation_names = stdout_send_text_def feishu_send_message_def session_recall_recent_def
  system_status_def workspace_list_def workspace_read_def workspace_write_def workspace_exec_def
  task_status_def capability_propose_def task_submit_def

definition coding_operations :: "string list" where
  "coding_operations =
     [workspace_list, workspace_read, workspace_write, workspace_exec, task_status,
      capability_propose]"

definition owner_development_operations :: "string list" where
  "owner_development_operations =
     [workspace_list, workspace_read, workspace_write, workspace_exec, task_submit, task_status]"

definition coding_operation_risk :: "string \<Rightarrow> Risk option" where
  "coding_operation_risk name =
     (if name \<in> {workspace_list, workspace_read, task_status} then Some ReadOnly
      else if name \<in> {workspace_write, workspace_exec, task_submit, capability_propose}
      then Some Write else None)"

subsection \<open>The catalog\<close>

record CatalogSpec =
  cs_name :: string
  cs_risk :: Risk

definition catalog :: "CatalogSpec list" where
  "catalog =
     [\<lparr>cs_name = stdout_send_text, cs_risk = Write\<rparr>,
      \<lparr>cs_name = feishu_send_message, cs_risk = Write\<rparr>,
      \<lparr>cs_name = session_recall_recent, cs_risk = ReadOnly\<rparr>,
      \<lparr>cs_name = system_status, cs_risk = ReadOnly\<rparr>]"

definition lookup :: "string \<Rightarrow> CatalogSpec option" where
  "lookup name = find (\<lambda>spec. cs_name spec = name) catalog"

definition is_allowed :: "string \<Rightarrow> bool" where
  "is_allowed name \<longleftrightarrow> lookup name \<noteq> None"

definition provider_tool_definition :: "string \<Rightarrow> json option" where
  "provider_tool_definition name =
     (case lookup name of
        None \<Rightarrow> None
      | Some spec \<Rightarrow>
          if cs_risk spec \<noteq> ReadOnly then None
          else Option.bind
            (if cs_name spec = session_recall_recent
             then Some (''Recall recent messages from the current session (read-only, current session only).'',
                        recall_parameters)
             else if cs_name spec = system_status
             then Some (''Return system health and projection summary (aggregate counts only, no secrets).'',
                        status_parameters)
             else None)
            (\<lambda>(description, parameters). Some (jobj
               [(''type'', JStr ''function''),
                (''function'', jobj
                  [(''name'', JStr (cs_name spec)), (''description'', JStr description),
                   (''parameters'', parameters)])])))"

definition provider_tools_for_grants :: "string list \<Rightarrow> json list" where
  "provider_tools_for_grants granted =
     List.map_filter (\<lambda>spec. provider_tool_definition (cs_name spec))
       (filter (\<lambda>spec. cs_risk spec = ReadOnly \<and> cs_name spec \<in> set granted) catalog)"

definition catalog_for_context_grants :: "string list \<Rightarrow> string" where
  "catalog_for_context_grants granted =
     (let names = map cs_name
            (filter (\<lambda>spec. cs_risk spec = ReadOnly \<and> cs_name spec \<in> set granted) catalog) in
      if names = [] then ''No tools are available for this request.''
      else ''Available tools (authorized for this request, read-only):'' @ newline @
        join_with newline (map (\<lambda>name. name @ '' - '' @
          (if name = session_recall_recent
           then ''recall recent messages from the current session (read-only, current session only).''
           else if name = system_status
           then ''read system health and projection summary (aggregate counts only).''
           else ''catalogued read-only operation.'')) names))"

definition catalog_for_context :: string where
  "catalog_for_context =
     join_with newline (map (\<lambda>spec.
       cs_name spec @ '' (risk: '' @ risk_debug (cs_risk spec) @ '') '' @ utf8 [0xE2, 0x80, 0x94] @
       '' '' @
       (if cs_name spec = stdout_send_text then ''send a text reply to the user (stdout).''
        else if cs_name spec = feishu_send_message then ''send a message reply to the Feishu chat.''
        else if cs_name spec = session_recall_recent
        then ''recall recent messages from the current session (read-only, current session only, no cross-session access).''
        else if cs_name spec = system_status
        then ''read system health and projection state (aggregate journal counts only, no secrets or payloads).''
        else ''catalogued operation.'')) catalog)"

subsection \<open>Execution profiles\<close>

definition current_session :: string where
  "current_session = ''current_session''"

definition for_channel :: "ChannelKind \<Rightarrow> CapabilityGrant list" where
  "for_channel channel =
     (let reply_operation = (case channel of
            ChannelKind.Cli \<Rightarrow> stdout_send_text | ChannelKind.Feishu \<Rightarrow> feishu_send_message) in
      [\<lparr>cg_operation = reply_operation, cg_scope = current_session\<rparr>,
       \<lparr>cg_operation = session_recall_recent, cg_scope = current_session\<rparr>])"

fun with_extra :: "CapabilityGrant list \<Rightarrow> string list \<Rightarrow> CapabilityGrant list" where
  "with_extra grants [] = grants"
| "with_extra grants (name # names) =
     (if name = [] then with_extra grants names
      else if lookup name = None then with_extra grants names
      else if list_ex (\<lambda>g. cg_operation g = name) grants then with_extra grants names
      else with_extra (grants @ [\<lparr>cg_operation = name, cg_scope = current_session\<rparr>]) names)"

text \<open>The grants of a profile are exactly the base grants and the catalogued extra operations.\<close>

lemma with_extra_Cons:
  "with_extra grants (name # names) =
   with_extra (if name \<noteq> [] \<and> is_allowed name \<and> name \<notin> cg_operation ` set grants
     then grants @ [\<lparr>cg_operation = name, cg_scope = current_session\<rparr>] else grants) names"
proof -
  have "list_ex (\<lambda>g. cg_operation g = name) grants \<longleftrightarrow> name \<in> cg_operation ` set grants"
    by (induction grants) auto
  then show ?thesis by (simp add: is_allowed_def)
qed

lemma with_extra_operations:
  "cg_operation ` set (with_extra grants names) =
   cg_operation ` set grants \<union> Set.filter (\<lambda>n. n \<noteq> [] \<and> is_allowed n) (set names)"
proof (induction names arbitrary: grants)
  case Nil
  then show ?case by simp
next
  case (Cons name names)
  let ?new = "name \<noteq> [] \<and> is_allowed name \<and> name \<notin> cg_operation ` set grants"
  show ?case
    by (cases ?new) (auto simp: with_extra_Cons Cons simp del: with_extra.simps)
qed

lemma with_extra_scope:
  "cg_scope ` set grants \<subseteq> {sc} \<Longrightarrow> sc = current_session \<Longrightarrow>
   cg_scope ` set (with_extra grants names) \<subseteq> {sc}"
  by (induction grants names rule: with_extra.induct) simp_all

lemma with_extra_distinct:
  "distinct (map cg_operation grants) \<Longrightarrow> distinct (map cg_operation (with_extra grants names))"
  by (induction grants names rule: with_extra.induct) (auto simp: list_ex_iff)

lemma is_allowed_iff:
  "is_allowed name \<longleftrightarrow>
   name \<in> {stdout_send_text, feishu_send_message, session_recall_recent, system_status}"
  by (auto simp: is_allowed_def lookup_def catalog_def)

text \<open>C13: A profile grants no more than the catalog. The grants of a channel, with whatever extra
  operations the operator configures, are for catalogued operations only, one grant per
  operation, all of them scoped to the current session; they include the reply operation of the
  channel.\<close>

theorem profile_within_catalog:
  "distinct (map cg_operation (with_extra (for_channel c) extra)) \<and>
   cg_operation ` set (with_extra (for_channel c) extra) =
     insert (case c of ChannelKind.Cli \<Rightarrow> stdout_send_text | ChannelKind.Feishu \<Rightarrow> feishu_send_message)
       (insert session_recall_recent {n \<in> set extra. is_allowed n}) \<and>
   cg_operation ` set (with_extra (for_channel c) extra) \<subseteq> Collect is_allowed \<and>
   cg_scope ` set (with_extra (for_channel c) extra) = {current_session}"
proof -
  let ?g = "for_channel c"
  have base: "distinct (map cg_operation ?g)" "cg_scope ` set ?g \<subseteq> {current_session}"
    by (cases c; simp add: for_channel_def operation_names)+
  have nonempty: "is_allowed n \<Longrightarrow> n \<noteq> []" for n
    by (auto simp: is_allowed_iff operation_names)
  have ops: "cg_operation ` set (with_extra ?g extra) =
     insert (case c of ChannelKind.Cli \<Rightarrow> stdout_send_text | ChannelKind.Feishu \<Rightarrow> feishu_send_message)
       (insert session_recall_recent {n \<in> set extra. is_allowed n})"
    using nonempty by (auto simp: with_extra_operations for_channel_def Let_def)
  moreover have "\<dots> \<subseteq> Collect is_allowed"
    by (auto simp: is_allowed_iff split: ChannelKind.splits)
  moreover have "with_extra ?g extra \<noteq> []" using ops by auto
  then have "cg_scope ` set (with_extra ?g extra) = {current_session}"
    using with_extra_scope [OF base(2) refl, of extra] by (cases "with_extra ?g extra") auto
  ultimately show ?thesis using with_extra_distinct [OF base(1)] by simp
qed

end
