(* ===== verification/Gateway_Policy.thy ===== *)
theory Gateway_Policy
  imports Operation_Catalog Journal_Store
begin

section \<open>The gateway: tool calls and invocation policy\<close>

text \<open>
  \<open>src/gateway/policy.rs\<close>, \<open>tool_call.rs\<close>, \<open>message_arguments.rs\<close> and \<open>approve_invocation\<close> of
  \<open>src/gateway/mod.rs\<close>: the validation of a tool call of the model against the snapshot of its
  run, the policy pipeline (grant, catalog, session scope), and the shape of a Feishu reply. The
  properties say which invocations pass and that what passes was offered to the model.
\<close>

subsection \<open>Arguments\<close>

definition string_arg :: "json \<Rightarrow> string \<Rightarrow> string + string" where
  "string_arg v key =
     (case map_option trim (str_field v key) of
        None \<Rightarrow> Inl (''missing string argument: '' @ key)
      | Some text \<Rightarrow>
          if text = [] then Inl (''missing string argument: '' @ key) else Inr text)"

definition pending_proposal_kind :: string where
  "pending_proposal_kind = ''capability_proposal_pending_v1''"

definition validate_pending_proposal_presentation :: "json \<Rightarrow> string + unit" where
  "validate_pending_proposal_presentation v =
     (case as_object v of
        None \<Rightarrow> Inl ''invalid feishu presentation''
      | Some presentation \<Rightarrow>
          if length presentation \<noteq> 2
             \<or> Option.bind (map_of presentation ''kind'') as_str \<noteq> Some pending_proposal_kind
             \<or> \<not> (case Option.bind (map_of presentation ''proposal_id'') as_str of
                    None \<Rightarrow> False | Some i \<Rightarrow> trim i \<noteq> [])
          then Inl ''invalid feishu presentation'' else Inr ())"

definition validate_feishu_send_arguments :: "json \<Rightarrow> string + unit" where
  "validate_feishu_send_arguments arguments =
     (case string_arg arguments ''message_id'' of
        Inl e \<Rightarrow> Inl e
      | Inr _ \<Rightarrow>
     (case string_arg arguments ''chat_id'' of
        Inl e \<Rightarrow> Inl e
      | Inr _ \<Rightarrow>
     (let has_text = (case str_field arguments ''text'' of None \<Rightarrow> False | Some x \<Rightarrow> trim x \<noteq> []) in
      case (case jget arguments ''presentation'' of
              None \<Rightarrow> Inr False
            | Some v \<Rightarrow> (case validate_pending_proposal_presentation v of
                           Inl e \<Rightarrow> Inl e | Inr _ \<Rightarrow> Inr True)) of
        Inl e \<Rightarrow> Inl e
      | Inr has_presentation \<Rightarrow>
          if has_text = has_presentation
          then Inl ''feishu send requires exactly one of text or presentation''
          else if jget arguments ''text'' \<noteq> None \<and> \<not> has_text
          then Inl ''feishu send text must be a non-empty string''
          else Inr ())))"

subsection \<open>The policy pipeline\<close>

datatype PolicyVerdict = Allow | Deny string

definition evaluate_policy ::
  "InvocationIntent \<Rightarrow> Run \<Rightarrow> Session \<Rightarrow> RegistrySnapshot \<Rightarrow> PolicyVerdict" where
  "evaluate_policy intent run session snapshot =
     (if \<not> list_ex (\<lambda>grant. cg_operation grant = ii_operation intent) (rp_grants (r_principal run))
      then Deny (''capability_not_enabled: '' @ ii_operation intent)
      else if snapshot_lookup snapshot (ii_operation intent) = None
      then Deny (''operation_not_allowed: '' @ ii_operation intent)
      else if (case str_field (ii_arguments intent) ''session_id'' of None \<Rightarrow> [] | Some x \<Rightarrow> x)
              \<noteq> s_id session
      then Deny ''target_session_mismatch''
      else Allow)"

definition approve_invocation ::
  "env \<Rightarrow> InvocationIntent \<Rightarrow> Run \<Rightarrow> Session \<Rightarrow> RegistrySnapshot \<Rightarrow> ApprovedInvocation jop" where
  "approve_invocation E intent run session snapshot =
     (case evaluate_policy intent run session snapshot of
        Deny reason \<Rightarrow> op_bail reason
      | Allow \<Rightarrow>
          op_then (if ii_operation intent = feishu_send_message
                   then op_lift (validate_feishu_send_arguments (ii_arguments intent))
                   else op_return ())
         (op_bind (new_id E ''decision'') (\<lambda>decision_id.
          op_return \<lparr>ai_intent = intent, ai_decision_id = decision_id\<rparr>)))"

subsection \<open>Tool calls\<close>

record ToolCall =
  tc_id :: string
  tc_operation :: string
  tc_arguments :: json

datatype ToolRejection =
    UnknownOperation
  | OperationNotAllowed
  | MalformedArguments
  | InvalidArguments
  | InvalidArgumentsWithDetails SchemaValidationIssue
  | PolicyDenied
  | MalformedToolCall
  | InternalToolError

fun category :: "ToolRejection \<Rightarrow> string" where
  "category UnknownOperation = ''unknown_operation''"
| "category OperationNotAllowed = ''operation_not_allowed''"
| "category MalformedArguments = ''malformed_arguments''"
| "category InvalidArguments = ''invalid_arguments''"
| "category (InvalidArgumentsWithDetails _) = ''invalid_arguments''"
| "category PolicyDenied = ''policy_denied''"
| "category MalformedToolCall = ''malformed_tool_call''"
| "category InternalToolError = ''internal_tool_error''"

fun safe_message :: "ToolRejection \<Rightarrow> string" where
  "safe_message UnknownOperation = ''Tool call rejected: unknown operation.''"
| "safe_message OperationNotAllowed = ''Tool call rejected: operation is not allowed.''"
| "safe_message MalformedArguments = ''Tool call rejected: malformed arguments.''"
| "safe_message InvalidArguments = ''Tool call rejected: invalid arguments.''"
| "safe_message (InvalidArgumentsWithDetails _) = ''Tool call rejected: invalid arguments.''"
| "safe_message PolicyDenied = ''Tool call rejected: not permitted by policy.''"
| "safe_message MalformedToolCall = ''Tool call rejected: malformed tool call.''"
| "safe_message InternalToolError = ''Tool call rejected: internal tool error.''"

definition tool_call_key :: "RunId \<Rightarrow> nat \<Rightarrow> nat \<Rightarrow> string \<Rightarrow> string" where
  "tool_call_key run_id turn_index tool_index provider_id =
     ''tool:'' @ run_id @ '':'' @ dec turn_index @ '':'' @ dec tool_index @ '':'' @ provider_id"

text \<open>\<open>validate_tool_call\<close> returns its rejection as a value; the fresh invocation id is drawn only
  when the call is accepted.\<close>

definition validate_tool_call ::
  "env \<Rightarrow> ToolCall \<Rightarrow> RunId \<Rightarrow> nat \<Rightarrow> nat \<Rightarrow> RegistrySnapshot \<Rightarrow>
   (ToolRejection + InvocationIntent) jop" where
  "validate_tool_call E call run_id turn_index tool_index snapshot =
     (case snapshot_lookup snapshot (tc_operation call) of
        None \<Rightarrow> op_return (Inl UnknownOperation)
      | Some spec \<Rightarrow>
          if os_risk spec \<noteq> ReadOnly \<and> os_binding_kind spec \<noteq> External
          then op_return (Inl OperationNotAllowed)
          else if as_object (tc_arguments call) = None then op_return (Inl MalformedArguments)
          else op_bind (new_id E ''invocation'') (\<lambda>invocation_id.
            op_return (Inr
              \<lparr>ii_invocation_id = invocation_id, ii_run_id = run_id,
               ii_operation = tc_operation call, ii_arguments = tc_arguments call,
               ii_idempotency_key =
                 Some (tool_call_key run_id turn_index tool_index (tc_id call))\<rparr>)))"

subsection \<open>What each check accepts\<close>

text \<open>A string field that is there and not blank.\<close>

definition filled :: "json \<Rightarrow> string \<Rightarrow> bool" where
  "filled v key \<longleftrightarrow> (\<exists>x. jget v key = Some (JStr x) \<and> trim x \<noteq> [])"

lemma str_field_Some: "str_field v key = Some x \<longleftrightarrow> jget v key = Some (JStr x)"
  by (auto simp: str_field_def bind_eq_Some_conv as_str_iff)

lemma string_arg_Inr:
  "string_arg v key = Inr x \<longleftrightarrow> (\<exists>y. jget v key = Some (JStr y) \<and> trim y = x \<and> x \<noteq> [])"
  unfolding str_field_Some [symmetric] by (auto simp: string_arg_def split: option.splits)

lemma string_arg_filled: "(\<exists>x. string_arg v key = Inr x) \<longleftrightarrow> filled v key"
  by (auto simp: string_arg_Inr filled_def)

text \<open>A reply that names its destination and carries exactly one of a text and the presentation
  of a pending proposal.\<close>

definition proposal_presentation :: "json \<Rightarrow> bool" where
  "proposal_presentation v \<longleftrightarrow>
     (\<exists>m i. v = JObj m \<and> length m = 2 \<and> map_of m ''kind'' = Some (JStr pending_proposal_kind) \<and>
        map_of m ''proposal_id'' = Some (JStr i) \<and> trim i \<noteq> [])"

definition feishu_reply :: "json \<Rightarrow> bool" where
  "feishu_reply a \<longleftrightarrow> filled a ''message_id'' \<and> filled a ''chat_id'' \<and>
     (filled a ''text'' \<and> jget a ''presentation'' = None \<or>
      jget a ''text'' = None \<and> (\<exists>v. jget a ''presentation'' = Some v \<and> proposal_presentation v))"

lemma presentation_ok:
  "validate_pending_proposal_presentation v = Inr () \<longleftrightarrow> proposal_presentation v"
  by (cases v) (auto simp: validate_pending_proposal_presentation_def proposal_presentation_def
      bind_eq_Some_conv as_str_iff split: option.splits)

lemma feishu_arguments_ok:
  "validate_feishu_send_arguments a = Inr () \<longleftrightarrow> feishu_reply a"
proof -
  have has_text: "(case str_field a ''text'' of None \<Rightarrow> False | Some x \<Rightarrow> trim x \<noteq> []) \<longleftrightarrow> filled a ''text''"
    unfolding filled_def str_field_Some [symmetric] by (auto split: option.splits)
  show ?thesis
  proof (cases "filled a ''message_id'' \<and> filled a ''chat_id''")
    case True
    then obtain x y where "string_arg a ''message_id'' = Inr x" "string_arg a ''chat_id'' = Inr y"
      using string_arg_filled by metis
    then show ?thesis
      using True
      by (auto simp flip: presentation_ok simp: validate_feishu_send_arguments_def has_text feishu_reply_def Let_def filled_def
          split: option.splits sum.splits)
  next
    case False
    then have "validate_feishu_send_arguments a \<noteq> Inr ()"
      using string_arg_filled [of a]
      by (auto simp: validate_feishu_send_arguments_def split: sum.splits)
    with False show ?thesis by (auto simp: feishu_reply_def)
  qed
qed

lemma evaluate_policy_Allow:
  "evaluate_policy intent run session snapshot = Allow \<longleftrightarrow>
   ii_operation intent \<in> cg_operation ` set (rp_grants (r_principal run)) \<and>
   ii_operation intent \<in> os_name ` set (rs_operations snapshot) \<and>
   (case str_field (ii_arguments intent) ''session_id'' of None \<Rightarrow> [] | Some x \<Rightarrow> x) = s_id session"
proof -
  have "list_ex (\<lambda>grant. cg_operation grant = ii_operation intent) gs \<longleftrightarrow>
      ii_operation intent \<in> cg_operation ` set gs" for gs :: "CapabilityGrant list"
    by (induction gs) auto
  moreover have "snapshot_lookup snapshot n = None \<longleftrightarrow> n \<notin> os_name ` set (rs_operations snapshot)" for n
    by (auto simp: snapshot_lookup_def find_None_iff)
  ultimately show ?thesis by (simp add: evaluate_policy_def)
qed

lemma approve_invocation_run:
  "approve_invocation E intent run session snapshot s = (r, t) \<Longrightarrow>
   unchanged s t \<and>
   ((\<exists>d. r = Inr \<lparr>ai_intent = intent, ai_decision_id = d\<rparr>) \<longleftrightarrow>
     evaluate_policy intent run session snapshot = Allow \<and>
     (ii_operation intent = feishu_send_message \<longrightarrow> feishu_reply (ii_arguments intent))) \<and>
   ((\<exists>d. r = Inr \<lparr>ai_intent = intent, ai_decision_id = d\<rparr>) \<or> (\<exists>e. r = Inl e))"
  using feishu_arguments_ok [of "ii_arguments intent"]
  by (auto simp: approve_invocation_def new_id_def draw_def op_simps unchanged_def
      split: PolicyVerdict.splits if_splits sum.splits)

lemma validate_tool_call_run:
  "validate_tool_call E call run_id turn_index tool_index snapshot s = (Inr (Inr intent), t) \<longleftrightarrow>
   (\<exists>spec m. snapshot_lookup snapshot (tc_operation call) = Some spec \<and>
      is_visible_to_provider spec \<and> tc_arguments call = JObj m \<and> t = s\<lparr>tick := Suc (tick s)\<rparr> \<and>
      intent = \<lparr>ii_invocation_id = fresh_id ''invocation'' (uuid_at E (tick s)), ii_run_id = run_id,
        ii_operation = tc_operation call, ii_arguments = tc_arguments call,
        ii_idempotency_key = Some (tool_call_key run_id turn_index tool_index (tc_id call))\<rparr>)"
proof -
  have visible: "is_visible_to_provider spec \<longleftrightarrow>
      \<not> (os_risk spec \<noteq> ReadOnly \<and> os_binding_kind spec \<noteq> External)" for spec
    by (cases "os_risk spec") auto
  show ?thesis
    by (cases "tc_arguments call")
      (auto simp: validate_tool_call_def visible new_id_def draw_def op_simps
        simp del: is_visible_to_provider.simps split: option.splits)
qed

lemma dec_no_colon: "CHR '':'' \<notin> set (dec n)"
  by (rule dec_no_char) (simp add: digit_char_def)

lemma tool_call_key_inject:
  assumes "tool_call_key r t i p = tool_call_key r' t' i' p'"
    and "CHR '':'' \<notin> set r" and "CHR '':'' \<notin> set r'"
  shows "r = r' \<and> t = t' \<and> i = i' \<and> p = p'"
proof -
  from assms(1) have 1: "r @ CHR '':'' # dec t @ CHR '':'' # dec i @ CHR '':'' # p =
      r' @ CHR '':'' # dec t' @ CHR '':'' # dec i' @ CHR '':'' # p'"
    by (simp add: tool_call_key_def)
  from separator_unique [OF 1 assms(2,3)] have r: "r = r'" and
    2: "dec t @ CHR '':'' # dec i @ CHR '':'' # p = dec t' @ CHR '':'' # dec i' @ CHR '':'' # p'"
    by auto
  from separator_unique [OF 2 dec_no_colon dec_no_colon] have t: "t = t'" and
    3: "dec i @ CHR '':'' # p = dec i' @ CHR '':'' # p'" by auto
  from separator_unique [OF 3 dec_no_colon dec_no_colon] r t show ?thesis by simp
qed

subsection \<open>Properties\<close>

text \<open>C14: Approval is exact. Approving an invocation changes no table; it returns the intent it was
  given, with a decision id, exactly when the principal of the run holds a grant for the
  operation, the pinned snapshot has it, the arguments name the session of the run, and a Feishu
  reply names its destination and carries one of a text and a pending proposal. In every other
  case it is an error.\<close>

theorem approval_exact:
  assumes "approve_invocation E intent run session snapshot s = (r, t)"
  shows "unchanged s t \<and>
    ((\<exists>d. r = Inr \<lparr>ai_intent = intent, ai_decision_id = d\<rparr>) \<longleftrightarrow>
      ii_operation intent \<in> cg_operation ` set (rp_grants (r_principal run)) \<and>
      ii_operation intent \<in> os_name ` set (rs_operations snapshot) \<and>
      (case str_field (ii_arguments intent) ''session_id'' of None \<Rightarrow> [] | Some x \<Rightarrow> x) = s_id session \<and>
      (ii_operation intent = feishu_send_message \<longrightarrow> feishu_reply (ii_arguments intent))) \<and>
    ((\<exists>d. r = Inr \<lparr>ai_intent = intent, ai_decision_id = d\<rparr>) \<or> (\<exists>e. r = Inl e))"
  using approve_invocation_run [OF assms] unfolding evaluate_policy_Allow conj_assoc by argo

definition sample_snapshot :: RegistrySnapshot where
  "sample_snapshot = \<lparr>rs_snapshot_id = ''snap_1'', rs_created_at = 0, rs_operations = sample_specs,
     rs_hook_bindings = []\<rparr>"

definition sample_session :: Session where
  "sample_session = \<lparr>s_id = ''session_1'', s_agent_id = ''agent_1'', s_channel = ChannelKind.Cli,
     s_conversation_key = ''local'', s_summary = None, s_summarized_until_event_id = None,
     s_last_active_at = 0, s_status = Active, s_version = 1\<rparr>"

definition sample_granted_run :: Run where
  "sample_granted_run = sample_run\<lparr>r_principal := (r_principal sample_run)
     \<lparr>rp_grants := [\<lparr>cg_operation = ''a'', cg_scope = ''current_session''\<rparr>]\<rparr>\<rparr>"

definition sample_call :: ToolCall where
  "sample_call = \<lparr>tc_id = ''p1'', tc_operation = ''a'',
     tc_arguments = jobj [(''session_id'', JStr ''session_1'')]\<rparr>"

definition sample_intent :: InvocationIntent where
  "sample_intent = \<lparr>ii_invocation_id = ''invocation_0'', ii_run_id = ''run_1'', ii_operation = ''a'',
     ii_arguments = jobj [(''session_id'', JStr ''session_1'')],
     ii_idempotency_key = Some ''tool:run_1:0:0:p1''\<rparr>"

theorem approval_exact_witness:
  "\<exists>r t d. approve_invocation sample_env sample_intent sample_granted_run sample_session
      sample_snapshot empty_store = (r, t) \<and> unchanged empty_store t \<and>
    r = Inr \<lparr>ai_intent = sample_intent, ai_decision_id = d\<rparr>"
proof -
  obtain r t where 1: "approve_invocation sample_env sample_intent sample_granted_run sample_session
      sample_snapshot empty_store = (r, t)" by (metis prod.exhaust)
  have "ii_operation sample_intent \<in> cg_operation ` set (rp_grants (r_principal sample_granted_run))"
    "ii_operation sample_intent \<in> os_name ` set (rs_operations sample_snapshot)"
    "(case str_field (ii_arguments sample_intent) ''session_id'' of None \<Rightarrow> [] | Some x \<Rightarrow> x) =
      s_id sample_session"
    "ii_operation sample_intent \<noteq> feishu_send_message"
    by code_simp+
  with approval_exact [OF 1] 1 show ?thesis by auto
qed

text \<open>C15: Every tool call that runs was offered. A tool call of the model that passes both the
  validation against the snapshot of the run and the policy is for an operation that the tools
  offered to the model for this run contain, and it targets the session of the run; the approved
  invocation carries the operation and the arguments of the call.\<close>

theorem approved_call_was_offered:
  assumes "validate_tool_call E call (r_id run) turn_index tool_index snapshot s =
      (Inr (Inr intent), t)"
    and "approve_invocation E intent run session snapshot t = (Inr approved, u)"
  shows "tc_operation call \<in> set (catalog_names snapshot (map cg_operation (rp_grants (r_principal run)))) \<and>
    (case str_field (tc_arguments call) ''session_id'' of None \<Rightarrow> [] | Some x \<Rightarrow> x) = s_id session \<and>
    ii_operation (ai_intent approved) = tc_operation call \<and>
    ii_arguments (ai_intent approved) = tc_arguments call \<and>
    ii_idempotency_key (ai_intent approved) =
      Some (tool_call_key (r_id run) turn_index tool_index (tc_id call)) \<and> unchanged s u"
proof -
  from assms(1) obtain spec where spec:
    "snapshot_lookup snapshot (tc_operation call) = Some spec" "is_visible_to_provider spec"
    and t: "t = s\<lparr>tick := Suc (tick s)\<rparr>"
    and i: "ii_operation intent = tc_operation call" "ii_arguments intent = tc_arguments call"
      "ii_idempotency_key intent =
        Some (tool_call_key (r_id run) turn_index tool_index (tc_id call))"
    by (auto simp: validate_tool_call_run)
  from approve_invocation_run [OF assms(2)] have a: "ai_intent approved = intent" "unchanged t u"
    and "evaluate_policy intent run session snapshot = Allow" by auto
  then have p: "tc_operation call \<in> cg_operation ` set (rp_grants (r_principal run))"
    "(case str_field (tc_arguments call) ''session_id'' of None \<Rightarrow> [] | Some x \<Rightarrow> x) = s_id session"
    by (auto simp: evaluate_policy_Allow i)
  from spec(1) have "spec \<in> set (rs_operations snapshot)" "os_name spec = tc_operation call"
    by (auto simp: snapshot_lookup_def find_Some_iff)
  then have "tc_operation call \<in>
      set (catalog_names snapshot (map cg_operation (rp_grants (r_principal run))))"
    using spec(2) p(1) by (force simp: catalog_names_def simp del: is_visible_to_provider.simps)
  moreover have "unchanged s u" using a(2) t unchanged_tick unchanged_trans by blast
  ultimately show ?thesis using p a i by simp
qed

theorem approved_call_was_offered_witness:
  "''a'' \<in> set (catalog_names sample_snapshot (map cg_operation (rp_grants (r_principal sample_granted_run))))"
proof -
  let ?v = "validate_tool_call sample_env sample_call (r_id sample_granted_run) 0 0 sample_snapshot
    empty_store"
  have "case fst ?v of Inr (Inr i) \<Rightarrow> i = sample_intent | _ \<Rightarrow> False" by code_simp
  then have 1: "?v = (Inr (Inr sample_intent), snd ?v)"
    by (auto simp: prod_eq_iff split: sum.splits)
  let ?a = "approve_invocation sample_env sample_intent sample_granted_run sample_session
    sample_snapshot (snd ?v)"
  have "case fst ?a of Inr _ \<Rightarrow> True | _ \<Rightarrow> False" by code_simp
  then obtain ap where "?a = (Inr ap, snd ?a)"
    by (cases "fst ?a") (auto simp: prod_eq_iff)
  from approved_call_was_offered [OF 1 this] show ?thesis by (simp add: sample_call_def)
qed

text \<open>Tool calls never share an idempotency key. Two accepted tool calls with the same key are
  the same call position: same run, same turn, same index, same provider id. (The ids of runs
  contain no colon.)\<close>

theorem tool_call_keys_unique:
  assumes "validate_tool_call E call run_id turn ix snapshot s = (Inr (Inr intent), t)"
    and "validate_tool_call E' call' run_id' turn' ix' snapshot' s' = (Inr (Inr intent'), t')"
    and "ii_idempotency_key intent = ii_idempotency_key intent'"
    and "CHR '':'' \<notin> set run_id" and "CHR '':'' \<notin> set run_id'"
  shows "run_id = run_id' \<and> turn = turn' \<and> ix = ix' \<and> tc_id call = tc_id call'"
proof -
  from assms(1-3) have "tool_call_key run_id turn ix (tc_id call) =
      tool_call_key run_id' turn' ix' (tc_id call')"
    by (auto simp: validate_tool_call_run)
  from tool_call_key_inject [OF this assms(4,5)] show ?thesis .
qed

theorem tool_call_keys_unique_witness:
  "\<exists>i t. validate_tool_call sample_env sample_call ''run_1'' 0 0 sample_snapshot empty_store =
      (Inr (Inr i), t) \<and> ''run_1'' = ''run_1'' \<and> (0::nat) = 0 \<and> tc_id sample_call = tc_id sample_call"
proof -
  have "case fst (validate_tool_call sample_env sample_call ''run_1'' 0 0 sample_snapshot empty_store)
    of Inr (Inr i) \<Rightarrow> True | _ \<Rightarrow> False" by code_simp
  then obtain i t where 1: "validate_tool_call sample_env sample_call ''run_1'' 0 0 sample_snapshot
      empty_store = (Inr (Inr i), t)" by (cases "validate_tool_call sample_env sample_call ''run_1'' 0 0 sample_snapshot empty_store") (auto split: sum.splits)
  from tool_call_keys_unique [OF 1 1 refl] 1 show ?thesis by auto
qed

end
