(* ===== verification/Content_Store.thy ===== *)
theory Content_Store
  imports Hash_Chain
begin

section \<open>The content-addressed store\<close>

text \<open>
  \<open>src/src/capabilities/store.rs\<close>: blobs kept under the SHA-256 digest of their bytes. The directory
  of a digest is found by the digest alone, so the file system under the root is a map from
  digests to what lies at the path of the object. The file system may refuse to create the
  directory or to write the file: an argument says at which of its calls it fails.
\<close>

subsection \<open>Digests\<close>

definition lower_hex :: "char \<Rightarrow> bool" where
  "lower_hex c \<longleftrightarrow> c \<in> set ''0123456789abcdef''"

definition parse_digest :: "string \<Rightarrow> string + string" where
  "parse_digest s =
    (if length s \<noteq> 71 then Inl ''invalid_digest_length''
     else if \<not> prefix ''sha256:'' s then Inl ''digest_must_start_with_sha256:''
     else if length (drop 7 s) \<noteq> 64 then Inl ''invalid_hex_length''
     else if \<not> list_all lower_hex (drop 7 s) then Inl ''invalid_hex_chars''
     else Inr s)"

definition compute_digest :: "env \<Rightarrow> string \<Rightarrow> string" where
  "compute_digest E bytes = ''sha256:'' @ sha256_hex E bytes"

definition verify_digest :: "env \<Rightarrow> string \<Rightarrow> string \<Rightarrow> bool" where
  "verify_digest E digest bytes \<longleftrightarrow> compute_digest E bytes = digest"

subsection \<open>The store\<close>

text \<open>What lies at the path of an object: only its directory, a regular file, or something else.\<close>

datatype entry = Directory | Regular string | Special

record ContentStore =
  objects :: "string \<Rightarrow> entry option"
  total_bytes :: nat

definition max_object_size :: nat where
  "max_object_size = 1 * 1024 * 1024"

definition max_total_bytes :: nat where
  "max_total_bytes = 10 * 1024 * 1024"

datatype fs_call = CreateDir | WriteFile

definition store_content :: "env \<Rightarrow> (fs_call \<Rightarrow> bool) \<Rightarrow> string \<Rightarrow> (ContentStore, string) op" where
  "store_content E fails bytes =
    (let digest = compute_digest E bytes in
     op_bind (op_query objects) (\<lambda>t.
     op_then
       (if t digest \<noteq> None then op_return ()
        else if fails CreateDir then op_bail ''io error''
        else op_then (op_update (\<lambda>s. s\<lparr>objects := t(digest \<mapsto> Directory)\<rparr>))
          (if fails WriteFile then op_bail ''io error''
           else op_update (\<lambda>s. s\<lparr>objects := t(digest \<mapsto> Regular bytes)\<rparr>)))
     (op_then (op_update (\<lambda>s. s\<lparr>total_bytes := total_bytes s + length bytes\<rparr>))
     (op_bind (op_query total_bytes) (\<lambda>total.
     if max_total_bytes < total then op_bail ''store_total_size_exceeded''
     else op_return digest)))))"

definition load_content :: "env \<Rightarrow> string \<Rightarrow> ContentStore \<Rightarrow> string + string" where
  "load_content E digest s =
    (case objects s digest of
       None \<Rightarrow> Inl (''content_object_not_found:'' @ digest)
     | Some Directory \<Rightarrow> Inl (''content_object_not_found:'' @ digest)
     | Some Special \<Rightarrow> Inl (''content_object_not_regular_file:'' @ digest)
     | Some (Regular bytes) \<Rightarrow>
         if max_object_size < length bytes
         then Inl (''content_object_too_large:'' @ dec (length bytes) @ '' bytes'')
         else if \<not> verify_digest E digest bytes then Inl (''content_digest_mismatch:'' @ digest)
         else Inr bytes)"

lemmas content_defs = store_content_def load_content_def verify_digest_def Let_def op_defs

subsection \<open>Properties\<close>


definition empty_content :: ContentStore where
  "empty_content = \<lparr>objects = (\<lambda>_. None), total_bytes = 0\<rparr>"


text \<open>Three ways in which a stored blob is lost although storing it succeeded, or is refused
  although it is already there. A blob of more than one mebibyte is stored and never loads. After
  a write that failed, the directory it left behind makes the next store of the same blob succeed
  without writing it. And storing a blob that is already there counts its bytes again, until the
  quota is reached.\<close>
theorem content_store_gaps:
  "(max_object_size < length bytes \<and> length bytes \<le> max_total_bytes \<longrightarrow>
     (\<exists>digest t e. store_content E (\<lambda>_. False) bytes empty_content = (Inr digest, t) \<and>
       load_content E digest t = Inl e)) \<and>
   (length small \<le> max_total_bytes \<longrightarrow>
     (\<exists>e t digest u e'. store_content E (\<lambda>c. c = WriteFile) small empty_content = (Inl e, t) \<and>
       store_content E (\<lambda>_. False) small t = (Inr digest, u) \<and> load_content E digest u = Inl e')) \<and>
   (max_total_bytes < total_bytes s + length present \<and>
     objects s (compute_digest E present) = Some (Regular present) \<longrightarrow>
     fst (store_content E (\<lambda>_. False) present s) = Inl ''store_total_size_exceeded'')"
  by (auto simp: content_defs empty_content_def)

theorem content_store_gaps_witness:
  "\<exists>digest t e. store_content sample_env (\<lambda>_. False) (replicate 1048577 CHR ''a'') empty_content =
     (Inr digest, t) \<and> load_content sample_env digest t = Inl e"
proof -
  have "max_object_size < length (replicate 1048577 CHR ''a'')"
    "length (replicate 1048577 CHR ''a'') \<le> max_total_bytes"
    by (simp_all add: max_object_size_def max_total_bytes_def)
  then show ?thesis
    using content_store_gaps [of "replicate 1048577 CHR ''a''" sample_env] by blast
qed

end
