(* ===== verification/Hook_Contracts.thy ===== *)
theory Hook_Contracts
  imports Content_Store Journal_Store
begin

section \<open>Hook contracts\<close>

text \<open>
  \<open>src/src/hook\<close>: the configuration of a hook with its limits, the budget contract
  \<open>run.budget.resolve.v0\<close>, the context contract \<open>context.prepare.v0\<close>, and the authenticated HTTP
  client that calls both. HMAC-SHA256, the hexadecimal coding and the parser of RFC 3339 times are
  the fields of \<open>wire\<close>; the HTTP exchange is an argument, indexed by the tick of the call.
\<close>

record wire =
  hmac_sha256 :: "string \<Rightarrow> string \<Rightarrow> string"
  hex_encode :: "string \<Rightarrow> string"
  hex_decode :: "string \<Rightarrow> string option"
  is_rfc3339 :: "string \<Rightarrow> bool"

subsection \<open>Configuration\<close>

datatype HookKind = IngressRouteV0 | ContextPrepareV0 | ContextLoadV0 | EventObserveV0
  | DecisionPolicyV0 | RunBudgetResolveV0

fun hook_name :: "HookKind \<Rightarrow> string" where
  "hook_name IngressRouteV0 = ''ingress.route.v0''"
| "hook_name ContextPrepareV0 = ''context.prepare.v0''"
| "hook_name ContextLoadV0 = ''context.load.v0''"
| "hook_name EventObserveV0 = ''event.observe.v0''"
| "hook_name DecisionPolicyV0 = ''decision.policy.v0''"
| "hook_name RunBudgetResolveV0 = ''run.budget.resolve.v0''"

datatype HookFailureMode = FailOpen | FailClosed | Degrade | HookDisabled

record HookLimits =
  hl_timeout_ms :: "64 word"
  hl_max_request_bytes :: "64 word"
  hl_max_response_bytes :: "64 word"

definition default_limits :: HookLimits where
  "default_limits = \<lparr>hl_timeout_ms = 5000, hl_max_request_bytes = 1024 * 1024,
     hl_max_response_bytes = 1024 * 1024\<rparr>"

definition limit_exceeded :: "string \<Rightarrow> 64 word \<Rightarrow> 64 word \<Rightarrow> string" where
  "limit_exceeded field value max_value =
    ''hook limit '' @ field @ '' = '' @ dec (unat value) @ '' exceeds maximum allowed '' @
    dec (unat max_value)"

definition validate_limits :: "HookLimits \<Rightarrow> string + unit" where
  "validate_limits l =
    (if 60000 < hl_timeout_ms l then Inl (limit_exceeded ''timeout_ms'' (hl_timeout_ms l) 60000)
     else if 10 * 1024 * 1024 < hl_max_request_bytes l
     then Inl (limit_exceeded ''max_request_bytes'' (hl_max_request_bytes l) (10 * 1024 * 1024))
     else if 10 * 1024 * 1024 < hl_max_response_bytes l
     then Inl (limit_exceeded ''max_response_bytes'' (hl_max_response_bytes l) (10 * 1024 * 1024))
     else Inr ())"

record HookConfig =
  hc_enabled :: bool
  hc_kind :: HookKind
  hc_endpoint :: string
  hc_timeout_ms :: "64 word"
  hc_max_request_bytes :: "64 word"
  hc_max_response_bytes :: "64 word"
  hc_failure_mode :: HookFailureMode
  hc_provider_id :: string
  hc_shared_secret :: string

definition default_hook_config :: HookConfig where
  "default_hook_config = \<lparr>hc_enabled = False, hc_kind = IngressRouteV0, hc_endpoint = [],
     hc_timeout_ms = 5000, hc_max_request_bytes = 1024 * 1024,
     hc_max_response_bytes = 1024 * 1024, hc_failure_mode = HookDisabled, hc_provider_id = [],
     hc_shared_secret = []\<rparr>"

definition limits_of :: "HookConfig \<Rightarrow> HookLimits" where
  "limits_of c = \<lparr>hl_timeout_ms = hc_timeout_ms c, hl_max_request_bytes = hc_max_request_bytes c,
     hl_max_response_bytes = hc_max_response_bytes c\<rparr>"

definition validate_hook :: "HookConfig \<Rightarrow> string + unit" where
  "validate_hook c =
    (if \<not> hc_enabled c then Inr ()
     else if trim (hc_endpoint c) = []
     then Inl ''hook validation error: enabled hook must have a non-empty endpoint URL''
     else if hc_failure_mode c = HookDisabled
     then Inl ''hook validation error: enabled hook must not have failure_mode = disabled''
     else if trim (hc_provider_id c) = []
     then Inl ''hook validation error: enabled hook must have a bound provider_id''
     else if hc_shared_secret c = []
     then Inl ''hook validation error: enabled hook must have a shared credential''
     else validate_limits (limits_of c))"

record HookRegistryConfig =
  hr_enabled :: bool
  hr_hooks :: "HookConfig list"

definition active_hooks :: "HookRegistryConfig \<Rightarrow> HookConfig list" where
  "active_hooks r = (if hr_enabled r then filter hc_enabled (hr_hooks r) else [])"

fun validate_hooks :: "HookConfig list \<Rightarrow> string + unit" where
  "validate_hooks [] = Inr ()"
| "validate_hooks (h # hs) = (case validate_hook h of Inl e \<Rightarrow> Inl e | Inr _ \<Rightarrow> validate_hooks hs)"

subsection \<open>Length-prefixed fields\<close>

text \<open>\<open>(len as u64).to_be_bytes()\<close> and \<open>append_field\<close>.\<close>

fun be_bytes :: "nat \<Rightarrow> nat \<Rightarrow> string" where
  "be_bytes 0 n = []"
| "be_bytes (Suc k) n = be_bytes k (n div 256) @ [char_of (n mod 256)]"

definition be64 :: "nat \<Rightarrow> string" where
  "be64 n = be_bytes 8 n"

definition field_bytes :: "string \<Rightarrow> string" where
  "field_bytes f = be64 (length f) @ f"

definition fields_bytes :: "string list \<Rightarrow> string" where
  "fields_bytes fs = concat (map field_bytes fs)"

subsection \<open>Proofs\<close>

definition compute_provider_proof :: "wire \<Rightarrow> string \<Rightarrow> string \<Rightarrow> string \<Rightarrow> string + string" where
  "compute_provider_proof C empty_error secret message =
    (if secret = [] then Inl empty_error
     else Inr (hex_encode C (hmac_sha256 C secret message)))"

definition verify_provider_proof :: "wire \<Rightarrow> string \<Rightarrow> string \<Rightarrow> string \<Rightarrow> string + unit" where
  "verify_provider_proof C secret message proof_text =
    (case hex_decode C proof_text of
       None \<Rightarrow> Inl ''provider_proof_encoding''
     | Some tag \<Rightarrow>
         if tag = hmac_sha256 C secret message then Inr ()
         else Inl ''provider_authentication_failed'')"

subsection \<open>The budget contract\<close>

definition host_max_tool_rounds :: "32 word" where
  "host_max_tool_rounds = 64"

definition host_max_wall_time_ms :: "64 word" where
  "host_max_wall_time_ms = 600000"

record RunBudgetDecision =
  bd_max_tool_rounds :: "32 word"
  bd_max_wall_time_ms :: "64 word"
  bd_exhaustion_action :: ExhaustionAction

definition validate_against_ceiling :: "RunBudgetDecision \<Rightarrow> string + unit" where
  "validate_against_ceiling d =
    (if bd_max_tool_rounds d = 0 then Inl ''budget_max_tool_rounds_zero''
     else if host_max_tool_rounds < bd_max_tool_rounds d
     then Inl (''budget_max_tool_rounds_exceeds_ceiling: '' @ dec (unat (bd_max_tool_rounds d)) @
       '' > '' @ dec (unat host_max_tool_rounds))
     else if bd_max_wall_time_ms d = 0 then Inl ''budget_max_wall_time_ms_zero''
     else if host_max_wall_time_ms < bd_max_wall_time_ms d
     then Inl (''budget_max_wall_time_ms_exceeds_ceiling: '' @ dec (unat (bd_max_wall_time_ms d)) @
       '' > '' @ dec (unat host_max_wall_time_ms))
     else Inr ())"

definition decision_digest :: "env \<Rightarrow> RunBudgetDecision \<Rightarrow> string" where
  "decision_digest E d =
    ''sha256:'' @ sha256_hex E (be64 (unat (bd_max_tool_rounds d)) @
      be64 (unat (bd_max_wall_time_ms d)) @ exhaustion_as_str (bd_exhaustion_action d))"

record RunBudgetHookRequest =
  bq_request_id :: string
  bq_principal :: string
  bq_session_id :: string
  bq_run_id :: string
  bq_registry_snapshot_id :: string
  bq_operations_digest :: string

record RunBudgetHookResponse =
  bp_request_id :: string
  bp_run_id :: string
  bp_decision :: RunBudgetDecision

definition validate_budget_response ::
  "RunBudgetHookResponse \<Rightarrow> RunBudgetHookRequest \<Rightarrow> string + unit" where
  "validate_budget_response p q =
    (if bp_request_id p \<noteq> bq_request_id q then Inl ''budget_response_request_id_mismatch''
     else if bp_run_id p \<noteq> bq_run_id q then Inl ''budget_response_run_id_mismatch''
     else validate_against_ceiling (bp_decision p))"

definition budget_message :: "RunBudgetHookResponse \<Rightarrow> string \<Rightarrow> string" where
  "budget_message p provider_id = fields_bytes
    [provider_id, bp_request_id p, bp_run_id p,
     dec (unat (bd_max_tool_rounds (bp_decision p))),
     dec (unat (bd_max_wall_time_ms (bp_decision p))),
     exhaustion_as_str (bd_exhaustion_action (bp_decision p))]"

record AuthenticatedRunBudgetResponse =
  ab_provider_id :: string
  ab_request_id :: string
  ab_response :: RunBudgetHookResponse

definition compute_operations_digest :: "env \<Rightarrow> string list \<Rightarrow> string" where
  "compute_operations_digest E names = ''sha256:'' @ sha256_hex E (fields_bytes (sort names))"

subsection \<open>The context contract\<close>

record ImmutableArtifactRef =
  ia_id :: string
  ia_digest :: string

definition validate_immutable_ref :: "ImmutableArtifactRef \<Rightarrow> string + unit" where
  "validate_immutable_ref r =
    (if trim (ia_id r) = [] then Inl ''immutable_ref_id_empty''
     else case parse_digest (ia_digest r) of Inl e \<Rightarrow> Inl e | Inr _ \<Rightarrow> Inr ())"

record OpaqueArtifactRef =
  oa_id :: string
  oa_digest :: string
  oa_media_type :: string
  oa_content_hex :: string

definition new_artifact :: "env \<Rightarrow> wire \<Rightarrow> string \<Rightarrow> string \<Rightarrow> OpaqueArtifactRef" where
  "new_artifact E C media_type bytes =
    \<lparr>oa_id = ''artifact:'' @ compute_digest E bytes, oa_digest = compute_digest E bytes,
     oa_media_type = media_type, oa_content_hex = hex_encode C bytes\<rparr>"

definition decode_verified :: "env \<Rightarrow> wire \<Rightarrow> OpaqueArtifactRef \<Rightarrow> string + string" where
  "decode_verified E C a =
    (if trim (oa_id a) = [] \<or> trim (oa_media_type a) = []
     then Inl ''artifact_ref_required_field_empty''
     else case parse_digest (oa_digest a) of
         Inl e \<Rightarrow> Inl e
       | Inr digest \<Rightarrow>
           (case hex_decode C (oa_content_hex a) of
              None \<Rightarrow> Inl ''artifact_hex''
            | Some bytes \<Rightarrow>
                if verify_digest E digest bytes then Inr bytes else Inl ''artifact_digest_mismatch''))"

record CandidateInputRef =
  ci_run_id :: string
  ci_session_id :: string
  ci_scope_digest :: string
  ci_artifact :: OpaqueArtifactRef
  ci_immutable_refs :: "ImmutableArtifactRef list"
  ci_immutable_refs_digest :: string

definition digest_immutable_refs :: "env \<Rightarrow> ImmutableArtifactRef list \<Rightarrow> string" where
  "digest_immutable_refs E refs =
    ''sha256:'' @ sha256_hex E (fields_bytes (concat (map (\<lambda>r. [ia_id r, ia_digest r]) refs)))"

definition validate_candidate :: "env \<Rightarrow> wire \<Rightarrow> CandidateInputRef \<Rightarrow> string + unit" where
  "validate_candidate E C c =
    (if trim (ci_run_id c) = [] \<or> trim (ci_session_id c) = [] then Inl ''candidate_binding_empty''
     else case parse_digest (ci_scope_digest c) of Inl e \<Rightarrow> Inl e | Inr _ \<Rightarrow>
     case decode_verified E C (ci_artifact c) of Inl e \<Rightarrow> Inl e | Inr _ \<Rightarrow>
     if ci_immutable_refs c = [] then Inl ''immutable_refs_empty''
     else case collect_results validate_immutable_ref (ci_immutable_refs c) of
         Inl e \<Rightarrow> Inl e
       | Inr _ \<Rightarrow>
           if digest_immutable_refs E (ci_immutable_refs c) \<noteq> ci_immutable_refs_digest c
           then Inl ''immutable_refs_digest_mismatch'' else Inr ())"

record ContextHookRequest =
  xq_request_id :: string
  xq_candidate :: CandidateInputRef

record ContextHookResponse =
  xp_run_id :: string
  xp_session_id :: string
  xp_scope_digest :: string
  xp_candidate_digest :: string
  xp_immutable_refs :: "ImmutableArtifactRef list"
  xp_immutable_refs_digest :: string
  xp_artifacts :: "OpaqueArtifactRef list"

definition validate_context_response ::
  "env \<Rightarrow> wire \<Rightarrow> ContextHookResponse \<Rightarrow> ContextHookRequest \<Rightarrow> string + unit" where
  "validate_context_response E C p q =
    (let c = xq_candidate q in
     if xp_run_id p \<noteq> ci_run_id c \<or> xp_session_id p \<noteq> ci_session_id c
     then Inl ''context_response_run_session_mismatch''
     else if xp_scope_digest p \<noteq> ci_scope_digest c then Inl ''context_response_scope_mismatch''
     else if xp_candidate_digest p \<noteq> oa_digest (ci_artifact c)
     then Inl ''context_response_candidate_mismatch''
     else if xp_immutable_refs p \<noteq> ci_immutable_refs c \<or>
       xp_immutable_refs_digest p \<noteq> ci_immutable_refs_digest c \<or>
       digest_immutable_refs E (xp_immutable_refs p) \<noteq> xp_immutable_refs_digest p
     then Inl ''context_response_immutable_refs_mismatch''
     else if xp_artifacts p = [] then Inl ''context_response_artifacts_empty''
     else case collect_results (decode_verified E C) (xp_artifacts p) of
         Inl e \<Rightarrow> Inl e | Inr _ \<Rightarrow> Inr ())"

definition context_message :: "ContextHookResponse \<Rightarrow> string \<Rightarrow> string \<Rightarrow> string" where
  "context_message p provider_id request_id = fields_bytes
    ([provider_id, request_id, xp_run_id p, xp_session_id p, xp_scope_digest p,
      xp_candidate_digest p, xp_immutable_refs_digest p] @ map oa_digest (xp_artifacts p))"

record AuthenticatedContextHookResponse =
  ax_provider_id :: string
  ax_request_id :: string
  ax_response :: ContextHookResponse

subsection \<open>The HTTP client\<close>

text \<open>
  How an HTTP exchange ends: a response with its proof header and body (no body when it exceeds
  the limit), an error status, a timeout, or a transport error with its lower-case message.
\<close>

datatype http_outcome = Answered "string option" "string option" | ErrorStatus nat
  | TimedOut | TransportError string

record http_request =
  hq_url :: string
  hq_secret :: string
  hq_timeout_ms :: "64 word"
  hq_max_response_bytes :: "64 word"
  hq_envelope :: json

definition status_category :: "nat \<Rightarrow> string" where
  "status_category code =
    (if 400 \<le> code \<and> code \<le> 499 then ''http_status_4xx''
     else if 500 \<le> code \<and> code \<le> 599 then ''http_status_5xx'' else ''http_status_unknown'')"

definition post_hook ::
  "env \<Rightarrow> (nat \<Rightarrow> http_request \<Rightarrow> http_outcome) \<Rightarrow> string \<Rightarrow> string \<Rightarrow> json \<Rightarrow> HookConfig \<Rightarrow>
   HookLimits \<Rightarrow> (string \<times> string) jop" where
  "post_hook E http name request_id payload config limits =
    op_bind (utc_now E) (\<lambda>now.
    let envelope = jobj [(''hook'', JStr name), (''request_id'', JStr request_id),
      (''timestamp'', JStr (rfc3339 E now)), (''payload'', payload)] in
    if unat (hl_max_request_bytes limits) < length (json_text E envelope)
    then op_bail ''request_too_large''
    else op_bind draw (\<lambda>n.
      case http n \<lparr>hq_url = trim (hc_endpoint config), hq_secret = hc_shared_secret config,
          hq_timeout_ms = hl_timeout_ms limits,
          hq_max_response_bytes = hl_max_response_bytes limits, hq_envelope = envelope\<rparr> of
        Answered None _ \<Rightarrow> op_bail ''provider_proof_missing''
      | Answered (Some proof_text) None \<Rightarrow> op_bail ''response_too_large''
      | Answered (Some proof_text) (Some body) \<Rightarrow> op_return (body, proof_text)
      | ErrorStatus code \<Rightarrow> op_bail (status_category code @ '':'' @ dec code)
      | TimedOut \<Rightarrow> op_bail ''http_timeout''
      | TransportError message \<Rightarrow>
          if contains ''connection refused'' message \<or> contains ''dns'' message
          then op_bail ''http_connect_error'' else op_bail ''http_transport_error''))"

text \<open>The response envelope; an unknown hook name or a missing field is no envelope.\<close>

definition envelope_of :: "wire \<Rightarrow> json \<Rightarrow> (string \<times> string \<times> json) option" where
  "envelope_of C v =
    (case (str_field v ''hook'', str_field v ''request_id'', str_field v ''timestamp'',
        jget v ''payload'') of
       (Some hook, Some request_id, Some timestamp, Some payload) \<Rightarrow>
         if is_rfc3339 C timestamp \<and> hook \<in> hook_name ` {IngressRouteV0, ContextPrepareV0, ContextLoadV0, EventObserveV0,
           DecisionPolicyV0, RunBudgetResolveV0}
         then Some (hook, request_id, payload) else None
     | _ \<Rightarrow> None)"

definition budget_request_json :: "RunBudgetHookRequest \<Rightarrow> json" where
  "budget_request_json q = jobj
    [(''request_id'', JStr (bq_request_id q)), (''principal'', JStr (bq_principal q)),
     (''session_id'', JStr (bq_session_id q)), (''run_id'', JStr (bq_run_id q)),
     (''registry_snapshot_id'', JStr (bq_registry_snapshot_id q)),
     (''operations_digest'', JStr (bq_operations_digest q))]"

definition budget_response_of :: "json \<Rightarrow> RunBudgetHookResponse option" where
  "budget_response_of v =
    (case (str_field v ''request_id'', str_field v ''run_id'', jget v ''decision'') of
       (Some request_id, Some run_id, Some d) \<Rightarrow>
         (case (Option.bind (jget d ''max_tool_rounds'') as_u64,
             Option.bind (jget d ''max_wall_time_ms'') as_u64, str_field d ''exhaustion_action'') of
            (Some rounds, Some wall, Some action) \<Rightarrow>
              if rounds < 2 ^ 32 \<and> action \<in> {''terminate'', ''yield''}
              then Some \<lparr>bp_request_id = request_id, bp_run_id = run_id,
                bp_decision = \<lparr>bd_max_tool_rounds = of_nat rounds, bd_max_wall_time_ms = of_nat wall,
                  bd_exhaustion_action = (if action = ''terminate'' then Terminate else Yield)\<rparr>\<rparr>
              else None
          | _ \<Rightarrow> None)
     | _ \<Rightarrow> None)"

definition call_budget ::
  "env \<Rightarrow> wire \<Rightarrow> (nat \<Rightarrow> http_request \<Rightarrow> http_outcome) \<Rightarrow> RunBudgetHookRequest \<Rightarrow> HookConfig \<Rightarrow>
   AuthenticatedRunBudgetResponse jop" where
  "call_budget E C http request config =
    op_then (op_lift (validate_hook config))
    (op_bind (post_hook E http ''run.budget.resolve.v0'' (bq_request_id request)
        (budget_request_json request) config (limits_of config)) (\<lambda>(body, proof_text).
     case Option.bind (json_parse E body) (envelope_of C) of
       None \<Rightarrow> op_bail ''invalid_json''
     | Some (hook, request_id, payload) \<Rightarrow>
         if hook \<noteq> hook_name RunBudgetResolveV0 then op_bail ''unsupported_hook_response''
         else if request_id \<noteq> bq_request_id request then op_bail ''hook_request_id_mismatch''
         else
           (case budget_response_of payload of
              None \<Rightarrow> op_bail ''invalid_budget_response''
            | Some response \<Rightarrow>
                op_then (op_lift (validate_budget_response response request))
                (op_then (op_lift (verify_provider_proof C (hc_shared_secret config)
                   (budget_message response (hc_provider_id config)) proof_text))
                (op_return \<lparr>ab_provider_id = hc_provider_id config,
                   ab_request_id = bq_request_id request, ab_response = response\<rparr>)))))"

text \<open>Structs with \<open>deny_unknown_fields\<close>.\<close>

definition only_fields :: "string list \<Rightarrow> json \<Rightarrow> bool" where
  "only_fields names v \<longleftrightarrow>
    (case as_object v of None \<Rightarrow> False | Some m \<Rightarrow> list_all (\<lambda>(k, _). k \<in> set names) m)"

fun all_some :: "'a option list \<Rightarrow> 'a list option" where
  "all_some [] = Some []"
| "all_some (x # xs) = (case (x, all_some xs) of (Some y, Some ys) \<Rightarrow> Some (y # ys) | _ \<Rightarrow> None)"

definition array_of :: "(json \<Rightarrow> 'a option) \<Rightarrow> json \<Rightarrow> string \<Rightarrow> 'a list option" where
  "array_of f v key =
    Option.bind (Option.bind (jget v key) as_array) (\<lambda>vs. all_some (map f vs))"

definition immutable_ref_of :: "json \<Rightarrow> ImmutableArtifactRef option" where
  "immutable_ref_of v =
    (if \<not> only_fields [''id'', ''digest''] v then None
     else case (str_field v ''id'', str_field v ''digest'') of
         (Some i, Some d) \<Rightarrow> Some \<lparr>ia_id = i, ia_digest = d\<rparr> | _ \<Rightarrow> None)"

definition artifact_of :: "json \<Rightarrow> OpaqueArtifactRef option" where
  "artifact_of v =
    (if \<not> only_fields [''id'', ''digest'', ''media_type'', ''content_hex''] v then None
     else case (str_field v ''id'', str_field v ''digest'', str_field v ''media_type'',
           str_field v ''content_hex'') of
         (Some i, Some d, Some m, Some c) \<Rightarrow>
           Some \<lparr>oa_id = i, oa_digest = d, oa_media_type = m, oa_content_hex = c\<rparr>
       | _ \<Rightarrow> None)"

definition context_response_of :: "json \<Rightarrow> ContextHookResponse option" where
  "context_response_of v =
    (if \<not> only_fields [''run_id'', ''session_id'', ''scope_digest'', ''candidate_digest'',
         ''immutable_refs'', ''immutable_refs_digest'', ''artifacts''] v then None
     else case (str_field v ''run_id'', str_field v ''session_id'', str_field v ''scope_digest'',
           str_field v ''candidate_digest'', array_of immutable_ref_of v ''immutable_refs'',
           str_field v ''immutable_refs_digest'', array_of artifact_of v ''artifacts'') of
         (Some r, Some s, Some sd, Some cd, Some refs, Some rd, Some artifacts) \<Rightarrow>
           Some \<lparr>xp_run_id = r, xp_session_id = s, xp_scope_digest = sd, xp_candidate_digest = cd,
             xp_immutable_refs = refs, xp_immutable_refs_digest = rd, xp_artifacts = artifacts\<rparr>
       | _ \<Rightarrow> None)"

definition artifact_json :: "OpaqueArtifactRef \<Rightarrow> json" where
  "artifact_json a = jobj
    [(''id'', JStr (oa_id a)), (''digest'', JStr (oa_digest a)),
     (''media_type'', JStr (oa_media_type a)), (''content_hex'', JStr (oa_content_hex a))]"

definition context_request_json :: "ContextHookRequest \<Rightarrow> json" where
  "context_request_json q = (let c = xq_candidate q in jobj
    [(''request_id'', JStr (xq_request_id q)),
     (''candidate'', jobj
       [(''run_id'', JStr (ci_run_id c)), (''session_id'', JStr (ci_session_id c)),
        (''scope_digest'', JStr (ci_scope_digest c)), (''artifact'', artifact_json (ci_artifact c)),
        (''immutable_refs'', JArr (map (\<lambda>r. jobj [(''id'', JStr (ia_id r)),
           (''digest'', JStr (ia_digest r))]) (ci_immutable_refs c))),
        (''immutable_refs_digest'', JStr (ci_immutable_refs_digest c))])])"

definition call_context ::
  "env \<Rightarrow> wire \<Rightarrow> (nat \<Rightarrow> http_request \<Rightarrow> http_outcome) \<Rightarrow> ContextHookRequest \<Rightarrow> HookConfig \<Rightarrow>
   AuthenticatedContextHookResponse jop" where
  "call_context E C http request config =
    op_then (op_lift (validate_hook config))
    (op_bind (post_hook E http ''context.prepare.v0'' (xq_request_id request)
        (context_request_json request) config (limits_of config)) (\<lambda>(body, proof_text).
     case Option.bind (json_parse E body) (envelope_of C) of
       None \<Rightarrow> op_bail ''invalid_json''
     | Some (hook, request_id, payload) \<Rightarrow>
         if hook \<noteq> hook_name ContextPrepareV0 then op_bail ''unsupported_hook_response''
         else if request_id \<noteq> xq_request_id request then op_bail ''hook_request_id_mismatch''
         else
           (case context_response_of payload of
              None \<Rightarrow> op_bail ''invalid_context_artifact_response''
            | Some response \<Rightarrow>
                op_then (op_lift (validate_context_response E C response request))
                (op_then (op_lift (verify_provider_proof C (hc_shared_secret config)
                   (context_message response (hc_provider_id config) (xq_request_id request))
                   proof_text))
                (op_return \<lparr>ax_provider_id = hc_provider_id config,
                   ax_request_id = xq_request_id request, ax_response = response\<rparr>)))))"

subsection \<open>Length-prefixed fields are unambiguous\<close>

lemma length_be_bytes: "length (be_bytes k n) = k"
  by (induction k n rule: be_bytes.induct) simp_all

lemma length_be64 [simp]: "length (be64 n) = 8"
  by (simp add: be64_def length_be_bytes)

lemma be64_nonempty [simp]: "be64 n \<noteq> []"
  by (simp flip: length_0_conv)

text \<open>The number is read back from its bytes.\<close>

definition un_be :: "string \<Rightarrow> nat" where
  "un_be = foldl (\<lambda>a c. 256 * a + of_char c) 0"

lemma un_be_bytes: "un_be (be_bytes k n) = n mod 256 ^ k"
  by (induction k n rule: be_bytes.induct)
    (simp_all add: un_be_def of_char_of mod_mult2_eq)

lemma un_be64: "n < 2 ^ 64 \<Longrightarrow> un_be (be64 n) = n"
  by (simp add: be64_def un_be_bytes)

lemma be64_inject: "m < 2 ^ 64 \<Longrightarrow> n < 2 ^ 64 \<Longrightarrow> be64 m = be64 n \<longleftrightarrow> m = n"
  by (metis un_be64)

definition bounded :: "string \<Rightarrow> bool" where
  "bounded f \<longleftrightarrow> length f < 2 ^ 64"

lemma fields_bytes_inject:
  "\<forall>f \<in> set fs. bounded f \<Longrightarrow> \<forall>g \<in> set gs. bounded g \<Longrightarrow> fields_bytes fs = fields_bytes gs \<longleftrightarrow> fs = gs"
proof (induction fs arbitrary: gs)
  case Nil
  then show ?case
    by (cases gs) (auto simp: fields_bytes_def field_bytes_def)
next
  case (Cons f fs)
  show ?case
  proof (cases gs)
    case Nil
    then show ?thesis by (simp add: fields_bytes_def field_bytes_def)
  next
    case (Cons g gs')
    have "fields_bytes (f # fs) = fields_bytes (g # gs') \<longleftrightarrow>
        f = g \<and> fields_bytes fs = fields_bytes gs'"
    proof
      assume "fields_bytes (f # fs) = fields_bytes (g # gs')"
      then have "be64 (length f) @ f @ fields_bytes fs = be64 (length g) @ g @ fields_bytes gs'"
        by (simp add: fields_bytes_def field_bytes_def)
      then have "be64 (length f) = be64 (length g)" "f @ fields_bytes fs = g @ fields_bytes gs'"
        by simp_all
      moreover have "length f = length g"
        using Cons.prems Cons calculation(1) by (simp add: bounded_def be64_inject)
      ultimately show "f = g \<and> fields_bytes fs = fields_bytes gs'" by simp
    qed (simp add: fields_bytes_def)
    then show ?thesis using Cons.prems Cons by (simp add: Cons.IH)
  qed
qed

subsection \<open>Properties\<close>

text \<open>A collision of HMAC-SHA256 under one secret.\<close>

definition mac_collision :: "wire \<Rightarrow> string \<Rightarrow> string \<Rightarrow> string \<Rightarrow> bool" where
  "mac_collision C secret x y \<longleftrightarrow> x \<noteq> y \<and> hmac_sha256 C secret x = hmac_sha256 C secret y"

lemma exhaustion_as_str_inject [simp]: "exhaustion_as_str a = exhaustion_as_str b \<longleftrightarrow> a = b"
  by (cases a; cases b) simp_all

lemma budget_message_inject:
  assumes "bounded provider" "bounded provider'"
    and "bounded (bp_request_id p)" "bounded (bp_request_id p')"
    and "bounded (bp_run_id p)" "bounded (bp_run_id p')"
    and "bounded (dec (unat (bd_max_tool_rounds (bp_decision p))))"
    "bounded (dec (unat (bd_max_tool_rounds (bp_decision p'))))"
    and "bounded (dec (unat (bd_max_wall_time_ms (bp_decision p))))"
    "bounded (dec (unat (bd_max_wall_time_ms (bp_decision p'))))"
  shows "budget_message p provider = budget_message p' provider' \<longleftrightarrow>
    provider = provider' \<and> p = (p' :: RunBudgetHookResponse)"
proof -
  have "bounded (exhaustion_as_str a)" for a by (cases a) (simp_all add: bounded_def)
  with assms have "budget_message p provider = budget_message p' provider' \<longleftrightarrow>
    [provider, bp_request_id p, bp_run_id p, dec (unat (bd_max_tool_rounds (bp_decision p))),
     dec (unat (bd_max_wall_time_ms (bp_decision p))),
     exhaustion_as_str (bd_exhaustion_action (bp_decision p))] =
    [provider', bp_request_id p', bp_run_id p', dec (unat (bd_max_tool_rounds (bp_decision p'))),
     dec (unat (bd_max_wall_time_ms (bp_decision p'))),
     exhaustion_as_str (bd_exhaustion_action (bp_decision p'))]"
    unfolding budget_message_def by (intro fields_bytes_inject) auto
  then show ?thesis
    by (cases p; cases p'; cases "bp_decision p"; cases "bp_decision p'")
      (auto simp: word_unat_eq_iff)
qed

lemma verify_same_proof:
  "verify_provider_proof C secret x proof_text = Inr () \<Longrightarrow>
   verify_provider_proof C secret y proof_text = Inr () \<Longrightarrow>
   x = y \<or> mac_collision C secret x y"
  by (auto simp: verify_provider_proof_def mac_collision_def split: option.splits if_splits)

lemma dec_short: "n < 10 ^ k \<Longrightarrow> 0 < k \<Longrightarrow> length (dec n) \<le> k"
proof (induction n arbitrary: k rule: dec.induct)
  case (1 n)
  show ?case
  proof (cases "n < 10")
    case True
    with 1 show ?thesis by (subst dec.simps) simp
  next
    case False
    with "1.prems" obtain j where k: "k = Suc j" "0 < j" "n div 10 < 10 ^ j"
      by (cases k; cases "k - 1") (auto simp: less_mult_imp_div_less mult.commute)
    with 1 False show ?thesis by (subst dec.simps) (simp add: k)
  qed
qed

lemma bounded_dec: "bounded (dec (unat (w :: 'a :: len word)))" if "LENGTH('a) \<le> 64"
proof -
  have "unat w < 2 ^ LENGTH('a)" by (rule unsigned_less)
  also have "\<dots> \<le> (2 ^ 64 :: nat)" using that by (intro power_increasing) simp_all
  also have "\<dots> < 10 ^ 20" by simp
  finally have "length (dec (unat w)) \<le> 20" by (intro dec_short) simp_all
  then show ?thesis by (simp add: bounded_def)
qed

lemma budget_proof_binds:
  "\<lbrakk>verify_provider_proof C secret (budget_message p provider) proof_text = Inr ();
    verify_provider_proof C secret (budget_message p' provider') proof_text = Inr ();
    \<forall>f \<in> {provider, provider', bp_request_id p, bp_request_id p', bp_run_id p, bp_run_id p'}. bounded f;
    \<not> mac_collision C secret (budget_message p provider) (budget_message p' provider')\<rbrakk> \<Longrightarrow>
   provider = provider' \<and> p = p'"
proof -
  assume b: "\<forall>f \<in> {provider, provider', bp_request_id p, bp_request_id p', bp_run_id p, bp_run_id p'}.
    bounded f"
  have "budget_message p provider = budget_message p' provider' \<longleftrightarrow> provider = provider' \<and> p = p'"
    using b by (intro budget_message_inject) (simp_all add: bounded_dec)
  then show "provider = provider' \<and> p = p'"
    if "verify_provider_proof C secret (budget_message p provider) proof_text = Inr ()"
      "verify_provider_proof C secret (budget_message p' provider') proof_text = Inr ()"
      "\<not> mac_collision C secret (budget_message p provider) (budget_message p' provider')"
    using verify_same_proof [OF that(1,2)] that(3) by blast
qed

lemma context_proof_binds:
  "\<lbrakk>verify_provider_proof C secret (context_message x provider request) proof_text = Inr ();
    verify_provider_proof C secret (context_message x' provider' request') proof_text = Inr ();
    \<forall>f \<in> {provider, provider', request, request', xp_run_id x, xp_run_id x', xp_session_id x,
      xp_session_id x', xp_scope_digest x, xp_scope_digest x', xp_candidate_digest x,
      xp_candidate_digest x', xp_immutable_refs_digest x, xp_immutable_refs_digest x'}
      \<union> oa_digest ` (set (xp_artifacts x) \<union> set (xp_artifacts x')). bounded f;
    \<not> mac_collision C secret (context_message x provider request) (context_message x' provider' request')\<rbrakk> \<Longrightarrow>
   provider = provider' \<and> request = request' \<and> xp_run_id x = xp_run_id x' \<and>
   xp_session_id x = xp_session_id x' \<and> xp_scope_digest x = xp_scope_digest x' \<and>
   xp_candidate_digest x = xp_candidate_digest x' \<and>
   xp_immutable_refs_digest x = xp_immutable_refs_digest x' \<and>
   map oa_digest (xp_artifacts x) = map oa_digest (xp_artifacts x')"
proof -
  let ?fs = "\<lambda>x provider request. [provider, request, xp_run_id x, xp_session_id x,
    xp_scope_digest x, xp_candidate_digest x, xp_immutable_refs_digest x] @
    map oa_digest (xp_artifacts x)"
  assume v: "verify_provider_proof C secret (context_message x provider request) proof_text = Inr ()"
    "verify_provider_proof C secret (context_message x' provider' request') proof_text = Inr ()"
    and b: "\<forall>f \<in> {provider, provider', request, request', xp_run_id x, xp_run_id x', xp_session_id x,
      xp_session_id x', xp_scope_digest x, xp_scope_digest x', xp_candidate_digest x,
      xp_candidate_digest x', xp_immutable_refs_digest x, xp_immutable_refs_digest x'}
      \<union> oa_digest ` (set (xp_artifacts x) \<union> set (xp_artifacts x')). bounded f"
    and n: "\<not> mac_collision C secret (context_message x provider request)
      (context_message x' provider' request')"
  have "context_message x provider request = context_message x' provider' request' \<longleftrightarrow>
      ?fs x provider request = ?fs x' provider' request'"
    unfolding context_message_def using b by (intro fields_bytes_inject) auto
  with verify_same_proof [OF v] n show "provider = provider' \<and> request = request' \<and>
    xp_run_id x = xp_run_id x' \<and> xp_session_id x = xp_session_id x' \<and>
    xp_scope_digest x = xp_scope_digest x' \<and> xp_candidate_digest x = xp_candidate_digest x' \<and>
    xp_immutable_refs_digest x = xp_immutable_refs_digest x' \<and>
    map oa_digest (xp_artifacts x) = map oa_digest (xp_artifacts x')" by auto
qed

text \<open>C26: A proof authenticates one answer. If one proof text verifies under one secret for two
  budget responses, then they come from the same provider and agree in request, run, and every
  number of the decision; if it verifies for two context responses, they agree in every field of
  the binding and list the same artifact digests in the same order. The only exception is a
  collision of HMAC-SHA256. Field lengths fit the 64-bit length prefix.\<close>
theorem proof_binds_response:
  "(verify_provider_proof C secret (budget_message p provider) proof_text = Inr () \<and>
    verify_provider_proof C secret (budget_message p' provider') proof_text = Inr () \<and>
    (\<forall>f \<in> {provider, provider', bp_request_id p, bp_request_id p', bp_run_id p, bp_run_id p'}. bounded f) \<and>
    \<not> mac_collision C secret (budget_message p provider) (budget_message p' provider') \<longrightarrow>
   provider = provider' \<and> p = p') \<and>
   (verify_provider_proof C secret (context_message x provider request) proof_text = Inr () \<and>
    verify_provider_proof C secret (context_message x' provider' request') proof_text = Inr () \<and>
    (\<forall>f \<in> {provider, provider', request, request', xp_run_id x, xp_run_id x', xp_session_id x,
      xp_session_id x', xp_scope_digest x, xp_scope_digest x', xp_candidate_digest x,
      xp_candidate_digest x', xp_immutable_refs_digest x, xp_immutable_refs_digest x'}
      \<union> oa_digest ` (set (xp_artifacts x) \<union> set (xp_artifacts x')). bounded f) \<and>
    \<not> mac_collision C secret (context_message x provider request) (context_message x' provider' request') \<longrightarrow>
   provider = provider' \<and> request = request' \<and> xp_run_id x = xp_run_id x' \<and>
   xp_session_id x = xp_session_id x' \<and> xp_scope_digest x = xp_scope_digest x' \<and>
   xp_candidate_digest x = xp_candidate_digest x' \<and>
   xp_immutable_refs_digest x = xp_immutable_refs_digest x' \<and>
   map oa_digest (xp_artifacts x) = map oa_digest (xp_artifacts x'))"
  using budget_proof_binds context_proof_binds by blast

definition sample_wire :: wire where
  "sample_wire = \<lparr>hmac_sha256 = (\<lambda>secret message. message), hex_encode = id, hex_decode = Some,
     is_rfc3339 = (\<lambda>_. True)\<rparr>"

definition sample_response :: "32 word \<Rightarrow> RunBudgetHookResponse" where
  "sample_response rounds = \<lparr>bp_request_id = ''q'', bp_run_id = ''r'', bp_decision =
     \<lparr>bd_max_tool_rounds = rounds, bd_max_wall_time_ms = 1000, bd_exhaustion_action = Yield\<rparr>\<rparr>"

text \<open>The proof of one decision does not verify for another one.\<close>

theorem proof_binds_response_witness:
  "verify_provider_proof sample_wire ''k'' (budget_message (sample_response 5) ''p'')
      (budget_message (sample_response 5) ''p'') = Inr () \<and>
   verify_provider_proof sample_wire ''k'' (budget_message (sample_response 6) ''p'')
      (budget_message (sample_response 5) ''p'') \<noteq> Inr ()"
proof -
  let ?m = "\<lambda>n. budget_message (sample_response n) ''p''"
  have ok: "verify_provider_proof sample_wire ''k'' (?m 5) (?m 5) = Inr ()"
    by (simp add: verify_provider_proof_def sample_wire_def)
  have "False" if "verify_provider_proof sample_wire ''k'' (?m 6) (?m 5) = Inr ()"
    using proof_binds_response [of sample_wire "''k''" "sample_response 5" "''p''" "?m 5"
      "sample_response 6" "''p''"] ok that
    by (simp add: sample_response_def bounded_def mac_collision_def sample_wire_def)
  with ok show ?thesis by blast
qed

end
