(* ===== verification/Text_Parsing.thy ===== *)
theory Text_Parsing
  imports Kernel_Prelude
begin

section \<open>Text functions of the standard library\<close>

text \<open>
  The parts of \<open>str\<close> and \<open>Result\<close> that the configuration, the tool parsers and the runtime use:
  \<open>split\<close>, \<open>lines\<close>, \<open>split_once\<close>, \<open>strip_prefix\<close>, \<open>strip_suffix\<close>, \<open>to_ascii_lowercase\<close>, the parsers
  of unsigned integers, and the \<open>?\<close> operator on a result that touches no state.
\<close>

definition ebind :: "string + 'a \<Rightarrow> ('a \<Rightarrow> string + 'b) \<Rightarrow> string + 'b" where
  "ebind r f = (case r of Inl e \<Rightarrow> Inl e | Inr x \<Rightarrow> f x)"

lemma ebind_simps [simp]: "ebind (Inl e) f = Inl e" "ebind (Inr x) f = f x"
  by (simp_all add: ebind_def)

lemma ebind_InrD:
  assumes "ebind r f = Inr y"
  obtains x where "r = Inr x" "f x = Inr y"
  using assms by (cases r) auto

definition require :: "bool \<Rightarrow> string \<Rightarrow> string + unit" where
  "require b e = (if b then Inr () else Inl e)"

lemma require_iff [simp]: "require b e = Inr x \<longleftrightarrow> b"
  by (simp add: require_def)

definition ok_or :: "string \<Rightarrow> 'a option \<Rightarrow> string + 'a" where
  "ok_or e x = (case x of None \<Rightarrow> Inl e | Some y \<Rightarrow> Inr y)"

lemma ok_or_iff [simp]: "ok_or e x = Inr y \<longleftrightarrow> x = Some y"
  by (cases x) (simp_all add: ok_or_def)

subsection \<open>Splitting\<close>

fun split_on :: "char \<Rightarrow> string \<Rightarrow> string list" where
  "split_on sep [] = [[]]"
| "split_on sep (c # cs) =
    (if c = sep then [] # split_on sep cs
     else case split_on sep cs of [] \<Rightarrow> [[c]] | p # ps \<Rightarrow> (c # p) # ps)"

definition split_once :: "char \<Rightarrow> string \<Rightarrow> (string \<times> string) option" where
  "split_once sep s =
    (if sep \<in> set s
     then Some (takeWhile (\<lambda>c. c \<noteq> sep) s, tl (dropWhile (\<lambda>c. c \<noteq> sep) s)) else None)"

text \<open>A trailing line break ends the last line; it does not start an empty one.\<close>

definition text_lines :: "string \<Rightarrow> string list" where
  "text_lines s =
    (let ls = split_on (CHR 0x0A) s; kept = (if last ls = [] then butlast ls else ls) in
     map (\<lambda>l. if l \<noteq> [] \<and> last l = CHR 0x0D then butlast l else l) kept)"

definition strip_prefix :: "string \<Rightarrow> string \<Rightarrow> string option" where
  "strip_prefix p s = (if take (length p) s = p then Some (drop (length p) s) else None)"

definition strip_suffix :: "string \<Rightarrow> string \<Rightarrow> string option" where
  "strip_suffix p s =
    (if length p \<le> length s \<and> drop (length s - length p) s = p
     then Some (take (length s - length p) s) else None)"

definition lowercase :: "string \<Rightarrow> string" where
  "lowercase s = map ascii_lower s"

lemma split_on_nonempty [simp]: "split_on sep s \<noteq> []"
  by (induction s) (auto split: list.splits)

lemma strip_prefix_append [simp]: "strip_prefix p (p @ s) = Some s"
  by (simp add: strip_prefix_def)

lemma strip_prefix_SomeD: "strip_prefix p s = Some r \<Longrightarrow> s = p @ r"
  by (metis append_take_drop_id option.inject option.distinct(1) strip_prefix_def)

lemma strip_suffix_append [simp]: "strip_suffix p (s @ p) = Some s"
  by (simp add: strip_suffix_def)

lemma split_once_append [simp]: "sep \<notin> set k \<Longrightarrow> split_once sep (k @ sep # v) = Some (k, v)"
  by (induction k) (auto simp: split_once_def)

subsection \<open>Unsigned integers\<close>

text \<open>\<open>str::parse\<close> at an unsigned type with the given number of values: an optional plus sign, at
  least one digit, nothing else, and no overflow.\<close>

definition parse_uint :: "int \<Rightarrow> string \<Rightarrow> nat option" where
  "parse_uint limit s =
    (let ds = (case s of [] \<Rightarrow> [] | c # cs \<Rightarrow> if c = CHR ''+'' then cs else s) in
     if ds = [] \<or> \<not> list_all digit_char ds then None
     else if int (undec ds) < limit then Some (undec ds) else None)"

lemma parse_uint_bound: "parse_uint limit s = Some n \<Longrightarrow> int n < limit"
  by (auto simp: parse_uint_def Let_def split: if_splits)

lemma parse_uint_dec: "int n < limit \<Longrightarrow> parse_uint limit (dec n) = Some n"
proof -
  assume n: "int n < limit"
  obtain c cs where d: "dec n = c # cs" using dec_nonempty by (cases "dec n") auto
  moreover have all: "list_all digit_char (dec n)" using dec_digits by (simp add: list_all_iff)
  ultimately have "c \<noteq> CHR ''+''" by (auto simp: digit_char_def)
  with d all n show ?thesis by (simp add: parse_uint_def undec_dec [of n, unfolded d])
qed

end
