(* ===== verification/Kernel_Configuration.thy ===== *)
theory Kernel_Configuration
  imports Hook_Contracts Text_Parsing
begin

section \<open>The configuration of the kernel\<close>

text \<open>
  \<open>src/src/config.rs\<close> and the paths of \<open>src/src/data_dir.rs\<close>: the variables of the process, with the
  \<open>.env\<close> file merged into them, become the configuration every other component reads. A value the
  kernel refuses ends the process; \<open>Inl\<close> is the message it prints, or the panic of \<open>set_var\<close>. The
  variables are a map from names to texts; numbers keep the width they have in the code.

  The bounds that the rest of the kernel relies on are established here: \<open>config_in_range\<close> holds of
  every configuration that was read, and makes the default budget of a run lie within the ceiling
  of the host.
\<close>

type_synonym variables = "string \<Rightarrow> string option"

record KernelConfig =
  kc_db_path :: string
  kc_data_dir :: string
  kc_agent_id :: AgentId
  kc_root_dir :: string
  kc_kernel_port :: "16 word"
  kc_connector_execute_url :: string
  kc_ipc_token :: string
  kc_capability_submit_token :: "string option"
  kc_capability_decision_token :: "string option"
  kc_feishu_allowed_open_ids :: "string list"
  kc_feishu_allowed_chat_ids :: "string list"
  kc_feishu_require_group_mention :: bool
  kc_openai_base_url :: string
  kc_openai_api_key :: string
  kc_model :: string
  kc_fallback_openai_base_url :: string
  kc_fallback_openai_api_key :: string
  kc_fallback_model :: string
  kc_model_timeout_ms :: "64 word"
  kc_outbox_dispatcher_enabled :: bool
  kc_outbox_dispatcher_poll_interval_ms :: "64 word"
  kc_extra_allowed_operations :: "string list"
  kc_require_write_approval :: bool
  kc_write_approval_ttl_secs :: "64 word"
  kc_fallback_tool_name_indexed :: bool
  kc_primary_tool_name_indexed :: bool
  kc_harness_read_timeout_ms :: "64 word"
  kc_harness_artifact_root :: string
  kc_max_tool_rounds :: "64 word"
  kc_feishu_coding_owner_id :: "string option"
  kc_force_legacy_runtime :: bool
  kc_tool_loop_timeout_ms :: "64 word"
  kc_context_prepare_hook :: HookConfig
  kc_budget_hook :: HookConfig

subsection \<open>Paths\<close>

text \<open>\<open>PathBuf::join\<close>: an absolute path replaces the base.\<close>

definition path_join :: "string \<Rightarrow> string \<Rightarrow> string" where
  "path_join base p =
    (if base = [] \<or> prefix ''/'' p then p
     else if last base = CHR ''/'' then base @ p else base @ ''/'' @ p)"

definition default_data_dir :: "variables \<Rightarrow> string" where
  "default_data_dir V =
    (case V ''HOME'' of None \<Rightarrow> ''.agent-core'' | Some home \<Rightarrow> path_join home ''.agent-core'')"

definition expand_home :: "variables \<Rightarrow> string \<Rightarrow> string" where
  "expand_home V value =
    (if value = ''~'' then (case V ''HOME'' of None \<Rightarrow> value | Some home \<Rightarrow> home)
     else case strip_prefix ''~/'' value of
         None \<Rightarrow> value
       | Some rest \<Rightarrow> (case V ''HOME'' of None \<Rightarrow> value | Some home \<Rightarrow> path_join home rest))"

subsection \<open>The file of local variables\<close>

definition unquote :: "string \<Rightarrow> string" where
  "unquote value =
    (case Option.bind (strip_prefix [CHR 0x22] value) (strip_suffix [CHR 0x22]) of
       Some inner \<Rightarrow> inner
     | None \<Rightarrow>
         (case Option.bind (strip_prefix [CHR 0x27] value) (strip_suffix [CHR 0x27]) of
            Some inner \<Rightarrow> inner | None \<Rightarrow> value))"

text \<open>\<open>std::env::set_var\<close> panics on an empty name and on a NUL byte; the name has no equals sign.\<close>

definition set_var :: "variables \<Rightarrow> string \<Rightarrow> string \<Rightarrow> string + variables" where
  "set_var V key value =
    (if key = [] \<or> CHR 0x00 \<in> set key \<or> CHR 0x00 \<in> set value
     then Inl (''failed to set environment variable'') else Inr (V(key \<mapsto> value)))"

definition load_line :: "string \<Rightarrow> variables \<Rightarrow> string + variables" where
  "load_line line V =
    (let trimmed_line = trim line in
     if trimmed_line = [] \<or> prefix ''#'' trimmed_line then Inr V
     else case split_once (CHR ''='') trimmed_line of
         None \<Rightarrow> Inr V
       | Some (key, value) \<Rightarrow>
           if V (trim key) \<noteq> None then Inr V
           else set_var V (trim key) (unquote (trim value)))"

fun load_lines :: "string list \<Rightarrow> variables \<Rightarrow> string + variables" where
  "load_lines [] V = Inr V"
| "load_lines (l # ls) V = ebind (load_line l V) (load_lines ls)"

definition load_local_env :: "string option \<Rightarrow> variables \<Rightarrow> string + variables" where
  "load_local_env file V =
    (case file of None \<Rightarrow> Inr V | Some content \<Rightarrow> load_lines (text_lines content) V)"

subsection \<open>Reading one variable\<close>

definition env_optional_string :: "variables \<Rightarrow> string \<Rightarrow> string option" where
  "env_optional_string V key =
    Option.bind (V key) (\<lambda>v. if trim v = [] then None else Some (trim v))"

definition env_string :: "variables \<Rightarrow> string \<Rightarrow> string \<Rightarrow> string" where
  "env_string V key fallback = trim (case V key of None \<Rightarrow> fallback | Some v \<Rightarrow> v)"

definition parse_env_list_value :: "string \<Rightarrow> string list" where
  "parse_env_list_value value = filter (\<lambda>s. s \<noteq> []) (map trim (split_on (CHR '','') value))"

definition env_list :: "variables \<Rightarrow> string \<Rightarrow> string list" where
  "env_list V key = parse_env_list_value (env_string V key [])"

definition parse_env_bool_value :: "string \<Rightarrow> string + bool" where
  "parse_env_bool_value value =
    (let v = lowercase (trim value) in
     if v \<in> {''true'', ''1'', ''yes'', ''on''} then Inr True
     else if v \<in> {''false'', ''0'', ''no'', ''off''} then Inr False
     else Inl ''invalid_boolean_config'')"

definition env_bool :: "variables \<Rightarrow> string \<Rightarrow> bool \<Rightarrow> string + bool" where
  "env_bool V key fallback =
    (case V key of
       None \<Rightarrow> Inr fallback
     | Some raw \<Rightarrow>
         (case parse_env_bool_value raw of
            Inr v \<Rightarrow> Inr v | Inl _ \<Rightarrow> Inl (''invalid_boolean_config: '' @ key)))"

definition env_u16 :: "variables \<Rightarrow> string \<Rightarrow> 16 word \<Rightarrow> 16 word" where
  "env_u16 V key fallback =
    (case Option.bind (V key) (parse_uint (2 ^ 16)) of None \<Rightarrow> fallback | Some n \<Rightarrow> word_of_nat n)"

definition env_u64 :: "variables \<Rightarrow> string \<Rightarrow> 64 word \<Rightarrow> 64 word" where
  "env_u64 V key fallback =
    (case Option.bind (V key) (parse_uint (2 ^ 64)) of None \<Rightarrow> fallback | Some n \<Rightarrow> word_of_nat n)"

definition tool_loop_timeout_ms_min :: nat where
  "tool_loop_timeout_ms_min = 1000"

definition tool_loop_timeout_ms_max :: nat where
  "tool_loop_timeout_ms_max = 600000"

definition parse_tool_loop_timeout_ms :: "string \<Rightarrow> string + nat" where
  "parse_tool_loop_timeout_ms raw =
    (case parse_uint (2 ^ 64) raw of
       None \<Rightarrow> Inl (''not a valid integer'')
     | Some n \<Rightarrow>
         if n < tool_loop_timeout_ms_min
         then Inl (''must be at least '' @ dec tool_loop_timeout_ms_min @ '', got '' @ dec n)
         else if tool_loop_timeout_ms_max < n
         then Inl (''must be at most '' @ dec tool_loop_timeout_ms_max @ '', got '' @ dec n)
         else Inr n)"

definition env_tool_loop_timeout_ms :: "variables \<Rightarrow> string \<Rightarrow> 64 word \<Rightarrow> string + 64 word" where
  "env_tool_loop_timeout_ms V key fallback =
    (case V key of
       None \<Rightarrow> Inr fallback
     | Some raw \<Rightarrow>
         (case parse_tool_loop_timeout_ms raw of
            Inr n \<Rightarrow> Inr (word_of_nat n)
          | Inl e \<Rightarrow> Inl (''invalid_config: '' @ key @ '' '' @ e)))"

definition env_max_tool_rounds :: "variables \<Rightarrow> string \<Rightarrow> 64 word \<Rightarrow> string + 64 word" where
  "env_max_tool_rounds V key fallback =
    (case V key of
       None \<Rightarrow> Inr fallback
     | Some raw \<Rightarrow>
         (case parse_uint (2 ^ 64) raw of
            None \<Rightarrow> Inl (''invalid_config: '' @ key @ '' must be an integer between 1 and 64'')
          | Some n \<Rightarrow>
              if n < 1 \<or> 64 < n
              then Inl (''invalid_config: '' @ key @ '' must be between 1 and 64, got '' @ dec n)
              else Inr (word_of_nat n)))"

definition parse_hook_failure_mode_value :: "string \<Rightarrow> HookFailureMode" where
  "parse_hook_failure_mode_value raw =
    (let v = lowercase (trim raw) in
     if v = ''fail_open'' then FailOpen
     else if v = ''fail_closed'' then FailClosed
     else if v = ''degrade'' then Degrade
     else HookDisabled)"

definition env_hook_failure_mode :: "variables \<Rightarrow> string \<Rightarrow> HookFailureMode" where
  "env_hook_failure_mode V key =
    (case V key of None \<Rightarrow> HookDisabled | Some raw \<Rightarrow> parse_hook_failure_mode_value raw)"

subsection \<open>The configuration\<close>

definition trim_end_slashes :: "string \<Rightarrow> string" where
  "trim_end_slashes s = rev (dropWhile (\<lambda>c. c = CHR ''/'') (rev s))"

definition hook_from_env :: "variables \<Rightarrow> string \<Rightarrow> HookKind \<Rightarrow> bool \<Rightarrow> HookConfig" where
  "hook_from_env V px kind enabled = default_hook_config\<lparr>
     hc_enabled := enabled, hc_kind := kind,
     hc_endpoint := env_string V (px @ ''_URL'') [],
     hc_failure_mode := env_hook_failure_mode V (px @ ''_FAILURE_MODE''),
     hc_timeout_ms := env_u64 V (px @ ''_TIMEOUT_MS'') 5000,
     hc_provider_id := env_string V (px @ ''_PROVIDER_ID'') [],
     hc_shared_secret := env_string V (px @ ''_SHARED_SECRET'') []\<rparr>"

definition extra_operations_from_env :: "variables \<Rightarrow> string list" where
  "extra_operations_from_env V =
    (let ops = env_list V ''AGENT_CORE_EXTRA_ALLOWED_OPERATIONS'' in
     if ''system.status'' \<in> set ops then ops else ops @ [''system.status''])"

definition from_variables :: "string option \<Rightarrow> variables \<Rightarrow> string + KernelConfig" where
  "from_variables db_path V =
    (let data_dir = (case V ''AGENT_CORE_DATA_DIR'' of
           None \<Rightarrow> default_data_dir V | Some v \<Rightarrow> expand_home V (trim v));
         root_dir = (case V ''AGENT_CORE_CONTEXT_DIR'' of
           None \<Rightarrow> data_dir | Some v \<Rightarrow> expand_home V (trim v));
         artifact_root = (case V ''AGENT_CORE_HARNESS_ARTIFACT_ROOT'' of
           None \<Rightarrow> path_join data_dir ''harness-artifacts'' | Some v \<Rightarrow> expand_home V (trim v)) in
     ebind (env_bool V ''AGENT_CORE_FEISHU_REQUIRE_GROUP_MENTION'' True) (\<lambda>require_mention.
     ebind (env_bool V ''AGENT_CORE_OUTBOX_DISPATCHER_ENABLED'' True) (\<lambda>dispatcher.
     ebind (env_bool V ''AGENT_CORE_REQUIRE_WRITE_APPROVAL'' False) (\<lambda>approval.
     ebind (env_bool V ''AGENT_CORE_FALLBACK_TOOL_NAME_INDEXED'' False) (\<lambda>fallback_indexed.
     ebind (env_bool V ''AGENT_CORE_PRIMARY_TOOL_NAME_INDEXED'' False) (\<lambda>primary_indexed.
     ebind (env_max_tool_rounds V ''AGENT_CORE_MAX_TOOL_ROUNDS'' 12) (\<lambda>rounds.
     ebind (env_bool V ''AGENT_CORE_FORCE_LEGACY_RUNTIME'' False) (\<lambda>legacy.
     ebind (env_tool_loop_timeout_ms V ''AGENT_CORE_TOOL_LOOP_TIMEOUT_MS'' 300000) (\<lambda>timeout.
     ebind (env_bool V ''AGENT_CORE_CONTEXT_PREPARE_HOOK_ENABLED'' False) (\<lambda>context_enabled.
     ebind (env_bool V ''AGENT_CORE_BUDGET_HOOK_ENABLED'' False) (\<lambda>budget_enabled.
     Inr \<lparr>kc_db_path = (case db_path of None \<Rightarrow> path_join data_dir ''kernel.sqlite'' | Some p \<Rightarrow> p),
       kc_data_dir = data_dir, kc_agent_id = ''main'', kc_root_dir = root_dir,
       kc_kernel_port = env_u16 V ''AGENT_CORE_KERNEL_PORT'' 4130,
       kc_connector_execute_url = env_string V ''AGENT_CORE_CONNECTOR_EXECUTE_URL''
         ''http://127.0.0.1:4131/v1/execute'',
       kc_ipc_token = env_string V ''AGENT_CORE_IPC_TOKEN'' [],
       kc_capability_submit_token = env_optional_string V ''AGENT_CORE_CAPABILITY_SUBMIT_TOKEN'',
       kc_capability_decision_token =
         env_optional_string V ''AGENT_CORE_CAPABILITY_DECISION_TOKEN'',
       kc_feishu_allowed_open_ids = env_list V ''AGENT_CORE_FEISHU_ALLOWED_OPEN_IDS'',
       kc_feishu_allowed_chat_ids = env_list V ''AGENT_CORE_FEISHU_ALLOWED_CHAT_IDS'',
       kc_feishu_require_group_mention = require_mention,
       kc_openai_base_url = trim_end_slashes
         (env_string V ''AGENT_CORE_OPENAI_BASE_URL'' ''https://api.openai.com/v1''),
       kc_openai_api_key = env_string V ''AGENT_CORE_OPENAI_API_KEY'' [],
       kc_model = env_string V ''AGENT_CORE_MODEL'' [],
       kc_fallback_openai_base_url =
         trim_end_slashes (env_string V ''AGENT_CORE_FALLBACK_OPENAI_BASE_URL'' []),
       kc_fallback_openai_api_key = env_string V ''AGENT_CORE_FALLBACK_OPENAI_API_KEY'' [],
       kc_fallback_model = env_string V ''AGENT_CORE_FALLBACK_MODEL'' [],
       kc_model_timeout_ms = env_u64 V ''AGENT_CORE_MODEL_TIMEOUT_MS'' 30000,
       kc_outbox_dispatcher_enabled = dispatcher,
       kc_outbox_dispatcher_poll_interval_ms =
         env_u64 V ''AGENT_CORE_OUTBOX_DISPATCHER_POLL_MS'' 500,
       kc_extra_allowed_operations = extra_operations_from_env V,
       kc_require_write_approval = approval,
       kc_write_approval_ttl_secs = env_u64 V ''AGENT_CORE_WRITE_APPROVAL_TTL_SECS'' 0,
       kc_fallback_tool_name_indexed = fallback_indexed,
       kc_primary_tool_name_indexed = primary_indexed,
       kc_harness_read_timeout_ms = env_u64 V ''AGENT_CORE_HARNESS_READ_TIMEOUT_MS'' 10000,
       kc_harness_artifact_root = artifact_root,
       kc_max_tool_rounds = rounds,
       kc_feishu_coding_owner_id = env_optional_string V ''AGENT_CORE_FEISHU_CODING_OWNER_ID'',
       kc_force_legacy_runtime = legacy, kc_tool_loop_timeout_ms = timeout,
       kc_context_prepare_hook =
         hook_from_env V ''AGENT_CORE_CONTEXT_PREPARE_HOOK'' ContextPrepareV0 context_enabled,
       kc_budget_hook = hook_from_env V ''AGENT_CORE_BUDGET_HOOK'' RunBudgetResolveV0 budget_enabled\<rparr>
     )))))))))))"

definition from_cli :: "string option \<Rightarrow> variables \<Rightarrow> string option \<Rightarrow> string + KernelConfig" where
  "from_cli env_file V db_path = ebind (load_local_env env_file V) (from_variables db_path)"

subsection \<open>What every configuration satisfies\<close>

definition config_in_range :: "KernelConfig \<Rightarrow> bool" where
  "config_in_range c \<longleftrightarrow>
     1 \<le> unat (kc_max_tool_rounds c) \<and> unat (kc_max_tool_rounds c) \<le> 64 \<and>
     tool_loop_timeout_ms_min \<le> unat (kc_tool_loop_timeout_ms c) \<and>
     unat (kc_tool_loop_timeout_ms c) \<le> tool_loop_timeout_ms_max \<and>
     ''system.status'' \<in> set (kc_extra_allowed_operations c) \<and>
     hc_kind (kc_context_prepare_hook c) = ContextPrepareV0 \<and>
     hc_kind (kc_budget_hook c) = RunBudgetResolveV0"

lemma unat_of_small: "n < 2 ^ 64 \<Longrightarrow> unat (word_of_nat n :: 64 word) = n"
  by (simp add: unat_of_nat take_bit_nat_eq_self)

lemma env_max_tool_rounds_range:
  assumes "env_max_tool_rounds V key 12 = Inr w"
  shows "1 \<le> unat w \<and> unat w \<le> 64"
  using assms unat_of_small
  by (auto simp: env_max_tool_rounds_def split: option.splits if_splits)

lemma env_tool_loop_timeout_range:
  assumes "env_tool_loop_timeout_ms V key 300000 = Inr w"
  shows "tool_loop_timeout_ms_min \<le> unat w \<and> unat w \<le> tool_loop_timeout_ms_max"
  using assms unat_of_small
  by (auto simp: env_tool_loop_timeout_ms_def parse_tool_loop_timeout_ms_def
      tool_loop_timeout_ms_min_def tool_loop_timeout_ms_max_def
      split: option.splits sum.splits if_splits)

lemma from_variables_in_range: "from_variables db_path V = Inr c \<Longrightarrow> config_in_range c"
  unfolding from_variables_def Let_def
  by (auto elim!: ebind_InrD dest!: env_max_tool_rounds_range env_tool_loop_timeout_range
      simp: config_in_range_def extra_operations_from_env_def hook_from_env_def Let_def)

lemma load_line_keeps:
  assumes "load_line l V = Inr V'" and "V k = Some x"
  shows "V' k = Some x"
  using assms by (auto simp: load_line_def set_var_def Let_def split: if_splits option.splits)

lemma load_lines_keep: "load_lines ls V = Inr V' \<Longrightarrow> V k = Some x \<Longrightarrow> V' k = Some x"
  by (induction ls arbitrary: V) (auto elim!: ebind_InrD dest: load_line_keeps)

lemma load_local_env_keeps:
  "load_local_env file V = Inr V' \<Longrightarrow> V k = Some x \<Longrightarrow> V' k = Some x"
  by (auto simp: load_local_env_def load_lines_keep split: option.splits)

text \<open>C29: Every configuration the kernel starts with is in range. When reading the variables ends in
  a configuration, the number of tool rounds lies between 1 and 64 and the time of the tool loop
  between one second and ten minutes, the status operation is among the extra ones, each hook has
  its own kind, and a variable of the process is never replaced by the local file. A number
  outside its range, or a text that is no number, ends the process instead.\<close>
theorem config_read_in_range:
  assumes "from_cli file V db_path = Inr c"
  shows "config_in_range c \<and>
    (\<forall>V'. load_local_env file V = Inr V' \<longrightarrow> from_variables db_path V' = Inr c \<and> V \<subseteq>\<^sub>m V')"
proof -
  from assms obtain V' where V': "load_local_env file V = Inr V'" "from_variables db_path V' = Inr c"
    unfolding from_cli_def by (elim ebind_InrD)
  moreover have "V \<subseteq>\<^sub>m V'"
    using load_local_env_keeps [OF V'(1)] by (force simp: map_le_def)
  ultimately show ?thesis using from_variables_in_range by auto
qed

definition sample_variables :: variables where
  "sample_variables = [''AGENT_CORE_MAX_TOOL_ROUNDS'' \<mapsto> ''8'', ''HOME'' \<mapsto> ''/home/a'']"

theorem config_read_in_range_witness:
  "\<exists>c. from_cli (Some ''HOME=/x'') sample_variables None = Inr c \<and> config_in_range c \<and>
     unat (kc_max_tool_rounds c) = 8 \<and> kc_data_dir c = ''/home/a/.agent-core''"
proof -
  have "case from_cli (Some ''HOME=/x'') sample_variables None of Inl _ \<Rightarrow> False
      | Inr c \<Rightarrow> unat (kc_max_tool_rounds c) = 8 \<and> kc_data_dir c = ''/home/a/.agent-core''"
    by code_simp
  then obtain c where c: "from_cli (Some ''HOME=/x'') sample_variables None = Inr c"
    "unat (kc_max_tool_rounds c) = 8" "kc_data_dir c = ''/home/a/.agent-core''"
    by (cases "from_cli (Some ''HOME=/x'') sample_variables None") auto
  with config_read_in_range [OF c(1)] show ?thesis by blast
qed

text \<open>A configuration for the examples of the other components.\<close>

definition sample_config :: KernelConfig where
  "sample_config = \<lparr>kc_db_path = ''k.sqlite'', kc_data_dir = ''d'', kc_agent_id = ''agent_1'',
     kc_root_dir = ''d'', kc_kernel_port = 4130, kc_connector_execute_url = ''u'',
     kc_ipc_token = ''t'', kc_capability_submit_token = None, kc_capability_decision_token = None,
     kc_feishu_allowed_open_ids = [], kc_feishu_allowed_chat_ids = [],
     kc_feishu_require_group_mention = False, kc_openai_base_url = ''b'', kc_openai_api_key = ''k'',
     kc_model = ''m'', kc_fallback_openai_base_url = [], kc_fallback_openai_api_key = [],
     kc_fallback_model = [], kc_model_timeout_ms = 30000, kc_outbox_dispatcher_enabled = True,
     kc_outbox_dispatcher_poll_interval_ms = 500, kc_extra_allowed_operations = [],
     kc_require_write_approval = False, kc_write_approval_ttl_secs = 0,
     kc_fallback_tool_name_indexed = False, kc_primary_tool_name_indexed = False,
     kc_harness_read_timeout_ms = 10000, kc_harness_artifact_root = ''a'', kc_max_tool_rounds = 12,
     kc_feishu_coding_owner_id = None, kc_force_legacy_runtime = False,
     kc_tool_loop_timeout_ms = 300000, kc_context_prepare_hook = default_hook_config,
     kc_budget_hook = default_hook_config\<rparr>"

end
