(* ===== verification/Gateway_Ingress.thy ===== *)
theory Gateway_Ingress
  imports Gateway_Policy Worker_Queue Journal_Recovery Kernel_Configuration
begin

section \<open>The gateway: ingress, continuations and approvals\<close>

text \<open>
  The rest of \<open>src/gateway/mod.rs\<close>: the validation of ingress envelopes (\<open>validate_ingress\<close> and its
  two channels), the recovery of a validated event from the journal, the request for a
  continuation of a session, and the operator's decision on a run that awaits approval.
\<close>

subsection \<open>Ingress\<close>

definition payload_hash :: "env \<Rightarrow> json \<Rightarrow> string" where
  "payload_hash E v = sha256_hex E (json_text E v)"

definition has_mention :: "json \<Rightarrow> bool" where
  "has_mention v =
     (case Option.bind (jget v ''mentions'') as_array of None \<Rightarrow> False | Some ms \<Rightarrow> ms \<noteq> [])"

definition normalized_text :: "json \<Rightarrow> string" where
  "normalized_text v =
     take_chars 500 (case str_field v ''text'' of None \<Rightarrow> [] | Some x \<Rightarrow> x)"

definition cli_ingress :: "env \<Rightarrow> string \<Rightarrow> IngressEnvelope jop" where
  "cli_ingress E raw =
     (if trim raw = [] then op_bail ''CLI input text is empty''
      else op_bind (new_id E ''cli'') (\<lambda>external_event_id.
           op_bind (utc_now E) (\<lambda>now.
           op_return \<lparr>ie_protocol_version = ''v1'', ie_source = ExternalSource.Cli,
             ie_external_event_id = external_event_id, ie_received_at = now,
             ie_payload = jobj [(''text'', JStr (trim raw))], ie_authenticated = True,
             ie_routing_agent = None\<rparr>)))"

definition cli_principal :: "KernelConfig \<Rightarrow> RunPrincipal" where
  "cli_principal config =
     \<lparr>rp_principal_id = ''cli:local'', rp_subject = LocalUser, rp_source = PrincipalSource.Cli,
      rp_grants = with_extra (for_channel ChannelKind.Cli) (kc_extra_allowed_operations config),
      rp_requester_id = Some ''cli:local''\<rparr>"

definition feishu_principal :: "KernelConfig \<Rightarrow> string \<Rightarrow> RunPrincipal" where
  "feishu_principal config sender_open_id =
     \<lparr>rp_principal_id = ''feishu:open_id:'' @ sender_open_id,
      rp_subject = FeishuOpenId sender_open_id, rp_source = PrincipalSource.Feishu,
      rp_grants = with_extra (for_channel ChannelKind.Feishu) (kc_extra_allowed_operations config),
      rp_requester_id = Some (''feishu:open_id:'' @ sender_open_id)\<rparr>"

definition cli_event :: "KernelConfig \<Rightarrow> IngressEnvelope \<Rightarrow> string \<Rightarrow> EventId \<Rightarrow> ValidatedEvent" where
  "cli_event config envelope message event_id =
     \<lparr>ve_event_id = event_id, ve_source = EventSource.Cli, ve_principal = cli_principal config,
      ve_session_target = \<lparr>st_agent_id = kc_agent_id config, st_channel = ChannelKind.Cli,
        st_conversation_key = ''local''\<rparr>,
      ve_payload = UserMessage message None None,
      ve_dedupe_key = ''cli:'' @ ie_external_event_id envelope,
      ve_occurred_at = ie_received_at envelope, ve_chat_type = None\<rparr>"

definition cli_payload :: "env \<Rightarrow> IngressEnvelope \<Rightarrow> string \<Rightarrow> EventId \<Rightarrow> json" where
  "cli_payload E envelope message event_id = jobj
     [(''source'', JStr ''cli''),
      (''external_event_id'', JStr (ie_external_event_id envelope)),
      (''dedupe_key'', JStr (''cli:'' @ ie_external_event_id envelope)),
      (''event_id'', JStr event_id),
      (''text'', JStr message),
      (''payload_hash'', JStr (payload_hash E (ie_payload envelope)))]"

definition validate_cli_ingress :: "env \<Rightarrow> KernelConfig \<Rightarrow> IngressEnvelope \<Rightarrow> ValidatedEvent jop" where
  "validate_cli_ingress E config envelope =
     op_bind (op_lift (string_arg (ie_payload envelope) ''text'')) (\<lambda>message.
     op_bind (new_id E ''event'') (\<lambda>event_id.
     op_bind (reserve_ingress E ''cli'' (ie_external_event_id envelope) event_id) (\<lambda>fresh.
     if \<not> fresh then op_bail ''duplicate_ingress''
     else
       let event = cli_event config envelope message event_id in
       op_then (accept_ingress_with_worker_job E event (cli_payload E envelope message event_id))
         (op_return event))))"

text \<open>The reasons to skip a Feishu message, in the order of the code, on its parsed fields.\<close>

definition feishu_skip :: "KernelConfig \<Rightarrow> json \<Rightarrow> string \<Rightarrow> string \<Rightarrow> string \<Rightarrow> string \<Rightarrow> string option" where
  "feishu_skip config payload message chat_id chat_type sender_open_id =
     (let sender_type = (case str_field payload ''sender_type'' of None \<Rightarrow> ''user'' | Some x \<Rightarrow> x);
          message_type = (case str_field payload ''message_type'' of None \<Rightarrow> ''text'' | Some x \<Rightarrow> x) in
      if sender_type = ''app'' then Some ''skip:bot_sender''
      else if message_type \<noteq> ''text'' then Some ''skip:unsupported_message_type''
      else if trim message = [] then Some ''skip:empty_text''
      else if chat_type = ''p2p'' \<and> kc_feishu_allowed_open_ids config \<noteq> []
        \<and> sender_open_id \<notin> set (kc_feishu_allowed_open_ids config)
      then Some ''skip:sender_not_allowed''
      else if chat_type \<noteq> ''p2p'' \<and> kc_feishu_allowed_chat_ids config \<noteq> []
        \<and> chat_id \<notin> set (kc_feishu_allowed_chat_ids config)
      then Some ''skip:chat_not_allowed''
      else if chat_type \<noteq> ''p2p'' \<and> kc_feishu_require_group_mention config \<and> \<not> has_mention payload
      then Some ''skip:bot_not_mentioned''
      else None)"

text \<open>The fields that \<open>string_arg\<close> reads from a Feishu payload.\<close>

record FeishuFields =
  ff_text :: string
  ff_message_id :: string
  ff_chat_id :: string
  ff_chat_type :: string
  ff_sender_open_id :: string

definition feishu_conversation_key :: "FeishuFields \<Rightarrow> string" where
  "feishu_conversation_key f =
     (if ff_chat_type f = ''p2p'' then ''feishu:open_id:'' @ ff_sender_open_id f
      else ''feishu:chat_id:'' @ ff_chat_id f)"

definition feishu_event ::
  "KernelConfig \<Rightarrow> IngressEnvelope \<Rightarrow> FeishuFields \<Rightarrow> EventId \<Rightarrow> ValidatedEvent" where
  "feishu_event config envelope f event_id =
     \<lparr>ve_event_id = event_id, ve_source = EventSource.Feishu,
      ve_principal = feishu_principal config (ff_sender_open_id f),
      ve_session_target = \<lparr>st_agent_id = kc_agent_id config, st_channel = ChannelKind.Feishu,
        st_conversation_key = feishu_conversation_key f\<rparr>,
      ve_payload = UserMessage (ff_text f) (Some (ff_message_id f)) (Some (ff_chat_id f)),
      ve_dedupe_key = ''feishu:message:'' @ ff_message_id f,
      ve_occurred_at = ie_received_at envelope, ve_chat_type = Some (ff_chat_type f)\<rparr>"

definition feishu_payload :: "env \<Rightarrow> IngressEnvelope \<Rightarrow> FeishuFields \<Rightarrow> EventId \<Rightarrow> json" where
  "feishu_payload E envelope f event_id = jobj
     [(''source'', JStr ''feishu''),
      (''external_event_id'', JStr (ie_external_event_id envelope)),
      (''dedupe_id'', JStr (''message:'' @ ff_message_id f)),
      (''dedupe_key'', JStr (''feishu:message:'' @ ff_message_id f)),
      (''event_id'', JStr event_id),
      (''sender_open_id'', JStr (ff_sender_open_id f)),
      (''chat_id'', JStr (ff_chat_id f)),
      (''chat_type'', JStr (ff_chat_type f)),
      (''conversation_key'', JStr (feishu_conversation_key f)),
      (''message_id'', JStr (ff_message_id f)),
      (''message_type'', JStr (case str_field (ie_payload envelope) ''message_type'' of
         None \<Rightarrow> ''text'' | Some x \<Rightarrow> x)),
      (''text'', JStr (normalized_text (ie_payload envelope))),
      (''payload_hash'', JStr (payload_hash E (ie_payload envelope)))]"

definition validate_feishu_ingress ::
  "env \<Rightarrow> KernelConfig \<Rightarrow> IngressEnvelope \<Rightarrow> ValidatedEvent jop" where
  "validate_feishu_ingress E config envelope =
     (let payload = ie_payload envelope in
      op_bind (op_lift (string_arg payload ''text'')) (\<lambda>message.
      op_bind (op_lift (string_arg payload ''message_id'')) (\<lambda>message_id.
      op_bind (op_lift (string_arg payload ''chat_id'')) (\<lambda>chat_id.
      op_bind (op_lift (string_arg payload ''chat_type'')) (\<lambda>chat_type.
      op_bind (op_lift (string_arg payload ''sender_open_id'')) (\<lambda>sender_open_id.
      case feishu_skip config payload message chat_id chat_type sender_open_id of
        Some reason \<Rightarrow> op_bail reason
      | None \<Rightarrow>
          op_bind (new_id E ''event'') (\<lambda>event_id.
          op_bind (reserve_ingress E ''feishu'' (''message:'' @ message_id) event_id) (\<lambda>fresh.
          if \<not> fresh then op_bail ''skip:duplicate_ingress''
          else
            let f = \<lparr>ff_text = message, ff_message_id = message_id, ff_chat_id = chat_id,
                  ff_chat_type = chat_type, ff_sender_open_id = sender_open_id\<rparr>;
                event = feishu_event config envelope f event_id in
            op_then (accept_ingress_with_worker_job E event (feishu_payload E envelope f event_id))
              (op_return event)))))))))"

definition validate_ingress :: "env \<Rightarrow> KernelConfig \<Rightarrow> IngressEnvelope \<Rightarrow> ValidatedEvent jop" where
  "validate_ingress E config envelope =
     (if ie_protocol_version envelope \<noteq> ''v1'' then op_bail ''unsupported protocol version''
      else if \<not> ie_authenticated envelope then op_bail ''ingress is not authenticated''
      else case ie_source envelope of
          ExternalSource.Cli \<Rightarrow> validate_cli_ingress E config envelope
        | ExternalSource.Feishu \<Rightarrow> validate_feishu_ingress E config envelope)"

subsection \<open>Recovery of a validated event\<close>

definition recover_cli_event ::
  "KernelConfig \<Rightarrow> EventId \<Rightarrow> string \<Rightarrow> json \<Rightarrow> instant \<Rightarrow> string + ValidatedEvent" where
  "recover_cli_event config event_id dedupe_key payload occurred_at =
     (case string_arg payload ''text'' of
        Inl e \<Rightarrow> Inl e
      | Inr message \<Rightarrow> Inr
          \<lparr>ve_event_id = event_id, ve_source = EventSource.Cli, ve_principal = cli_principal config,
           ve_session_target = \<lparr>st_agent_id = kc_agent_id config, st_channel = ChannelKind.Cli,
              st_conversation_key = ''local''\<rparr>,
           ve_payload = UserMessage message None None, ve_dedupe_key = dedupe_key,
           ve_occurred_at = occurred_at, ve_chat_type = None\<rparr>)"

definition recover_feishu_event ::
  "KernelConfig \<Rightarrow> EventId \<Rightarrow> string \<Rightarrow> json \<Rightarrow> instant \<Rightarrow> string + ValidatedEvent" where
  "recover_feishu_event config event_id dedupe_key payload occurred_at =
     (case string_arg payload ''sender_open_id'' of
        Inl e \<Rightarrow> Inl e
      | Inr sender_open_id \<Rightarrow>
     (case string_arg payload ''chat_id'' of
        Inl e \<Rightarrow> Inl e
      | Inr chat_id \<Rightarrow>
     (case string_arg payload ''conversation_key'' of
        Inl e \<Rightarrow> Inl e
      | Inr conversation_key \<Rightarrow>
     (case string_arg payload ''text'' of
        Inl e \<Rightarrow> Inl e
      | Inr message \<Rightarrow>
     (case string_arg payload ''message_id'' of
        Inl e \<Rightarrow> Inl e
      | Inr message_id \<Rightarrow> Inr
          \<lparr>ve_event_id = event_id, ve_source = EventSource.Feishu,
           ve_principal = feishu_principal config sender_open_id,
           ve_session_target = \<lparr>st_agent_id = kc_agent_id config,
             st_channel = ChannelKind.Feishu, st_conversation_key = conversation_key\<rparr>,
           ve_payload = UserMessage message (Some message_id) (Some chat_id),
           ve_dedupe_key = dedupe_key, ve_occurred_at = occurred_at,
           ve_chat_type = str_field payload ''chat_type''\<rparr>)))))"

definition recover_validated_event :: "KernelConfig \<Rightarrow> JournalEvent \<Rightarrow> string + ValidatedEvent" where
  "recover_validated_event config event =
     (let payload = je_payload event in
      case string_arg payload ''source'' of
        Inl e \<Rightarrow> Inl e
      | Inr source \<Rightarrow>
     (case string_arg payload ''event_id'' of
        Inl e \<Rightarrow> Inl e
      | Inr event_id \<Rightarrow>
          (let dedupe_key = (case je_correlation_id event of
                 Some k \<Rightarrow> k
               | None \<Rightarrow> (case string_arg payload ''dedupe_key'' of Inl _ \<Rightarrow> [] | Inr k \<Rightarrow> k)) in
           if source = ''cli''
           then recover_cli_event config event_id dedupe_key payload (je_created_at event)
           else if source = ''feishu''
           then recover_feishu_event config event_id dedupe_key payload (je_created_at event)
           else Inl (''unsupported_recovery_source:'' @ source))))"

subsection \<open>Continuations\<close>

record SessionContinuationRequest =
  cr_trigger_run_id :: string
  cr_expected_session_id :: "string option"
  cr_idempotency_key :: string

text \<open>The transport a principal arrived on, and the transport a session lives on.\<close>

fun same_transport :: "PrincipalSource \<Rightarrow> ChannelKind \<Rightarrow> bool" where
  "same_transport PrincipalSource.Cli ChannelKind.Cli = True"
| "same_transport PrincipalSource.Feishu ChannelKind.Feishu = True"
| "same_transport _ _ = False"

text \<open>The checks of a request, up to the facts they recover, and the acceptance after them.\<close>

definition continuation_guard :: "env \<Rightarrow> SessionContinuationRequest \<Rightarrow> (Run \<times> Session) jop" where
  "continuation_guard E request =
     (if cr_idempotency_key request \<noteq> ''continuation:'' @ cr_trigger_run_id request
      then op_bail ''idempotency_key_mismatch''
      else
        op_bind (run_by_id E (cr_trigger_run_id request)) (\<lambda>found.
        case found of
          None \<Rightarrow> op_bail ''trigger_run_not_found''
        | Some trigger \<Rightarrow>
            if case cr_expected_session_id request of
                 None \<Rightarrow> False | Some expected \<Rightarrow> r_session_id trigger \<noteq> expected
            then op_bail ''trigger_run_session_mismatch''
            else
              op_bind (session_by_id E (r_session_id trigger)) (\<lambda>found_session.
              case found_session of
                None \<Rightarrow> op_bail ''session_not_found''
              | Some session \<Rightarrow>
                  if r_session_id trigger \<noteq> s_id session
                  then op_bail ''continuation_session_mismatch''
                  else if r_agent_id trigger \<noteq> s_agent_id session
                  then op_bail ''continuation_agent_mismatch''
                  else if \<not> same_transport (rp_source (r_principal trigger)) (s_channel session)
                  then op_bail ''continuation_principal_mismatch''
                  else op_return (trigger, session))))"

definition request_session_continuation ::
  "env \<Rightarrow> SessionContinuationRequest \<Rightarrow> (string \<times> string) option jop" where
  "request_session_continuation E request =
     op_bind (continuation_guard E request) (\<lambda>(trigger, session).
     op_bind draw (\<lambda>n. let request_id = ''cont:'' @ uuid_at E n in
     op_bind (new_id E ''run'') (\<lambda>next_run_id.
     op_bind (accept_session_continuation E request_id (s_id session) (r_id trigger)
         ''ipc:agent-loop-harness'' (cr_idempotency_key request) next_run_id) (\<lambda>accepted.
     case accepted of
       Some (_, next_run_id) \<Rightarrow> op_return (Some (request_id, next_run_id))
     | None \<Rightarrow> op_return None))))"

subsection \<open>Operators\<close>

datatype HarnessChangeAction = Enable | Disable

record HarnessChangeIntent =
  hc_action :: HarnessChangeAction
  hc_manifest_id :: string
  hc_expected_snapshot_id :: string
  hc_requested_by :: string

record ApprovedHarnessChange =
  ah_intent :: HarnessChangeIntent
  ah_decision_id :: string

definition approve_harness_change :: "env \<Rightarrow> HarnessChangeIntent \<Rightarrow> ApprovedHarnessChange jop" where
  "approve_harness_change E intent =
     (if hc_requested_by intent \<noteq> ''ipc_operator''
      then op_bail ''unauthorized: only ipc_operator may request harness changes''
      else case hc_action intent of
          Enable \<Rightarrow> op_bind (new_id E ''decision'') (\<lambda>d.
            op_return \<lparr>ah_intent = intent, ah_decision_id = d\<rparr>)
        | Disable \<Rightarrow> op_bind (new_id E ''decision'') (\<lambda>d.
            op_return \<lparr>ah_intent = intent, ah_decision_id = d\<rparr>))"

definition resolve_principal :: "KernelConfig \<Rightarrow> string \<Rightarrow> string option" where
  "resolve_principal config token =
     (if token = kc_ipc_token config then Some ''ipc_operator'' else None)"

definition gateway_has_grant :: "string \<Rightarrow> string \<Rightarrow> bool" where
  "gateway_has_grant principal_id grant \<longleftrightarrow>
     (grant = ''capability_change.propose'' \<or> grant = ''capability_change.decide'') \<and>
     principal_id = ''ipc_operator''"

text \<open>The invocation that an \<open>ApprovalRequested\<close> payload describes, and its session.\<close>

definition approved_of_request ::
  "RunId \<Rightarrow> json \<Rightarrow> string + ApprovedInvocation \<times> SessionId option" where
  "approved_of_request run_id snapshot =
     (case str_field snapshot ''invocation_id'' of
        None \<Rightarrow> Inl ''approval_request_missing_invocation_id''
      | Some invocation_id \<Rightarrow>
     (case str_field snapshot ''operation'' of
        None \<Rightarrow> Inl ''approval_request_missing_operation''
      | Some operation \<Rightarrow> Inr
          (\<lparr>ai_intent = \<lparr>ii_invocation_id = invocation_id, ii_run_id = run_id,
               ii_operation = operation,
               ii_arguments = (case jget snapshot ''arguments'' of None \<Rightarrow> jobj [] | Some a \<Rightarrow> a),
               ii_idempotency_key = str_field snapshot ''idempotency_key''\<rparr>,
             ai_decision_id = (case str_field snapshot ''decision_id'' of
               None \<Rightarrow> [] | Some d \<Rightarrow> d)\<rparr>,
           str_field snapshot ''session_id'')))"

definition approve_run :: "env \<Rightarrow> RunId \<Rightarrow> unit jop" where
  "approve_run E run_id =
     op_bind (run_status E run_id) (\<lambda>status.
     if status \<noteq> Some ''AwaitingApproval'' then op_return ()
     else
       op_bind (approval_request_for_run E run_id) (\<lambda>found.
       case found of
         None \<Rightarrow> op_bail ''approval_request_missing''
       | Some snapshot \<Rightarrow>
           op_bind (op_lift (approved_of_request run_id snapshot)) (\<lambda>(approved, session_id).
           op_then (append_event E ApprovalGranted (Some run_id) session_id
               (Some (ii_invocation_id (ai_intent approved)))
               (jobj [(''operation'', JStr (ii_operation (ai_intent approved)))]))
          (op_then (queue_outbox_dispatch E approved session_id)
           (update_run_status E run_id ''WaitingDispatch'')))))"

definition deny_run :: "env \<Rightarrow> RunId \<Rightarrow> unit jop" where
  "deny_run E run_id =
     op_bind (run_status E run_id) (\<lambda>status.
     if status \<noteq> Some ''AwaitingApproval'' then op_return ()
     else
       op_bind (approval_request_for_run E run_id) (\<lambda>snapshot.
       let operation = (case Option.bind snapshot (\<lambda>p. str_field p ''operation'') of
             None \<Rightarrow> [] | Some x \<Rightarrow> x);
           session_id = Option.bind snapshot (\<lambda>p. str_field p ''session_id'') in
       op_then (append_event E ApprovalDenied (Some run_id) session_id None
           (jobj [(''operation'', JStr operation)]))
         (fail_run E run_id)))"

subsection \<open>The gateway only extends the store\<close>

lemma evolves_new_id: "obeys (evolves E) (new_id E px)"
  unfolding new_id_def by (intro evolves_store_intros)

lemma evolves_validate_cli: "obeys (evolves E) (validate_cli_ingress E config envelope)"
  unfolding validate_cli_ingress_def Let_def
  by (intro evolves_new_id evolves_worker_intros evolves_store_intros)

lemma evolves_validate_feishu: "obeys (evolves E) (validate_feishu_ingress E config envelope)"
  unfolding validate_feishu_ingress_def Let_def
  by (intro evolves_new_id evolves_worker_intros evolves_store_intros)

lemma evolves_validate_ingress: "obeys (evolves E) (validate_ingress E config envelope)"
  unfolding validate_ingress_def
  by (cases "ie_source envelope") (simp_all add: evolves_validate_cli evolves_validate_feishu
      ev.frame_bail)

lemma evolves_request_continuation: "obeys (evolves E) (request_session_continuation E request)"
  unfolding request_session_continuation_def continuation_guard_def Let_def
  by (intro evolves_new_id evolves_store_intros)

lemma evolves_approval_request: "obeys (evolves E) (approval_request_for_run E run_id)"
  unfolding approval_request_for_run_def by (intro evolves_store_intros)

lemma evolves_approve_run: "obeys (evolves E) (approve_run E run_id)"
  unfolding approve_run_def Let_def
  by (intro evolves_approval_request evolves_outbox_intros)

lemma evolves_deny_run: "obeys (evolves E) (deny_run E run_id)"
  unfolding deny_run_def Let_def by (intro evolves_approval_request evolves_outbox_intros)

subsection \<open>Accepted once\<close>

text \<open>The pair of source and external id under which an envelope is reserved.\<close>

definition ingress_key :: "IngressEnvelope \<Rightarrow> (string \<times> string) option" where
  "ingress_key envelope =
     (case ie_source envelope of
        ExternalSource.Cli \<Rightarrow> Some (''cli'', ie_external_event_id envelope)
      | ExternalSource.Feishu \<Rightarrow>
          (case string_arg (ie_payload envelope) ''message_id'' of
             Inl _ \<Rightarrow> None | Inr m \<Rightarrow> Some (''feishu'', ''message:'' @ m)))"

definition reserved :: "string \<times> string \<Rightarrow> store \<Rightarrow> bool" where
  "reserved key s \<longleftrightarrow>
     list_ex (\<lambda>r. dd_source r = fst key \<and> dd_external_event_id r = snd key) (ingress_dedup s)"

lemma reserved_persists: "evolves E s t \<Longrightarrow> reserved key s \<Longrightarrow> reserved key t"
  unfolding reserved_def by (rule dedup_persists)

lemma reserve_taken:
  assumes "reserved (source, ext) u" and "reserve_ingress E source ext event_id u = (r, v)"
  shows "unchanged u v \<and> r \<noteq> Inr True"
  using assms unfolding reserve_ingress_def reserved_def
  by (auto simp: op_simps utc_now_def draw_def insert_dedup_or_ignore_def tx_def Let_def
      unchanged_def split: if_splits)

lemma reserve_done:
  "reserve_ingress E source ext event_id s = (Inr True, t) \<Longrightarrow> reserved (source, ext) t"
  unfolding reserved_def using reserve_ingress_result(2) by fastforce

lemma op_lift_run: "op_lift r s = (r, s)"
  by (simp add: op_lift_def)

lemma new_id_run: "new_id E px s = (Inr (fresh_id px (uuid_at E (tick s))), s\<lparr>tick := Suc (tick s)\<rparr>)"
  by (simp add: new_id_def draw_def op_simps)

lemma validate_cli_Inr:
  assumes "validate_cli_ingress E config envelope s = (Inr event, t)"
  obtains message i u v job where "string_arg (ie_payload envelope) ''text'' = Inr message"
    and "i = fresh_id ''event'' (uuid_at E (tick s))"
    and "reserve_ingress E ''cli'' (ie_external_event_id envelope) i u = (Inr True, v)"
    and "event = cli_event config envelope message i"
    and "accept_ingress_with_worker_job E event (cli_payload E envelope message i) v = (Inr job, t)"
    and "u = s\<lparr>tick := Suc (tick s)\<rparr>"
  using assms unfolding validate_cli_ingress_def
  by (auto elim!: op_bind_InrD simp: Let_def op_then_def op_bail_def op_return_def op_lift_run
      new_id_run split: if_splits)

lemma validate_feishu_Inr:
  assumes "validate_feishu_ingress E config envelope s = (Inr event, t)"
  obtains f i u v job where "string_arg (ie_payload envelope) ''text'' = Inr (ff_text f)"
    and "string_arg (ie_payload envelope) ''message_id'' = Inr (ff_message_id f)"
    and "string_arg (ie_payload envelope) ''chat_id'' = Inr (ff_chat_id f)"
    and "string_arg (ie_payload envelope) ''chat_type'' = Inr (ff_chat_type f)"
    and "string_arg (ie_payload envelope) ''sender_open_id'' = Inr (ff_sender_open_id f)"
    and "feishu_skip config (ie_payload envelope) (ff_text f) (ff_chat_id f) (ff_chat_type f)
      (ff_sender_open_id f) = None"
    and "i = fresh_id ''event'' (uuid_at E (tick s))"
    and "reserve_ingress E ''feishu'' (''message:'' @ ff_message_id f) i u = (Inr True, v)"
    and "event = feishu_event config envelope f i"
    and "accept_ingress_with_worker_job E event (feishu_payload E envelope f i) v = (Inr job, t)"
    and "u = s\<lparr>tick := Suc (tick s)\<rparr>"
proof -
  let ?p = "ie_payload envelope" and ?u = "s\<lparr>tick := Suc (tick s)\<rparr>"
  let ?i = "fresh_id ''event'' (uuid_at E (tick s))"
  from assms obtain m mi ci ct so where args: "string_arg ?p ''text'' = Inr m"
    "string_arg ?p ''message_id'' = Inr mi" "string_arg ?p ''chat_id'' = Inr ci"
    "string_arg ?p ''chat_type'' = Inr ct" "string_arg ?p ''sender_open_id'' = Inr so"
    unfolding validate_feishu_ingress_def Let_def
    by (auto elim!: op_bind_InrD simp: op_lift_run)
  let ?f = "\<lparr>ff_text = m, ff_message_id = mi, ff_chat_id = ci, ff_chat_type = ct,
    ff_sender_open_id = so\<rparr>"
  from assms args obtain v job where "feishu_skip config ?p m ci ct so = None"
    "reserve_ingress E ''feishu'' (''message:'' @ mi) ?i ?u = (Inr True, v)"
    "event = feishu_event config envelope ?f ?i"
    "accept_ingress_with_worker_job E event (feishu_payload E envelope ?f ?i) v = (Inr job, t)"
    unfolding validate_feishu_ingress_def Let_def
    by (auto elim!: op_bind_InrD simp: op_lift_run new_id_run op_then_def op_bail_def
        op_return_def split: if_splits option.splits)
  with args show ?thesis by (intro that [of ?f ?i ?u v job]) simp_all
qed

lemma validate_reserves:
  assumes "validate_ingress E config envelope s = (Inr event, t)"
  shows "\<exists>key. ingress_key envelope = Some key \<and> reserved key t"
proof (cases "ie_source envelope")
  case Cli
  with assms have "validate_cli_ingress E config envelope s = (Inr event, t)"
    by (auto simp: validate_ingress_def op_bail_def split: if_splits)
  then obtain i u v p job where
    1: "reserve_ingress E ''cli'' (ie_external_event_id envelope) i u = (Inr True, v)"
    and "accept_ingress_with_worker_job E event p v = (Inr job, t)"
    by (rule validate_cli_Inr)
  then have "evolves E v t" using obeysD [OF evolves_worker_leases(2)] by blast
  from reserved_persists [OF this reserve_done [OF 1]] Cli show ?thesis
    by (simp add: ingress_key_def)
next
  case Feishu
  with assms have "validate_feishu_ingress E config envelope s = (Inr event, t)"
    by (auto simp: validate_ingress_def op_bail_def split: if_splits)
  then obtain f :: FeishuFields and i u v job p where
    1: "reserve_ingress E ''feishu'' (''message:'' @ ff_message_id f) i u = (Inr True, v)"
    and "accept_ingress_with_worker_job E event p v = (Inr job, t)"
    and m: "string_arg (ie_payload envelope) ''message_id'' = Inr (ff_message_id f)"
    by (rule validate_feishu_Inr)
  then have "evolves E v t" using obeysD [OF evolves_worker_leases(2)] by blast
  from reserved_persists [OF this reserve_done [OF 1]] Feishu m show ?thesis
    by (simp add: ingress_key_def)
qed

lemma validate_reserved_rejected:
  assumes "ingress_key envelope = Some key" and "reserved key u"
    and "validate_ingress E config envelope u = (r, v)"
  shows "(\<exists>e. r = Inl e) \<and> unchanged u v"
proof -
  have taken: "unchanged u v' \<and> x \<noteq> Inr True"
    if "reserve_ingress E (fst key) (snd key) i (u\<lparr>tick := Suc (tick u)\<rparr>) = (x, v')" for i x v'
  proof -
    have "reserved key (u\<lparr>tick := Suc (tick u)\<rparr>)" using assms(2) by (simp add: reserved_def)
    with reserve_taken [of "fst key" "snd key"] that
    have "unchanged (u\<lparr>tick := Suc (tick u)\<rparr>) v' \<and> x \<noteq> Inr True" by simp
    then show ?thesis using unchanged_tick unchanged_trans by blast
  qed
  show ?thesis
  proof (cases "ie_source envelope")
    case Cli
    with assms(1) have "key = (''cli'', ie_external_event_id envelope)"
      by (simp add: ingress_key_def)
    with Cli assms(3) taken show ?thesis
      by (auto simp: validate_ingress_def validate_cli_ingress_def op_bind_def op_bail_def
          op_lift_run new_id_run split: if_splits prod.splits sum.splits)
  next
    case Feishu
    with assms(1) obtain m where "string_arg (ie_payload envelope) ''message_id'' = Inr m"
      "key = (''feishu'', ''message:'' @ m)"
      by (auto simp: ingress_key_def split: sum.splits)
    with Feishu assms(3) taken show ?thesis
      by (auto simp: validate_ingress_def validate_feishu_ingress_def op_bind_def op_bail_def
          op_lift_run new_id_run Let_def split: if_splits prod.splits sum.splits option.splits)
  qed
qed

subsection \<open>Recovered events\<close>

text \<open>The record of an accepted envelope, read off the validated event.\<close>

definition recorded_fields :: "ValidatedEvent \<Rightarrow> FeishuFields" where
  "recorded_fields event =
     \<lparr>ff_text = um_text (ve_payload event),
      ff_message_id = (case um_message_id (ve_payload event) of None \<Rightarrow> [] | Some x \<Rightarrow> x),
      ff_chat_id = (case um_chat_id (ve_payload event) of None \<Rightarrow> [] | Some x \<Rightarrow> x),
      ff_chat_type = (case ve_chat_type event of None \<Rightarrow> [] | Some x \<Rightarrow> x),
      ff_sender_open_id = (case rp_subject (ve_principal event) of
        LocalUser \<Rightarrow> [] | FeishuOpenId x \<Rightarrow> x)\<rparr>"

definition recorded :: "env \<Rightarrow> IngressEnvelope \<Rightarrow> ValidatedEvent \<Rightarrow> json" where
  "recorded E envelope event =
     (case ie_source envelope of
        ExternalSource.Cli \<Rightarrow>
          cli_payload E envelope (um_text (ve_payload event)) (ve_event_id event)
      | ExternalSource.Feishu \<Rightarrow>
          feishu_payload E envelope (recorded_fields event) (ve_event_id event))"

lemma accept_ingress_row:
  assumes "accept_ingress_with_worker_job E event payload s = (Inr job, t)"
  shows "\<exists>e rest. journal_events t = journal_events s @ e # rest \<and> is_kind IngressAccepted e \<and>
    jr_correlation_id e = Some (ve_dedupe_key event) \<and> jr_payload_json e = json_text E payload"
  using assms
  by (auto simp: accept_ingress_with_worker_job_def Let_def event_simps is_kind_def
      dest!: tx_InrD split: if_splits)

lemma reserve_ingress_journal:
  "reserve_ingress E source ext i s = (r, t) \<Longrightarrow> journal_events t = journal_events s"
  unfolding reserve_ingress_def
  by (auto simp: op_simps utc_now_def draw_def insert_dedup_or_ignore_def tx_def Let_def
      split: if_splits)

lemma string_arg_str:
  "jget v key = Some (JStr x) \<Longrightarrow> trimmed x \<Longrightarrow> x \<noteq> [] \<Longrightarrow> string_arg v key = Inr x"
  by (simp add: string_arg_Inr trim_id)

lemma string_arg_trimmed: "string_arg v key = Inr x \<Longrightarrow> trimmed x \<and> x \<noteq> []"
  using trimmed_trim by (auto simp: string_arg_Inr)

lemma graphic_trimmed: "s \<noteq> [] \<Longrightarrow> list_all graphic s \<Longrightarrow> trimmed s"
  by (rule trimmed_solid) (auto simp: list_all_iff intro: graphic_solid)

lemma graphic_append_trimmed:
  "p \<noteq> [] \<Longrightarrow> list_all graphic p \<Longrightarrow> trimmed x \<Longrightarrow> x \<noteq> [] \<Longrightarrow> trimmed (p @ x)"
  by (rule trimmed_append) (auto simp: list_all_iff intro: graphic_solid)

lemma event_id_trimmed:
  "list_all graphic u \<Longrightarrow> trimmed (fresh_id ''event'' u) \<and> fresh_id ''event'' u \<noteq> []"
  by (simp add: fresh_id_def) (rule graphic_trimmed, simp_all add: graphic_def)

lemma conversation_key_trimmed:
  assumes "trimmed (ff_sender_open_id f)" "ff_sender_open_id f \<noteq> []"
    and "trimmed (ff_chat_id f)" "ff_chat_id f \<noteq> []"
  shows "trimmed (feishu_conversation_key f) \<and> feishu_conversation_key f \<noteq> []"
proof -
  have "trimmed (''feishu:open_id:'' @ ff_sender_open_id f)"
    using assms by (intro graphic_append_trimmed) (simp_all add: graphic_def)
  moreover have "trimmed (''feishu:chat_id:'' @ ff_chat_id f)"
    using assms by (intro graphic_append_trimmed) (simp_all add: graphic_def)
  ultimately show ?thesis by (simp add: feishu_conversation_key_def)
qed

lemma recover_cli:
  assumes "je_payload e = cli_payload E envelope m i" and "je_correlation_id e = Some k"
    and "trimmed m" "m \<noteq> []" and "trimmed i" "i \<noteq> []" and "k = ''cli:'' @ ie_external_event_id envelope"
  shows "recover_validated_event config e =
    Inr ((cli_event config envelope m i)\<lparr>ve_occurred_at := je_created_at e\<rparr>)"
proof -
  let ?p = "cli_payload E envelope m i"
  have "trimmed ''cli''" by code_simp
  then have "string_arg ?p ''source'' = Inr ''cli''" "string_arg ?p ''event_id'' = Inr i"
    "string_arg ?p ''text'' = Inr m"
    using assms by (auto intro!: string_arg_str simp: cli_payload_def)
  with assms show ?thesis
    by (simp add: recover_validated_event_def recover_cli_event_def cli_event_def)
qed

lemma recover_feishu:
  assumes "je_payload e = feishu_payload E envelope f i" and "je_correlation_id e = Some k"
    and "trimmed i" "i \<noteq> []" and "k = ''feishu:message:'' @ ff_message_id f"
    and "list_all (\<lambda>x. trimmed x \<and> x \<noteq> []) [ff_message_id f, ff_chat_id f, ff_sender_open_id f]"
    and "trim (normalized_text (ie_payload envelope)) = m" "m \<noteq> []"
  shows "recover_validated_event config e =
    Inr ((feishu_event config envelope (f\<lparr>ff_text := m\<rparr>) i)\<lparr>ve_occurred_at := je_created_at e\<rparr>)"
proof -
  let ?p = "feishu_payload E envelope f i"
  have "trimmed ''feishu''" by (rule graphic_trimmed) (simp_all add: graphic_def)
  moreover have "trimmed (feishu_conversation_key f) \<and> feishu_conversation_key f \<noteq> []"
    using assms(6) by (intro conversation_key_trimmed) auto
  ultimately have "string_arg ?p ''source'' = Inr ''feishu''" "string_arg ?p ''event_id'' = Inr i"
    "string_arg ?p ''sender_open_id'' = Inr (ff_sender_open_id f)"
    "string_arg ?p ''chat_id'' = Inr (ff_chat_id f)"
    "string_arg ?p ''conversation_key'' = Inr (feishu_conversation_key f)"
    "string_arg ?p ''message_id'' = Inr (ff_message_id f)"
    using assms(3,4,6) by (simp_all add: string_arg_str feishu_payload_def)
  moreover have "string_arg ?p ''text'' = Inr m"
    using assms(7,8) by (simp add: string_arg_Inr feishu_payload_def)
  moreover have "str_field ?p ''chat_type'' = Some (ff_chat_type f)"
    by (simp add: feishu_payload_def)
  ultimately show ?thesis
    using assms(1,2,5)
    by (simp add: recover_validated_event_def recover_feishu_event_def feishu_event_def
        feishu_conversation_key_def)
qed

lemma row_to_event_fields:
  "json_parse E (jr_payload_json r) = Some p \<Longrightarrow> je_payload (row_to_event E r) = p"
  "je_correlation_id (row_to_event E r) = jr_correlation_id r"
  "je_created_at (row_to_event E r) = jr_created_at r"
  by (simp_all add: row_to_event_def)

text \<open>An accepted envelope leaves its record in the journal, and recovery reads the event back from it.\<close>

lemma validate_cli_recovered:
  assumes "validate_cli_ingress E config envelope s = (Inr event, t)"
    and "ie_source envelope = ExternalSource.Cli" and "list_all graphic (uuid_at E (tick s))"
    and "json_parse E (json_text E (recorded E envelope event)) = Some (recorded E envelope event)"
  shows "\<exists>e rest. journal_events t = journal_events s @ e # rest \<and> is_kind IngressAccepted e \<and>
    recover_validated_event config (row_to_event E e) = Inr (event\<lparr>ve_occurred_at := jr_created_at e\<rparr>)"
proof -
  from assms(1) obtain m i u v job where m: "string_arg (ie_payload envelope) ''text'' = Inr m"
    and i: "i = fresh_id ''event'' (uuid_at E (tick s))"
    and r: "reserve_ingress E ''cli'' (ie_external_event_id envelope) i u = (Inr True, v)"
    and event: "event = cli_event config envelope m i"
    and acc: "accept_ingress_with_worker_job E event (cli_payload E envelope m i) v = (Inr job, t)"
    and u: "u = s\<lparr>tick := Suc (tick s)\<rparr>"
    by (rule validate_cli_Inr)
  have rec: "recorded E envelope event = cli_payload E envelope m i"
    using assms(2) by (simp add: recorded_def event cli_event_def)
  from accept_ingress_row [OF acc] obtain e rest where
    e: "journal_events t = journal_events v @ e # rest" "is_kind IngressAccepted e"
      "jr_correlation_id e = Some (ve_dedupe_key event)"
      "jr_payload_json e = json_text E (cli_payload E envelope m i)" by blast
  have p: "je_payload (row_to_event E e) = cli_payload E envelope m i"
    using assms(4) by (intro row_to_event_fields) (simp add: e rec)
  have "recover_validated_event config (row_to_event E e) =
      Inr (event\<lparr>ve_occurred_at := jr_created_at e\<rparr>)"
    using recover_cli [OF p, of "ve_dedupe_key event" config] string_arg_trimmed [OF m]
      event_id_trimmed [OF assms(3)] e(3)
    by (simp add: row_to_event_fields event i) (simp add: cli_event_def)
  moreover have "journal_events v = journal_events s"
    using reserve_ingress_journal [OF r] u by simp
  ultimately show ?thesis using e by auto
qed

lemma validate_feishu_recovered:
  assumes "validate_feishu_ingress E config envelope s = (Inr event, t)"
    and "ie_source envelope = ExternalSource.Feishu" and "list_all graphic (uuid_at E (tick s))"
    and "json_parse E (json_text E (recorded E envelope event)) = Some (recorded E envelope event)"
    and "trim (normalized_text (ie_payload envelope)) = m" "m \<noteq> []"
  shows "\<exists>e rest. journal_events t = journal_events s @ e # rest \<and> is_kind IngressAccepted e \<and>
    recover_validated_event config (row_to_event E e) = Inr (event\<lparr>
      ve_payload := UserMessage m (um_message_id (ve_payload event)) (um_chat_id (ve_payload event)),
      ve_occurred_at := jr_created_at e\<rparr>)"
proof -
  from assms(1) obtain f i u v job where
    f: "string_arg (ie_payload envelope) ''message_id'' = Inr (ff_message_id f)"
      "string_arg (ie_payload envelope) ''chat_id'' = Inr (ff_chat_id f)"
      "string_arg (ie_payload envelope) ''sender_open_id'' = Inr (ff_sender_open_id f)"
    and i: "i = fresh_id ''event'' (uuid_at E (tick s))"
    and r: "reserve_ingress E ''feishu'' (''message:'' @ ff_message_id f) i u = (Inr True, v)"
    and event: "event = feishu_event config envelope f i"
    and acc: "accept_ingress_with_worker_job E event (feishu_payload E envelope f i) v = (Inr job, t)"
    and u: "u = s\<lparr>tick := Suc (tick s)\<rparr>"
    by (rule validate_feishu_Inr)
  have "recorded_fields event = f"
    by (simp add: recorded_fields_def event feishu_event_def feishu_principal_def)
  then have rec: "recorded E envelope event = feishu_payload E envelope f i"
    using assms(2) by (simp add: recorded_def event feishu_event_def)
  from accept_ingress_row [OF acc] obtain e rest where
    e: "journal_events t = journal_events v @ e # rest" "is_kind IngressAccepted e"
      "jr_correlation_id e = Some (ve_dedupe_key event)"
      "jr_payload_json e = json_text E (feishu_payload E envelope f i)" by blast
  have p: "je_payload (row_to_event E e) = feishu_payload E envelope f i"
    using assms(4) by (intro row_to_event_fields) (simp add: e rec)
  have "recover_validated_event config (row_to_event E e) =
      Inr ((feishu_event config envelope (f\<lparr>ff_text := m\<rparr>) i)\<lparr>ve_occurred_at := jr_created_at e\<rparr>)"
    using recover_feishu [OF p, of "ve_dedupe_key event" m config] f [THEN string_arg_trimmed]
      event_id_trimmed [OF assms(3)] assms(5,6) e(3)
    by (simp add: row_to_event_fields event i) (auto simp: feishu_event_def)
  also have "(feishu_event config envelope (f\<lparr>ff_text := m\<rparr>) i)\<lparr>ve_occurred_at := jr_created_at e\<rparr> =
    event\<lparr>ve_payload := UserMessage m (um_message_id (ve_payload event)) (um_chat_id (ve_payload event)),
      ve_occurred_at := jr_created_at e\<rparr>"
    by (simp add: event feishu_event_def feishu_conversation_key_def)
  finally have "recover_validated_event config (row_to_event E e) = Inr (event\<lparr>
      ve_payload := UserMessage m (um_message_id (ve_payload event)) (um_chat_id (ve_payload event)),
      ve_occurred_at := jr_created_at e\<rparr>)" .
  moreover have "journal_events v = journal_events s"
    using reserve_ingress_journal [OF r] u by simp
  ultimately show ?thesis using e by auto
qed

subsection \<open>Decisions\<close>

text \<open>Queueing and appending leave the runs alone; reading changes nothing.\<close>

definition same_runs :: "store \<Rightarrow> store \<Rightarrow> bool" where
  "same_runs s t \<longleftrightarrow> runs t = runs s"

interpretation rn: store_frame same_runs
  by unfold_locales (simp_all add: same_runs_def)

interpretation un: store_frame unchanged
proof unfold_locales
  fix s t u :: store
  show "unchanged s t \<Longrightarrow> unchanged t u \<Longrightarrow> unchanged s u" by (rule unchanged_trans)
qed (simp_all add: unchanged_def)

lemma same_runs_statements:
  "obeys same_runs (insert_event r1)" "obeys same_runs (insert_outbox_or_ignore r2)"
  by (rule obeysI; simp add: op_simps same_runs_def)+

lemma same_runs_append:
  "obeys same_runs (append_event_tx E k ri si ci p)" "obeys same_runs (append_event E k ri si ci p)"
  unfolding append_event_tx_def append_event_def append_row_def
  by (intro rn.store_intros obeys_intros same_runs_statements)+

lemma same_runs_queue: "obeys same_runs (queue_outbox_dispatch E a si)"
  unfolding queue_outbox_dispatch_def Let_def
  by (intro rn.store_intros obeys_intros same_runs_statements same_runs_append)

lemma unchanged_reads:
  "obeys unchanged (run_status E run_id)" "obeys unchanged (approval_request_for_run E run_id)"
  "obeys unchanged (run_by_id E run_id)" "obeys unchanged (session_by_id E session_id)"
  unfolding run_status_def approval_request_for_run_def events_def run_by_id_def session_by_id_def
  by (intro un.store_intros obeys_intros)+

lemma run_status_Inr: "run_status E run_id s = (Inr x, t) \<Longrightarrow> x = status_of_run run_id s \<and> unchanged s t"
  by (auto simp: run_status_def op_simps status_of_run_def unchanged_def dest!: tx_InrD)

lemma status_of_run_same: "same_runs s t \<Longrightarrow> status_of_run i t = status_of_run i s"
  by (simp add: same_runs_def status_of_run_def)

lemma unchanged_same_runs: "unchanged s t \<Longrightarrow> same_runs s t"
  by (simp add: same_runs_def unchangedD)

lemma find_update_self:
  "(\<And>r. rr_id (f r) = rr_id r) \<Longrightarrow>
   find (\<lambda>r. rr_id r = i) (update_where (\<lambda>r. rr_id r = i) f rs) =
   map_option f (find (\<lambda>r. rr_id r = i) rs)"
  by (induction rs) (auto simp: update_where_def)

lemma set_status_Inr:
  assumes "update_run_status E i st s = (Inr (), t)" and "status_of_run i s \<noteq> None"
  shows "status_of_run i t = Some st"
  using assms by (auto simp: update_run_status_def set_run_status_def op_simps status_of_run_def
      find_update_self dest!: tx_InrD)

lemma fail_run_alt: "fail_run E i = update_run_status E i ''Failed''"
  by (simp add: fail_run_def update_run_status_def)

lemma decided_noop:
  assumes "status_of_run run_id s \<noteq> Some ''AwaitingApproval''"
  shows "unchanged s (snd (approve_run E run_id s))" "unchanged s (snd (deny_run E run_id s))"
  using assms obeysD [OF unchanged_reads(1) [of E run_id]] run_status_Inr [of E run_id s]
  by (auto simp: approve_run_def deny_run_def op_bind_def op_return_def
      split: prod.splits sum.splits)

lemma approve_run_Inr:
  assumes "approve_run E run_id s = (Inr (), t)"
    and "status_of_run run_id s = Some ''AwaitingApproval''"
  shows "status_of_run run_id t = Some ''WaitingDispatch''"
proof -
  from assms obtain p a b si x y c u v w z where 1: "approval_request_for_run E run_id u = (Inr p, v)"
    and 0: "unchanged s u"
    and 2: "append_event E ApprovalGranted (Some run_id) si a x v = (Inr y, w)"
    and "queue_outbox_dispatch E b si w = (Inr c, z)"
    and 3: "update_run_status E run_id ''WaitingDispatch'' z = (Inr (), t)"
    unfolding approve_run_def
    by (auto elim!: op_bind_InrD simp: op_then_def op_bail_def op_lift_run dest!: run_status_Inr
        split: option.splits if_splits)
  then have "same_runs w z" using obeysD [OF same_runs_queue] by blast
  moreover have "same_runs v w" using obeysD [OF same_runs_append(2) 2] .
  moreover have "same_runs u v" using obeysD [OF unchanged_reads(2) 1] by (rule unchanged_same_runs)
  moreover have "same_runs s u" using 0 by (rule unchanged_same_runs)
  ultimately have "status_of_run run_id z = status_of_run run_id s"
    by (simp add: status_of_run_same)
  with set_status_Inr [OF 3] assms(2) show ?thesis by simp
qed

lemma deny_run_Inr:
  assumes "deny_run E run_id s = (Inr (), t)"
    and "status_of_run run_id s = Some ''AwaitingApproval''"
  shows "status_of_run run_id t = Some ''Failed''"
proof -
  from assms obtain p si x y u v w where 1: "approval_request_for_run E run_id u = (Inr p, v)"
    and 0: "unchanged s u"
    and 2: "append_event E ApprovalDenied (Some run_id) si None x v = (Inr y, w)"
    and 3: "update_run_status E run_id ''Failed'' w = (Inr (), t)"
    unfolding deny_run_def Let_def fail_run_alt
    by (auto elim!: op_bind_InrD simp: op_then_def op_bail_def dest!: run_status_Inr
        split: if_splits)
  have "same_runs v w" using obeysD [OF same_runs_append(2) 2] .
  moreover have "same_runs u v" using obeysD [OF unchanged_reads(2) 1] by (rule unchanged_same_runs)
  moreover have "same_runs s u" using 0 by (rule unchanged_same_runs)
  ultimately have "status_of_run run_id w = status_of_run run_id s"
    by (simp add: status_of_run_same)
  with set_status_Inr [OF 3] assms(2) show ?thesis by simp
qed

end
