(* ===== verification/Gateway_Properties.thy ===== *)
theory Gateway_Properties
  imports Gateway_Ingress
begin

section \<open>Properties of the gateway\<close>

text \<open>
  Ingress is accepted once and read back from the journal as it was validated (with the one
  exception of long Feishu texts); continuations fail closed; an operator's decision on a run is
  final, unless it is interrupted between its statements.
\<close>

subsection \<open>Ingress\<close>

text \<open>C16: An external message is accepted once. After \<open>validate_ingress\<close> accepted an envelope, every
  envelope with the same reservation key (the external id on the command line, the message id on
  Feishu) is rejected in every later state, whatever else it contains and whatever the
  configuration is by then, and changes no table.\<close>

theorem ingress_accepted_once:
  assumes "validate_ingress E config envelope s = (Inr event, t)" and "evolves E t u"
    and "ingress_key envelope' = ingress_key envelope"
    and "validate_ingress E config' envelope' u = (r, v)"
  shows "(\<exists>e. r = Inl e) \<and> unchanged u v"
proof -
  from validate_reserves [OF assms(1)] obtain key where
    key: "ingress_key envelope = Some key" "reserved key t" by blast
  from reserved_persists [OF assms(2) key(2)] have "reserved key u" .
  with key(1) assms(3,4) validate_reserved_rejected show ?thesis by metis
qed

definition sample_message :: "string \<Rightarrow> IngressEnvelope" where
  "sample_message message = \<lparr>ie_protocol_version = ''v1'', ie_source = ExternalSource.Feishu,
     ie_external_event_id = ''x1'', ie_received_at = 5,
     ie_payload = jobj [(''text'', JStr message), (''message_id'', JStr ''m1''),
       (''chat_id'', JStr ''c1''), (''chat_type'', JStr ''p2p''), (''sender_open_id'', JStr ''o1'')],
     ie_authenticated = True, ie_routing_agent = None\<rparr>"

definition sample_ingress :: "(string + ValidatedEvent) \<times> store" where
  "sample_ingress = validate_ingress sample_env sample_config (sample_message ''hi'') empty_store"

lemma sample_ingress_Inr: "\<exists>event t. sample_ingress = (Inr event, t)"
proof -
  have "\<not> isl (fst sample_ingress)" by code_simp
  then obtain event where "fst sample_ingress = Inr event" by (cases "fst sample_ingress") auto
  then show ?thesis by (metis prod.collapse)
qed

theorem ingress_accepted_once_witness:
  "\<exists>event t r v. validate_ingress sample_env sample_config (sample_message ''hi'') empty_store =
      (Inr event, t) \<and>
    validate_ingress sample_env sample_config (sample_message ''edited'') t = (r, v) \<and>
    (\<exists>e. r = Inl e) \<and> unchanged t v"
proof -
  obtain event t where 1: "validate_ingress sample_env sample_config (sample_message ''hi'') empty_store
      = (Inr event, t)" using sample_ingress_Inr by (auto simp: sample_ingress_def)
  obtain r v where 2: "validate_ingress sample_env sample_config (sample_message ''edited'') t = (r, v)"
    by (metis prod.exhaust)
  have "ingress_key (sample_message ''edited'') = ingress_key (sample_message ''hi'')"
    by (simp add: ingress_key_def sample_message_def string_arg_def)
  from ingress_accepted_once [OF 1 ev.frame_refl this 2] 1 2 show ?thesis by blast
qed



lemma take_chars_graphic: "list_all graphic s \<Longrightarrow> take_chars n s = take n s"
proof (induction n s rule: take_chars.induct)
  case (3 n c s)
  have "dropWhile cont_byte s = s" "takeWhile cont_byte s = []"
    using 3(2) by (cases s; auto simp: graphic_def cont_byte_def)+
  with 3 show ?case by simp
qed simp_all

text \<open>Long Feishu texts are cut. The record of an accepted Feishu message keeps only the first 500
  characters of its text, and delivery reads the record: for a text of more than 500 graphic
  characters the validated event carries the whole text, the delivered one its first 500
  characters.\<close>

theorem long_text_cut:
  assumes "validate_ingress E config envelope s = (Inr event, t)"
    and "list_all graphic (uuid_at E (tick s))"
    and "json_parse E (json_text E (recorded E envelope event)) = Some (recorded E envelope event)"
    and "ie_source envelope = ExternalSource.Feishu"
    and "str_field (ie_payload envelope) ''text'' = Some raw"
    and "list_all graphic raw" and "500 < length raw"
  shows "um_text (ve_payload event) = raw \<and>
    (\<exists>e rest delivered. journal_events t = journal_events s @ e # rest \<and>
      recover_validated_event config (row_to_event E e) = Inr delivered \<and>
      um_text (ve_payload delivered) = take 500 raw)"
proof -
  from assms(1,4) have v: "validate_feishu_ingress E config envelope s = (Inr event, t)"
    by (auto simp: validate_ingress_def op_bail_def split: if_splits)
  then obtain f :: FeishuFields and i where
    f: "string_arg (ie_payload envelope) ''text'' = Inr (ff_text f)"
    and event: "event = feishu_event config envelope f i" by (rule validate_feishu_Inr)
  have short: "list_all graphic (take 500 raw)" "take 500 raw \<noteq> []"
    using assms(6,7) by (auto simp: list_all_iff dest: in_set_takeD)
  have "trim (normalized_text (ie_payload envelope)) = take 500 raw"
    using trim_id [OF graphic_trimmed [OF short(2,1)]] assms(5,6)
    by (simp add: normalized_text_def take_chars_graphic)
  from validate_feishu_recovered [OF v assms(4,2,3) this short(2)] obtain e rest where
    "journal_events t = journal_events s @ e # rest"
    "recover_validated_event config (row_to_event E e) = Inr (event\<lparr>
      ve_payload := UserMessage (take 500 raw) (um_message_id (ve_payload event))
        (um_chat_id (ve_payload event)), ve_occurred_at := jr_created_at e\<rparr>)" by blast
  moreover have "trimmed raw" using assms(6,7) by (intro graphic_trimmed) auto
  then have "um_text (ve_payload event) = raw"
    using f assms(5) by (simp add: event feishu_event_def string_arg_def trim_id split: if_splits)
  ultimately show ?thesis by simp
qed

definition long_message :: string where
  "long_message = replicate 501 CHR ''a''"

definition long_fields :: FeishuFields where
  "long_fields = \<lparr>ff_text = long_message, ff_message_id = ''m1'', ff_chat_id = ''c1'',
     ff_chat_type = ''p2p'', ff_sender_open_id = ''o1''\<rparr>"

definition long_env :: env where
  "long_env = (let E = sample_env\<lparr>json_text := \<lambda>_. ''record''\<rparr> in
     E\<lparr>json_parse := \<lambda>_. Some (feishu_payload E (sample_message long_message) long_fields ''event_0'')\<rparr>)"

lemma long_env_simps:
  "uuid_at long_env = dec" "fault_at long_env n = False" "sha256_hex long_env = digest_text"
  "json_text long_env v = ''record''"
  "json_parse long_env x = Some (feishu_payload long_env (sample_message long_message) long_fields ''event_0'')"
  by (simp_all add: long_env_def Let_def feishu_payload_def payload_hash_def)

lemma long_message_simps:
  "list_all graphic long_message" "500 < length long_message" "long_message \<noteq> []"
  "take 500 long_message = replicate 500 CHR ''a''" "trim long_message = long_message"
proof -
  show 1: "list_all graphic long_message" "long_message \<noteq> []" "500 < length long_message"
    "take 500 long_message = replicate 500 CHR ''a''"
    by (auto simp: long_message_def list_all_iff graphic_def)
  from trim_id [OF graphic_trimmed [OF 1(2,1)]] show "trim long_message = long_message" .
qed

lemma long_ingress:
  "\<exists>t. validate_ingress long_env sample_config (sample_message long_message) empty_store =
    (Inr (feishu_event sample_config (sample_message long_message) long_fields ''event_0''), t)"
proof -
  have "trim ''m1'' = ''m1''" "trim ''c1'' = ''c1''" "trim ''p2p'' = ''p2p''" "trim ''o1'' = ''o1''"
    by code_simp+
  then have args: "string_arg (ie_payload (sample_message long_message)) ''text'' = Inr long_message"
    "string_arg (ie_payload (sample_message long_message)) ''message_id'' = Inr ''m1''"
    "string_arg (ie_payload (sample_message long_message)) ''chat_id'' = Inr ''c1''"
    "string_arg (ie_payload (sample_message long_message)) ''chat_type'' = Inr ''p2p''"
    "string_arg (ie_payload (sample_message long_message)) ''sender_open_id'' = Inr ''o1''"
    by (simp_all add: string_arg_def sample_message_def long_message_simps)
  have "feishu_skip sample_config (ie_payload (sample_message long_message)) long_message ''c1''
      ''p2p'' ''o1'' = None"
    by (simp add: feishu_skip_def sample_config_def sample_message_def long_message_simps Let_def)
  moreover have "fresh_id ''event'' (dec 0) = ''event_0''" by code_simp
  moreover have "ie_protocol_version (sample_message long_message) = ''v1''"
    "ie_authenticated (sample_message long_message)"
    "ie_source (sample_message long_message) = ExternalSource.Feishu"
    by (simp_all add: sample_message_def)
  ultimately show ?thesis
    by (simp add: validate_ingress_def validate_feishu_ingress_def args op_bind_def op_lift_run
        new_id_run long_env_simps empty_store_def op_then_def op_return_def reserve_ingress_def
        utc_now_def draw_def tx_def insert_dedup_or_ignore_def op_query_def op_update_def Let_def
        accept_ingress_with_worker_job_def event_simps long_fields_def)
qed

theorem long_text_cut_witness:
  "\<exists>event t e rest delivered.
     validate_ingress long_env sample_config (sample_message long_message) empty_store =
       (Inr event, t) \<and> um_text (ve_payload event) = long_message \<and> journal_events t = e # rest \<and>
     recover_validated_event sample_config (row_to_event long_env e) = Inr delivered \<and>
     um_text (ve_payload delivered) = replicate 500 CHR ''a''"
proof -
  let ?event = "feishu_event sample_config (sample_message long_message) long_fields ''event_0''"
  from long_ingress obtain t where
    v: "validate_ingress long_env sample_config (sample_message long_message) empty_store =
      (Inr ?event, t)" by blast
  have "recorded_fields ?event = long_fields"
    by (simp add: recorded_fields_def feishu_event_def feishu_principal_def long_fields_def)
  then have p: "json_parse long_env (json_text long_env
      (recorded long_env (sample_message long_message) ?event)) =
    Some (recorded long_env (sample_message long_message) ?event)"
    by (simp add: recorded_def long_env_simps) (simp add: sample_message_def feishu_event_def)
  have u: "list_all graphic (uuid_at long_env (tick empty_store))"
    by (simp add: long_env_simps empty_store_def) code_simp
  have m: "ie_source (sample_message long_message) = ExternalSource.Feishu"
    "str_field (ie_payload (sample_message long_message)) ''text'' = Some long_message"
    by (simp_all add: sample_message_def)
  from long_text_cut [OF v u p m long_message_simps(1,2)] v show ?thesis
    by (auto simp: long_message_simps(4) empty_store_def)
qed

subsection \<open>Decisions on runs\<close>


definition sample_request :: json where
  "sample_request = jobj [(''invocation_id'', JStr ''i1''), (''operation'', JStr ''op''),
     (''session_id'', JStr ''session_1'')]"

definition sample_paused :: store where
  "sample_paused = (let r = run_row sample_run;
       s = empty_store\<lparr>runs := [r\<lparr>rr_status := ''AwaitingApproval''\<rparr>]\<rparr> in
     snd (append_event sample_env ApprovalRequested (Some ''run_1'') None None sample_request s))"



subsection \<open>Continuations\<close>

lemma accept_continuation_unchanged:
  assumes "accept_session_continuation E request_id session_id trigger caller key nxt s = (r, t)"
    and "\<nexists>e. r = Inr (Some e)"
  shows "unchanged s t"
  using assms unfolding accept_session_continuation_def
  by (cases r) (auto simp: op_simps unchanged_def utc_now_def draw_def Let_def append_event_tx_run
      dest!: tx_InlD tx_InrD split: option.splits if_splits)

lemma unchanged_guard: "obeys unchanged (continuation_guard E request)"
  unfolding continuation_guard_def by (intro un.store_intros obeys_intros unchanged_reads)

lemma found_run: "find (\<lambda>r. rr_id r = i) rs = Some r \<Longrightarrow> rr_id r = i"
  by (auto simp: find_Some_iff)

lemma found_session: "find (\<lambda>r. sr_id r = i) rs = Some r \<Longrightarrow> sr_id r = i"
  by (auto simp: find_Some_iff)

lemma run_by_id_Inr:
  "run_by_id E i s = (Inr x, t) \<Longrightarrow>
   x = map_option run_of_row (find (\<lambda>r. rr_id r = i) (runs s)) \<and> unchanged s t"
  by (auto simp: run_by_id_def op_simps unchanged_def dest!: tx_InrD)

lemma session_by_id_Inr:
  "session_by_id E i s = (Inr (Some x), t) \<Longrightarrow>
   \<exists>r. find (\<lambda>r. sr_id r = i) (sessions s) = Some r \<and> s_id x = i \<and>
     s_agent_id x = sr_agent_id r \<and> channel_of_text (sr_channel r) = Some (s_channel x)"
  by (auto simp: session_by_id_def op_simps dest!: tx_InrD split: option.splits)
    (metis found_session)

lemma continuation_guard_Inr:
  assumes "continuation_guard E request s = (Inr (trigger, session), t)"
  shows "cr_idempotency_key request = ''continuation:'' @ cr_trigger_run_id request \<and>
    s_id session = r_session_id trigger \<and> r_id trigger = cr_trigger_run_id request \<and>
    (\<exists>run row. find (\<lambda>x. rr_id x = cr_trigger_run_id request) (runs s) = Some run \<and>
      trigger = run_of_row run \<and> find (\<lambda>x. sr_id x = rr_session_id run) (sessions s) = Some row \<and>
      cr_expected_session_id request \<in> {None, Some (rr_session_id run)} \<and>
      rr_agent_id run = sr_agent_id row \<and>
      (\<exists>c. channel_of_text (sr_channel row) = Some c \<and>
         same_transport (rp_source (rr_principal run)) c))"
  using assms unfolding continuation_guard_def
  by (auto elim!: op_bind_InrD simp: op_bail_def op_return_def dest!: run_by_id_Inr
      session_by_id_Inr split: if_splits option.splits)
    (auto simp: run_of_row_def unchangedD dest: found_run)

lemma request_continuation_cases:
  assumes "request_session_continuation E request s = (r, t)"
  obtains (refused) "\<nexists>x. r = Inr (Some x)" "unchanged s t"
    | (accepted) trigger session u v request_id nxt e where
      "continuation_guard E request s = (Inr (trigger, session), u)" "unchanged u v"
      "accept_session_continuation E request_id (s_id session) (r_id trigger)
        ''ipc:agent-loop-harness'' (cr_idempotency_key request) nxt v = (Inr (Some (e, nxt)), t)"
      "r = Inr (Some (request_id, nxt))"
proof -
  obtain g u where g: "continuation_guard E request s = (g, u)" by (metis prod.exhaust)
  from obeysD [OF unchanged_guard g] have su: "unchanged s u" .
  show thesis
  proof (cases g)
    case (Inl e)
    with g su assms show ?thesis
      by (intro refused) (auto simp: request_session_continuation_def op_bind_def)
  next
    case (Inr ts)
    obtain trigger session where ts: "ts = (trigger, session)" by (cases ts)
    let ?q = "''cont:'' @ uuid_at E (tick u)" and ?n = "fresh_id ''run'' (uuid_at E (Suc (tick u)))"
    let ?v = "u\<lparr>tick := Suc (Suc (tick u))\<rparr>"
    obtain a w where a: "accept_session_continuation E ?q (s_id session) (r_id trigger)
        ''ipc:agent-loop-harness'' (cr_idempotency_key request) ?n ?v = (a, w)" by (metis prod.exhaust)
    have uv: "unchanged u ?v" by (simp add: unchanged_def)
    have run: "request_session_continuation E request s =
        (case a of Inl e \<Rightarrow> (Inl e, w) | Inr None \<Rightarrow> (Inr None, w)
         | Inr (Some (_, n)) \<Rightarrow> (Inr (Some (?q, n)), w))"
      using g Inr ts a by (auto simp: request_session_continuation_def op_bind_def draw_def
          new_id_run op_return_def Let_def split: sum.splits option.splits)
    show ?thesis
    proof (cases "\<exists>x. a = Inr (Some x)")
      case True
      then obtain e n where "a = Inr (Some (e, n))" by auto
      moreover from accept_session_continuation_Some a this have "n = ?n" by metis
      ultimately show ?thesis using accepted [of trigger session u ?v ?q ?n e] g Inr ts a uv run assms
        by simp
    next
      case False
      from accept_continuation_unchanged [OF a] False have "unchanged ?v w" by blast
      with su uv have "unchanged s w" using unchanged_trans by blast
      with False run assms show ?thesis
        by (intro refused) (auto split: sum.splits option.splits)
    qed
  qed
qed

text \<open>Continuations fail closed. A request for a continuation that is refused or a duplicate
  changes no table. One that is accepted carries the key of its trigger run, the run is in the
  journal, belongs to the expected session if one is given, and agrees with its session on the
  agent and on the transport; exactly one continuation is added, for that run and session, and
  it holds the run id that is returned.\<close>

theorem continuation_fails_closed:
  assumes "request_session_continuation E request s = (r, t)"
  shows "case r of
      Inl _ \<Rightarrow> unchanged s t
    | Inr None \<Rightarrow> unchanged s t
    | Inr (Some (request_id, next_run_id)) \<Rightarrow>
        cr_idempotency_key request = ''continuation:'' @ cr_trigger_run_id request \<and>
        (\<exists>run session row. find (\<lambda>x. rr_id x = cr_trigger_run_id request) (runs s) = Some run \<and>
          find (\<lambda>x. sr_id x = rr_session_id run) (sessions s) = Some session \<and>
          cr_expected_session_id request \<in> {None, Some (rr_session_id run)} \<and>
          rr_agent_id run = sr_agent_id session \<and>
          (\<exists>c. channel_of_text (sr_channel session) = Some c \<and>
             same_transport (rp_source (rr_principal run)) c) \<and>
          session_continuations t = session_continuations s @ [row] \<and>
          sc_trigger_run_id row = cr_trigger_run_id request \<and>
          sc_session_id row = rr_session_id run \<and> sc_next_run_id row = next_run_id)"
  using assms
proof (cases rule: request_continuation_cases)
  case refused
  then show ?thesis by (auto split: sum.splits option.splits)
next
  case (accepted trigger session u v request_id nxt e)
  note guard = continuation_guard_Inr [OF accepted(1)]
  have "unchanged s v"
    using obeysD [OF unchanged_guard accepted(1)] accepted(2) by (rule unchanged_trans)
  then have "session_continuations v = session_continuations s" by (simp add: unchangedD)
  with accept_session_continuation_Some [OF accepted(3)] guard accepted(4) show ?thesis
    by (auto simp: run_of_row_def)
qed

definition sample_agreed :: store where
  "sample_agreed = empty_store\<lparr>runs := [run_row (sample_run\<lparr>r_agent_id := ''agent_1''\<rparr>)],
     sessions := [\<lparr>sr_id = ''session_1'', sr_agent_id = ''agent_1'', sr_channel = ''Cli'',
       sr_conversation_key = ''local'', sr_last_active_at = 0, sr_status = ''Active'', sr_version = 1\<rparr>]\<rparr>"

definition sample_continuation :: SessionContinuationRequest where
  "sample_continuation = \<lparr>cr_trigger_run_id = ''run_1'', cr_expected_session_id = Some ''session_1'',
     cr_idempotency_key = ''continuation:run_1''\<rparr>"

theorem continuation_fails_closed_witness:
  "\<exists>q n t row. request_session_continuation sample_env sample_continuation sample_agreed =
      (Inr (Some (q, n)), t) \<and> session_continuations t = [row] \<and> sc_next_run_id row = n \<and>
    sc_session_id row = ''session_1''"
proof -
  have "case fst (request_session_continuation sample_env sample_continuation sample_agreed) of
      Inr (Some _) \<Rightarrow> True | _ \<Rightarrow> False" by code_simp
  then obtain q n t where r: "request_session_continuation sample_env sample_continuation
      sample_agreed = (Inr (Some (q, n)), t)"
    by (cases "request_session_continuation sample_env sample_continuation sample_agreed")
      (auto split: sum.splits option.splits)
  have "session_continuations sample_agreed = []" by code_simp
  moreover have "list_all (\<lambda>x. rr_session_id x = ''session_1'') (runs sample_agreed)" by code_simp
  then have "find p (runs sample_agreed) = Some x \<Longrightarrow> rr_session_id x = ''session_1''" for p x
    by (auto simp: find_Some_iff list_all_length)
  ultimately show ?thesis
    using continuation_fails_closed [OF r] r by fastforce
qed

end
