(* ===== verification/Agent_Loop.thy ===== *)
theory Agent_Loop
  imports Json_Value
begin

section \<open>The agent loop\<close>

text \<open>
  The crate \<open>agent-runtime\<close>: a loop of model turns and tool calls behind two interfaces, the model
  and the invocation port. Both are outside the crate: they are fields of the loop, arbitrary
  functions on an arbitrary world. \<open>loop { ... }\<close> has no syntactic bound; the model is a recursive
  function whose termination proof uses the number of tool calls the loop may still make.

  The contract of the loop is an inductive relation between the exchanges a run has with its
  model and port and the result it returns. A run implements it: the log that instrumented
  interfaces keep is always such a conversation.
\<close>

subsection \<open>Data\<close>

datatype InvocationStatus = Succeeded | Failed | Unknown

record InvocationResult =
  ir_invocation_id :: string
  ir_status :: InvocationStatus
  ir_output :: json

record Tool =
  tool_name :: string
  tool_description :: string
  tool_parameters :: json

record Action =
  act_tool :: string
  act_arguments :: json

record ToolResult =
  tr_tool :: string
  tr_text :: string

record Turn =
  turn_user_text :: string
  turn_tool_view :: "Tool list"
  turn_follow_ups :: "ToolResult list"

record ModelOutput =
  mo_text :: string
  mo_action :: "Action option"

text \<open>
  The loop with its model and its port. Beside them stand the random identifiers of the
  \<open>uuid\<close> crate and the printing of JSON values.
\<close>

record 'w RuntimeLoop =
  port_submit :: "string \<Rightarrow> string \<Rightarrow> json \<Rightarrow> ('w, InvocationResult) op"
  model_complete :: "Turn \<Rightarrow> ('w, ModelOutput) op"
  max_tool_calls :: nat
  fresh_uuid :: "'w \<Rightarrow> string \<times> 'w"
  show_json :: "json \<Rightarrow> string"

subsection \<open>Operations\<close>

definition with_max_tool_calls ::
  "(string \<Rightarrow> string \<Rightarrow> json \<Rightarrow> ('w, InvocationResult) op) \<Rightarrow> (Turn \<Rightarrow> ('w, ModelOutput) op) \<Rightarrow>
   nat \<Rightarrow> ('w \<Rightarrow> string \<times> 'w) \<Rightarrow> (json \<Rightarrow> string) \<Rightarrow> 'w RuntimeLoop" where
  "with_max_tool_calls port model n fresh show_j =
    \<lparr>port_submit = port, model_complete = model, max_tool_calls = n, fresh_uuid = fresh,
     show_json = show_j\<rparr>"

definition new_loop ::
  "(string \<Rightarrow> string \<Rightarrow> json \<Rightarrow> ('w, InvocationResult) op) \<Rightarrow> (Turn \<Rightarrow> ('w, ModelOutput) op) \<Rightarrow>
   ('w \<Rightarrow> string \<times> 'w) \<Rightarrow> (json \<Rightarrow> string) \<Rightarrow> 'w RuntimeLoop" where
  "new_loop port model = with_max_tool_calls port model 1"

definition render :: "(json \<Rightarrow> string) \<Rightarrow> InvocationResult \<Rightarrow> string" where
  "render show_j result = (case ir_status result of
      Succeeded \<Rightarrow> ''ok: '' @ show_j (ir_output result)
    | Failed \<Rightarrow> ''failed: '' @ show_j (ir_output result)
    | Unknown \<Rightarrow> ''unknown: '' @ show_j (ir_output result))"

definition limit_error :: "string \<Rightarrow> nat \<Rightarrow> string" where
  "limit_error tool n =
    ''tool_call_limit_reached: '' @ tool @ '' (max_tool_calls='' @ dec n @ '')''"

text \<open>The body of the loop, with the tool results of the rounds before it.\<close>

function run_rounds ::
  "'w RuntimeLoop \<Rightarrow> string \<Rightarrow> Tool list \<Rightarrow> ToolResult list \<Rightarrow> ('w, string) op" where
  "run_rounds L user_text tool_view follow_ups w =
    (case model_complete L \<lparr>turn_user_text = user_text, turn_tool_view = tool_view,
                            turn_follow_ups = follow_ups\<rparr> w of
      (Inl e, w) \<Rightarrow> (Inl e, w)
    | (Inr out, w) \<Rightarrow>
        (case mo_action out of
          None \<Rightarrow> (Inr (mo_text out), w)
        | Some action \<Rightarrow>
            if max_tool_calls L \<le> length follow_ups
            then (Inl (limit_error (act_tool action) (max_tool_calls L)), w)
            else let (uuid, w) = fresh_uuid L w in
              (case port_submit L (''inv_'' @ uuid) (act_tool action) (act_arguments action) w of
                (Inl e, w) \<Rightarrow> (Inl e, w)
              | (Inr result, w) \<Rightarrow>
                  run_rounds L user_text tool_view
                    (follow_ups @ [\<lparr>tr_tool = act_tool action,
                                    tr_text = render (show_json L) result\<rparr>]) w)))"
  by pat_completeness auto
termination
  by (relation "measure (\<lambda>(L, _, _, fs, _). max_tool_calls L - length fs)") auto

declare run_rounds.simps [simp del]

definition run_loop :: "'w RuntimeLoop \<Rightarrow> string \<Rightarrow> Tool list \<Rightarrow> ('w, string) op" where
  "run_loop L user_text tool_view = run_rounds L user_text tool_view []"

subsection \<open>The contract\<close>

text \<open>What happens at the two interfaces.\<close>

datatype exchange =
    Asked Turn "string + ModelOutput"
  | Submitted string string json "string + InvocationResult"

text \<open>
  \<open>conversation show_j n user view fs tr r\<close>: after the tool results \<open>fs\<close>, a run that may make
  \<open>n\<close> tool calls in all has the exchanges \<open>tr\<close> and returns \<open>r\<close>.
\<close>

inductive conversation ::
  "(json \<Rightarrow> string) \<Rightarrow> nat \<Rightarrow> string \<Rightarrow> Tool list \<Rightarrow> ToolResult list \<Rightarrow> exchange list \<Rightarrow>
   string + string \<Rightarrow> bool"
  for show_j n user view where
  model_fails:
    "conversation show_j n user view fs [Asked (Turn.make user view fs) (Inl e)] (Inl e)"
| answers:
    "mo_action out = None \<Longrightarrow>
     conversation show_j n user view fs [Asked (Turn.make user view fs) (Inr out)]
       (Inr (mo_text out))"
| exhausted:
    "mo_action out = Some a \<Longrightarrow> n \<le> length fs \<Longrightarrow>
     conversation show_j n user view fs [Asked (Turn.make user view fs) (Inr out)]
       (Inl (limit_error (act_tool a) n))"
| port_fails:
    "mo_action out = Some a \<Longrightarrow> length fs < n \<Longrightarrow>
     conversation show_j n user view fs
       [Asked (Turn.make user view fs) (Inr out),
        Submitted i (act_tool a) (act_arguments a) (Inl e)] (Inl e)"
| continues:
    "mo_action out = Some a \<Longrightarrow> length fs < n \<Longrightarrow>
     conversation show_j n user view (fs @ [ToolResult.make (act_tool a) (render show_j res)]) tr r \<Longrightarrow>
     conversation show_j n user view fs
       (Asked (Turn.make user view fs) (Inr out) #
        Submitted i (act_tool a) (act_arguments a) (Inr res) # tr) r"

text \<open>The same loop over interfaces that log what passes through them.\<close>

definition logged :: "'w RuntimeLoop \<Rightarrow> ('w \<times> exchange list) RuntimeLoop" where
  "logged L =
    \<lparr>port_submit = (\<lambda>i t a (w, tr). let (r, w) = port_submit L i t a w in
       (r, w, tr @ [Submitted i t a r])),
     model_complete = (\<lambda>turn (w, tr). let (r, w) = model_complete L turn w in
       (r, w, tr @ [Asked turn r])),
     max_tool_calls = max_tool_calls L,
     fresh_uuid = (\<lambda>(w, tr). let (u, w) = fresh_uuid L w in (u, w, tr)),
     show_json = show_json L\<rparr>"

lemma logged_sel [simp]:
  "model_complete (logged L) turn (w, tr) =
    (fst (model_complete L turn w), snd (model_complete L turn w),
     tr @ [Asked turn (fst (model_complete L turn w))])"
  "port_submit (logged L) i t a (w, tr) =
    (fst (port_submit L i t a w), snd (port_submit L i t a w),
     tr @ [Submitted i t a (fst (port_submit L i t a w))])"
  "fresh_uuid (logged L) (w, tr) = (fst (fresh_uuid L w), snd (fresh_uuid L w), tr)"
  "max_tool_calls (logged L) = max_tool_calls L" "show_json (logged L) = show_json L"
  by (simp_all add: logged_def split: prod.splits)

lemma logged_rounds:
  "\<exists>tr'. run_rounds (logged L) user view fs (w, tr) =
      (fst (run_rounds L user view fs w), snd (run_rounds L user view fs w), tr @ tr') \<and>
    conversation (show_json L) (max_tool_calls L) user view fs tr'
      (fst (run_rounds L user view fs w))"
proof (induction L user view fs w arbitrary: tr rule: run_rounds.induct)
  case (1 L user view fs w)
  let ?turn = "Turn.make user view fs"
  obtain r w1 where m: "model_complete L ?turn w = (r, w1)" by force
  note base = run_rounds.simps [of _ user view fs] Turn.make_def [symmetric]
    ToolResult.make_def [symmetric] m
  show ?case
  proof (cases "\<exists>out a. r = Inr out \<and> mo_action out = Some a \<and> length fs < max_tool_calls L")
    case False
    then show ?thesis
      by (cases r) (auto simp: base not_less split: option.splits
          intro: conversation.model_fails conversation.answers conversation.exhausted)
  next
    case True
    then obtain out a where o: "r = Inr out" "mo_action out = Some a" "length fs < max_tool_calls L"
      by blast
    obtain u w2 where u: "fresh_uuid L w1 = (u, w2)" by force
    obtain q w3 where q: "port_submit L (''inv_'' @ u) (act_tool a) (act_arguments a) w2 = (q, w3)"
      by force
    show ?thesis
    proof (cases q)
      case (Inl e)
      then show ?thesis
        using o u q by (auto simp: base intro: conversation.port_fails)
    next
      case (Inr res)
      let ?log = "tr @ [Asked ?turn r] @
        [Submitted (''inv_'' @ u) (act_tool a) (act_arguments a) (Inr res)]"
      have step: "run_rounds L user view fs w =
          run_rounds L user view (fs @ [ToolResult.make (act_tool a) (render (show_json L) res)]) w3"
        "run_rounds (logged L) user view fs (w, tr) =
          run_rounds (logged L) user view
            (fs @ [ToolResult.make (act_tool a) (render (show_json L) res)]) (w3, ?log)"
        using o u q Inr by (simp_all add: base)
      have "\<exists>tr'. run_rounds (logged L) user view
            (fs @ [ToolResult.make (act_tool a) (render (show_json L) res)]) (w3, ?log) =
          (fst (run_rounds L user view fs w), snd (run_rounds L user view fs w), ?log @ tr') \<and>
        conversation (show_json L) (max_tool_calls L) user view
          (fs @ [ToolResult.make (act_tool a) (render (show_json L) res)]) tr'
          (fst (run_rounds L user view fs w))"
        unfolding step(1) ToolResult.make_def
        using m o u q Inr by (intro "1.IH") (auto simp: Turn.make_def)
      then show ?thesis
        unfolding step(2) using o Inr
        by (auto intro!: conversation.continues)
    qed
  qed
qed

subsection \<open>Consequences of the contract\<close>

fun is_submitted :: "exchange \<Rightarrow> bool" where
  "is_submitted (Submitted _ _ _ _) = True"
| "is_submitted (Asked _ _) = False"

text \<open>
  The tool results of the submissions in a sequence of exchanges.
\<close>

fun results :: "(json \<Rightarrow> string) \<Rightarrow> exchange list \<Rightarrow> ToolResult list" where
  "results show_j [] = []"
| "results show_j (Submitted i t a (Inr res) # tr) =
    ToolResult.make t (render show_j res) # results show_j tr"
| "results show_j (_ # tr) = results show_j tr"

lemma results_append [simp]: "results show_j (xs @ ys) = results show_j xs @ results show_j ys"
  by (induction show_j xs rule: results.induct) auto

lemma conversation_submits:
  "conversation show_j n user view fs tr r \<Longrightarrow> length (filter is_submitted tr) \<le> n - length fs"
  by (induction rule: conversation.induct) auto

lemma conversation_asks:
  "conversation show_j n user view fs tr r \<Longrightarrow>
   length (filter (\<lambda>x. \<not> is_submitted x) tr) \<le> Suc (length (filter is_submitted tr))"
  by (induction rule: conversation.induct) auto

lemma conversation_turns:
  "conversation show_j n user view fs tr r \<Longrightarrow> tr = xs @ Asked turn q # ys \<Longrightarrow>
   turn = Turn.make user view (fs @ results show_j xs)"
  by (induction arbitrary: xs rule: conversation.induct)
    (auto simp: Cons_eq_append_conv append_eq_Cons_conv)

lemma conversation_reply:
  "conversation show_j n user view fs tr r \<Longrightarrow> r = Inr text \<Longrightarrow>
   \<exists>xs turn out. tr = xs @ [Asked turn (Inr out)] \<and> mo_action out = None \<and> mo_text out = text \<and>
     (\<forall>x \<in> set xs. case x of Asked _ q \<Rightarrow> \<exists>o1 a. q = Inr o1 \<and> mo_action o1 = Some a
       | Submitted _ _ _ q \<Rightarrow> \<exists>res. q = Inr res)"
proof (induction rule: conversation.induct)
  case (continues out a fs res tr r i)
  then obtain xs turn out' where
    "tr = xs @ [Asked turn (Inr out')] \<and> mo_action out' = None \<and> mo_text out' = text \<and>
     (\<forall>x \<in> set xs. case x of Asked _ q \<Rightarrow> \<exists>o1 a. q = Inr o1 \<and> mo_action o1 = Some a
       | Submitted _ _ _ q \<Rightarrow> \<exists>res. q = Inr res)" by blast
  then show ?case
    using continues.hyps(1)
    by (intro exI [of _ "Asked (Turn.make user view fs) (Inr out) #
      Submitted i (act_tool a) (act_arguments a) (Inr res) # xs"]) auto
qed auto

subsection \<open>Properties\<close>

text \<open>C20: A run implements the contract of the loop: what it exchanges with its model and its port,
  from the first turn to the result, is a conversation of the abstract relation with that result,
  and logging the exchanges changes neither the result nor the world it ends in.\<close>
theorem agent_loop_refines:
  "\<exists>tr. run_loop (logged L) user view (w, []) =
      (fst (run_loop L user view w), snd (run_loop L user view w), tr) \<and>
    conversation (show_json L) (max_tool_calls L) user view [] tr (fst (run_loop L user view w))"
  using logged_rounds [of L user view "[]" w "[]"] by (simp add: run_loop_def)

lemma agent_loop_bounds:
  assumes "run_loop (logged L) user view (w, []) = (r, w', tr)"
  shows "length (filter is_submitted tr) \<le> max_tool_calls L"
    and "length (filter (\<lambda>x. \<not> is_submitted x) tr) \<le> Suc (length (filter is_submitted tr))"
    and "tr = xs @ Asked turn q # ys \<Longrightarrow> turn_follow_ups turn = results (show_json L) xs"
    and "r = Inr reply \<Longrightarrow> \<exists>turn out. last tr = Asked turn (Inr out) \<and> mo_action out = None \<and>
      mo_text out = reply \<and> (\<forall>x \<in> set (butlast tr). \<forall>i t a e. x \<noteq> Submitted i t a (Inl e))"
proof -
  have c: "conversation (show_json L) (max_tool_calls L) user view [] tr r"
    using logged_rounds [of L user view "[]" w "[]"] assms by (auto simp: run_loop_def)
  show "length (filter is_submitted tr) \<le> max_tool_calls L"
    using conversation_submits [OF c] by simp
  show "length (filter (\<lambda>x. \<not> is_submitted x) tr) \<le> Suc (length (filter is_submitted tr))"
    by (rule conversation_asks [OF c])
  show "turn_follow_ups turn = results (show_json L) xs" if "tr = xs @ Asked turn q # ys"
    using conversation_turns [OF c that] by (simp add: Turn.make_def)
  show "\<exists>turn out. last tr = Asked turn (Inr out) \<and> mo_action out = None \<and>
      mo_text out = reply \<and> (\<forall>x \<in> set (butlast tr). \<forall>i t a e. x \<noteq> Submitted i t a (Inl e))"
    if "r = Inr reply"
    using conversation_reply [OF c that] by fastforce
qed

text \<open>C21: The loop always ends. A run submits at most \<open>max_tool_calls\<close> invocations and asks the
  model at most once more than that; every turn shows the model the results of all earlier
  submissions in their order; and a reply is the text of the last output of the model, which asked
  for no action, after rounds none of which failed.\<close>
theorem agent_loop_bounded:
  assumes "run_loop (logged L) user view (w, []) = (r, w', tr)"
  shows "length (filter is_submitted tr) \<le> max_tool_calls L \<and>
    length (filter (\<lambda>x. \<not> is_submitted x) tr) \<le> Suc (length (filter is_submitted tr)) \<and>
    (\<forall>xs turn q ys. tr = xs @ Asked turn q # ys \<longrightarrow>
      turn_follow_ups turn = results (show_json L) xs) \<and>
    (\<forall>reply. r = Inr reply \<longrightarrow> (\<exists>turn out. last tr = Asked turn (Inr out) \<and> mo_action out = None \<and>
      mo_text out = reply \<and> (\<forall>x \<in> set (butlast tr). \<forall>i t a e. x \<noteq> Submitted i t a (Inl e))))"
  using agent_loop_bounds [OF assms] by blast

text \<open>
  A loop whose model asks for one tool and then answers with what it saw; the world counts the
  identifiers drawn.
\<close>

definition sample_loop :: "nat RuntimeLoop" where
  "sample_loop = new_loop
    (\<lambda>i t a w. (Inr \<lparr>ir_invocation_id = i, ir_status = Succeeded, ir_output = a\<rparr>, w))
    (\<lambda>turn w. (Inr (case turn_follow_ups turn of
        [] \<Rightarrow> \<lparr>mo_text = [], mo_action = Some \<lparr>act_tool = ''c17'', act_arguments = JNull\<rparr>\<rparr>
      | f # _ \<Rightarrow> \<lparr>mo_text = tr_text f, mo_action = None\<rparr>), w))
    (\<lambda>w. (''u'', Suc w)) (\<lambda>_. ''null'')"

definition sample_talk :: "(string + string) \<times> nat \<times> exchange list" where
  "sample_talk = run_loop (logged sample_loop) ''hello'' [] (0, [])"

theorem agent_loop_bounded_witness:
  "sample_talk = (Inr ''ok: null'', 1, snd (snd sample_talk)) \<and>
   length (filter is_submitted (snd (snd sample_talk))) \<le> 1 \<and>
   turn_follow_ups (case snd (snd sample_talk) ! 2 of Asked turn _ \<Rightarrow> turn) =
     results (show_json sample_loop) (take 2 (snd (snd sample_talk))) \<and>
   (\<exists>turn out. last (snd (snd sample_talk)) = Asked turn (Inr out) \<and> mo_text out = ''ok: null'')"
proof -
  have run: "run_loop (logged sample_loop) ''hello'' [] (0, []) =
      (Inr ''ok: null'', 1, snd (snd sample_talk))"
    by code_simp
  have "snd (snd sample_talk) = take 2 (snd (snd sample_talk)) @
      Asked (case snd (snd sample_talk) ! 2 of Asked turn _ \<Rightarrow> turn)
        (case snd (snd sample_talk) ! 2 of Asked _ q \<Rightarrow> q) # []"
    by code_simp
  then have "turn_follow_ups (case snd (snd sample_talk) ! 2 of Asked turn _ \<Rightarrow> turn) =
     results (show_json sample_loop) (take 2 (snd (snd sample_talk)))"
    using agent_loop_bounded [OF run] by blast
  then show ?thesis
    using run agent_loop_bounded [OF run] by (auto simp: sample_talk_def sample_loop_def new_loop_def with_max_tool_calls_def)
qed

end
