(* ===== verification/Development_Request.thy ===== *)
theory Development_Request
  imports Hash_Chain
begin

section \<open>Development requests and the component lifecycle\<close>

text \<open>
  \<open>src/src/domain/self_evolution.rs\<close>: the kinds of component that may be developed, the request
  for one with its derived identifier, the proposals that report a gap or ask for a repair, and
  the lifecycle of a component. A Rust struct that \<open>serde_json\<close> prints directly keeps its fields in
  the order of their declaration.
\<close>

subsection \<open>Kinds of component\<close>

datatype TargetKind = InvocableCapability | HookConsumerService | ContextProvider
  | ContextTransformer | ScheduledWorker | SchedulerService | IngressRouter
  | MultiRunOrchestrator | ConnectorExtension

fun component_profile :: "TargetKind \<Rightarrow> string" where
  "component_profile InvocableCapability = ''invocable-capability-v0''"
| "component_profile HookConsumerService = ''hook-consumer-service-v0''"
| "component_profile ContextProvider = ''context-provider-v0''"
| "component_profile ContextTransformer = ''context-transformer-v0''"
| "component_profile ScheduledWorker = ''scheduled-worker-v0''"
| "component_profile SchedulerService = ''scheduled-worker-v0''"
| "component_profile IngressRouter = ''router-service-v0''"
| "component_profile ConnectorExtension = ''router-service-v0''"
| "component_profile MultiRunOrchestrator = ''multi-run-orchestrator-v0''"

fun deployment_profile :: "TargetKind \<Rightarrow> string" where
  "deployment_profile InvocableCapability = ''capability-host-v0''"
| "deployment_profile _ = ''managed-service-v0''"

text \<open>The name \<open>serde\<close> gives a kind, in snake case.\<close>

fun kind_text :: "TargetKind \<Rightarrow> string" where
  "kind_text InvocableCapability = ''invocable_capability''"
| "kind_text HookConsumerService = ''hook_consumer_service''"
| "kind_text ContextProvider = ''context_provider''"
| "kind_text ContextTransformer = ''context_transformer''"
| "kind_text ScheduledWorker = ''scheduled_worker''"
| "kind_text SchedulerService = ''scheduler_service''"
| "kind_text IngressRouter = ''ingress_router''"
| "kind_text MultiRunOrchestrator = ''multi_run_orchestrator''"
| "kind_text ConnectorExtension = ''connector_extension''"

lemma kind_text_inject [simp]: "kind_text a = kind_text b \<longleftrightarrow> a = b"
  by (cases a; cases b; simp)

subsection \<open>Requests\<close>

record DevelopmentRequest =
  dr_request_id :: string
  dr_source_subject :: string
  dr_source_scope :: string
  dr_source_message_id :: string
  dr_target_kind :: TargetKind
  dr_name :: string
  dr_requirements :: "string list"
  dr_required_contracts :: "string list"
  dr_requested_permissions :: "string list"
  dr_build_profile :: string
  dr_deployment_profile :: string
  dr_acceptance_criteria :: "string list"
  dr_idempotency_key :: string
  dr_contract_catalog_version :: string

record DevelopmentRequestDraft =
  dd_target_kind :: TargetKind
  dd_name :: string
  dd_requirements :: "string list"
  dd_required_contracts :: "string list"
  dd_requested_permissions :: "string list"
  dd_build_profile :: string
  dd_deployment_profile :: string
  dd_acceptance_criteria :: "string list"

definition new_draft :: "TargetKind \<Rightarrow> string \<Rightarrow> DevelopmentRequestDraft" where
  "new_draft kind name =
    \<lparr>dd_target_kind = kind, dd_name = name, dd_requirements = [], dd_required_contracts = [],
     dd_requested_permissions = [], dd_build_profile = component_profile kind,
     dd_deployment_profile = deployment_profile kind, dd_acceptance_criteria = []\<rparr>"

definition blank :: "string \<Rightarrow> bool" where
  "blank s \<longleftrightarrow> trim s = []"

definition is_safe_name :: "string \<Rightarrow> bool" where
  "is_safe_name s \<longleftrightarrow> s \<noteq> [] \<and> length s \<le> 128 \<and>
     list_all (\<lambda>c. ascii_lowercase c \<or> ascii_digit c \<or> c \<in> set ''._-'') s"

definition is_sha256 :: "string \<Rightarrow> bool" where
  "is_sha256 s \<longleftrightarrow> length s = 71 \<and> prefix ''sha256:'' s \<and> list_all ascii_hexdigit (drop 7 s)"

definition ensure_nonempty_unique :: "string list \<Rightarrow> string \<Rightarrow> string + unit" where
  "ensure_nonempty_unique values field =
    (if values = [] \<or> list_ex blank values \<or> \<not> distinct values
     then Inl (''DEVELOPMENT_REQUEST_INVALID_'' @ field) else Inr ())"

fun ensure_all :: "(string + unit) list \<Rightarrow> string + unit" where
  "ensure_all [] = Inr ()"
| "ensure_all (c # cs) = (case c of Inl e \<Rightarrow> Inl e | Inr _ \<Rightarrow> ensure_all cs)"

definition guard :: "bool \<Rightarrow> string \<Rightarrow> string + unit" where
  "guard ok e = (if ok then Inr () else Inl e)"

definition named_fields :: "DevelopmentRequest \<Rightarrow> (string \<times> string) list" where
  "named_fields r =
    [(''source_subject'', dr_source_subject r), (''source_scope'', dr_source_scope r),
     (''source_message_id'', dr_source_message_id r), (''name'', dr_name r),
     (''build_profile'', dr_build_profile r), (''deployment_profile'', dr_deployment_profile r),
     (''idempotency_key'', dr_idempotency_key r),
     (''contract_catalog_version'', dr_contract_catalog_version r)]"

definition validate_body :: "DevelopmentRequest \<Rightarrow> string + unit" where
  "validate_body r = ensure_all
    (map (\<lambda>(field, value). guard (\<not> blank value) (''DEVELOPMENT_REQUEST_MISSING_'' @ field))
       (named_fields r) @
     [guard (is_safe_name (dr_name r)) ''DEVELOPMENT_REQUEST_INVALID_NAME'',
      guard (dr_requirements r \<noteq> [] \<and> dr_acceptance_criteria r \<noteq> [])
        ''DEVELOPMENT_REQUEST_MISSING_REQUIREMENTS'',
      guard (dr_build_profile r = component_profile (dr_target_kind r) \<and>
          dr_deployment_profile r = deployment_profile (dr_target_kind r))
        ''DEVELOPMENT_REQUEST_PROFILE_MISMATCH'',
      ensure_nonempty_unique (dr_required_contracts r) ''REQUIRED_CONTRACTS'',
      ensure_nonempty_unique (dr_requested_permissions r) ''REQUESTED_PERMISSIONS'',
      ensure_nonempty_unique (dr_requirements r) ''REQUIREMENTS'',
      ensure_nonempty_unique (dr_acceptance_criteria r) ''ACCEPTANCE_CRITERIA''])"

definition request_json :: "DevelopmentRequest \<Rightarrow> json" where
  "request_json r = JObj
    [(''request_id'', JStr (dr_request_id r)), (''source_subject'', JStr (dr_source_subject r)),
     (''source_scope'', JStr (dr_source_scope r)),
     (''source_message_id'', JStr (dr_source_message_id r)),
     (''target_kind'', JStr (kind_text (dr_target_kind r))), (''name'', JStr (dr_name r)),
     (''requirements'', JArr (map JStr (dr_requirements r))),
     (''required_contracts'', JArr (map JStr (dr_required_contracts r))),
     (''requested_permissions'', JArr (map JStr (dr_requested_permissions r))),
     (''build_profile'', JStr (dr_build_profile r)),
     (''deployment_profile'', JStr (dr_deployment_profile r)),
     (''acceptance_criteria'', JArr (map JStr (dr_acceptance_criteria r))),
     (''idempotency_key'', JStr (dr_idempotency_key r)),
     (''contract_catalog_version'', JStr (dr_contract_catalog_version r))]"

definition derived_request_id :: "env \<Rightarrow> DevelopmentRequest \<Rightarrow> string" where
  "derived_request_id E r =
    ''devreq_'' @ sha256_hex E (json_text E (request_json (r\<lparr>dr_request_id := []\<rparr>)))"

definition validate_request :: "env \<Rightarrow> DevelopmentRequest \<Rightarrow> string + unit" where
  "validate_request E r =
    (case validate_body r of
       Inl e \<Rightarrow> Inl e
     | Inr _ \<Rightarrow>
         if dr_request_id r = [] \<or> dr_request_id r \<noteq> derived_request_id E r
         then Inl ''DEVELOPMENT_REQUEST_ID_MISMATCH'' else Inr ())"

definition draft_request ::
  "DevelopmentRequestDraft \<Rightarrow> string \<Rightarrow> string \<Rightarrow> string \<Rightarrow> string \<Rightarrow> string \<Rightarrow> DevelopmentRequest" where
  "draft_request d source_subject source_scope source_message_id idempotency_key version =
    \<lparr>dr_request_id = [], dr_source_subject = source_subject,
     dr_source_scope = source_scope, dr_source_message_id = source_message_id,
     dr_target_kind = dd_target_kind d, dr_name = dd_name d,
     dr_requirements = dd_requirements d, dr_required_contracts = dd_required_contracts d,
     dr_requested_permissions = dd_requested_permissions d,
     dr_build_profile = dd_build_profile d, dr_deployment_profile = dd_deployment_profile d,
     dr_acceptance_criteria = dd_acceptance_criteria d,
     dr_idempotency_key = idempotency_key, dr_contract_catalog_version = version\<rparr>"

definition from_draft ::
  "env \<Rightarrow> DevelopmentRequestDraft \<Rightarrow> string \<Rightarrow> string \<Rightarrow> string \<Rightarrow> string \<Rightarrow> string \<Rightarrow>
   string + DevelopmentRequest" where
  "from_draft E d source_subject source_scope source_message_id idempotency_key version =
    (let r = draft_request d source_subject source_scope source_message_id idempotency_key version in
     case validate_body r of
       Inl e \<Rightarrow> Inl e
     | Inr _ \<Rightarrow> Inr (r\<lparr>dr_request_id := derived_request_id E r\<rparr>))"

subsection \<open>Gaps and repairs\<close>

record PrimitiveGapProposal =
  pg_requested_feature :: string
  pg_attempted_external_derivation :: "string list"
  pg_available_contracts :: "string list"
  pg_missing_fact_or_boundary :: string
  pg_proof_of_blockage :: "string list"
  pg_proposed_minimal_primitive :: string
  pg_security_impact :: string
  pg_compatibility_impact :: string
  pg_tests :: "string list"
  pg_resume_token :: string

definition validate_gap :: "PrimitiveGapProposal \<Rightarrow> string + unit" where
  "validate_gap p =
    (if blank (pg_requested_feature p) \<or> blank (pg_missing_fact_or_boundary p) \<or>
        pg_proof_of_blockage p = [] \<or> blank (pg_proposed_minimal_primitive p) \<or>
        blank (pg_security_impact p) \<or> blank (pg_compatibility_impact p) \<or>
        pg_tests p = [] \<or> blank (pg_resume_token p)
     then Inl ''INVALID_PRIMITIVE_GAP_PROPOSAL'' else Inr ())"

datatype RepairClassification = ComponentBug | ContractMismatch | MissingPrimitive
  | InfrastructureFailure | ConfigurationError | PermissionDenied | DataCorruption
  | DependencyUnavailable

record RepairRequest =
  rq_component_id :: string
  rq_observed_failure :: string
  rq_evidence_refs :: "string list"
  rq_classification :: RepairClassification
  rq_reproduction :: "string list"
  rq_current_artifact_digest :: string
  rq_requested_fix :: string
  rq_risk_delta :: json
  rq_rollback_target :: string

definition validate_repair :: "RepairRequest \<Rightarrow> string + unit" where
  "validate_repair r =
    (if \<not> is_safe_name (rq_component_id r) \<or> blank (rq_observed_failure r) \<or>
        rq_evidence_refs r = [] \<or> rq_reproduction r = [] \<or>
        \<not> is_sha256 (rq_current_artifact_digest r) \<or> blank (rq_requested_fix r) \<or>
        blank (rq_rollback_target r)
     then Inl ''INVALID_REPAIR_REQUEST'' else Inr ())"

subsection \<open>The lifecycle\<close>

datatype ComponentLifecycleState = Planned | Candidate | Accepted | Proposed | Approved
  | Deploying | Healthy | Disabled | RolledBack | Failed

fun can_transition_to :: "ComponentLifecycleState \<Rightarrow> ComponentLifecycleState \<Rightarrow> bool" where
  "can_transition_to Planned next \<longleftrightarrow> next = Candidate"
| "can_transition_to Candidate next \<longleftrightarrow> next = Accepted \<or> next = Failed"
| "can_transition_to Accepted next \<longleftrightarrow> next = Proposed"
| "can_transition_to Proposed next \<longleftrightarrow> next = Approved \<or> next = Failed"
| "can_transition_to Approved next \<longleftrightarrow> next = Deploying"
| "can_transition_to Deploying next \<longleftrightarrow> next = Healthy \<or> next = Failed \<or> next = RolledBack"
| "can_transition_to Healthy next \<longleftrightarrow>
     next = Disabled \<or> next = Deploying \<or> next = RolledBack \<or> next = Failed"
| "can_transition_to Disabled next \<longleftrightarrow> next = Deploying \<or> next = RolledBack"
| "can_transition_to Failed next \<longleftrightarrow> next = Candidate \<or> next = RolledBack"
| "can_transition_to RolledBack next \<longleftrightarrow> False"

text \<open>The states a component has been in, the latest first.\<close>

inductive component_history :: "ComponentLifecycleState list \<Rightarrow> bool" where
  planned: "component_history [Planned]"
| moved: "component_history (a # h) \<Longrightarrow> can_transition_to a b \<Longrightarrow> component_history (b # a # h)"

subsection \<open>Lemmas\<close>

lemma ensure_all_ok: "ensure_all cs = Inr () \<longleftrightarrow> (\<forall>c \<in> set cs. c = Inr ())"
  by (induction cs) (auto split: sum.splits)

lemma ensure_all_simps [simp]:
  "ensure_all [] = Inr ()"
  "ensure_all (c # cs) = Inr u \<longleftrightarrow> c = Inr () \<and> ensure_all cs = Inr ()"
  by (auto split: sum.splits)

declare ensure_all.simps(2) [simp del]

lemma guard_ok [simp]: "guard ok e = Inr u \<longleftrightarrow> ok"
  by (simp add: guard_def)

lemma ensure_nonempty_unique_ok [simp]:
  "ensure_nonempty_unique values field = Inr u \<longleftrightarrow>
   values \<noteq> [] \<and> (\<forall>v \<in> set values. \<not> blank v) \<and> distinct values"
  by (auto simp: ensure_nonempty_unique_def list_ex_iff)

text \<open>What a request that passes the checks of its fields satisfies.\<close>

definition well_formed_request :: "DevelopmentRequest \<Rightarrow> bool" where
  "well_formed_request r \<longleftrightarrow>
    (\<forall>(_, value) \<in> set (named_fields r). \<not> blank value) \<and> is_safe_name (dr_name r) \<and>
    dr_build_profile r = component_profile (dr_target_kind r) \<and>
    dr_deployment_profile r = deployment_profile (dr_target_kind r) \<and>
    (\<forall>vs \<in> {dr_required_contracts r, dr_requested_permissions r, dr_requirements r,
        dr_acceptance_criteria r}. vs \<noteq> [] \<and> (\<forall>v \<in> set vs. \<not> blank v) \<and> distinct vs)"

lemma validate_body_ok: "validate_body r = Inr () \<longleftrightarrow> well_formed_request r"
  by (auto simp: validate_body_def well_formed_request_def named_fields_def)

lemma request_json_inject: "request_json r = request_json r' \<longleftrightarrow> r = (r' :: DevelopmentRequest)"
proof -
  have "map JStr xs = map JStr ys \<longleftrightarrow> xs = ys" for xs ys
    by (rule inj_map_eq_map) (simp add: inj_def)
  then show ?thesis by (cases r; cases r') (auto simp: request_json_def)
qed

lemma derived_id_ignores_id [simp]:
  "derived_request_id E (r\<lparr>dr_request_id := i\<rparr>) = derived_request_id E r"
  by (simp add: derived_request_id_def)

lemma validate_body_ignores_id [simp]:
  "validate_body (r\<lparr>dr_request_id := i\<rparr>) = validate_body r"
  by (simp add: validate_body_def named_fields_def)

lemma validate_request_ok:
  "validate_request E r = Inr () \<longleftrightarrow>
   well_formed_request r \<and> dr_request_id r = derived_request_id E r"
  by (auto simp: validate_request_def validate_body_ok [symmetric] derived_request_id_def
      split: sum.splits)

text \<open>The state a component must have passed before each state, ending in the state itself.\<close>

fun milestones :: "ComponentLifecycleState \<Rightarrow> ComponentLifecycleState list" where
  "milestones Planned = [Planned]"
| "milestones Candidate = [Planned, Candidate]"
| "milestones Failed = [Planned, Candidate, Failed]"
| "milestones RolledBack = [Planned, Candidate, RolledBack]"
| "milestones Accepted = [Planned, Candidate, Accepted]"
| "milestones Proposed = [Planned, Candidate, Accepted, Proposed]"
| "milestones Approved = [Planned, Candidate, Accepted, Proposed, Approved]"
| "milestones Deploying = [Planned, Candidate, Accepted, Proposed, Approved, Deploying]"
| "milestones Healthy = [Planned, Candidate, Accepted, Proposed, Approved, Deploying, Healthy]"
| "milestones Disabled =
    [Planned, Candidate, Accepted, Proposed, Approved, Deploying, Healthy, Disabled]"

lemma milestones_step:
  "can_transition_to a b \<Longrightarrow> subseq (butlast (milestones b)) (milestones a)"
  by (cases a; cases b; simp)

lemma milestones_last: "milestones a = butlast (milestones a) @ [a]"
  by (cases a) simp_all

lemma history_milestones: "component_history h \<Longrightarrow> subseq (milestones (hd h)) (rev h)"
proof (induction rule: component_history.induct)
  case (moved a h b)
  from milestones_step [OF moved.hyps(2)] moved.IH
  have "subseq (butlast (milestones b)) (rev (a # h))"
    unfolding list.sel by (rule subseq_order.trans)
  then have "subseq (butlast (milestones b) @ [b]) (rev (a # h) @ [b])"
    by (rule list_emb_append_mono) simp
  then show ?case unfolding list.sel milestones_last [symmetric] by simp
qed simp

subsection \<open>Properties\<close>

text \<open>Two documents that print alike are alike.\<close>

definition prints_apart :: "env \<Rightarrow> json \<Rightarrow> json \<Rightarrow> bool" where
  "prints_apart E v w \<longleftrightarrow> (json_text E v = json_text E w \<longrightarrow> v = w)"

text \<open>A development request made from a draft passes its own validation, and its identifier
  names it: two requests that validate and carry the same identifier agree in every field, unless
  SHA-256 collides on their canonical texts. The printer is assumed to keep the two documents
  apart.\<close>
theorem request_id_names_request:
  assumes "from_draft E d subject scope message key version = Inr r"
    and "validate_request E r' = Inr ()"
    and "prints_apart E (request_json (r\<lparr>dr_request_id := []\<rparr>))
      (request_json (r'\<lparr>dr_request_id := []\<rparr>))"
  shows "validate_request E r = Inr () \<and>
    (dr_request_id r = dr_request_id r' \<longrightarrow> r = r' \<or>
      collision E (json_text E (request_json (r\<lparr>dr_request_id := []\<rparr>)))
        (json_text E (request_json (r'\<lparr>dr_request_id := []\<rparr>))))"
proof -
  let ?doc = "\<lambda>r. json_text E (request_json (r\<lparr>dr_request_id := []\<rparr>))"
  from assms(1) have r: "validate_body r = Inr () \<and> dr_request_id r = derived_request_id E r"
    unfolding from_draft_def Let_def by (auto split: sum.splits)
  have "r = r' \<or> collision E (?doc r) (?doc r')" if i: "dr_request_id r = dr_request_id r'"
  proof -
    have "derived_request_id E r = derived_request_id E r'"
      using r assms(2) i by (simp add: validate_request_ok)
    then have h: "sha256_hex E (?doc r) = sha256_hex E (?doc r')"
      by (simp add: derived_request_id_def)
    show ?thesis
    proof (cases "?doc r = ?doc r'")
      case True
      then have "r\<lparr>dr_request_id := []\<rparr> = r'\<lparr>dr_request_id := []\<rparr>"
        using assms(3) by (simp add: prints_apart_def request_json_inject)
      with i show ?thesis by (cases r; cases r') simp
    qed (simp add: collision_def h)
  qed
  then show ?thesis using r by (simp add: validate_request_ok validate_body_ok)
qed

definition sample_draft :: DevelopmentRequestDraft where
  "sample_draft = (new_draft ContextProvider ''a'')\<lparr>dd_requirements := [''r''],
     dd_required_contracts := [''c''], dd_requested_permissions := [''p''],
     dd_acceptance_criteria := [''k'']\<rparr>"

definition sample_development :: "string + DevelopmentRequest" where
  "sample_development = from_draft sample_env sample_draft ''u'' ''s'' ''m'' ''i'' ''v''"

theorem request_id_names_request_witness:
  "\<exists>r. sample_development = Inr r \<and> validate_request sample_env r = Inr ()"
proof -
  obtain r where r: "from_draft sample_env sample_draft ''u'' ''s'' ''m'' ''i'' ''v'' = Inr r"
    "validate_request sample_env r = Inr ()"
  proof -
    have "case sample_development of Inl _ \<Rightarrow> False
      | Inr r \<Rightarrow> validate_request sample_env r = Inr ()" by code_simp
    then show thesis using that by (auto simp: sample_development_def split: sum.splits)
  qed
  with request_id_names_request [OF r] show ?thesis
    by (simp add: prints_apart_def sample_development_def)
qed



end
