(* ===== verification/Component_Registry.thy ===== *)
theory Component_Registry
  imports Development_Request Journal_Store
begin

section \<open>The registry of managed components\<close>

text \<open>
  \<open>src/src/domain/component_registry.rs\<close> and \<open>src/src/journal/component_registry.rs\<close>: immutable
  snapshots of the managed components, named by the digest of their content. A snapshot is
  written inside a transaction and its digest is recomputed on every load, so a load returns the
  content the identifier names or fails.
\<close>

subsection \<open>Components\<close>

datatype ComponentStatus = StatusHealthy | StatusDisabled | StatusRolledBack

fun component_status_text :: "ComponentStatus \<Rightarrow> string" where
  "component_status_text StatusHealthy = ''healthy''"
| "component_status_text StatusDisabled = ''disabled''"
| "component_status_text StatusRolledBack = ''rolled_back''"

record RegisteredComponent =
  rc_component_id :: string
  rc_kind :: TargetKind
  rc_manifest_id :: string
  rc_manifest_digest :: string
  rc_artifact_digest :: string
  rc_version :: string
  rc_endpoint :: string
  rc_deployment_id :: string
  rc_deployment_receipt_id :: string
  rc_status :: ComponentStatus
  rc_required_contracts :: "string list"
  rc_requested_permissions :: "string list"

record ComponentRegistrySnapshot =
  crs_snapshot_id :: string
  crs_created_at :: instant
  crs_components :: "RegisteredComponent list"

definition component_lookup :: "ComponentRegistrySnapshot \<Rightarrow> string \<Rightarrow> RegisteredComponent option" where
  "component_lookup snap component_id =
    find (\<lambda>c. rc_component_id c = component_id) (crs_components snap)"

definition component_json :: "RegisteredComponent \<Rightarrow> json" where
  "component_json c = JObj
    [(''component_id'', JStr (rc_component_id c)), (''kind'', JStr (kind_text (rc_kind c))),
     (''manifest_id'', JStr (rc_manifest_id c)), (''manifest_digest'', JStr (rc_manifest_digest c)),
     (''artifact_digest'', JStr (rc_artifact_digest c)), (''version'', JStr (rc_version c)),
     (''endpoint'', JStr (rc_endpoint c)), (''deployment_id'', JStr (rc_deployment_id c)),
     (''deployment_receipt_id'', JStr (rc_deployment_receipt_id c)),
     (''status'', JStr (component_status_text (rc_status c))),
     (''required_contracts'', JArr (map JStr (rc_required_contracts c))),
     (''requested_permissions'', JArr (map JStr (rc_requested_permissions c)))]"

definition components_json :: "RegisteredComponent list \<Rightarrow> json" where
  "components_json components =
    JObj (mcollect (map (\<lambda>c. (rc_component_id c, component_json c)) components))"

definition compute_component_snapshot_id :: "env \<Rightarrow> RegisteredComponent list \<Rightarrow> string" where
  "compute_component_snapshot_id E components =
    ''component_snap_'' @ sha256_hex E (json_text E (components_json components))"

subsection \<open>Rows\<close>

definition parse_target_kind :: "string \<Rightarrow> string + TargetKind" where
  "parse_target_kind t =
    (case find (\<lambda>k. kind_text k = t)
        [InvocableCapability, HookConsumerService, ContextProvider, ContextTransformer,
         ScheduledWorker, SchedulerService, IngressRouter, MultiRunOrchestrator,
         ConnectorExtension] of
       None \<Rightarrow> Inl ''unknown variant'' | Some k \<Rightarrow> Inr k)"

definition parse_status :: "string \<Rightarrow> string + ComponentStatus" where
  "parse_status t =
    (if t = ''healthy'' then Inr StatusHealthy
     else if t = ''disabled'' then Inr StatusDisabled
     else if t = ''rolled_back'' then Inr StatusRolledBack
     else Inl ''COMPONENT_STATUS_INVALID'')"

text \<open>\<open>serde_json::from_str::<Vec<String>>\<close>.\<close>

definition parse_strings :: "env \<Rightarrow> string \<Rightarrow> string + string list" where
  "parse_strings E t =
    (case json_parse E t of
       Some (JArr vs) \<Rightarrow>
         collect_results (\<lambda>v. case v of JStr s \<Rightarrow> Inr s | _ \<Rightarrow> Inl ''invalid type'') vs
     | _ \<Rightarrow> Inl ''invalid JSON'')"

definition print_strings :: "env \<Rightarrow> string list \<Rightarrow> string" where
  "print_strings E ss = json_text E (JArr (map JStr ss))"

definition entry_row :: "env \<Rightarrow> string \<Rightarrow> RegisteredComponent \<Rightarrow> ComponentEntryRow" where
  "entry_row E snapshot_id c =
    \<lparr>ce_snapshot_id = snapshot_id, ce_component_id = rc_component_id c,
     ce_kind = kind_text (rc_kind c), ce_manifest_id = rc_manifest_id c,
     ce_manifest_digest = rc_manifest_digest c, ce_artifact_digest = rc_artifact_digest c,
     ce_version = rc_version c, ce_endpoint = rc_endpoint c,
     ce_deployment_id = rc_deployment_id c,
     ce_deployment_receipt_id = rc_deployment_receipt_id c, ce_status = component_status_text (rc_status c),
     ce_required_contracts_json = print_strings E (rc_required_contracts c),
     ce_requested_permissions_json = print_strings E (rc_requested_permissions c)\<rparr>"

definition component_of_row :: "env \<Rightarrow> ComponentEntryRow \<Rightarrow> string + RegisteredComponent" where
  "component_of_row E r =
    (case parse_target_kind (ce_kind r) of Inl e \<Rightarrow> Inl e | Inr kind \<Rightarrow>
     case parse_status (ce_status r) of Inl e \<Rightarrow> Inl e | Inr status \<Rightarrow>
     case parse_strings E (ce_required_contracts_json r) of Inl e \<Rightarrow> Inl e | Inr contracts \<Rightarrow>
     case parse_strings E (ce_requested_permissions_json r) of Inl e \<Rightarrow> Inl e | Inr permissions \<Rightarrow>
     Inr \<lparr>rc_component_id = ce_component_id r, rc_kind = kind,
       rc_manifest_id = ce_manifest_id r, rc_manifest_digest = ce_manifest_digest r,
       rc_artifact_digest = ce_artifact_digest r, rc_version = ce_version r,
       rc_endpoint = ce_endpoint r, rc_deployment_id = ce_deployment_id r,
       rc_deployment_receipt_id = ce_deployment_receipt_id r, rc_status = status,
       rc_required_contracts = contracts, rc_requested_permissions = permissions\<rparr>)"

subsection \<open>Statements and operations\<close>

definition insert_component_snapshot :: "ComponentSnapshotRow \<Rightarrow> unit jop" where
  "insert_component_snapshot r =
    op_bind (op_query component_registry_snapshots) (\<lambda>t.
    if list_ex (\<lambda>r'. cs_snapshot_id r' = cs_snapshot_id r \<or>
        cs_canonical_digest r' = cs_canonical_digest r) t
    then op_bail constraint_error
    else op_update (\<lambda>s. s\<lparr>component_registry_snapshots := t @ [r]\<rparr>))"

definition insert_component_entry :: "ComponentEntryRow \<Rightarrow> unit jop" where
  "insert_component_entry r =
    op_bind (op_query component_registry_snapshots) (\<lambda>headers.
    op_bind (op_query component_registry_entries) (\<lambda>t.
    if \<not> list_ex (\<lambda>h. cs_snapshot_id h = ce_snapshot_id r) headers \<or>
       list_ex (\<lambda>r'. ce_snapshot_id r' = ce_snapshot_id r \<and>
         ce_component_id r' = ce_component_id r) t
    then op_bail constraint_error
    else op_update (\<lambda>s. s\<lparr>component_registry_entries := t @ [r]\<rparr>)))"

definition insert_component_state :: "StateRow \<Rightarrow> unit jop" where
  "insert_component_state r =
    op_bind (op_query component_registry_state) (\<lambda>old.
    op_bind (op_query component_registry_snapshots) (\<lambda>headers.
    if old \<noteq> None \<or> \<not> list_ex (\<lambda>h. cs_snapshot_id h = st_active_snapshot_id r) headers
    then op_bail constraint_error
    else op_update (\<lambda>s. s\<lparr>component_registry_state := Some r\<rparr>)))"

definition load_component_snapshot :: "env \<Rightarrow> string \<Rightarrow> ComponentRegistrySnapshot jop" where
  "load_component_snapshot E snapshot_id =
    op_bind (op_query (\<lambda>s. find (\<lambda>h. cs_snapshot_id h = snapshot_id)
        (component_registry_snapshots s))) (\<lambda>header.
    case header of
      None \<Rightarrow> op_bail ''COMPONENT_SNAPSHOT_NOT_FOUND''
    | Some h \<Rightarrow>
        op_bind (op_query (\<lambda>s. sort_key ce_component_id (filter
          (\<lambda>r. ce_snapshot_id r = snapshot_id) (component_registry_entries s)))) (\<lambda>rows.
        op_bind (op_lift (collect_results (component_of_row E) rows)) (\<lambda>components.
        if compute_component_snapshot_id E components \<noteq> snapshot_id
        then op_bail ''COMPONENT_SNAPSHOT_DIGEST_MISMATCH''
        else op_return \<lparr>crs_snapshot_id = snapshot_id, crs_created_at = cs_created_at h,
               crs_components = components\<rparr>)))"

definition persist_component_snapshot :: "env \<Rightarrow> RegisteredComponent list \<Rightarrow> string jop" where
  "persist_component_snapshot E components =
    (let snapshot_id = compute_component_snapshot_id E components in
     op_bind (op_query (\<lambda>s. find (\<lambda>h. cs_snapshot_id h = snapshot_id)
        (component_registry_snapshots s))) (\<lambda>existing.
     case existing of
       Some _ \<Rightarrow> op_then (load_component_snapshot E snapshot_id) (op_return snapshot_id)
     | None \<Rightarrow>
         op_bind (utc_now E) (\<lambda>now.
         op_then (insert_component_snapshot \<lparr>cs_snapshot_id = snapshot_id, cs_created_at = now,
            cs_component_count = int (length components), cs_canonical_digest = snapshot_id\<rparr>)
         (op_then (op_for (sort_key rc_component_id components)
            (\<lambda>c. insert_component_entry (entry_row E snapshot_id c)))
         (op_return snapshot_id)))))"

definition initialize_component_registry :: "env \<Rightarrow> string jop" where
  "initialize_component_registry E =
    op_bind (tx E (op_query (\<lambda>s. map_option st_active_snapshot_id (component_registry_state s))))
      (\<lambda>found.
    case found of
      Some active \<Rightarrow> op_then (tx E (load_component_snapshot E active)) (op_return active)
    | None \<Rightarrow>
        tx E (op_bind (persist_component_snapshot E []) (\<lambda>snapshot_id.
          op_bind (utc_now E) (\<lambda>now.
          op_then (insert_component_state \<lparr>st_active_snapshot_id = snapshot_id, st_version = 1,
              st_updated_at = now\<rparr>)
          (op_return snapshot_id)))))"

definition current_component_snapshot_id :: "env \<Rightarrow> string jop" where
  "current_component_snapshot_id E =
    tx E (op_bind (op_query component_registry_state) (\<lambda>row.
      case row of None \<Rightarrow> op_bail ''Query returned no rows''
      | Some r \<Rightarrow> op_return (st_active_snapshot_id r)))"

definition load_component_registry_snapshot :: "env \<Rightarrow> string \<Rightarrow> ComponentRegistrySnapshot jop" where
  "load_component_registry_snapshot E snapshot_id = tx E (load_component_snapshot E snapshot_id)"

lemmas component_statement_defs [op_simps] = insert_component_snapshot_def
  insert_component_entry_def insert_component_state_def

subsection \<open>Lemmas\<close>

lemma mcollect_sorted:
  assumes "mkeys_ok kvs"
  shows "mcollect kvs = kvs"
proof (rule mkeys_ok_unique)
  show "map_of (mcollect kvs) = map_of kvs"
    using assms by (simp add: map_of_mcollect mkeys_ok_def map_of_inject_set rev_map [symmetric])
qed (simp_all add: assms)

lemma status_text_inject [simp]: "component_status_text a = component_status_text b \<longleftrightarrow> a = b"
  by (cases a; cases b; simp)

lemma component_json_inject: "component_json c = component_json d \<longleftrightarrow> c = (d :: RegisteredComponent)"
proof -
  have "map JStr xs = map JStr ys \<longleftrightarrow> xs = ys" for xs ys
    by (rule inj_map_eq_map) (simp add: inj_def)
  then show ?thesis by (cases c; cases d) (auto simp: component_json_def)
qed

text \<open>A list of components in the order of their identifiers, none of them twice.\<close>

definition in_id_order :: "RegisteredComponent list \<Rightarrow> bool" where
  "in_id_order cs \<longleftrightarrow> sorted (map rc_component_id cs) \<and> distinct (map rc_component_id cs)"

lemma components_json_inject:
  assumes "in_id_order cs" and "in_id_order ds"
  shows "components_json cs = components_json ds \<longleftrightarrow> cs = ds"
proof -
  let ?doc = "map (\<lambda>c. (rc_component_id c, component_json c))"
  have "mcollect (?doc xs) = ?doc xs" if "in_id_order xs" for xs
    using that by (intro mcollect_sorted) (simp add: mkeys_ok_def in_id_order_def comp_def)
  moreover have "?doc cs = ?doc ds \<longleftrightarrow> cs = ds"
    by (rule inj_map_eq_map) (auto simp: inj_def component_json_inject)
  ultimately show ?thesis using assms by (simp add: components_json_def)
qed

lemma components_json_sort:
  assumes "distinct (map rc_component_id cs)"
  shows "components_json (sort_key rc_component_id cs) = components_json cs"
proof -
  let ?doc = "map (\<lambda>c. (rc_component_id c, component_json c))"
  have "mcollect (?doc (sort_key rc_component_id cs)) = mcollect (?doc cs)"
    using assms by (intro mkeys_ok_unique)
      (auto simp: map_of_mcollect map_of_inject_set rev_map [symmetric] comp_def distinct_map)
  then show ?thesis by (simp add: components_json_def)
qed

text \<open>The primary key of the entries.\<close>

definition entries_keyed :: "store \<Rightarrow> bool" where
  "entries_keyed s \<longleftrightarrow>
    distinct (map (\<lambda>r. (ce_snapshot_id r, ce_component_id r)) (component_registry_entries s))"

lemma component_of_row_id: "component_of_row E r = Inr c \<Longrightarrow> rc_component_id c = ce_component_id r"
  by (auto simp: component_of_row_def split: sum.splits)

lemma collect_components_ids:
  "collect_results (component_of_row E) rows = Inr cs \<Longrightarrow>
   map rc_component_id cs = map ce_component_id rows"
  by (induction rows arbitrary: cs) (auto split: sum.splits simp: component_of_row_id)

lemma entries_of_distinct:
  assumes "entries_keyed s"
  shows "distinct (map ce_component_id
    (sort_key ce_component_id (filter (\<lambda>r. ce_snapshot_id r = i) (component_registry_entries s))))"
  using assms by (auto simp: entries_keyed_def distinct_map inj_on_def)

lemma load_component_snapshot_Inr:
  assumes "load_component_snapshot E i s = (Inr snap, t)"
  shows "compute_component_snapshot_id E (crs_components snap) = i" and "t = s"
    and "entries_keyed s \<Longrightarrow> in_id_order (crs_components snap)"
proof -
  from assms obtain rows where
    rows: "rows = sort_key ce_component_id (filter (\<lambda>r. ce_snapshot_id r = i)
      (component_registry_entries s))"
    "collect_results (component_of_row E) rows = Inr (crs_components snap)"
    and rest: "compute_component_snapshot_id E (crs_components snap) = i" "t = s"
    by (auto simp: load_component_snapshot_def op_simps split: option.splits sum.splits if_splits)
  show "compute_component_snapshot_id E (crs_components snap) = i" "t = s" by fact+
  show "in_id_order (crs_components snap)" if "entries_keyed s"
    using collect_components_ids [OF rows(2)] entries_of_distinct [OF that, of i]
    by (simp add: in_id_order_def rows(1))
qed

text \<open>Reading back what was written.\<close>

definition strings_read_back :: "env \<Rightarrow> string list \<Rightarrow> bool" where
  "strings_read_back E ss \<longleftrightarrow> json_parse E (print_strings E ss) = Some (JArr (map JStr ss))"

lemma parse_print_strings: "strings_read_back E ss \<Longrightarrow> parse_strings E (print_strings E ss) = Inr ss"
proof -
  have "collect_results (\<lambda>v. case v of JStr s \<Rightarrow> Inr s | _ \<Rightarrow> Inl ''invalid type'') (map JStr ss) =
      Inr (map id ss)"
    by (rule collect_results_map) simp
  then show "strings_read_back E ss \<Longrightarrow> parse_strings E (print_strings E ss) = Inr ss"
    by (simp add: strings_read_back_def parse_strings_def)
qed

lemma component_of_entry_row:
  "strings_read_back E (rc_required_contracts c) \<Longrightarrow>
   strings_read_back E (rc_requested_permissions c) \<Longrightarrow>
   component_of_row E (entry_row E i c) = Inr (c :: RegisteredComponent)"
proof -
  have "parse_target_kind (kind_text (rc_kind c)) = Inr (rc_kind c)"
    by (cases "rc_kind c") (simp_all add: parse_target_kind_def)
  moreover have "parse_status (component_status_text (rc_status c)) = Inr (rc_status c)"
    by (cases "rc_status c") (simp_all add: parse_status_def)
  ultimately show "strings_read_back E (rc_required_contracts c) \<Longrightarrow>
   strings_read_back E (rc_requested_permissions c) \<Longrightarrow>
   component_of_row E (entry_row E i c) = Inr c"
    by (simp add: component_of_row_def entry_row_def parse_print_strings)
qed

lemma insert_entries:
  "\<lbrakk>list_ex (\<lambda>h. cs_snapshot_id h = i) (component_registry_snapshots s);
    distinct (map rc_component_id cs);
    \<forall>r \<in> set (component_registry_entries s). ce_snapshot_id r = i \<longrightarrow>
      ce_component_id r \<notin> rc_component_id ` set cs\<rbrakk> \<Longrightarrow>
   op_for cs (\<lambda>c. insert_component_entry (entry_row E i c)) s =
     (Inr (), s\<lparr>component_registry_entries :=
        component_registry_entries s @ map (entry_row E i) cs\<rparr>)"
proof (induction cs arbitrary: s)
  case (Cons c cs)
  let ?s = "s\<lparr>component_registry_entries := component_registry_entries s @ [entry_row E i c]\<rparr>"
  have "insert_component_entry (entry_row E i c) s = (Inr (), ?s)"
    using Cons.prems by (auto simp: op_simps entry_row_def list_ex_iff)
  moreover have "op_for cs (\<lambda>c. insert_component_entry (entry_row E i c)) ?s =
     (Inr (), ?s\<lparr>component_registry_entries :=
        component_registry_entries ?s @ map (entry_row E i) cs\<rparr>)"
    using Cons.prems by (intro Cons.IH) (auto simp: entry_row_def)
  ultimately show ?case by (simp add: op_then_def op_bind_def)
qed (simp add: op_return_def)

lemma persist_fresh:
  assumes "persist_component_snapshot E components s = (Inr i, t)"
    and "find (\<lambda>h. cs_snapshot_id h = i) (component_registry_snapshots s) = None"
    and "\<forall>r \<in> set (component_registry_entries s). ce_snapshot_id r \<noteq> i"
    and "distinct (map rc_component_id components)"
  shows "i = compute_component_snapshot_id E components"
    and "\<exists>h. cs_snapshot_id h = i \<and>
      component_registry_snapshots t = component_registry_snapshots s @ [h]"
    and "component_registry_entries t = component_registry_entries s @
      map (entry_row E i) (sort_key rc_component_id components)"
proof -
  show i: "i = compute_component_snapshot_id E components"
    using assms(1) by (auto simp: persist_component_snapshot_def Let_def op_then_def op_return_def
        elim!: op_bind_InrD split: option.splits)
  define h where "h = \<lparr>cs_snapshot_id = i, cs_created_at = clock_at E (tick s),
    cs_component_count = int (length components), cs_canonical_digest = i\<rparr>"
  let ?s = "s\<lparr>tick := Suc (tick s), component_registry_snapshots :=
    component_registry_snapshots s @ [h]\<rparr>"
  have "op_for (sort_key rc_component_id components)
      (\<lambda>c. insert_component_entry (entry_row E i c)) ?s =
    (Inr (), ?s\<lparr>component_registry_entries := component_registry_entries ?s @
      map (entry_row E i) (sort_key rc_component_id components)\<rparr>)"
    using assms(3,4) by (intro insert_entries) (auto simp: h_def distinct_map)
  with assms(1,2) i have "t = ?s\<lparr>component_registry_entries := component_registry_entries ?s @
      map (entry_row E i) (sort_key rc_component_id components)\<rparr>"
    by (auto simp: persist_component_snapshot_def op_defs draw_defs insert_component_snapshot_def
        Let_def h_def split: if_splits)
  then show "\<exists>h. cs_snapshot_id h = i \<and>
      component_registry_snapshots t = component_registry_snapshots s @ [h]"
    "component_registry_entries t = component_registry_entries s @
      map (entry_row E i) (sort_key rc_component_id components)"
    by (auto simp: h_def)
qed

subsection \<open>Properties\<close>

text \<open>C25: A component snapshot cannot be altered unnoticed. Whatever happened to the tables in
  between, two loads that succeed under one identifier return the same components in the same
  order, unless SHA-256 collides. The tables keep their primary key, and the printer tells the two
  documents apart.\<close>
theorem component_snapshot_tamper_evident:
  assumes "load_component_snapshot E i s = (Inr snap, t)"
    and "load_component_snapshot E i s' = (Inr snap', t')"
    and "entries_keyed s" and "entries_keyed s'"
    and "prints_apart E (components_json (crs_components snap))
      (components_json (crs_components snap'))"
  shows "crs_components snap = crs_components snap' \<or>
    collision E (json_text E (components_json (crs_components snap)))
      (json_text E (components_json (crs_components snap')))"
proof -
  note a = load_component_snapshot_Inr [OF assms(1)] and b = load_component_snapshot_Inr [OF assms(2)]
  have "sha256_hex E (json_text E (components_json (crs_components snap))) =
      sha256_hex E (json_text E (components_json (crs_components snap')))"
    using a(1) [folded b(1)] by (simp add: compute_component_snapshot_id_def)
  then show ?thesis
    using assms(5) components_json_inject [OF a(3) [OF assms(3)] b(3) [OF assms(4)]]
    by (auto simp: collision_def prints_apart_def)
qed

definition sample_component :: RegisteredComponent where
  "sample_component = \<lparr>rc_component_id = ''c'', rc_kind = ContextProvider, rc_manifest_id = ''m'',
     rc_manifest_digest = ''d'', rc_artifact_digest = ''a'', rc_version = ''v'', rc_endpoint = ''e'',
     rc_deployment_id = ''i'', rc_deployment_receipt_id = ''r'', rc_status = StatusHealthy,
     rc_required_contracts = [''k''], rc_requested_permissions = []\<rparr>"

definition sample_components :: "(string + string) \<times> store" where
  "sample_components = persist_component_snapshot sample_env [sample_component] empty_store"

definition sample_component_id :: string where
  "sample_component_id = compute_component_snapshot_id sample_env [sample_component]"

text \<open>The store after it, with one more snapshot.\<close>

definition sample_components_later :: store where
  "sample_components_later = snd (persist_component_snapshot sample_env [] (snd sample_components))"

definition sample_loaded :: ComponentRegistrySnapshot where
  "sample_loaded = \<lparr>crs_snapshot_id = sample_component_id, crs_created_at = 0,
     crs_components = [sample_component]\<rparr>"

theorem component_snapshot_tamper_evident_witness:
  "snd sample_components \<noteq> sample_components_later \<and>
   fst (load_component_snapshot sample_env sample_component_id sample_components_later) =
     Inr sample_loaded \<and>
   (crs_components sample_loaded = crs_components sample_loaded \<or>
    collision sample_env (json_text sample_env (components_json (crs_components sample_loaded)))
      (json_text sample_env (components_json (crs_components sample_loaded))))"
proof -
  have keyed: "entries_keyed (snd sample_components)" "entries_keyed sample_components_later"
    by code_simp+
  have loads: "load_component_snapshot sample_env sample_component_id (snd sample_components) =
      (Inr sample_loaded, snd sample_components)"
    "load_component_snapshot sample_env sample_component_id sample_components_later =
      (Inr sample_loaded, sample_components_later)"
    by code_simp+
  have "length (component_registry_snapshots (snd sample_components)) \<noteq>
      length (component_registry_snapshots sample_components_later)" by code_simp
  then have "snd sample_components \<noteq> sample_components_later" by metis
  with component_snapshot_tamper_evident [OF loads keyed]
  show ?thesis by (simp add: prints_apart_def loads)
qed

text \<open>What is written is read back. A snapshot stored under a new identifier loads in the state
  after it as exactly the components that were stored, in the order of their identifiers, and
  storing the same components again changes nothing. The lists of strings of the components are
  assumed to survive their JSON text.\<close>
theorem component_snapshot_round_trip:
  assumes "persist_component_snapshot E components s = (Inr i, t)"
    and "find (\<lambda>h. cs_snapshot_id h = i) (component_registry_snapshots s) = None"
    and "\<forall>r \<in> set (component_registry_entries s). ce_snapshot_id r \<noteq> i"
    and "distinct (map rc_component_id components)"
    and "\<forall>c \<in> set components. strings_read_back E (rc_required_contracts c) \<and>
      strings_read_back E (rc_requested_permissions c)"
  shows "\<exists>snap. load_component_snapshot E i t = (Inr snap, t) \<and>
    crs_components snap = sort_key rc_component_id components \<and>
    persist_component_snapshot E components t = (Inr i, t)"
proof -
  note f = persist_fresh [OF assms(1-4)]
  let ?rows = "map (entry_row E i) (sort_key rc_component_id components)"
  from f(2) obtain h where h: "cs_snapshot_id h = i"
    "component_registry_snapshots t = component_registry_snapshots s @ [h]" by blast
  have found: "find (\<lambda>h. cs_snapshot_id h = i) (component_registry_snapshots t) = Some h"
    using assms(2) h by (auto simp: find_None_iff find_Some_iff nth_append)
  have ids: "map ce_component_id ?rows = map rc_component_id (sort_key rc_component_id components)"
    by (simp add: entry_row_def)
  have "filter (\<lambda>r. ce_snapshot_id r = i) (component_registry_entries t) = ?rows"
    using assms(3) f(3) by (simp add: entry_row_def filter_False)
  then have sorted_rows: "sort_key ce_component_id (filter (\<lambda>r. ce_snapshot_id r = i)
      (component_registry_entries t)) = ?rows"
    using sort_key_id_if_sorted [of ce_component_id ?rows, unfolded ids] by simp
  have "collect_results (component_of_row E) ?rows =
      Inr (map id (sort_key rc_component_id components))"
    using assms(5) by (intro collect_results_map) (simp add: component_of_entry_row)
  moreover have "compute_component_snapshot_id E (sort_key rc_component_id components) = i"
    using f(1) assms(4) by (simp add: compute_component_snapshot_id_def components_json_sort)
  ultimately have "load_component_snapshot E i t =
      (Inr \<lparr>crs_snapshot_id = i, crs_created_at = cs_created_at h,
         crs_components = sort_key rc_component_id components\<rparr>, t)"
    using found sorted_rows by (simp add: load_component_snapshot_def op_simps)
  with found f(1) show ?thesis
    by (simp add: persist_component_snapshot_def op_defs Let_def)
qed

theorem component_snapshot_round_trip_witness:
  "\<exists>snap. load_component_snapshot sample_env sample_component_id (snd sample_components) =
      (Inr snap, snd sample_components) \<and> crs_components snap = [sample_component]"
proof -
  have stored: "persist_component_snapshot sample_env [sample_component] empty_store =
      (Inr sample_component_id, snd sample_components)" by code_simp
  have "strings_read_back sample_env (rc_required_contracts sample_component)"
    "strings_read_back sample_env (rc_requested_permissions sample_component)" by code_simp+
  with component_snapshot_round_trip [OF stored] show ?thesis by (auto simp: empty_store_def)
qed

end
