(* ===== verification/Registry_Store.thy ===== *)
theory Registry_Store
  imports Registry_Snapshot Component_Registry
begin

section \<open>Registry snapshots in the journal database\<close>

text \<open>
  \<open>src/src/journal/registry_ops.rs\<close>, \<open>registry_control_upgrade.rs\<close> and the registry state of
  \<open>harness_ops.rs\<close>: storing and loading snapshots, the compare-and-swap that activates one together
  with its journal event, the cache of the current identifier, and the initialisation at boot
  with its three upgrades. The statements that store a snapshot run outside a transaction, so
  each of them is a transaction of its own here and may fail alone.
\<close>

subsection \<open>Rows\<close>

definition operation_row :: "env \<Rightarrow> string \<Rightarrow> OperationSpec \<Rightarrow> SnapshotOperationRow" where
  "operation_row E snapshot_id op_spec =
    \<lparr>so_snapshot_id = snapshot_id, so_operation_name = os_name op_spec,
     so_risk = risk_debug (os_risk op_spec), so_description = os_description op_spec,
     so_parameters_json = json_text E (os_parameters op_spec),
     so_idempotent = (if os_idempotent op_spec then 1 else 0),
     so_binding_kind = binding_kind_debug (os_binding_kind op_spec),
     so_binding_key = os_binding_key op_spec\<rparr>"

definition binding_row :: "string \<Rightarrow> HookBinding \<Rightarrow> SnapshotBindingRow" where
  "binding_row snapshot_id b =
    \<lparr>sb_snapshot_id = snapshot_id, sb_contract = hb_contract b, sb_hook_id = hb_hook_id b,
     sb_hook_version = hb_hook_version b,
     sb_binding_kind = binding_kind_debug (hb_binding_kind b),
     sb_binding_key = hb_binding_key b, sb_provider_id = hb_provider_id b,
     sb_endpoint = hb_endpoint b\<rparr>"

definition spec_of_row :: "env \<Rightarrow> SnapshotOperationRow \<Rightarrow> string + OperationSpec" where
  "spec_of_row E r =
    (let risk = (if so_risk r = ''ReadOnly'' then ReadOnly else Write) in
     if so_binding_kind r \<notin> {''Builtin'', ''External''}
     then Inl (''unknown binding_kind: '' @ so_binding_kind r)
     else case json_parse E (so_parameters_json r) of
         None \<Rightarrow> Inl ''invalid parameters_json''
       | Some parameters \<Rightarrow>
           Inr \<lparr>os_name = so_operation_name r, os_risk = risk, os_description = so_description r,
             os_parameters = parameters, os_idempotent = (so_idempotent r \<noteq> 0),
             os_binding_kind = (if so_binding_kind r = ''Builtin'' then Builtin else External),
             os_binding_key = so_binding_key r\<rparr>)"

definition binding_of_row :: "SnapshotBindingRow \<Rightarrow> HookBinding" where
  "binding_of_row r =
    \<lparr>hb_contract = sb_contract r, hb_hook_id = sb_hook_id r, hb_hook_version = sb_hook_version r,
     hb_binding_kind = (if sb_binding_kind r = ''External'' then External else Builtin),
     hb_binding_key = sb_binding_key r, hb_provider_id = sb_provider_id r,
     hb_endpoint = sb_endpoint r\<rparr>"

subsection \<open>Statements\<close>

text \<open>Taking the mutex of the connection, before several statements.\<close>

definition lock :: "env \<Rightarrow> unit jop" where
  "lock E = op_bind draw (\<lambda>n.
     if fault_at E n then op_bail ''journal mutex poisoned'' else op_return ())"

definition insert_snapshot_header :: "SnapshotRow \<Rightarrow> unit jop" where
  "insert_snapshot_header r =
    op_bind (op_query registry_snapshots) (\<lambda>t.
    if list_ex (\<lambda>r'. sn_snapshot_id r' = sn_snapshot_id r \<or>
        sn_canonical_digest r' = sn_canonical_digest r) t
    then op_bail constraint_error
    else op_update (\<lambda>s. s\<lparr>registry_snapshots := t @ [r]\<rparr>))"

definition has_snapshot :: "string \<Rightarrow> store \<Rightarrow> bool" where
  "has_snapshot i s \<longleftrightarrow> list_ex (\<lambda>h. sn_snapshot_id h = i) (registry_snapshots s)"

definition insert_snapshot_operation :: "SnapshotOperationRow \<Rightarrow> unit jop" where
  "insert_snapshot_operation r =
    op_bind (op_query (has_snapshot (so_snapshot_id r))) (\<lambda>parent.
    op_bind (op_query registry_snapshot_operations) (\<lambda>t.
    if \<not> parent \<or> list_ex (\<lambda>r'. so_snapshot_id r' = so_snapshot_id r \<and>
         so_operation_name r' = so_operation_name r) t
    then op_bail constraint_error
    else op_update (\<lambda>s. s\<lparr>registry_snapshot_operations := t @ [r]\<rparr>)))"

definition insert_snapshot_binding :: "SnapshotBindingRow \<Rightarrow> unit jop" where
  "insert_snapshot_binding r =
    op_bind (op_query (has_snapshot (sb_snapshot_id r))) (\<lambda>parent.
    op_bind (op_query registry_snapshot_hook_bindings) (\<lambda>t.
    if \<not> parent \<or> list_ex (\<lambda>r'. sb_snapshot_id r' = sb_snapshot_id r \<and>
         sb_contract r' = sb_contract r) t
    then op_bail constraint_error
    else op_update (\<lambda>s. s\<lparr>registry_snapshot_hook_bindings := t @ [r]\<rparr>)))"

definition insert_registry_state_or_ignore :: "StateRow \<Rightarrow> unit jop" where
  "insert_registry_state_or_ignore r =
    op_bind (op_query registry_state) (\<lambda>old.
    if old \<noteq> None then op_return ()
    else op_bind (op_query (has_snapshot (st_active_snapshot_id r))) (\<lambda>parent.
      if \<not> parent then op_bail constraint_error
      else op_update (\<lambda>s. s\<lparr>registry_state := Some r\<rparr>)))"

definition update_registry_state :: "int \<Rightarrow> StateRow \<Rightarrow> nat jop" where
  "update_registry_state version r =
    op_bind (op_query registry_state) (\<lambda>old.
    if map_option st_version old \<noteq> Some version then op_return 0
    else op_bind (op_query (has_snapshot (st_active_snapshot_id r))) (\<lambda>parent.
      if \<not> parent then op_bail constraint_error
      else op_then (op_update (\<lambda>s. s\<lparr>registry_state := Some r\<rparr>)) (op_return 1)))"

lemmas registry_statement_defs = lock_def insert_snapshot_header_def
  insert_snapshot_operation_def insert_snapshot_binding_def insert_registry_state_or_ignore_def
  update_registry_state_def

subsection \<open>Snapshots\<close>

definition load_snapshot_from_conn :: "env \<Rightarrow> string \<Rightarrow> RegistrySnapshot jop" where
  "load_snapshot_from_conn E snapshot_id =
    op_bind (op_query (\<lambda>s. find (\<lambda>h. sn_snapshot_id h = snapshot_id) (registry_snapshots s)))
      (\<lambda>header.
    case header of
      None \<Rightarrow> op_bail ''Query returned no rows''
    | Some h \<Rightarrow>
        op_bind (op_query (\<lambda>s. sort_key so_operation_name (filter
          (\<lambda>r. so_snapshot_id r = snapshot_id) (registry_snapshot_operations s)))) (\<lambda>rows.
        op_bind (op_lift (collect_results (spec_of_row E) rows)) (\<lambda>operations.
        op_bind (op_query (\<lambda>s. sort_key sb_contract (filter
          (\<lambda>r. sb_snapshot_id r = snapshot_id) (registry_snapshot_hook_bindings s)))) (\<lambda>hooks.
        op_return \<lparr>rs_snapshot_id = snapshot_id, rs_created_at = sn_created_at h,
          rs_operations = operations, rs_hook_bindings = map binding_of_row hooks\<rparr>))))"

definition load_registry_snapshot :: "env \<Rightarrow> string \<Rightarrow> RegistrySnapshot jop" where
  "load_registry_snapshot E snapshot_id = tx E (load_snapshot_from_conn E snapshot_id)"

definition create_registry_snapshot_with_hook_bindings ::
  "env \<Rightarrow> OperationSpec list \<Rightarrow> HookBinding list \<Rightarrow> RegistrySnapshot jop" where
  "create_registry_snapshot_with_hook_bindings E specs bindings =
    (if \<not> distinct (map hb_contract bindings) then op_bail ''registry_duplicate_hook_contract''
     else let snapshot_id = compute_snapshot_id_with_hook_bindings E specs bindings in
       op_bind (utc_now E) (\<lambda>created_at.
       op_then (lock E)
       (op_bind (op_try (tx E (op_query (has_snapshot snapshot_id)))) (\<lambda>existing.
       if existing = Inr True then tx E (load_snapshot_from_conn E snapshot_id)
       else
         op_then (tx E (insert_snapshot_header \<lparr>sn_snapshot_id = snapshot_id,
           sn_created_at = created_at, sn_operation_count = int (length specs),
           sn_canonical_digest = snapshot_id\<rparr>))
         (let sorted_specs = sort_key os_name specs in
         op_then (op_for sorted_specs
           (\<lambda>op_spec. tx E (insert_snapshot_operation (operation_row E snapshot_id op_spec))))
         (op_then (op_for bindings
           (\<lambda>b. tx E (insert_snapshot_binding (binding_row snapshot_id b))))
         (op_return \<lparr>rs_snapshot_id = snapshot_id, rs_created_at = created_at,
           rs_operations = sorted_specs, rs_hook_bindings = bindings\<rparr>)))))))"

definition create_registry_snapshot :: "env \<Rightarrow> OperationSpec list \<Rightarrow> RegistrySnapshot jop" where
  "create_registry_snapshot E specs =
    create_registry_snapshot_with_hook_bindings E specs builtin_hook_bindings"

subsection \<open>The active snapshot\<close>

definition set_cache :: "string option \<Rightarrow> unit jop" where
  "set_cache c = op_update (\<lambda>s. s\<lparr>current_snapshot_id := c\<rparr>)"

definition cached_id :: "string \<Rightarrow> string jop" where
  "cached_id missing = op_bind (op_query current_snapshot_id) (\<lambda>c.
     case c of None \<Rightarrow> op_bail missing | Some i \<Rightarrow> op_return i)"

definition current_registry_snapshot_id :: "string jop" where
  "current_registry_snapshot_id =
    cached_id ''registry_snapshot_unavailable: no current registry snapshot''"

definition init_registry_state :: "env \<Rightarrow> string \<Rightarrow> unit jop" where
  "init_registry_state E snapshot_id =
    op_bind (utc_now E) (\<lambda>now. tx E (insert_registry_state_or_ignore
      \<lparr>st_active_snapshot_id = snapshot_id, st_version = 1, st_updated_at = now\<rparr>))"

definition load_active_snapshot_from_state :: "env \<Rightarrow> string option jop" where
  "load_active_snapshot_from_state E =
    op_then (lock E)
    (op_bind (op_try (tx E (op_query (\<lambda>s. map_option st_active_snapshot_id (registry_state s)))))
      (\<lambda>r. op_return (case r of Inl _ \<Rightarrow> None | Inr found \<Rightarrow> found)))"

definition activate_registry_snapshot :: "env \<Rightarrow> string \<Rightarrow> unit jop" where
  "activate_registry_snapshot E snapshot_id =
    op_then (load_registry_snapshot E snapshot_id) (set_cache (Some snapshot_id))"

definition backfill_null_registry_snapshot :: "env \<Rightarrow> string \<Rightarrow> nat jop" where
  "backfill_null_registry_snapshot E snapshot_id =
    tx E (update_runs (\<lambda>r. rr_registry_snapshot_id r = None)
      (\<lambda>r. r\<lparr>rr_registry_snapshot_id := Some snapshot_id\<rparr>))"

definition activation_payload :: "string \<Rightarrow> string \<Rightarrow> string \<Rightarrow> string \<Rightarrow> json" where
  "activation_payload action expected new decision_id =
    jobj [(''action'', JStr action), (''previous_snapshot_id'', JStr expected),
          (''new_snapshot_id'', JStr new), (''decision_id'', JStr decision_id)]"

definition activate_snapshot_transactional ::
  "env \<Rightarrow> string \<Rightarrow> string \<Rightarrow> string \<Rightarrow> string \<Rightarrow> (string \<times> string) jop" where
  "activate_snapshot_transactional E expected new decision_id action =
    op_then
      (tx E (op_bind (op_query registry_state) (\<lambda>row.
        case row of
          None \<Rightarrow> op_bail ''registry_state not initialized''
        | Some r \<Rightarrow>
            if st_active_snapshot_id r \<noteq> expected
            then op_bail (''snapshot_conflict: has '' @ st_active_snapshot_id r @
              '', expected '' @ expected)
            else
              op_bind (utc_now E) (\<lambda>now.
              op_bind (update_registry_state (st_version r) \<lparr>st_active_snapshot_id = new,
                st_version = st_version r + 1, st_updated_at = now\<rparr>) (\<lambda>changed.
              if changed = 0 then op_bail ''snapshot_conflict: version CAS failed''
              else op_then (append_event_tx E RegistrySnapshotActivated None None
                  (Some decision_id) (activation_payload action expected new decision_id))
                (op_return ()))))))
      (op_then (set_cache (Some new)) (op_return (expected, new)))"

definition refresh_cache_from_db :: "env \<Rightarrow> string jop" where
  "refresh_cache_from_db E =
    op_then (set_cache None)
    (op_bind (load_active_snapshot_from_state E) (\<lambda>found.
     case found of
       None \<Rightarrow> op_bail ''registry_state not initialized''
     | Some db_id \<Rightarrow> op_then (set_cache (Some db_id)) (op_return db_id)))"

text \<open>An activation that on failure reads the authoritative identifier before it reports.\<close>

definition activate_or_refresh ::
  "env \<Rightarrow> string \<Rightarrow> string \<Rightarrow> string \<Rightarrow> string \<Rightarrow> string \<Rightarrow> unit jop" where
  "activate_or_refresh E what expected new decision_id action =
    op_bind (op_try (activate_snapshot_transactional E expected new decision_id action)) (\<lambda>r.
    case r of
      Inr _ \<Rightarrow> op_return ()
    | Inl cas_error \<Rightarrow>
        op_bind (op_try (refresh_cache_from_db E)) (\<lambda>refreshed.
        case refreshed of
          Inl refresh_error \<Rightarrow> op_bail (what @ '' CAS conflict then cache refresh failure: '' @
            take_chars 80 cas_error @ ''; '' @ take_chars 80 refresh_error)
        | Inr _ \<Rightarrow> op_bail cas_error))"

definition apply_builtin_time_retirement :: "env \<Rightarrow> string \<Rightarrow> string \<Rightarrow> string \<Rightarrow> unit jop" where
  "apply_builtin_time_retirement E new expected decision_id =
    activate_or_refresh E ''retirement'' expected new decision_id ''retire_builtin_time''"

subsection \<open>Upgrades and boot\<close>

definition is_legacy_time :: "OperationSpec \<Rightarrow> bool" where
  "is_legacy_time op_spec \<longleftrightarrow> os_name op_spec = ''time.now'' \<and>
     os_binding_kind op_spec = Builtin \<and> os_binding_key op_spec = ''builtin.time_now''"

definition retired_hcr_accept :: string where
  "retired_hcr_accept = ''external.coding_hcr_accept''"

definition control_spec :: "string + OperationSpec" where
  "control_spec =
    (case find (\<lambda>spec. os_name spec = task_submit) builtin_specs of
       None \<Rightarrow> Inl ''coding_control_spec_missing'' | Some spec \<Rightarrow> Inr spec)"

text \<open>The operations of a snapshot with the control operation replaced by the built-in one.\<close>

definition with_controls :: "OperationSpec list \<Rightarrow> OperationSpec \<Rightarrow> OperationSpec list" where
  "with_controls specs control =
    filter (\<lambda>spec. os_name spec \<noteq> task_submit \<and> os_name spec \<noteq> retired_hcr_accept) specs
      @ [control]"

definition retire_legacy_builtin_time_if_present :: "env \<Rightarrow> RegistrySnapshot \<Rightarrow> bool jop" where
  "retire_legacy_builtin_time_if_present E current =
    (if \<not> list_ex is_legacy_time (rs_operations current) then op_return False
     else
       op_bind (op_lift control_spec) (\<lambda>control.
       let new_specs =
         with_controls (filter (\<lambda>spec. \<not> is_legacy_time spec) (rs_operations current)) control;
         inherited = (if rs_hook_bindings current = [] then builtin_hook_bindings
           else rs_hook_bindings current) in
       op_bind (create_registry_snapshot_with_hook_bindings E new_specs inherited) (\<lambda>snap.
       op_then (apply_builtin_time_retirement E (rs_snapshot_id snap) (rs_snapshot_id current)
           (''retire_builtin_time:'' @ rs_snapshot_id current))
         (op_return True))))"

definition ensure_required_hook_bindings :: "env \<Rightarrow> RegistrySnapshot \<Rightarrow> bool jop" where
  "ensure_required_hook_bindings E current =
    (if rs_hook_bindings current \<noteq> [] then op_return False
     else
       op_bind (create_registry_snapshot_with_hook_bindings E (rs_operations current)
         builtin_hook_bindings) (\<lambda>snap.
       if rs_snapshot_id snap = rs_snapshot_id current then op_return False
       else op_then (activate_or_refresh E ''hook_bindings_backfill'' (rs_snapshot_id current)
           (rs_snapshot_id snap) (''hook_bindings_backfill:'' @ rs_snapshot_id current)
           ''hook_bindings_backfill'')
         (op_return True)))"

definition ensure_coding_control_operations :: "env \<Rightarrow> RegistrySnapshot \<Rightarrow> bool jop" where
  "ensure_coding_control_operations E current =
    op_bind (op_lift control_spec) (\<lambda>control.
    if \<not> list_ex (\<lambda>spec. os_name spec = retired_hcr_accept) (rs_operations current) \<and>
       snapshot_lookup current (os_name control) = Some control
    then op_return False
    else
      op_bind (create_registry_snapshot_with_hook_bindings E
        (with_controls (rs_operations current) control) (rs_hook_bindings current)) (\<lambda>next.
      op_then (activate_snapshot_transactional E (rs_snapshot_id current) (rs_snapshot_id next)
          (''seed_coding_controls:'' @ rs_snapshot_id current) ''seed_coding_control_operations'')
        (op_return True)))"

definition restart_registry :: "env \<Rightarrow> string \<Rightarrow> string jop" where
  "restart_registry E state_id =
    op_bind (load_registry_snapshot E state_id) (\<lambda>snap.
    op_then (set_cache (Some state_id))
    (op_bind (op_try (retire_legacy_builtin_time_if_present E snap)) (\<lambda>retired.
    op_then
      (case retired of
        Inr upgraded \<Rightarrow>
          if upgraded then op_return () else
          op_bind (cached_id ''registry_id_missing_after_upgrade'') (\<lambda>active_id.
          op_bind (load_registry_snapshot E active_id) (\<lambda>active.
          op_bind (op_try (ensure_required_hook_bindings E active)) (\<lambda>ensured.
          case ensured of
            Inr _ \<Rightarrow> op_return ()
          | Inl e \<Rightarrow> op_then (refresh_cache_from_db E) (op_bail e))))
      | Inl e \<Rightarrow> op_then (refresh_cache_from_db E) (op_bail e))
    (op_bind (cached_id ''registry_id_missing_after_upgrade'') (\<lambda>active_id.
     op_bind (load_registry_snapshot E active_id) (\<lambda>active.
     op_then (ensure_coding_control_operations E active)
       (cached_id ''registry_id_missing_after_control_seed'')))))))"

definition initialize_registry :: "env \<Rightarrow> string jop" where
  "initialize_registry E =
    op_then (initialize_component_registry E)
    (op_bind (op_query current_snapshot_id) (\<lambda>cached.
     case cached of
       Some i \<Rightarrow> op_return i
     | None \<Rightarrow>
         op_bind (load_active_snapshot_from_state E) (\<lambda>state.
         case state of
           Some state_id \<Rightarrow> restart_registry E state_id
         | None \<Rightarrow>
             op_bind (create_registry_snapshot E builtin_specs) (\<lambda>snapshot.
             op_then (set_cache (Some (rs_snapshot_id snapshot)))
             (op_then (init_registry_state E (rs_snapshot_id snapshot))
             (op_then (op_try (backfill_null_registry_snapshot E (rs_snapshot_id snapshot)))
               (op_return (rs_snapshot_id snapshot))))))))"

subsection \<open>What storing a snapshot writes\<close>

lemma utc_now_run: "utc_now E s = (Inr (clock_at E (tick s)), s\<lparr>tick := Suc (tick s)\<rparr>)"
  by (simp add: op_simps)

lemma lock_run: "lock E s = (if fault_at E (tick s) then Inl ''journal mutex poisoned'' else Inr (),
    s\<lparr>tick := Suc (tick s)\<rparr>)"
  by (simp add: lock_def op_simps)

lemma has_snapshot_tick [simp]: "has_snapshot i (s\<lparr>tick := n\<rparr>) = has_snapshot i s"
  by (simp add: has_snapshot_def)

lemma insert_operations_Inr:
  "op_for xs (\<lambda>x. tx E (insert_snapshot_operation (operation_row E i x))) s = (Inr (), t) \<Longrightarrow>
   (\<exists>n. t = s\<lparr>tick := n, registry_snapshot_operations :=
      registry_snapshot_operations s @ map (operation_row E i) xs\<rparr>) \<and>
   distinct (map os_name xs) \<and>
   (\<forall>r \<in> set (registry_snapshot_operations s). so_snapshot_id r = i \<longrightarrow>
      so_operation_name r \<notin> os_name ` set xs)"
proof (induction xs arbitrary: s)
  case Nil
  then show ?case by (auto simp: op_return_def intro: exI [of _ "tick s"])
next
  case (Cons x xs)
  then obtain u where u: "tx E (insert_snapshot_operation (operation_row E i x)) s = (Inr (), u)"
    and rest: "op_for xs (\<lambda>x. tx E (insert_snapshot_operation (operation_row E i x))) u = (Inr (), t)"
    by (auto simp: op_then_def elim!: op_bind_InrD)
  from u have u': "u = s\<lparr>tick := Suc (tick s), registry_snapshot_operations :=
      registry_snapshot_operations s @ [operation_row E i x]\<rparr>"
    and new: "\<forall>r \<in> set (registry_snapshot_operations s). so_snapshot_id r = i \<longrightarrow>
      so_operation_name r \<noteq> os_name x"
    by (auto dest!: tx_InrD simp: op_defs insert_snapshot_operation_def operation_row_def list_ex_iff
        split: if_splits)
  from Cons.IH [OF rest] show ?case
    using new by (auto simp: u' operation_row_def)
qed

lemma insert_bindings_Inr:
  "op_for xs (\<lambda>x. tx E (insert_snapshot_binding (binding_row i x))) s = (Inr (), t) \<Longrightarrow>
   \<exists>n. t = s\<lparr>tick := n, registry_snapshot_hook_bindings :=
      registry_snapshot_hook_bindings s @ map (binding_row i) xs\<rparr>"
proof (induction xs arbitrary: s)
  case Nil
  then show ?case by (auto simp: op_return_def intro: exI [of _ "tick s"])
next
  case (Cons x xs)
  then obtain u where u: "tx E (insert_snapshot_binding (binding_row i x)) s = (Inr (), u)"
    and rest: "op_for xs (\<lambda>x. tx E (insert_snapshot_binding (binding_row i x))) u = (Inr (), t)"
    by (auto simp: op_then_def elim!: op_bind_InrD)
  from u have u': "u = s\<lparr>tick := Suc (tick s), registry_snapshot_hook_bindings :=
      registry_snapshot_hook_bindings s @ [binding_row i x]\<rparr>"
    by (auto dest!: tx_InrD simp: op_defs insert_snapshot_binding_def binding_row_def
        split: if_splits)
  from Cons.IH [OF rest] show ?case by (auto simp: u')
qed

text \<open>Without a database error and without a clash of keys the statements succeed.\<close>

lemma insert_operations_ok:
  "\<lbrakk>\<forall>n. \<not> fault_at E n; has_snapshot i s; distinct (map os_name xs);
    \<forall>r \<in> set (registry_snapshot_operations s). so_snapshot_id r = i \<longrightarrow>
      so_operation_name r \<notin> os_name ` set xs\<rbrakk> \<Longrightarrow>
   \<exists>t. op_for xs (\<lambda>x. tx E (insert_snapshot_operation (operation_row E i x))) s = (Inr (), t)"
proof (induction xs arbitrary: s)
  case (Cons x xs)
  let ?s = "s\<lparr>tick := Suc (tick s), registry_snapshot_operations :=
    registry_snapshot_operations s @ [operation_row E i x]\<rparr>"
  have "tx E (insert_snapshot_operation (operation_row E i x)) s = (Inr (), ?s)"
    using Cons.prems by (auto simp: tx_def Let_def op_defs insert_snapshot_operation_def
        operation_row_def list_ex_iff)
  moreover have "\<exists>t. op_for xs (\<lambda>x. tx E (insert_snapshot_operation (operation_row E i x))) ?s =
      (Inr (), t)"
    using Cons.prems by (intro Cons.IH) (auto simp: operation_row_def has_snapshot_def)
  ultimately show ?case by (simp add: op_then_def op_bind_def)
qed (simp add: op_return_def)

lemma insert_bindings_ok:
  "\<lbrakk>\<forall>n. \<not> fault_at E n; has_snapshot i s; distinct (map hb_contract xs);
    \<forall>r \<in> set (registry_snapshot_hook_bindings s). sb_snapshot_id r = i \<longrightarrow>
      sb_contract r \<notin> hb_contract ` set xs\<rbrakk> \<Longrightarrow>
   \<exists>t. op_for xs (\<lambda>x. tx E (insert_snapshot_binding (binding_row i x))) s = (Inr (), t)"
proof (induction xs arbitrary: s)
  case (Cons x xs)
  let ?s = "s\<lparr>tick := Suc (tick s), registry_snapshot_hook_bindings :=
    registry_snapshot_hook_bindings s @ [binding_row i x]\<rparr>"
  have "tx E (insert_snapshot_binding (binding_row i x)) s = (Inr (), ?s)"
    using Cons.prems by (auto simp: tx_def Let_def op_defs insert_snapshot_binding_def
        binding_row_def list_ex_iff)
  moreover have "\<exists>t. op_for xs (\<lambda>x. tx E (insert_snapshot_binding (binding_row i x))) ?s = (Inr (), t)"
    using Cons.prems by (intro Cons.IH) (auto simp: binding_row_def has_snapshot_def)
  ultimately show ?case by (simp add: op_then_def op_bind_def)
qed (simp add: op_return_def)

text \<open>The rows of a snapshot that is stored for the first time.\<close>

lemma create_fresh:
  assumes "create_registry_snapshot_with_hook_bindings E specs bindings s = (Inr snap, t)"
    and "\<not> has_snapshot (compute_snapshot_id_with_hook_bindings E specs bindings) s"
  defines "i \<equiv> compute_snapshot_id_with_hook_bindings E specs bindings"
  shows "snap = \<lparr>rs_snapshot_id = i, rs_created_at = clock_at E (tick s),
      rs_operations = sort_key os_name specs, rs_hook_bindings = bindings\<rparr>"
    and "distinct (map hb_contract bindings)" and "distinct (map os_name specs)"
    and "\<exists>n. t = s\<lparr>tick := n,
      registry_snapshots := registry_snapshots s @ [\<lparr>sn_snapshot_id = i,
        sn_created_at = clock_at E (tick s), sn_operation_count = int (length specs),
        sn_canonical_digest = i\<rparr>],
      registry_snapshot_operations := registry_snapshot_operations s @
        map (operation_row E i) (sort_key os_name specs),
      registry_snapshot_hook_bindings := registry_snapshot_hook_bindings s @
        map (binding_row i) bindings\<rparr>"
proof -
  show d: "distinct (map hb_contract bindings)"
    using assms(1) by (auto simp: create_registry_snapshot_with_hook_bindings_def op_bail_def
        split: if_splits)
  let ?h = "\<lparr>sn_snapshot_id = i, sn_created_at = clock_at E (tick s),
    sn_operation_count = int (length specs), sn_canonical_digest = i\<rparr>"
  from assms(1) d obtain c e where
    header: "tx E (insert_snapshot_header ?h) (s\<lparr>tick := Suc (Suc (Suc (tick s)))\<rparr>) = (Inr (), c)"
    and ops: "op_for (sort_key os_name specs)
        (\<lambda>x. tx E (insert_snapshot_operation (operation_row E i x))) c = (Inr (), e)"
    and hooks: "op_for bindings (\<lambda>x. tx E (insert_snapshot_binding (binding_row i x))) e = (Inr (), t)"
    and snap: "snap = \<lparr>rs_snapshot_id = i, rs_created_at = clock_at E (tick s),
           rs_operations = sort_key os_name specs, rs_hook_bindings = bindings\<rparr>"
    using assms(2) unfolding create_registry_snapshot_with_hook_bindings_def Let_def op_then_def i_def
    by (auto elim!: op_bind_InrD simp: op_return_def op_try_def utc_now_run lock_run tx_query
        split: if_splits)
  show "snap = \<lparr>rs_snapshot_id = i, rs_created_at = clock_at E (tick s),
      rs_operations = sort_key os_name specs, rs_hook_bindings = bindings\<rparr>" by (fact snap)
  from insert_operations_Inr [OF ops] show "distinct (map os_name specs)"
    by (simp add: distinct_map)
  from header have c: "\<exists>n. c = s\<lparr>tick := n, registry_snapshots := registry_snapshots s @ [?h]\<rparr>"
    by (auto dest!: tx_InrD simp: op_defs insert_snapshot_header_def split: if_splits)
  from c insert_operations_Inr [OF ops] insert_bindings_Inr [OF hooks]
  show "\<exists>n. t = s\<lparr>tick := n, registry_snapshots := registry_snapshots s @ [?h],
      registry_snapshot_operations := registry_snapshot_operations s @
        map (operation_row E i) (sort_key os_name specs),
      registry_snapshot_hook_bindings := registry_snapshot_hook_bindings s @
        map (binding_row i) bindings\<rparr>" by (cases s) auto
qed

subsection \<open>Stored snapshots do not change\<close>

text \<open>What the tables hold of one snapshot.\<close>

definition stored :: "string \<Rightarrow> store \<Rightarrow> SnapshotRow list \<times> SnapshotOperationRow list \<times>
    SnapshotBindingRow list" where
  "stored i s =
    (filter (\<lambda>r. sn_snapshot_id r = i) (registry_snapshots s),
     filter (\<lambda>r. so_snapshot_id r = i) (registry_snapshot_operations s),
     filter (\<lambda>r. sb_snapshot_id r = i) (registry_snapshot_hook_bindings s))"

text \<open>\<open>snapshots_fixed s t\<close>: every snapshot with a header in \<open>s\<close> is stored in \<open>t\<close> as it was;
  \<open>others_fixed i s t\<close>: so is every snapshot but \<open>i\<close>.\<close>

definition snapshots_fixed :: "store \<Rightarrow> store \<Rightarrow> bool" where
  "snapshots_fixed s t \<longleftrightarrow> (\<forall>i. has_snapshot i s \<longrightarrow> stored i t = stored i s)"

definition others_fixed :: "string \<Rightarrow> store \<Rightarrow> store \<Rightarrow> bool" where
  "others_fixed i s t \<longleftrightarrow> (\<forall>j. j \<noteq> i \<longrightarrow> stored j t = stored j s)"

lemma has_snapshot_stored: "has_snapshot i s \<longleftrightarrow> fst (stored i s) \<noteq> []"
  by (auto simp: has_snapshot_def stored_def list_ex_iff filter_empty_conv)

lemma load_snapshot_stored:
  "load_snapshot_from_conn E i s =
    (case stored i s of
      ([], _) \<Rightarrow> (Inl ''Query returned no rows'', s)
    | (h # _, ops, hooks) \<Rightarrow>
        (case collect_results (spec_of_row E) (sort_key so_operation_name ops) of
          Inl e \<Rightarrow> (Inl e, s)
        | Inr operations \<Rightarrow> (Inr \<lparr>rs_snapshot_id = i, rs_created_at = sn_created_at h,
            rs_operations = operations,
            rs_hook_bindings = map binding_of_row (sort_key sb_contract hooks)\<rparr>, s)))"
proof -
  have "find P xs = (case filter P xs of [] \<Rightarrow> None | h # _ \<Rightarrow> Some h)" for P and xs :: "SnapshotRow list"
    by (induction xs) auto
  then show ?thesis
    by (simp add: load_snapshot_from_conn_def op_defs stored_def split: list.split sum.split)
qed

interpretation sf: store_frame snapshots_fixed
proof unfold_locales
  fix s t u :: store
  show "snapshots_fixed s s" by (simp add: snapshots_fixed_def)
  show "snapshots_fixed s t \<Longrightarrow> snapshots_fixed t u \<Longrightarrow> snapshots_fixed s u"
    unfolding snapshots_fixed_def has_snapshot_stored by metis
  show "tick s \<le> n \<Longrightarrow> snapshots_fixed s (s\<lparr>tick := n\<rparr>)" for n
    by (simp add: snapshots_fixed_def stored_def)
qed

interpretation of: store_frame "others_fixed i" for i
proof unfold_locales
  fix s t u :: store
  show "others_fixed i s s" by (simp add: others_fixed_def)
  show "others_fixed i s t \<Longrightarrow> others_fixed i t u \<Longrightarrow> others_fixed i s u"
    unfolding others_fixed_def by metis
  show "tick s \<le> n \<Longrightarrow> others_fixed i s (s\<lparr>tick := n\<rparr>)" for n
    by (simp add: others_fixed_def stored_def)
qed

lemma others_fixed_inserts:
  "sn_snapshot_id h = i \<Longrightarrow> obeys (others_fixed i) (insert_snapshot_header h)"
  "so_snapshot_id r = i \<Longrightarrow> obeys (others_fixed i) (insert_snapshot_operation r)"
  "sb_snapshot_id b = i \<Longrightarrow> obeys (others_fixed i) (insert_snapshot_binding b)"
  by (rule obeysI; auto simp: op_defs registry_statement_defs others_fixed_def stored_def)+

lemma fixed_lock: "obeys snapshots_fixed (lock E)" "obeys (others_fixed i) (lock E)"
  unfolding lock_def by (intro sf.store_intros of.store_intros obeys_intros)+

lemma fixed_load: "obeys snapshots_fixed (load_snapshot_from_conn E j)"
  "obeys (others_fixed i) (load_snapshot_from_conn E j)"
  unfolding load_snapshot_from_conn_def by (intro sf.store_intros of.store_intros obeys_intros)+

lemma others_fixed_create:
  "obeys (others_fixed (compute_snapshot_id_with_hook_bindings E specs bindings))
    (create_registry_snapshot_with_hook_bindings E specs bindings)"
  unfolding create_registry_snapshot_with_hook_bindings_def Let_def
  by (intro of.store_intros obeys_intros fixed_lock fixed_load others_fixed_inserts)
    (simp_all add: operation_row_def binding_row_def)

lemma create_existing:
  assumes "has_snapshot (compute_snapshot_id_with_hook_bindings E specs bindings) s"
  shows "unchanged s (snd (create_registry_snapshot_with_hook_bindings E specs bindings s))"
proof -
  let ?i = "compute_snapshot_id_with_hook_bindings E specs bindings"
  have load: "unchanged u (snd (tx E (load_snapshot_from_conn E ?i) u))" for u
    by (auto simp: tx_def load_snapshot_stored unchanged_def Let_def split: prod.splits list.splits
        sum.splits)
  have header: "\<exists>e n. tx E (insert_snapshot_header h) (s\<lparr>tick := m\<rparr>) = (Inl e, s\<lparr>tick := n\<rparr>)"
    if "sn_snapshot_id h = ?i" for h m
    using assms that
    by (auto simp: tx_def Let_def op_defs insert_snapshot_header_def has_snapshot_def list_ex_iff)
  obtain e n where "tx E (insert_snapshot_header \<lparr>sn_snapshot_id = ?i,
      sn_created_at = clock_at E (tick s), sn_operation_count = int (length specs),
      sn_canonical_digest = ?i\<rparr>) (s\<lparr>tick := Suc (Suc (Suc (tick s)))\<rparr>) = (Inl e, s\<lparr>tick := n\<rparr>)"
    using header by force
  with load [of "s\<lparr>tick := Suc (Suc (Suc (tick s)))\<rparr>"] assms show ?thesis
    by (auto simp: create_registry_snapshot_with_hook_bindings_def Let_def op_then_def op_bind_def
        op_bail_def op_try_def utc_now_run lock_run tx_query intro: unchanged_trans [OF unchanged_tick])
qed

lemma fixed_create:
  "obeys snapshots_fixed (create_registry_snapshot_with_hook_bindings E specs bindings)"
proof (rule obeysI)
  fix s
  let ?i = "compute_snapshot_id_with_hook_bindings E specs bindings"
  let ?t = "snd (create_registry_snapshot_with_hook_bindings E specs bindings s)"
  have "others_fixed ?i s ?t" using others_fixed_create by (simp add: obeys_def)
  moreover have "stored ?i ?t = stored ?i s" if "has_snapshot ?i s"
    using create_existing [OF that] by (simp add: stored_def unchangedD)
  ultimately show "snapshots_fixed s ?t"
    unfolding snapshots_fixed_def others_fixed_def by metis
qed

lemma fixed_component: "obeys snapshots_fixed (initialize_component_registry E)"
proof -
  have stmts: "obeys snapshots_fixed (insert_component_snapshot h)"
    "obeys snapshots_fixed (insert_component_entry e)"
    "obeys snapshots_fixed (insert_component_state r)" for h e r
    by (rule obeysI; auto simp: op_simps snapshots_fixed_def stored_def)+
  show ?thesis
    unfolding initialize_component_registry_def persist_component_snapshot_def
      load_component_snapshot_def Let_def
    by (intro sf.store_intros obeys_intros stmts)
qed

lemma fixed_statements:
  "obeys snapshots_fixed (set_cache c)" "obeys snapshots_fixed (update_runs p f)"
  "obeys snapshots_fixed (update_registry_state v r)"
  "obeys snapshots_fixed (insert_registry_state_or_ignore r)"
  "obeys snapshots_fixed (append_event_tx E k ri si ci payload)"
  "obeys snapshots_fixed (cached_id e)"
  by (rule obeysI; auto simp: op_simps registry_statement_defs set_cache_def snapshots_fixed_def
      cached_id_def append_event_tx_run stored_def split: option.splits)+

lemma fixed_state:
  "obeys snapshots_fixed (load_registry_snapshot E i)"
  "obeys snapshots_fixed (load_active_snapshot_from_state E)"
  "obeys snapshots_fixed (activate_snapshot_transactional E expected new d action)"
  unfolding load_registry_snapshot_def load_active_snapshot_from_state_def
    activate_snapshot_transactional_def
  by (intro sf.store_intros obeys_intros fixed_statements fixed_lock fixed_load)+

lemma fixed_refresh:
  "obeys snapshots_fixed (refresh_cache_from_db E)"
  "obeys snapshots_fixed (activate_or_refresh E what expected new d action)"
  unfolding refresh_cache_from_db_def activate_or_refresh_def
  by (intro sf.store_intros obeys_intros fixed_statements fixed_state)+

lemma fixed_upgrades:
  "obeys snapshots_fixed (retire_legacy_builtin_time_if_present E current)"
  "obeys snapshots_fixed (ensure_required_hook_bindings E current)"
  "obeys snapshots_fixed (ensure_coding_control_operations E current)"
  unfolding retire_legacy_builtin_time_if_present_def ensure_required_hook_bindings_def
    ensure_coding_control_operations_def apply_builtin_time_retirement_def
  by (intro sf.store_intros obeys_intros fixed_state fixed_refresh fixed_create)+

lemma fixed_initialize: "obeys snapshots_fixed (initialize_registry E)"
  unfolding initialize_registry_def restart_registry_def create_registry_snapshot_def
    init_registry_state_def backfill_null_registry_snapshot_def
  by (intro sf.store_intros obeys_intros fixed_component fixed_statements fixed_state fixed_refresh
      fixed_upgrades fixed_create)

lemma create_ok:
  assumes "\<forall>n. \<not> fault_at E n" and "distinct (map hb_contract bindings)"
    and "distinct (map os_name specs)"
    and "stored (compute_snapshot_id_with_hook_bindings E specs bindings) s = ([], [], [])"
    and "\<forall>h \<in> set (registry_snapshots s). sn_canonical_digest h = sn_snapshot_id h"
  shows "\<exists>snap t. create_registry_snapshot_with_hook_bindings E specs bindings s = (Inr snap, t)"
proof -
  let ?i = "compute_snapshot_id_with_hook_bindings E specs bindings"
  let ?h = "\<lparr>sn_snapshot_id = ?i, sn_created_at = clock_at E (tick s),
    sn_operation_count = int (length specs), sn_canonical_digest = ?i\<rparr>"
  let ?c = "s\<lparr>tick := Suc (Suc (Suc (Suc (tick s)))), registry_snapshots := registry_snapshots s @ [?h]\<rparr>"
  have fresh: "\<not> has_snapshot ?i s" using assms(4) by (simp add: has_snapshot_stored)
  have header: "tx E (insert_snapshot_header ?h) (s\<lparr>tick := Suc (Suc (Suc (tick s)))\<rparr>) = (Inr (), ?c)"
    using assms(1,5) fresh
    by (auto simp: tx_def Let_def op_defs insert_snapshot_header_def has_snapshot_def list_ex_iff)
  have none: "\<forall>r \<in> set (registry_snapshot_operations s). so_snapshot_id r \<noteq> ?i"
    "\<forall>r \<in> set (registry_snapshot_hook_bindings s). sb_snapshot_id r \<noteq> ?i"
    using assms(4) by (simp_all add: stored_def filter_empty_conv)
  obtain e where e: "op_for (sort_key os_name specs)
      (\<lambda>x. tx E (insert_snapshot_operation (operation_row E ?i x))) ?c = (Inr (), e)"
    using insert_operations_ok [of E ?i ?c "sort_key os_name specs"] assms(1,3) none(1)
    by (auto simp: has_snapshot_def distinct_map)
  obtain t where t: "op_for bindings (\<lambda>x. tx E (insert_snapshot_binding (binding_row ?i x))) e =
      (Inr (), t)"
    using insert_bindings_ok [of E ?i e bindings] insert_operations_Inr [OF e] assms(1,2) none(2)
    by (auto simp: has_snapshot_def)
  show ?thesis
    using assms(1,2) fresh header e t
    by (simp add: create_registry_snapshot_with_hook_bindings_def Let_def op_then_def op_bind_def
        op_try_def op_return_def utc_now_run lock_run tx_query)
qed

subsection \<open>Reading a stored snapshot back\<close>

definition parameters_read_back :: "env \<Rightarrow> OperationSpec list \<Rightarrow> bool" where
  "parameters_read_back E specs \<longleftrightarrow>
    (\<forall>x \<in> set specs. json_parse E (json_text E (os_parameters x)) = Some (os_parameters x))"

lemma spec_of_operation_row:
  "json_parse E (json_text E (os_parameters x)) = Some (os_parameters x) \<Longrightarrow>
   spec_of_row E (operation_row E i x) = Inr (x :: OperationSpec)"
  by (cases "os_risk x"; cases "os_binding_kind x")
    (simp_all add: spec_of_row_def operation_row_def)

lemma binding_of_binding_row: "binding_of_row (binding_row i b) = (b :: HookBinding)"
  by (cases "hb_binding_kind b") (simp_all add: binding_of_row_def binding_row_def)

lemma sort_key_through: "sort_key f (map g xs) = map g (sort_key (\<lambda>x. f (g x)) xs)"
proof -
  have "insort_key f (g x) (map g ys) = map g (insort_key (\<lambda>x. f (g x)) x ys)" for x ys
    by (induction ys) auto
  then show ?thesis by (induction xs) simp_all
qed

text \<open>A snapshot that is stored for the first time loads as it was given.\<close>

lemma stored_fresh:
  assumes "create_registry_snapshot_with_hook_bindings E specs bindings s = (Inr snap, t)"
    and "stored (compute_snapshot_id_with_hook_bindings E specs bindings) s = ([], [], [])"
  defines "i \<equiv> compute_snapshot_id_with_hook_bindings E specs bindings"
  shows "stored i t = ([\<lparr>sn_snapshot_id = i, sn_created_at = clock_at E (tick s),
      sn_operation_count = int (length specs), sn_canonical_digest = i\<rparr>],
      map (operation_row E i) (sort_key os_name specs), map (binding_row i) bindings)"
proof -
  have "\<not> has_snapshot i s" using assms(2) by (simp add: has_snapshot_stored i_def)
  from create_fresh(4) [OF assms(1) this [unfolded i_def]] assms(2) show ?thesis
    by (auto simp: stored_def operation_row_def binding_row_def i_def)
qed

lemma load_stored_rows:
  assumes "stored i s = ([h], map (operation_row E i) specs, map (binding_row i) bindings)"
    and "parameters_read_back E specs"
  shows "load_snapshot_from_conn E i s =
    (Inr \<lparr>rs_snapshot_id = i, rs_created_at = sn_created_at h,
       rs_operations = sort_key os_name specs,
       rs_hook_bindings = sort_key hb_contract bindings\<rparr>, s)"
proof -
  have "collect_results (spec_of_row E) (map (operation_row E i) (sort_key os_name specs)) =
      Inr (map id (sort_key os_name specs))"
    using assms(2)
    by (intro collect_results_map) (simp add: parameters_read_back_def spec_of_operation_row)
  then show ?thesis
    using assms(1) by (simp add: load_snapshot_stored sort_key_through operation_row_def binding_row_def
        binding_of_binding_row [unfolded binding_row_def] comp_def)
qed

end
