(* ===== verification/Registry_Properties.thy ===== *)
theory Registry_Properties
  imports Registry_Store
begin

section \<open>Properties of the registry\<close>

text \<open>
  Stored snapshots load unchanged, activation is a compare-and-swap that writes its journal event
  with it, the first boot leaves a usable registry, and two ways in which a database error at the
  wrong moment leaves the registry in a state the code does not mean.
\<close>

lemma stored_snapshot_kept:
  assumes "create_registry_snapshot_with_hook_bindings E specs bindings s = (Inr snap, t)"
    and "stored (rs_snapshot_id snap) s = ([], [], [])"
    and "parameters_read_back E specs"
    and "snapshots_fixed t u"
  shows "load_snapshot_from_conn E (rs_snapshot_id snap) u =
      (Inr (snap\<lparr>rs_hook_bindings := sort_key hb_contract bindings\<rparr>), u)"
    and "snapshots_fixed u
      (snd (create_registry_snapshot_with_hook_bindings E specs' bindings' u))"
    and "snapshots_fixed u (snd (initialize_registry E u))"
proof -
  let ?i = "compute_snapshot_id_with_hook_bindings E specs bindings"
  have id: "rs_snapshot_id snap = ?i"
    using assms(1)
    by (auto simp: create_registry_snapshot_with_hook_bindings_def Let_def op_then_def op_return_def
        op_bail_def load_snapshot_from_conn_def elim!: op_bind_InrD dest!: tx_InrD
        split: if_splits option.splits)
  have fresh: "\<not> has_snapshot ?i s"
    using assms(2) id by (simp add: has_snapshot_stored)
  note c = create_fresh [OF assms(1) fresh]
  note t = stored_fresh [OF assms(1) assms(2) [unfolded id]]
  then have "has_snapshot ?i t" by (simp add: has_snapshot_stored)
  with assms(4) t have u: "stored ?i u = ([\<lparr>sn_snapshot_id = ?i,
      sn_created_at = clock_at E (tick s), sn_operation_count = int (length specs),
      sn_canonical_digest = ?i\<rparr>], map (operation_row E ?i) (sort_key os_name specs),
      map (binding_row ?i) bindings)"
    by (simp add: snapshots_fixed_def)
  have "sort_key os_name (sort_key os_name specs) = sort_key os_name specs"
    by (rule sort_key_id_if_sorted) simp
  with load_stored_rows [OF u] assms(3) c(1)
  show "load_snapshot_from_conn E (rs_snapshot_id snap) u =
      (Inr (snap\<lparr>rs_hook_bindings := sort_key hb_contract bindings\<rparr>), u)"
    by (simp add: parameters_read_back_def)
  show "snapshots_fixed u
      (snd (create_registry_snapshot_with_hook_bindings E specs' bindings' u))"
    using fixed_create by (simp add: obeys_def)
  show "snapshots_fixed u (snd (initialize_registry E u))"
    using fixed_initialize by (simp add: obeys_def)
qed


lemma activation_steps:
  assumes "activate_snapshot_transactional E expected new d action s = (r, t)"
  shows "case r of
      Inl _ \<Rightarrow> unchanged s t
    | Inr _ \<Rightarrow> \<exists>row now e.
        registry_state s = Some row \<and> st_active_snapshot_id row = expected \<and> has_snapshot new s \<and>
        registry_state t = Some \<lparr>st_active_snapshot_id = new, st_version = st_version row + 1,
          st_updated_at = now\<rparr> \<and>
        journal_events t = journal_events s @ [e] \<and>
        jr_kind e = ''RegistrySnapshotActivated'' \<and>
        jr_payload_json e = json_text E (activation_payload action expected new d) \<and>
        current_snapshot_id t = Some new"
    and "\<lbrakk>r = Inr x; registry_state u = registry_state t;
      activate_snapshot_transactional E expected new' d' action' u = (Inr y, v)\<rbrakk> \<Longrightarrow> expected = new"
proof -
  have ok: "\<exists>row now e.
      registry_state s = Some row \<and> st_active_snapshot_id row = expected \<and> has_snapshot new s \<and>
      registry_state t = Some \<lparr>st_active_snapshot_id = new, st_version = st_version row + 1,
        st_updated_at = now\<rparr> \<and>
      journal_events t = journal_events s @ [e] \<and>
      jr_kind e = ''RegistrySnapshotActivated'' \<and>
      jr_payload_json e = json_text E (activation_payload action expected new d) \<and>
      current_snapshot_id t = Some new"
    if "activate_snapshot_transactional E expected new d action s = (Inr x, t)"
    for new d action s x t
    using that unfolding activate_snapshot_transactional_def op_then_def
    by (auto elim!: op_bind_InrD dest!: tx_InrD simp: op_return_def op_bail_def op_query_def
        op_update_def op_then_def utc_now_run update_registry_state_def append_event_tx_run
        set_cache_def storage_name_def split: option.splits if_splits)
  show "case r of
      Inl _ \<Rightarrow> unchanged s t
    | Inr _ \<Rightarrow> \<exists>row now e.
        registry_state s = Some row \<and> st_active_snapshot_id row = expected \<and> has_snapshot new s \<and>
        registry_state t = Some \<lparr>st_active_snapshot_id = new, st_version = st_version row + 1,
          st_updated_at = now\<rparr> \<and>
        journal_events t = journal_events s @ [e] \<and>
        jr_kind e = ''RegistrySnapshotActivated'' \<and>
        jr_payload_json e = json_text E (activation_payload action expected new d) \<and>
        current_snapshot_id t = Some new"
  proof (cases r)
    case (Inl e)
    with assms show ?thesis
      unfolding activate_snapshot_transactional_def op_then_def op_bind_def [of "tx E _"]
      by (auto simp: set_cache_def op_defs dest!: tx_InlD split: prod.splits sum.splits)
  next
    case (Inr x)
    with ok assms show ?thesis by simp
  qed
  show "expected = new" if "r = Inr x" "registry_state u = registry_state t"
    "activate_snapshot_transactional E expected new' d' action' u = (Inr y, v)"
    using ok [OF assms [unfolded that(1)]] ok [OF that(3)] that(2) by auto
qed


text \<open>An interrupted creation is adopted. When the database fails right after the header of a
  new snapshot was written, the header stays; the next attempt to store the same snapshot finds
  it and returns a snapshot with that identifier and no operations and no bindings at all.\<close>
theorem interrupted_snapshot_adopted:
  fixes E :: env and s :: store and specs :: "OperationSpec list" and bindings :: "HookBinding list"
  assumes "specs \<noteq> []" and "distinct (map hb_contract bindings)"
  defines "i \<equiv> compute_snapshot_id_with_hook_bindings E specs bindings"
  assumes "stored i s = ([], [], [])"
    and "\<forall>h \<in> set (registry_snapshots s). sn_canonical_digest h = sn_snapshot_id h"
    and "\<forall>n. fault_at E n \<longleftrightarrow> n = tick s + 4"
  shows "\<exists>e t snap u. create_registry_snapshot_with_hook_bindings E specs bindings s = (Inl e, t) \<and>
    create_registry_snapshot_with_hook_bindings E specs bindings t = (Inr snap, u) \<and>
    rs_snapshot_id snap = i \<and> rs_operations snap = [] \<and> rs_hook_bindings snap = []"
proof -
  let ?h = "\<lparr>sn_snapshot_id = i, sn_created_at = clock_at E (tick s),
    sn_operation_count = int (length specs), sn_canonical_digest = i\<rparr>"
  let ?t = "s\<lparr>tick := tick s + 5, registry_snapshots := registry_snapshots s @ [?h]\<rparr>"
  have fresh: "\<not> has_snapshot i s" using assms(4) by (simp add: has_snapshot_stored)
  have "sort_key os_name specs \<noteq> []" using assms(1) by (metis length_0_conv length_sort)
  then obtain x xs where xs: "sort_key os_name specs = x # xs" by (cases "sort_key os_name specs") auto
  have header: "tx E (insert_snapshot_header ?h) (s\<lparr>tick := Suc (Suc (Suc (tick s)))\<rparr>) =
      (Inr (), s\<lparr>tick := Suc (Suc (Suc (Suc (tick s)))),
        registry_snapshots := registry_snapshots s @ [?h]\<rparr>)"
    using assms(5,6) fresh
    by (auto simp: tx_def Let_def op_defs insert_snapshot_header_def has_snapshot_def list_ex_iff)
  have first: "create_registry_snapshot_with_hook_bindings E specs bindings s = (Inl db_error, ?t)"
    using assms(2,6) fresh header xs
    by (simp add: create_registry_snapshot_with_hook_bindings_def Let_def op_then_def op_bind_def
        op_try_def utc_now_run lock_run tx_query tx_def [of E "insert_snapshot_operation _"]
        flip: i_def)
  have stored: "stored i (?t\<lparr>tick := n\<rparr>) = ([?h], [], [])" for n
    using assms(4) by (auto simp: stored_def)
  have "\<exists>snap u. create_registry_snapshot_with_hook_bindings E specs bindings ?t = (Inr snap, u) \<and>
    rs_snapshot_id snap = i \<and> rs_operations snap = [] \<and> rs_hook_bindings snap = []"
    using assms(2,6) stored
    by (simp add: create_registry_snapshot_with_hook_bindings_def Let_def op_then_def op_bind_def
        op_try_def utc_now_run lock_run tx_query tx_def [of E "load_snapshot_from_conn _ _"]
        load_snapshot_stored has_snapshot_def flip: i_def)
  with first show ?thesis by blast
qed

subsection \<open>Booting\<close>

text \<open>The identifier of the snapshot of the built-in operations.\<close>

definition baseline_id :: "env \<Rightarrow> string" where
  "baseline_id E = compute_snapshot_id_with_hook_bindings E builtin_specs builtin_hook_bindings"


text \<open>A read error at boot reverts the kernel to the built-in snapshot. When the query for the
  active snapshot fails, the initialisation takes the failure for a first boot: it succeeds, and
  the kernel works with the built-in snapshot while the database still names another one as
  active.\<close>
theorem read_error_reverts_snapshot:
  assumes "initialize_component_registry E s = (Inr c, s1)"
    and "current_snapshot_id s1 = None"
    and "registry_state s1 = Some row"
    and "load_snapshot_from_conn E (baseline_id E) s1 = (Inr snap, s1)"
    and "\<forall>n \<ge> tick s1. fault_at E n \<longleftrightarrow> n = tick s1 + 1"
  shows "\<exists>t. initialize_registry E s = (Inr (baseline_id E), t) \<and>
    current_snapshot_id t = Some (baseline_id E) \<and> registry_state t = Some row"
proof -
  let ?i = "baseline_id E"
  have load: "load_snapshot_from_conn E ?i (s1\<lparr>tick := n\<rparr>) = (Inr snap, s1\<lparr>tick := n\<rparr>)"
    and id: "rs_snapshot_id snap = ?i" and has: "has_snapshot ?i s1" for n
    using assms(4) by (auto simp: load_snapshot_stored stored_def has_snapshot_stored
        split: list.splits sum.splits prod.splits)
  have d: "distinct (map hb_contract builtin_hook_bindings)"
    by (simp add: builtin_hook_bindings_def)
  have "create_registry_snapshot E builtin_specs (s1\<lparr>tick := Suc (Suc (tick s1))\<rparr>) =
      (Inr snap, s1\<lparr>tick := Suc (Suc (Suc (Suc (Suc (Suc (tick s1))))))\<rparr>)"
    using assms(5) d load has
    by (simp add: create_registry_snapshot_def create_registry_snapshot_with_hook_bindings_def
        Let_def op_then_def op_bind_def op_try_def utc_now_run lock_run tx_query
        tx_def [of E "load_snapshot_from_conn _ _"] flip: baseline_id_def)
  then show ?thesis
    using assms(1,2,3,5) id
    by (simp add: initialize_registry_def load_active_snapshot_from_state_def
        init_registry_state_def backfill_null_registry_snapshot_def
        insert_registry_state_or_ignore_def set_cache_def op_then_def op_bind_def op_try_def
        op_return_def op_update_def op_query_def utc_now_run lock_run tx_def Let_def
        update_runs_def)
qed

subsection \<open>Witnesses\<close>

definition sample_stored :: "(string + RegistrySnapshot) \<times> store" where
  "sample_stored = create_registry_snapshot_with_hook_bindings sample_env sample_specs
     builtin_hook_bindings empty_store"


text \<open>A registry with two snapshots, the first of them active.\<close>

definition sample_registry :: store where
  "sample_registry = empty_store\<lparr>
     registry_snapshots := map (\<lambda>i. \<lparr>sn_snapshot_id = i, sn_created_at = 0, sn_operation_count = 0,
       sn_canonical_digest = i\<rparr>) [''a'', ''b''],
     registry_state := Some \<lparr>st_active_snapshot_id = ''a'', st_version = 1, st_updated_at = 0\<rparr>\<rparr>"

definition sample_activated :: "(string + string \<times> string) \<times> store" where
  "sample_activated =
    activate_snapshot_transactional sample_env ''a'' ''b'' ''d'' ''enable'' sample_registry"


text \<open>An environment that fails once, at the first operation of a new snapshot.\<close>

theorem interrupted_snapshot_adopted_witness:
  "\<exists>e t snap u. create_registry_snapshot_with_hook_bindings (sample_env\<lparr>fault_at := \<lambda>n. n = 4\<rparr>)
      sample_specs [] empty_store = (Inl e, t) \<and>
    create_registry_snapshot_with_hook_bindings (sample_env\<lparr>fault_at := \<lambda>n. n = 4\<rparr>)
      sample_specs [] t = (Inr snap, u) \<and> rs_operations snap = []"
proof -
  let ?E = "sample_env\<lparr>fault_at := \<lambda>n. n = 4\<rparr>"
  have "stored (compute_snapshot_id_with_hook_bindings ?E sample_specs []) empty_store =
      ([], [], [])"
    by (simp add: stored_def empty_store_def)
  with interrupted_snapshot_adopted [of sample_specs "[]" ?E empty_store]
  show ?thesis by (fastforce simp: sample_specs_def empty_store_def)
qed

text \<open>
  An environment that prints the parameters of the built-in operations as one letter each and has
  a constant digest.
\<close>

definition table_env :: env where
  "table_env = sample_env\<lparr>sha256_hex := \<lambda>_. ''h'',
     json_text := \<lambda>v. if v = recall_parameters then ''r'' else if v = status_parameters then ''s''
       else if v = task_submit_parameters then ''t'' else ''o'',
     json_parse := \<lambda>t. if t = ''r'' then Some recall_parameters
       else if t = ''s'' then Some status_parameters
       else if t = ''t'' then Some task_submit_parameters
       else Some (jobj [(''type'', JStr ''object'')])\<rparr>"

lemma table_baseline: "baseline_id table_env = ''snap_h''"
  by (simp add: baseline_id_def compute_snapshot_id_with_hook_bindings_def table_env_def)


text \<open>The store of a kernel that runs an upgraded snapshot, before a restart.\<close>

definition upgraded_store :: store where
  "upgraded_store = empty_store\<lparr>
     registry_snapshots := map (\<lambda>i. \<lparr>sn_snapshot_id = i, sn_created_at = 0, sn_operation_count = 0,
       sn_canonical_digest = i\<rparr>) [''snap_h'', ''upgraded''],
     registry_state := Some \<lparr>st_active_snapshot_id = ''upgraded'', st_version = 2, st_updated_at = 0\<rparr>,
     component_registry_snapshots := [\<lparr>cs_snapshot_id = ''component_snap_h'', cs_created_at = 0,
       cs_component_count = 0, cs_canonical_digest = ''component_snap_h''\<rparr>],
     component_registry_state := Some \<lparr>st_active_snapshot_id = ''component_snap_h'',
       st_version = 1, st_updated_at = 0\<rparr>\<rparr>"

theorem read_error_reverts_snapshot_witness:
  "\<exists>t. initialize_registry (table_env\<lparr>fault_at := \<lambda>n. n = 3\<rparr>) upgraded_store = (Inr ''snap_h'', t) \<and>
     current_snapshot_id t = Some ''snap_h'' \<and>
     map_option st_active_snapshot_id (registry_state t) = Some ''upgraded''"
proof -
  let ?E = "table_env\<lparr>fault_at := \<lambda>n. n = 3\<rparr>" and ?s1 = "upgraded_store\<lparr>tick := 2\<rparr>"
  have b: "baseline_id ?E = ''snap_h''"
    by (simp add: baseline_id_def compute_snapshot_id_with_hook_bindings_def table_env_def)
  have "initialize_component_registry ?E upgraded_store = (Inr ''component_snap_h'', ?s1)"
    by (simp add: initialize_component_registry_def load_component_snapshot_def op_simps tx_def
        Let_def upgraded_store_def empty_store_def compute_component_snapshot_id_def table_env_def)
  moreover have "load_snapshot_from_conn ?E ''snap_h'' ?s1 = (Inr \<lparr>rs_snapshot_id = ''snap_h'',
      rs_created_at = 0, rs_operations = [], rs_hook_bindings = []\<rparr>, ?s1)"
    by (simp add: load_snapshot_stored stored_def upgraded_store_def empty_store_def)
  ultimately show ?thesis
    using read_error_reverts_snapshot [of ?E upgraded_store _ ?s1]
    by (fastforce simp: b upgraded_store_def empty_store_def)
qed

end
