(* ===== verification/Data_Directory.thy ===== *)
theory Data_Directory
  imports Kernel_Configuration
begin

section \<open>The data directory\<close>

text \<open>
  \<open>src/src/data_dir.rs\<close>: the bootstrap templates of an agent are written into the data directory when
  they are missing, replaced when they still hold the text an earlier kernel wrote, and otherwise
  left alone. The state is the file tree and the process-wide counter of temporary names; every
  call of the operating system may fail, as the parameter \<open>os_fails\<close> says by the number of the call.
\<close>

datatype node = Dir | File string

record disk =
  nodes :: "string \<Rightarrow> node option"
  write_sequence :: "64 word"
  calls :: nat

record os =
  os_fails :: "nat \<Rightarrow> bool"
  os_pid :: nat
  os_written :: "nat \<Rightarrow> nat"

type_synonym 'a dop = "(disk, 'a) op"

subsection \<open>Templates\<close>

definition nl :: string where "nl = [CHR 0x0A]"

definition root_md :: string where
  "root_md = ''# Root System'' @ nl @ nl @ ''You are the main Agent Core assistant.'' @ nl @ nl @
     ''You may use tools that are explicitly provided in the current request and authorized by the Gateway. Do not assume any tool that was not provided or not authorized.'' @ nl"

definition runtime_md :: string where
  "runtime_md = ''# Runtime Contract'' @ nl @ nl @
     ''External actions must be expressed as invocation intents and approved by Gateway.'' @ nl @ nl @
     ''When a request involves real-time information, system state, or current-session facts, do not guess: if an authorized read-only tool is available, prefer using it. The available tools are exactly those provided in the request; never invent or assume additional tools.'' @ nl"

definition agent_md :: string where
  "agent_md = ''# Main Agent'' @ nl @ nl @
     ''You assist the user by answering messages and, when useful, calling the tools explicitly provided in the current request. Prefer an authorized read-only tool over guessing when the answer depends on real-time, system, or session facts. Do not assume tools that were not provided or not authorized.'' @ nl"

definition chat_skill_md :: string where
  "chat_skill_md = ''# Chat'' @ nl @ nl @ ''Reply clearly and briefly to the current user message.'' @ nl"

definition legacy_root_md :: string where
  "legacy_root_md = ''# Root System'' @ nl @ nl @
     ''You are the main Agent Core assistant. Keep Phase 0 chat-only.'' @ nl"

definition legacy_runtime_md :: string where
  "legacy_runtime_md = ''# Runtime Contract'' @ nl @ nl @
     ''External actions must be expressed as invocation intents and approved by Gateway.'' @ nl"

definition legacy_agent_md :: string where
  "legacy_agent_md = ''# Main Agent'' @ nl @ nl @
     ''Default Phase 0 agent. It answers user messages without tools.'' @ nl"

definition legacy_chat_skill_md :: string where
  "legacy_chat_skill_md = chat_skill_md"

definition templates :: "(string \<times> string \<times> string) list" where
  "templates =
    [(''system/root.md'', legacy_root_md, root_md),
     (''system/runtime.md'', legacy_runtime_md, runtime_md),
     (''agents/main/AGENT.md'', legacy_agent_md, agent_md),
     (''skills/chat/SKILL.md'', legacy_chat_skill_md, chat_skill_md)]"

record BootstrapMigrationReport =
  created :: nat
  upgraded :: nat
  migration_needed :: nat

datatype TemplateAction = Created | Upgraded | Current | MigrationNeeded

subsection \<open>Calls of the operating system\<close>

definition file_name :: "string \<Rightarrow> string" where
  "file_name p = rev (takeWhile (\<lambda>c. c \<noteq> CHR ''/'') (rev p))"

definition path_parent :: "string \<Rightarrow> string" where
  "path_parent p =
    (let d = rev (drop 1 (dropWhile (\<lambda>c. c \<noteq> CHR ''/'') (rev p))) in
     if d = [] \<and> prefix ''/'' p then ''/'' else d)"

definition dir_chain :: "string \<Rightarrow> string list" where
  "dir_chain p = filter (\<lambda>q. q \<noteq> [])
     (map (\<lambda>n. take n p) (filter (\<lambda>n. n = length p \<or> p ! n = CHR ''/'') [0..<Suc (length p)]))"

definition call :: "os \<Rightarrow> bool dop" where
  "call W d = (Inr (os_fails W (calls d)), d\<lparr>calls := Suc (calls d)\<rparr>)"

definition io_error :: string where "io_error = ''io error''"

definition create_dir_all :: "os \<Rightarrow> string \<Rightarrow> unit dop" where
  "create_dir_all W p =
    op_bind (call W) (\<lambda>failed.
    op_bind (op_query (\<lambda>d. list_ex (\<lambda>q. \<exists>c \<in> set_option (nodes d q). c \<noteq> Dir) (dir_chain p))) (\<lambda>blocked.
    if failed \<or> blocked then op_bail io_error
    else op_update (\<lambda>d. d\<lparr>nodes := (\<lambda>q. if q \<in> set (dir_chain p) then Some Dir else nodes d q)\<rparr>)))"

definition read_to_string :: "os \<Rightarrow> string \<Rightarrow> string dop" where
  "read_to_string W p =
    op_bind (call W) (\<lambda>failed.
    op_bind (op_query (\<lambda>d. nodes d p)) (\<lambda>n.
    case n of Some (File content) \<Rightarrow> if failed then op_bail io_error else op_return content
      | _ \<Rightarrow> op_bail io_error))"

definition create_new_file :: "os \<Rightarrow> string \<Rightarrow> unit dop" where
  "create_new_file W p =
    op_bind (call W) (\<lambda>failed.
    op_bind (op_query (\<lambda>d. nodes d p \<noteq> None)) (\<lambda>taken.
    if failed \<or> taken then op_bail io_error
    else op_update (\<lambda>d. d\<lparr>nodes := (nodes d)(p \<mapsto> File [])\<rparr>)))"

text \<open>\<open>write_all\<close> may stop after some bytes; \<open>flush\<close> and \<open>sync_all\<close> change nothing.\<close>

definition write_all :: "os \<Rightarrow> string \<Rightarrow> string \<Rightarrow> unit dop" where
  "write_all W p content =
    op_bind (op_query calls) (\<lambda>n.
    op_bind (call W) (\<lambda>failed.
    op_then (op_update (\<lambda>d. d\<lparr>nodes := (nodes d)(p \<mapsto>
        File (if failed then take (os_written W n) content else content))\<rparr>))
      (if failed then op_bail io_error else op_return ())))"

definition flush_and_sync :: "os \<Rightarrow> unit dop" where
  "flush_and_sync W = op_bind (call W) (\<lambda>f1. if f1 then op_bail io_error else
     op_bind (call W) (\<lambda>f2. if f2 then op_bail io_error else op_return ()))"

definition remove_file :: "os \<Rightarrow> string \<Rightarrow> unit dop" where
  "remove_file W p =
    op_bind (call W) (\<lambda>failed.
    op_bind (op_query (\<lambda>d. nodes d p)) (\<lambda>n.
    case n of Some (File _) \<Rightarrow>
        if failed then op_bail io_error else op_update (\<lambda>d. d\<lparr>nodes := (nodes d)(p := None)\<rparr>)
      | _ \<Rightarrow> op_bail io_error))"

definition rename_file :: "os \<Rightarrow> string \<Rightarrow> string \<Rightarrow> unit dop" where
  "rename_file W p q =
    op_bind (call W) (\<lambda>failed.
    op_bind (op_query (\<lambda>d. (nodes d p, nodes d q))) (\<lambda>(source, target).
    if failed \<or> source = None \<or> target = Some Dir then op_bail io_error
    else op_update (\<lambda>d. d\<lparr>nodes := (nodes d)(p := None, q := source)\<rparr>)))"

subsection \<open>Writing and upgrading\<close>

definition temp_name :: "os \<Rightarrow> string \<Rightarrow> string \<Rightarrow> 64 word \<Rightarrow> string" where
  "temp_name W dir path n = path_join dir
     (''.'' @ file_name path @ ''.tmp.'' @ dec (os_pid W) @ ''.'' @ dec (unat n))"

definition atomic_write :: "os \<Rightarrow> string \<Rightarrow> string \<Rightarrow> unit dop" where
  "atomic_write W path content =
    (let dir = (if path_parent path = [] then ''.'' else path_parent path) in
     op_then (create_dir_all W dir)
     (op_bind (op_query write_sequence) (\<lambda>n.
      op_then (op_update (\<lambda>d. d\<lparr>write_sequence := write_sequence d + 1\<rparr>))
      (let tmp = temp_name W dir path n in
       op_bind (op_try (op_then (create_new_file W tmp)
           (op_then (write_all W tmp content) (flush_and_sync W)))) (\<lambda>result.
       case result of
         Inl e \<Rightarrow> op_bind (op_try (remove_file W tmp)) (\<lambda>_. op_bail e)
       | Inr _ \<Rightarrow> rename_file W tmp path)))))"

definition upgrade_template :: "os \<Rightarrow> string \<Rightarrow> string \<Rightarrow> string \<Rightarrow> TemplateAction dop" where
  "upgrade_template W path legacy_default new_default =
    op_bind (op_query (\<lambda>d. nodes d path \<noteq> None)) (\<lambda>present.
    if \<not> present then
      op_then (create_dir_all W (path_parent path))
      (op_then (atomic_write W path new_default) (op_return Created))
    else
      op_bind (read_to_string W path) (\<lambda>current.
      if current = new_default then op_return Current
      else if current = legacy_default
      then op_then (atomic_write W path new_default) (op_return Upgraded)
      else op_return MigrationNeeded))"

definition count_action ::
  "TemplateAction \<Rightarrow> BootstrapMigrationReport \<Rightarrow> BootstrapMigrationReport" where
  "count_action a r =
    (case a of Created \<Rightarrow> r\<lparr>created := created r + 1\<rparr> | Upgraded \<Rightarrow> r\<lparr>upgraded := upgraded r + 1\<rparr>
     | MigrationNeeded \<Rightarrow> r\<lparr>migration_needed := migration_needed r + 1\<rparr> | Current \<Rightarrow> r)"

fun upgrade_templates :: "os \<Rightarrow> string \<Rightarrow> (string \<times> string \<times> string) list \<Rightarrow>
    BootstrapMigrationReport \<Rightarrow> BootstrapMigrationReport dop" where
  "upgrade_templates W data_dir [] report = op_return report"
| "upgrade_templates W data_dir ((relative_path, legacy_default, current_default) # ts) report =
    op_bind (upgrade_template W (path_join data_dir relative_path) legacy_default current_default)
      (\<lambda>action. upgrade_templates W data_dir ts (count_action action report))"

definition ensure_data_files :: "os \<Rightarrow> string \<Rightarrow> BootstrapMigrationReport dop" where
  "ensure_data_files W data_dir = upgrade_templates W data_dir templates
     \<lparr>created = 0, upgraded = 0, migration_needed = 0\<rparr>"

definition copy_legacy_db_if_needed :: "os \<Rightarrow> string \<Rightarrow> string \<Rightarrow> unit dop" where
  "copy_legacy_db_if_needed W legacy_path new_path =
    op_bind (op_query (\<lambda>d. nodes d new_path \<noteq> None \<or> nodes d legacy_path = None)) (\<lambda>skip.
    if skip then op_return ()
    else op_then (create_dir_all W (path_parent new_path))
      (op_bind (read_to_string W legacy_path) (\<lambda>content. write_all W new_path content)))"

text \<open>The part of \<open>KernelConfig::from_cli\<close> that touches the disk; its errors are reported or ignored.\<close>

definition prepare_data_dir :: "os \<Rightarrow> string \<Rightarrow> string \<Rightarrow> string option \<Rightarrow> unit dop" where
  "prepare_data_dir W workspace_dir data_dir db_path =
    op_then
      (if db_path = None
       then op_bind (op_try (copy_legacy_db_if_needed W
              (path_join workspace_dir ''.agent-core/kernel.sqlite'') (path_join data_dir ''kernel.sqlite'')))
              (\<lambda>_. op_return ())
       else op_return ())
      (op_bind (op_try (ensure_data_files W data_dir)) (\<lambda>_. op_return ()))"

subsection \<open>Regular files\<close>

text \<open>A temporary name is one that some \<^const>\<open>atomic_write\<close> of the process may use.\<close>

definition temp :: "os \<Rightarrow> string \<Rightarrow> bool" where
  "temp W q \<longleftrightarrow> (\<exists>dir path n. q = temp_name W dir path n)"

text \<open>Outside the temporary names, the same regular files with the same contents.\<close>

definition files_same :: "os \<Rightarrow> disk \<Rightarrow> disk \<Rightarrow> bool" where
  "files_same W d e \<longleftrightarrow>
     (\<forall>q c. \<not> temp W q \<longrightarrow> (nodes d q = Some (File c) \<longleftrightarrow> nodes e q = Some (File c)))"

interpretation fsm: frame_relation "files_same W" for W
  by unfold_locales (auto simp: files_same_def)

lemma temp_temp_name [simp]: "temp W (temp_name W dir path n)"
  by (auto simp: temp_def)

lemma files_same_call: "obeys (files_same W) (call W')"
  by (simp add: obeys_def call_def files_same_def)

lemma files_same_create_dir_all: "obeys (files_same W) (create_dir_all W' p)"
  by (rule obeysI)
     (force simp: create_dir_all_def call_def op_simps files_same_def list_ex_iff)

lemma files_same_temp_update:
  assumes "temp W p"
  shows "obeys (files_same W) (op_update (\<lambda>d. d\<lparr>nodes := (nodes d)(p := f d)\<rparr>))"
  using assms by (auto simp: obeys_def op_update_def files_same_def)

lemmas files_same_intros = fsm.frame_intros files_same_call files_same_create_dir_all
  files_same_temp_update obeys_intros

lemma files_same_temp_calls:
  assumes "temp W p"
  shows "obeys (files_same W) (create_new_file W' p)"
    and "obeys (files_same W) (write_all W' p content)"
    and "obeys (files_same W) (remove_file W' p)"
    and "obeys (files_same W) (flush_and_sync W')"
    and "obeys (files_same W) (read_to_string W' q)"
  using assms
  by (simp_all add: obeys_def create_new_file_def write_all_def remove_file_def flush_and_sync_def
      read_to_string_def call_def op_simps files_same_def split: option.splits node.splits)

subsection \<open>What a write does\<close>

text \<open>The regular files after the one at \<open>path\<close> was written.\<close>

definition file_written :: "os \<Rightarrow> string \<Rightarrow> string \<Rightarrow> disk \<Rightarrow> disk \<Rightarrow> bool" where
  "file_written W path content d e \<longleftrightarrow>
     (\<forall>q c. \<not> temp W q \<longrightarrow> (nodes e q = Some (File c) \<longleftrightarrow>
       (if q = path then c = content else nodes d q = Some (File c))))"

lemma file_written_after: "files_same W d d' \<Longrightarrow> file_written W path content d' e \<Longrightarrow>
    file_written W path content d e"
  by (auto simp: file_written_def files_same_def)

lemma rename_effect:
  assumes "rename_file W tmp path d = (r, e)" and "temp W tmp" and "nodes d tmp = Some (File content)"
  shows "case r of Inl _ \<Rightarrow> files_same W d e | Inr _ \<Rightarrow> file_written W path content d e"
proof (cases "tmp = path")
  case True
  with assms show ?thesis
    by (auto simp: rename_file_def call_def op_simps files_same_def file_written_def
        split: if_splits)
next
  case False
  with assms show ?thesis
    by (auto simp: rename_file_def call_def op_simps files_same_def file_written_def
        split: if_splits)
qed

lemma temp_filled:
  assumes "op_then (create_new_file W tmp) (op_then (write_all W tmp content) (flush_and_sync W)) d
    = (Inr (), e)"
  shows "nodes e tmp = Some (File content)"
  using assms
  by (auto simp: create_new_file_def write_all_def flush_and_sync_def call_def op_simps
      split: if_splits)

lemma atomic_write_effect:
  assumes "atomic_write W path content d = (r, e)"
  shows "case r of Inl _ \<Rightarrow> files_same W d e | Inr _ \<Rightarrow> file_written W path content d e"
proof -
  define dir where "dir = (if path_parent path = [] then ''.'' else path_parent path)"
  obtain r1 d1 where d1: "create_dir_all W dir d = (r1, d1)" by (cases "create_dir_all W dir d")
  then have s1: "files_same W d d1" by (rule obeysD [OF files_same_create_dir_all])
  show ?thesis
  proof (cases r1)
    case (Inl e1)
    with assms d1 s1 show ?thesis by (auto simp: atomic_write_def dir_def [symmetric] op_then_def op_bind_def)
  next
    case (Inr u)
    let ?d2 = "d1\<lparr>write_sequence := write_sequence d1 + 1\<rparr>"
    let ?tmp = "temp_name W dir path (write_sequence d1)"
    let ?m = "op_then (create_new_file W ?tmp)
      (op_then (write_all W ?tmp content) (flush_and_sync W))"
    have s2: "files_same W d1 ?d2" by (simp add: files_same_def)
    obtain r3 d3 where d3: "?m ?d2 = (r3, d3)" by (cases "?m ?d2")
    have "obeys (files_same W) ?m"
      using files_same_temp_calls [of W ?tmp] by (intro fsm.frame_then) simp_all
    from obeysD [OF this d3] have s3: "files_same W ?d2 d3" .
    note s = fsm.frame_trans [OF fsm.frame_trans [OF s1 s2] s3]
    have rest: "(case r3 of Inl e3 \<Rightarrow> op_bind (op_try (remove_file W ?tmp)) (\<lambda>_. op_bail e3)
        | Inr _ \<Rightarrow> rename_file W ?tmp path) d3 = (r, e)"
      using assms d1 Inr d3
      by (simp add: atomic_write_def dir_def [symmetric] Let_def op_then_def [of "create_dir_all W dir"]
          op_then_def [of "op_update _"] op_bind_def op_query_def op_update_def op_try_def)
    show ?thesis
    proof (cases r3)
      case (Inl e3)
      have "obeys (files_same W) (op_bind (op_try (remove_file W ?tmp)) (\<lambda>_. op_bail e3))"
        using files_same_temp_calls [of W ?tmp] by (intro files_same_intros) simp_all
      from obeysD [OF this] rest Inl have "files_same W d3 e" by simp
      with s have "files_same W d e" by (rule fsm.frame_trans)
      moreover have "\<exists>x. r = Inl x"
        using rest Inl by (auto simp: op_bind_def op_try_def op_bail_def split: prod.splits)
      ultimately show ?thesis by auto
    next
      case (Inr v)
      with temp_filled d3 have "nodes d3 ?tmp = Some (File content)" by simp
      with rest Inr have "case r of Inl _ \<Rightarrow> files_same W d3 e | Inr _ \<Rightarrow> file_written W path content d3 e"
        by (intro rename_effect [of W ?tmp]) simp_all
      with s show ?thesis by (auto intro: fsm.frame_trans file_written_after split: sum.splits)
    qed
  qed
qed

text \<open>One template: nothing is written unless the file was missing or held the old text.\<close>

lemma upgrade_template_effect:
  assumes "upgrade_template W path legacy new d = (r, e)"
  shows "files_same W d e \<and> (\<forall>a. r = Inr a \<longrightarrow>
        a = Current \<and> nodes d path = Some (File new) \<or>
        a = MigrationNeeded \<and> (\<exists>c. nodes d path = Some (File c) \<and> c \<noteq> legacy \<and> c \<noteq> new)) \<or>
      (nodes d path = None \<and> r = Inr Created \<or>
       nodes d path = Some (File legacy) \<and> legacy \<noteq> new \<and> r = Inr Upgraded) \<and>
        file_written W path new d e"
proof (cases "nodes d path")
  case None
  obtain r1 d1 where d1: "create_dir_all W (path_parent path) d = (r1, d1)" by (cases "create_dir_all W (path_parent path) d")
  then have s1: "files_same W d d1" by (rule obeysD [OF files_same_create_dir_all])
  show ?thesis
  proof (cases r1)
    case (Inl e1)
    with None assms d1 s1 show ?thesis
      by (auto simp: upgrade_template_def op_then_def op_bind_def op_query_def)
  next
    case (Inr u)
    obtain r2 d2 where d2: "atomic_write W path new d1 = (r2, d2)" by (cases "atomic_write W path new d1")
    from atomic_write_effect [OF this] None assms d1 s1 Inr show ?thesis
      by (auto simp: upgrade_template_def op_then_def op_bind_def op_query_def op_return_def d2
          intro: fsm.frame_trans file_written_after split: sum.splits)
  qed
next
  case (Some n)
  obtain r1 d1 where d1: "read_to_string W path d = (r1, d1)" by (cases "read_to_string W path d")
  then have n1: "nodes d1 = nodes d" and c1: "\<And>c. r1 = Inr c \<Longrightarrow> n = File c"
    using Some by (auto simp: read_to_string_def call_def op_simps split: node.splits if_splits)
  then have s1: "files_same W d d1" by (simp add: files_same_def)
  obtain r2 d2 where d2: "atomic_write W path new d1 = (r2, d2)" by (cases "atomic_write W path new d1")
  from atomic_write_effect [OF this] Some assms d1 s1 c1 show ?thesis
    by (auto simp: upgrade_template_def op_then_def op_bind_def op_query_def op_return_def d2
        intro: fsm.frame_trans file_written_after split: sum.splits if_splits)
qed

subsection \<open>All templates\<close>

definition file_at :: "disk \<Rightarrow> string \<Rightarrow> string option" where
  "file_at d q = (case nodes d q of Some (File c) \<Rightarrow> Some c | _ \<Rightarrow> None)"

lemma file_at_Some: "file_at d q = Some c \<longleftrightarrow> nodes d q = Some (File c)"
  by (auto simp: file_at_def split: option.splits node.splits)

lemma file_atI: "nodes d q = Some (File c) \<Longrightarrow> file_at d q = Some c"
  by (simp add: file_at_def)

lemma file_at_None: "nodes d q = None \<Longrightarrow> file_at d q = None"
  by (simp add: file_at_def)

lemma files_same_at: "files_same W d e \<Longrightarrow> \<not> temp W q \<Longrightarrow> file_at e q = file_at d q"
  by (auto simp: files_same_def file_at_def split: option.splits node.splits)

lemma file_written_at:
  "file_written W path content d e \<Longrightarrow> \<not> temp W q \<Longrightarrow>
   file_at e q = (if q = path then Some content else file_at d q)"
proof -
  assume "file_written W path content d e" and "\<not> temp W q"
  then have "file_at e q = Some c \<longleftrightarrow> (if q = path then Some content else file_at d q) = Some c" for c
    by (auto simp: file_written_def file_at_Some)
  then show ?thesis by (metis option.exhaust)
qed

text \<open>The text a template file holds once it was looked at: not the old one, unless it is new.\<close>

definition settled :: "string \<Rightarrow> string \<Rightarrow> string option \<Rightarrow> bool" where
  "settled legacy new f \<longleftrightarrow> (\<exists>c. f = Some c \<and> (c = new \<or> c \<noteq> legacy))"

definition customised :: "string \<Rightarrow> disk \<Rightarrow> (string \<times> string \<times> string) list \<Rightarrow> nat" where
  "customised dd d ts =
    length (filter (\<lambda>(p, l, n). \<exists>c. file_at d (path_join dd p) = Some c \<and> c \<noteq> l \<and> c \<noteq> n) ts)"

definition paths :: "string \<Rightarrow> (string \<times> string \<times> string) list \<Rightarrow> string list" where
  "paths dd ts = map (\<lambda>(p, l, n). path_join dd p) ts"

lemma paths_simps [simp]:
  "paths dd [] = []" "paths dd ((p, l, n) # ts) = path_join dd p # paths dd ts"
  by (simp_all add: paths_def)

lemma in_paths: "(p, l, n) \<in> set ts \<Longrightarrow> path_join dd p \<in> set (paths dd ts)"
  by (force simp: paths_def)

lemma upgrade_template_at:
  assumes "upgrade_template W path legacy new d = (r, e)" and "\<not> temp W q"
  shows "file_at e q = file_at d q \<or>
    q = path \<and> file_at d q \<in> {None, Some legacy} \<and> file_at e q = Some new"
  using upgrade_template_effect [OF assms(1)] assms(2)
  by (auto simp: files_same_at file_written_at file_at_None file_atI split: if_splits)

lemma upgrade_templates_at:
  assumes "upgrade_templates W dd ts rep d = (r, e)" and "\<not> temp W q" and "distinct (paths dd ts)"
  shows "file_at e q = file_at d q \<or>
    (\<exists>p l n. (p, l, n) \<in> set ts \<and> q = path_join dd p \<and> file_at d q \<in> {None, Some l} \<and>
      file_at e q = Some n)"
  using assms(1,3)
proof (induction ts arbitrary: rep d)
  case Nil
  then show ?case by (simp add: op_return_def)
next
  case (Cons t ts)
  obtain p l n where t: "t = (p, l, n)" by (cases t)
  obtain r1 d1 where d1: "upgrade_template W (path_join dd p) l n d = (r1, d1)"
    by (cases "upgrade_template W (path_join dd p) l n d")
  note step = upgrade_template_at [OF d1 assms(2)]
  show ?case
  proof (cases r1)
    case (Inl x)
    with Cons.prems(1) d1 t have "e = d1" by (simp add: op_bind_def)
    with step t show ?thesis by auto
  next
    case (Inr a)
    with Cons.prems(1) d1 t have
      "upgrade_templates W dd ts (count_action a rep) d1 = (r, e)" by (simp add: op_bind_def)
    from Cons.IH [OF this] Cons.prems(2) t have
      "file_at e q = file_at d1 q \<or> (\<exists>p l n. (p, l, n) \<in> set ts \<and> q = path_join dd p \<and>
        file_at d1 q \<in> {None, Some l} \<and> file_at e q = Some n)" by simp
    moreover have "q \<noteq> path_join dd p" if "(p', l', n') \<in> set ts" "q = path_join dd p'" for p' l' n'
      using Cons.prems(2) t in_paths [OF that(1), of dd] that(2) by auto
    ultimately show ?thesis using step t by (metis list.set_intros(1) list.set_intros(2))
  qed
qed

text \<open>After a run that succeeded, every template file is settled, and the report counts the files
  that hold a text of their own.\<close>

lemma upgrade_template_settles:
  assumes "upgrade_template W path legacy new d = (Inr a, e)" and "\<not> temp W path"
  shows "settled legacy new (file_at e path) \<and>
    migration_needed (count_action a rep) = migration_needed rep +
      (if \<exists>c. file_at d path = Some c \<and> c \<noteq> legacy \<and> c \<noteq> new then 1 else 0)"
  using upgrade_template_effect [OF assms(1)] assms(2)
  by (auto simp: settled_def count_action_def files_same_at file_written_at file_at_None file_atI)

lemma upgrade_templates_settle:
  assumes "upgrade_templates W dd ts rep d = (Inr rep', e)" and "distinct (paths dd ts)"
    and "\<And>q. q \<in> set (paths dd ts) \<Longrightarrow> \<not> temp W q"
  shows "(\<forall>(p, l, n) \<in> set ts. settled l n (file_at e (path_join dd p))) \<and>
    migration_needed rep' = migration_needed rep + customised dd d ts"
  using assms
proof (induction ts arbitrary: rep d)
  case Nil
  then show ?case by (simp add: op_return_def customised_def)
next
  case (Cons t ts)
  obtain p l n where t: "t = (p, l, n)" by (cases t)
  from Cons.prems(1) t obtain a d1 where
    d1: "upgrade_template W (path_join dd p) l n d = (Inr a, d1)" and
    rest: "upgrade_templates W dd ts (count_action a rep) d1 = (Inr rep', e)"
    by (auto elim!: op_bind_InrD)
  have nt: "\<not> temp W (path_join dd p)" using Cons.prems(3) t by simp
  have fresh: "path_join dd p \<notin> set (paths dd ts)" using Cons.prems(2) t by simp
  have ih: "(\<forall>(p, l, n) \<in> set ts. settled l n (file_at e (path_join dd p))) \<and>
      migration_needed rep' = migration_needed (count_action a rep) + customised dd d1 ts"
    using Cons.prems t by (intro Cons.IH rest) auto
  have "file_at d1 (path_join dd p') = file_at d (path_join dd p')" if "(p', l', n') \<in> set ts" for p' l' n'
    using upgrade_template_at [OF d1, of "path_join dd p'"] Cons.prems(3) t in_paths [OF that, of dd]
      fresh by auto
  then have same: "customised dd d1 ts = customised dd d ts"
    unfolding customised_def by (intro arg_cong [where f = length] filter_cong) auto
  have "file_at e (path_join dd p) = file_at d1 (path_join dd p)"
    using upgrade_templates_at [OF rest nt] Cons.prems(2) t fresh in_paths [of _ _ _ ts dd] by auto
  with upgrade_template_settles [OF d1 nt, of rep] ih same t show ?case
    by (auto simp: customised_def)
qed

text \<open>A run over settled files changes nothing.\<close>

lemma upgrade_settled:
  assumes "settled l n (file_at d path)" and "\<not> os_fails W (calls d)"
  shows "upgrade_template W path l n d =
    (Inr (if file_at d path = Some n then Current else MigrationNeeded), d\<lparr>calls := Suc (calls d)\<rparr>)"
  using assms
  by (auto simp: settled_def upgrade_template_def read_to_string_def call_def op_simps file_at_Some)

lemma upgrade_all_settled:
  assumes "\<forall>(p, l, n) \<in> set ts. settled l n (file_at d (path_join dd p))"
    and "\<forall>k. \<not> os_fails W k"
  shows "\<exists>k. upgrade_templates W dd ts rep d =
    (Inr (rep\<lparr>migration_needed := migration_needed rep + customised dd d ts\<rparr>), d\<lparr>calls := k\<rparr>)"
  using assms(1)
proof (induction ts arbitrary: rep d)
  case Nil
  show ?case by (rule exI [of _ "calls d"]) (simp add: op_return_def customised_def)
next
  case (Cons t ts)
  obtain p l n where t: "t = (p, l, n)" by (cases t)
  have at: "file_at (d\<lparr>calls := k\<rparr>) q = file_at d q" for k q by (simp add: file_at_def)
  let ?a = "if file_at d (path_join dd p) = Some n then Current else MigrationNeeded"
  have "\<exists>k. upgrade_templates W dd ts (count_action ?a rep) (d\<lparr>calls := Suc (calls d)\<rparr>) =
    (Inr ((count_action ?a rep)\<lparr>migration_needed := migration_needed (count_action ?a rep) +
        customised dd (d\<lparr>calls := Suc (calls d)\<rparr>) ts\<rparr>), (d\<lparr>calls := Suc (calls d)\<rparr>)\<lparr>calls := k\<rparr>)"
    using Cons.prems by (intro Cons.IH) (simp add: at)
  moreover have "settled l n (file_at d (path_join dd p))" using Cons.prems t by simp
  ultimately show ?case
    using t upgrade_settled [of l n d "path_join dd p" W] assms(2)
    by (auto simp: op_bind_def customised_def at count_action_def settled_def)
qed

text \<open>The names of the templates are no temporary ones.\<close>

lemma file_name_no_slash: "CHR ''/'' \<notin> set (file_name p)"
  by (auto simp: file_name_def dest: set_takeWhileD)

lemma file_name_append: "CHR ''/'' \<in> set b \<Longrightarrow> file_name (a @ b) = file_name b"
  by (simp add: file_name_def)

lemma file_name_join: "CHR ''/'' \<notin> set x \<Longrightarrow> file_name (path_join dir x) = x"
proof -
  assume x: "CHR ''/'' \<notin> set x"
  have all: "c \<noteq> CHR ''/''" if "c \<in> set (rev x)" for c
    using that x by (intro notI) simp
  have slash: "file_name (ys @ CHR ''/'' # x) = x" for ys
    using takeWhile_append2 [of "rev x" "\<lambda>c. c \<noteq> CHR ''/''", OF all]
    by (simp add: file_name_def)
  have "\<not> prefix ''/'' x" using x by (auto simp: prefix_def)
  then have "path_join dir x = x \<or> path_join dir x = butlast dir @ CHR ''/'' # x \<or>
      path_join dir x = dir @ CHR ''/'' # x"
    by (cases dir rule: rev_cases) (simp_all add: path_join_def)
  moreover have "takeWhile (\<lambda>c. c \<noteq> CHR ''/'') (rev x) = rev x"
    by (intro takeWhile_eq_all_conv [THEN iffD2] ballI all)
  then have "file_name x = x" unfolding file_name_def by (simp only: rev_rev_ident)
  ultimately show ?thesis using slash by (elim disjE) simp_all
qed

lemma temp_file_name: "temp W q \<Longrightarrow> prefix ''.'' (file_name q)"
proof -
  assume "temp W q"
  then obtain dir path n where q: "q = temp_name W dir path n" by (auto simp: temp_def)
  have "CHR ''/'' \<notin> set (dec k)" for k using dec_no_char [of "CHR ''/''" k] by (auto simp: digit_char_def dest: dec_digits)
  then show ?thesis unfolding q temp_name_def
    by (subst file_name_join) (auto simp: file_name_no_slash)
qed

lemma template_name:
  assumes "p \<in> {''system/root.md'', ''system/runtime.md'', ''agents/main/AGENT.md'', ''skills/chat/SKILL.md''}"
  shows "file_name (path_join dd p) \<in> {''root.md'', ''runtime.md'', ''AGENT.md'', ''SKILL.md''}"
proof -
  have "CHR ''/'' \<in> set p" using assms by auto
  then have "file_name (path_join dd p) \<in> {file_name p, file_name (''/'' @ p)}"
    by (auto simp: path_join_def file_name_append)
  moreover have "file_name (''/'' @ p) = file_name p"
    using \<open>CHR ''/'' \<in> set p\<close> by (rule file_name_append)
  ultimately show ?thesis using assms by (auto simp: file_name_def)
qed

lemma template_not_temp: "q \<in> set (paths dd templates) \<Longrightarrow> \<not> temp W q"
proof
  assume "q \<in> set (paths dd templates)" and "temp W q"
  then have "file_name q \<in> {''root.md'', ''runtime.md'', ''AGENT.md'', ''SKILL.md''}"
    using template_name [of _ dd] by (auto simp: templates_def)
  with temp_file_name [OF \<open>temp W q\<close>] show False by auto
qed

lemma path_join_inject:
  "\<not> prefix ''/'' p \<Longrightarrow> \<not> prefix ''/'' q \<Longrightarrow> path_join dd p = path_join dd q \<longleftrightarrow> p = q"
  by (simp add: path_join_def)

lemma template_paths_distinct: "distinct (paths dd templates)"
  by (simp add: templates_def path_join_inject)

lemma template_unique:
  assumes "(p, l, n) \<in> set templates" "(p', l', n') \<in> set templates" "path_join dd p = path_join dd p'"
  shows "l = l' \<and> n = n'"
proof -
  have "inj_on (\<lambda>(p, l, n). path_join dd p) (set templates)"
    using template_paths_distinct [of dd] by (simp add: paths_def distinct_map)
  from inj_onD [OF this _ assms(1,2)] assms(3) show ?thesis by simp
qed

subsection \<open>Properties\<close>


definition sample_os :: os where
  "sample_os = \<lparr>os_fails = (\<lambda>_. False), os_pid = 7, os_written = (\<lambda>_. 0)\<rparr>"

definition sample_disk :: disk where
  "sample_disk = \<lparr>nodes = [''d/system/root.md'' \<mapsto> File legacy_root_md,
     ''d/agents/main/AGENT.md'' \<mapsto> File ''mine''], write_sequence = 0, calls = 0\<rparr>"

definition sample_bootstrap :: "(string + BootstrapMigrationReport) \<times> disk" where
  "sample_bootstrap = ensure_data_files sample_os ''d'' sample_disk"


text \<open>The copy of an old database is no atomic write: when it stops half way, the kernel finds a
  database at the new path and never copies again.\<close>

lemma interrupted_copy_kept:
  assumes "nodes d legacy = Some (File content)" and "nodes d new = None" and "path_parent new = []"
    and "\<not> os_fails W (calls d)" "\<not> os_fails W (calls d + 1)" "os_fails W (calls d + 2)"
  shows "\<exists>e d'. copy_legacy_db_if_needed W legacy new d = (Inl e, d') \<and>
    nodes d' new = Some (File (take (os_written W (calls d + 2)) content)) \<and>
    (\<forall>W'. copy_legacy_db_if_needed W' legacy new d' = (Inr (), d'))"
  using assms
  by (simp add: copy_legacy_db_if_needed_def create_dir_all_def dir_chain_def read_to_string_def
      write_all_def call_def op_simps numeral_2_eq_2)

end
