(* ===== verification/Op_Logic.thy ===== *)
theory Op_Logic
  imports Journal_Tables
begin

section \<open>Reasoning about the outcome of an operation\<close>

text \<open>
  \<open>ends m s Q\<close>: run from \<open>s\<close>, the operation \<open>m\<close> ends with a result and a state that satisfy \<open>Q\<close>. The
  rules below push the postcondition through the composition, so that a contract of a composed
  operation follows from the contracts of its parts (\<open>ends_use\<close>).
\<close>

definition ends :: "('s, 'a) op \<Rightarrow> 's \<Rightarrow> (string + 'a \<Rightarrow> 's \<Rightarrow> bool) \<Rightarrow> bool" where
  "ends m s Q \<longleftrightarrow> (case m s of (r, t) \<Rightarrow> Q r t)"

named_theorems ends_rules

lemma endsI: "(\<And>r t. m s = (r, t) \<Longrightarrow> Q r t) \<Longrightarrow> ends m s Q"
  by (auto simp: ends_def)

lemma endsD: "ends m s Q \<Longrightarrow> m s = (r, t) \<Longrightarrow> Q r t"
  by (simp add: ends_def)

lemma ends_use: "ends m s P \<Longrightarrow> (\<And>r t. P r t \<Longrightarrow> Q r t) \<Longrightarrow> ends m s Q"
  by (auto simp: ends_def)

lemma ends_conj: "ends m s P \<Longrightarrow> ends m s Q \<Longrightarrow> ends m s (\<lambda>r t. P r t \<and> Q r t)"
  by (auto simp: ends_def)

lemma ends_obeys: "obeys R m \<Longrightarrow> ends m s (\<lambda>r t. R s t)"
  by (auto simp: ends_def obeys_def split: prod.splits) (metis snd_conv)

lemma ends_return [ends_rules]: "ends (op_return x) s Q \<longleftrightarrow> Q (Inr x) s"
  by (simp add: ends_def op_return_def)

lemma ends_bail [ends_rules]: "ends (op_bail e) s Q \<longleftrightarrow> Q (Inl e) s"
  by (simp add: ends_def op_bail_def)

lemma ends_query [ends_rules]: "ends (op_query q) s Q \<longleftrightarrow> Q (Inr (q s)) s"
  by (simp add: ends_def op_query_def)

lemma ends_update [ends_rules]: "ends (op_update f) s Q \<longleftrightarrow> Q (Inr ()) (f s)"
  by (simp add: ends_def op_update_def)

lemma ends_lift [ends_rules]: "ends (op_lift r) s Q \<longleftrightarrow> Q r s"
  by (simp add: ends_def op_lift_def)

lemma ends_bind [ends_rules]:
  "ends (op_bind m f) s Q \<longleftrightarrow>
   ends m s (\<lambda>r t. case r of Inl e \<Rightarrow> Q (Inl e) t | Inr x \<Rightarrow> ends (f x) t Q)"
  by (simp add: ends_def op_bind_def split: prod.splits sum.splits)

lemma ends_then [ends_rules]:
  "ends (op_then m n) s Q \<longleftrightarrow>
   ends m s (\<lambda>r t. case r of Inl e \<Rightarrow> Q (Inl e) t | Inr _ \<Rightarrow> ends n t Q)"
  by (simp add: op_then_def ends_bind)

lemma ends_bindI:
  assumes "ends m s P" and "\<And>e t. P (Inl e) t \<Longrightarrow> Q (Inl e) t"
    and "\<And>x t. P (Inr x) t \<Longrightarrow> ends (f x) t Q"
  shows "ends (op_bind m f) s Q"
  unfolding ends_bind by (rule ends_use [OF assms(1)]) (auto simp: assms(2,3) split: sum.splits)

lemma ends_thenI:
  assumes "ends m s P" and "\<And>e t. P (Inl e) t \<Longrightarrow> Q (Inl e) t"
    and "\<And>x t. P (Inr x) t \<Longrightarrow> ends n t Q"
  shows "ends (op_then m n) s Q"
  unfolding op_then_def by (rule ends_bindI [OF assms])

lemma ends_try [ends_rules]: "ends (op_try m) s Q \<longleftrightarrow> ends m s (\<lambda>r t. Q (Inr r) t)"
  by (simp add: ends_def op_try_def split: prod.splits)

lemma ends_if [ends_rules]:
  "ends (if b then m else n) s Q \<longleftrightarrow> (b \<longrightarrow> ends m s Q) \<and> (\<not> b \<longrightarrow> ends n s Q)"
  by simp

lemma ends_option [ends_rules]:
  "ends (case x of None \<Rightarrow> m | Some y \<Rightarrow> f y) s Q \<longleftrightarrow>
   (x = None \<longrightarrow> ends m s Q) \<and> (\<forall>y. x = Some y \<longrightarrow> ends (f y) s Q)"
  by (cases x) auto

lemma ends_sum [ends_rules]:
  "ends (case x of Inl e \<Rightarrow> g e | Inr y \<Rightarrow> f y) s Q \<longleftrightarrow>
   (\<forall>e. x = Inl e \<longrightarrow> ends (g e) s Q) \<and> (\<forall>y. x = Inr y \<longrightarrow> ends (f y) s Q)"
  by (cases x) auto

lemma ends_pair [ends_rules]:
  "ends (case x of (a, b) \<Rightarrow> f a b) s Q \<longleftrightarrow> (\<forall>a b. x = (a, b) \<longrightarrow> ends (f a b) s Q)"
  by (cases x) auto

lemma ends_Let [ends_rules]: "ends (let y = x in f y) s Q \<longleftrightarrow> ends (f x) s Q"
  by simp

subsection \<open>Draws and transactions\<close>

lemma ends_draw [ends_rules]: "ends draw s Q \<longleftrightarrow> Q (Inr (tick s)) (s\<lparr>tick := Suc (tick s)\<rparr>)"
  by (simp add: ends_def draw_def)

lemma ends_now [ends_rules]:
  "ends (utc_now E) s Q \<longleftrightarrow> Q (Inr (clock_at E (tick s))) (s\<lparr>tick := Suc (tick s)\<rparr>)"
  by (simp add: utc_now_def ends_rules)

lemma ends_new_id [ends_rules]:
  "ends (new_id E px) s Q \<longleftrightarrow>
   Q (Inr (fresh_id px (uuid_at E (tick s)))) (s\<lparr>tick := Suc (tick s)\<rparr>)"
  by (simp add: new_id_def ends_rules)

lemma ends_tx:
  "ends (tx E m) s Q \<longleftrightarrow>
   (let s0 = s\<lparr>tick := Suc (tick s)\<rparr> in
    if fault_at E (tick s) then Q (Inl db_error) s0
    else ends m s0 (\<lambda>r t. case r of Inr x \<Rightarrow> Q (Inr x) t
      | Inl e \<Rightarrow> Q (Inl e) (s0\<lparr>tick := max (tick s0) (tick t)\<rparr>)))"
  by (simp add: ends_def tx_def Let_def split: prod.splits sum.splits)

text \<open>A transaction either changes nothing, or its body ran to the end.\<close>

lemma ends_tx_cases:
  assumes "\<And>e t. unchanged s t \<Longrightarrow> Q (Inl e) t"
    and "ends m (s\<lparr>tick := Suc (tick s)\<rparr>) (\<lambda>r t. case r of Inr x \<Rightarrow> Q (Inr x) t | Inl _ \<Rightarrow> True)"
  shows "ends (tx E m) s Q"
proof (rule endsI)
  fix r t assume run: "tx E m s = (r, t)"
  show "Q r t"
  proof (cases r)
    case (Inl e)
    with assms(1) tx_InlD run show ?thesis by blast
  next
    case (Inr x)
    with run have "m (s\<lparr>tick := Suc (tick s)\<rparr>) = (Inr x, t)" by (simp add: tx_InrD)
    from endsD [OF assms(2) this] Inr show ?thesis by simp
  qed
qed

lemma ends_tx_query [ends_rules]:
  "ends (tx E (op_query q)) s Q \<longleftrightarrow>
   Q (if fault_at E (tick s) then Inl db_error else Inr (q (s\<lparr>tick := Suc (tick s)\<rparr>)))
     (s\<lparr>tick := Suc (tick s)\<rparr>)"
  by (simp add: ends_def tx_query)

end
