(* ===== verification/Operation_Grants.thy ===== *)
theory Operation_Grants
  imports Operation_Catalog Registry_Store Kernel_Configuration Op_Logic
begin

section \<open>External operation grants\<close>

text \<open>
  \<open>src/src/journal/grant_ops.rs\<close> and \<open>src/src/runtime/coding_grants.rs\<close>: the table that authorises a
  principal to call an operation of an external harness, and the grants a run is created with.

  The table implements a set of authorisations, keyed by operation, principal, channel, kind of
  conversation, scope and registry snapshot. A statement outside a transaction commits on its own.
  \<open>INSERT OR IGNORE\<close> skips a row that meets the primary key, the partial unique index on active
  rows, or the \<open>CHECK\<close> on the kind of conversation.
\<close>

record CreateGrantParams =
  gp_op :: string
  gp_grantee :: string
  gp_channel :: string
  gp_conversation_kind :: string
  gp_scope_of :: string
  gp_risk :: string
  gp_capability_id :: "string option"
  gp_snapshot_id :: string
  gp_created_by :: "string option"
  gp_decision_reference :: "string option"

record ExternalOperationGrant =
  xg_grant_id :: string
  xg_operation :: string
  xg_grantee_principal_id :: string
  xg_channel :: string
  xg_conversation_kind :: string
  xg_scope :: string
  xg_risk :: string
  xg_snapshot_id :: string
  xg_status :: string

subsection \<open>Statements\<close>

type_synonym grant_key = "string \<times> string \<times> string \<times> string \<times> string \<times> string"

definition row_key :: "GrantRow \<Rightarrow> grant_key" where
  "row_key r = (eg_operation r, eg_grantee_principal_id r, eg_channel r, eg_conversation_kind r,
     eg_scope r, eg_snapshot_id r)"

definition params_key :: "CreateGrantParams \<Rightarrow> grant_key" where
  "params_key p = (gp_op p, gp_grantee p, gp_channel p, gp_conversation_kind p, gp_scope_of p,
     gp_snapshot_id p)"

definition is_active :: "GrantRow \<Rightarrow> bool" where
  "is_active r \<longleftrightarrow> eg_status r = ''active''"

definition grant_row :: "string \<Rightarrow> instant \<Rightarrow> CreateGrantParams \<Rightarrow> GrantRow" where
  "grant_row grant_id now p =
    \<lparr>eg_grant_id = grant_id, eg_operation = gp_op p, eg_grantee_principal_id = gp_grantee p,
     eg_channel = gp_channel p, eg_conversation_kind = gp_conversation_kind p,
     eg_scope = gp_scope_of p, eg_risk = gp_risk p, eg_capability_id = gp_capability_id p,
     eg_snapshot_id = gp_snapshot_id p, eg_status = ''active'', eg_created_at = now,
     eg_revoked_at = None, eg_created_by_principal_id = gp_created_by p,
     eg_decision_reference = gp_decision_reference p\<rparr>"

definition insert_grant_or_ignore :: "GrantRow \<Rightarrow> nat jop" where
  "insert_grant_or_ignore r =
    op_bind (op_query (\<lambda>s. list_ex (\<lambda>x. eg_grant_id x = eg_grant_id r \<or>
      is_active x \<and> row_key x = row_key r) (external_operation_grants s))) (\<lambda>clash.
    if clash \<or> eg_conversation_kind r \<notin> {''p2p'', ''group'', ''cli''} then op_return 0
    else op_then (op_update (\<lambda>s. s\<lparr>external_operation_grants := external_operation_grants s @ [r]\<rparr>))
      (op_return 1))"

definition select_active_grant :: "CreateGrantParams \<Rightarrow> string jop" where
  "select_active_grant p =
    op_bind (op_query (\<lambda>s. find (\<lambda>x. row_key x = params_key p \<and> is_active x)
      (external_operation_grants s))) (\<lambda>row.
    case row of None \<Rightarrow> op_bail ''Query returned no rows'' | Some x \<Rightarrow> op_return (eg_grant_id x))"

subsection \<open>Operations\<close>

definition create_external_operation_grant_tx :: "env \<Rightarrow> CreateGrantParams \<Rightarrow> (string \<times> bool) jop" where
  "create_external_operation_grant_tx E p =
    op_bind (new_id E ''grt'') (\<lambda>grant_id.
    op_bind (utc_now E) (\<lambda>now.
    op_bind (insert_grant_or_ignore (grant_row grant_id now p)) (\<lambda>changed.
    if changed = 1 then op_return (grant_id, True)
    else op_bind (select_active_grant p) (\<lambda>existing. op_return (existing, False)))))"

definition granted_payload :: "string \<Rightarrow> CreateGrantParams \<Rightarrow> json" where
  "granted_payload grant_id p =
    jobj [(''grant_id'', JStr grant_id), (''operation'', JStr (gp_op p)),
      (''grantee_principal_id'', JStr (gp_grantee p)), (''channel'', JStr (gp_channel p)),
      (''conversation_kind'', JStr (gp_conversation_kind p)), (''scope'', JStr (gp_scope_of p)),
      (''risk'', JStr (gp_risk p)), (''snapshot_id'', JStr (gp_snapshot_id p))]"

text \<open>What follows the \<open>INSERT\<close>: the identifier of the row that is there, and the event of a new one.\<close>

definition grant_outcome :: "env \<Rightarrow> CreateGrantParams \<Rightarrow> string \<Rightarrow> nat \<Rightarrow> string jop" where
  "grant_outcome E p grant_id rows_affected =
    op_bind (if rows_affected = 0 then tx E (select_active_grant p) else op_return grant_id)
      (\<lambda>persisted_grant_id.
    if 0 < rows_affected
    then op_then (append_event E ExternalOperationGranted None None (Some persisted_grant_id)
        (granted_payload persisted_grant_id p)) (op_return persisted_grant_id)
    else op_return persisted_grant_id)"

definition create_external_operation_grant :: "env \<Rightarrow> CreateGrantParams \<Rightarrow> string jop" where
  "create_external_operation_grant E p =
    op_bind (new_id E ''grt'') (\<lambda>grant_id.
    op_bind (utc_now E) (\<lambda>now.
    op_then (lock E)
    (op_bind (tx E (insert_grant_or_ignore (grant_row grant_id now p)))
      (grant_outcome E p grant_id))))"

definition update_grants :: "(GrantRow \<Rightarrow> bool) \<Rightarrow> (GrantRow \<Rightarrow> GrantRow) \<Rightarrow> nat jop" where
  "update_grants p f =
    op_bind (op_query (\<lambda>s. count_where p (external_operation_grants s))) (\<lambda>changed.
    op_then (op_update (\<lambda>s. s\<lparr>external_operation_grants :=
      update_where p f (external_operation_grants s)\<rparr>)) (op_return changed))"

definition revoke_external_operation_grant :: "env \<Rightarrow> string \<Rightarrow> unit jop" where
  "revoke_external_operation_grant E grant_id =
    op_bind (utc_now E) (\<lambda>now.
    op_then (lock E)
    (op_bind (tx E (update_grants (\<lambda>r. eg_grant_id r = grant_id \<and> is_active r)
       (\<lambda>r. r\<lparr>eg_status := ''revoked'', eg_revoked_at := Some now\<rparr>))) (\<lambda>changed.
     if 0 < changed
     then op_then (append_event E ExternalOperationRevoked None None (Some grant_id)
         (jobj [(''grant_id'', JStr grant_id), (''revoked_at'', JStr (rfc3339 E now))]))
       (op_return ())
     else op_return ())))"

definition grant_of_row :: "GrantRow \<Rightarrow> ExternalOperationGrant" where
  "grant_of_row r =
    \<lparr>xg_grant_id = eg_grant_id r, xg_operation = eg_operation r,
     xg_grantee_principal_id = eg_grantee_principal_id r, xg_channel = eg_channel r,
     xg_conversation_kind = eg_conversation_kind r, xg_scope = eg_scope r, xg_risk = eg_risk r,
     xg_snapshot_id = eg_snapshot_id r, xg_status = eg_status r\<rparr>"

definition load_active_external_operation_grants ::
  "env \<Rightarrow> string \<Rightarrow> string \<Rightarrow> string \<Rightarrow> string \<Rightarrow> string \<Rightarrow> ExternalOperationGrant list jop" where
  "load_active_external_operation_grants E principal_id channel conversation_kind scope snapshot_id =
    op_then (lock E)
    (tx E (op_query (\<lambda>s. map grant_of_row (filter (\<lambda>r. is_active r \<and>
      eg_grantee_principal_id r = principal_id \<and> eg_channel r = channel \<and>
      eg_conversation_kind r = conversation_kind \<and> eg_scope r = scope \<and>
      eg_snapshot_id r = snapshot_id) (external_operation_grants s)))))"

subsection \<open>The grants of the coding owner\<close>

definition is_coding_owner :: "KernelConfig \<Rightarrow> RunPrincipal \<Rightarrow> string option \<Rightarrow> bool" where
  "is_coding_owner config who chat_type =
    (case kc_feishu_coding_owner_id config of
       None \<Rightarrow> False
     | Some owner_id \<Rightarrow>
         if rp_source who \<noteq> PrincipalSource.Feishu then False
         else if chat_type \<noteq> Some ''p2p'' then False
         else rp_subject who = FeishuOpenId owner_id)"

definition push_grant :: "string \<Rightarrow> string \<Rightarrow> RunPrincipal \<Rightarrow> RunPrincipal" where
  "push_grant operation scope who =
    (if list_ex (\<lambda>g. cg_operation g = operation) (rp_grants who) then who
     else who\<lparr>rp_grants := rp_grants who @
       [\<lparr>cg_operation = operation, cg_scope = scope\<rparr>]\<rparr>)"

definition augment_grants :: "RegistrySnapshot \<Rightarrow> bool \<Rightarrow> RunPrincipal \<Rightarrow> RunPrincipal" where
  "augment_grants snapshot is_owner who =
    (if \<not> is_owner then who
     else fold (\<lambda>op_spec p.
       if os_binding_kind op_spec \<noteq> External then p
       else if os_name op_spec \<notin> set owner_development_operations then p
       else push_grant (os_name op_spec) ''current_session'' p) (rs_operations snapshot) who)"

subsection \<open>The table as a set of authorisations\<close>

definition authorised :: "store \<Rightarrow> grant_key set" where
  "authorised s = {k. \<exists>r \<in> set (external_operation_grants s). is_active r \<and> row_key r = k}"

definition grants_ok :: "store \<Rightarrow> bool" where
  "grants_ok s \<longleftrightarrow> distinct (map eg_grant_id (external_operation_grants s)) \<and>
     distinct (map row_key (filter is_active (external_operation_grants s))) \<and>
     (\<forall>r \<in> set (external_operation_grants s). eg_status r \<in> {''active'', ''revoked''} \<and>
       eg_conversation_kind r \<in> {''p2p'', ''group'', ''cli''})"

text \<open>The identifier of the active row with a key.\<close>

definition grant_id_of :: "store \<Rightarrow> grant_key \<Rightarrow> string option" where
  "grant_id_of s k = map_option eg_grant_id
     (find (\<lambda>r. row_key r = k \<and> is_active r) (external_operation_grants s))"

lemma grant_row_simps [simp]:
  "row_key (grant_row i now p) = params_key p" "is_active (grant_row i now p)"
  "eg_grant_id (grant_row i now p) = i" "eg_status (grant_row i now p) = ''active''"
  "eg_conversation_kind (grant_row i now p) = gp_conversation_kind p"
  by (simp_all add: row_key_def params_key_def is_active_def grant_row_def)

text \<open>Operations that do not touch the table.\<close>

definition same_grants :: "store \<Rightarrow> store \<Rightarrow> bool" where
  "same_grants s t \<longleftrightarrow> external_operation_grants t = external_operation_grants s"

interpretation sg: store_frame same_grants
  by unfold_locales (simp_all add: same_grants_def)

lemma same_grants_append: "obeys same_grants (append_event E k ri si ci p)"
  unfolding append_event_def append_row_def insert_event_def Let_def op_then_def
  by (intro sg.store_intros obeys_intros) (simp add: obeys_def op_update_def same_grants_def)

lemma same_grants_lock: "obeys same_grants (lock E)"
  unfolding lock_def by (intro sg.store_intros obeys_intros)

text \<open>The operations as changes of the set.\<close>

lemma same_grants_authorised:
  "same_grants s t \<Longrightarrow> authorised t = authorised s \<and> grants_ok t = grants_ok s \<and>
   grant_id_of t = grant_id_of s"
  by (simp add: same_grants_def authorised_def grants_ok_def grant_id_of_def fun_eq_iff)

lemma unchanged_same_grants: "unchanged s t \<Longrightarrow> same_grants s t"
  by (simp add: same_grants_def unchangedD)

lemma find_snoc:
  "find P (xs @ [x]) = (case find P xs of None \<Rightarrow> if P x then Some x else None | Some y \<Rightarrow> Some y)"
  by (induction xs) auto

lemma grant_id_authorised: "grant_id_of s k \<noteq> None \<longleftrightarrow> k \<in> authorised s"
  by (auto simp: grant_id_of_def authorised_def find_None_iff)

text \<open>A new row with a key that no active row has.\<close>

lemma grant_added:
  assumes "grants_ok s" and "eg_conversation_kind r \<in> {''p2p'', ''group'', ''cli''}"
    and "is_active r" and "\<forall>x \<in> set (external_operation_grants s). eg_grant_id x \<noteq> eg_grant_id r"
    and "row_key r \<notin> authorised s"
  defines "t \<equiv> s\<lparr>external_operation_grants := external_operation_grants s @ [r]\<rparr>"
  shows "grants_ok t" "authorised t = insert (row_key r) (authorised s)"
    "grant_id_of t (row_key r) = Some (eg_grant_id r)"
proof -
  have "find (\<lambda>x. row_key x = row_key r \<and> is_active x) (external_operation_grants s) = None"
    using assms(5) by (auto simp: find_None_iff authorised_def)
  with assms show "grant_id_of t (row_key r) = Some (eg_grant_id r)"
    by (simp add: grant_id_of_def t_def find_snoc)
  show "authorised t = insert (row_key r) (authorised s)"
    using assms(3) by (auto simp: authorised_def t_def)
  show "grants_ok t"
    using assms(1-5) unfolding grants_ok_def t_def authorised_def
    by (fastforce simp: is_active_def)
qed

lemma insert_grant_effect:
  assumes "grants_ok s" and "k = params_key p"
  shows "ends (insert_grant_or_ignore (grant_row i now p)) s (\<lambda>r t. \<exists>n. r = Inr n \<and> grants_ok t \<and>
    (n = 0 \<and> t = s \<or> n = 1 \<and> k \<notin> authorised s \<and> authorised t = insert k (authorised s) \<and>
      grant_id_of t k = Some i))"
proof -
  have "k \<notin> authorised s" if "\<not> (\<exists>x \<in> set (external_operation_grants s). is_active x \<and> row_key x = k)"
    using that by (auto simp: authorised_def)
  with grant_added [OF assms(1), of "grant_row i now p"] assms show ?thesis
    by (auto simp: insert_grant_or_ignore_def ends_rules list_ex_iff)
qed

lemma select_active_grant_effect:
  "ends (select_active_grant p) s
     (\<lambda>r t. t = s \<and> (\<forall>i. r = Inr i \<longrightarrow> grant_id_of s (params_key p) = Some i))"
  by (simp add: select_active_grant_def ends_rules grant_id_of_def)

lemma tx_insert_grant:
  assumes "grants_ok u" and "k = params_key p"
  shows "ends (tx E (insert_grant_or_ignore (grant_row i now p))) u (\<lambda>r t. grants_ok t \<and>
      (case r of Inl _ \<Rightarrow> same_grants u t | Inr n \<Rightarrow> n = 0 \<and> same_grants u t \<or>
        n = 1 \<and> authorised t = insert k (authorised u) \<and> grant_id_of t k = Some i))"
proof (rule ends_tx_cases)
  let ?u = "u\<lparr>tick := Suc (tick u)\<rparr>"
  have u: "same_grants u ?u" by (simp add: same_grants_def)
  with same_grants_authorised assms have "grants_ok ?u" by blast
  from insert_grant_effect [OF this assms(2), of i now] u same_grants_authorised [OF u]
  show "ends (insert_grant_or_ignore (grant_row i now p)) ?u
    (\<lambda>r t. case r of Inl _ \<Rightarrow> True | Inr n \<Rightarrow> grants_ok t \<and>
      (case Inr n of Inl _ \<Rightarrow> same_grants u t | Inr n \<Rightarrow> n = 0 \<and> same_grants u t \<or>
      n = 1 \<and> authorised t = insert k (authorised u) \<and> grant_id_of t k = Some i))"
    by (elim ends_use) auto
qed (use assms same_grants_authorised unchanged_same_grants in auto)

text \<open>What a creation leaves behind.\<close>

definition granted :: "grant_key \<Rightarrow> grant_key set \<Rightarrow> string + string \<Rightarrow> store \<Rightarrow> bool" where
  "granted k A r t \<longleftrightarrow> grants_ok t \<and> (case r of
      Inl _ \<Rightarrow> authorised t \<in> {A, insert k A}
    | Inr i \<Rightarrow> authorised t = insert k A \<and> grant_id_of t k = Some i)"

lemma grant_outcome_effect:
  assumes "grants_ok u" and k: "k = params_key p"
    and "n = 0 \<and> authorised u = A \<or> n = 1 \<and> authorised u = insert k A \<and> grant_id_of u k = Some i"
  shows "ends (grant_outcome E p i n) u (granted k A)"
proof -
  have sel: "ends (tx E (select_active_grant p)) u (\<lambda>r t. same_grants u t \<and>
      (\<forall>i. r = Inr i \<longrightarrow> grant_id_of u k = Some i))"
    by (rule ends_tx_cases)
       (auto simp: unchangedD k grant_id_of_def same_grants_def
         intro!: ends_use [OF select_active_grant_effect] split: sum.splits)
  have app: "ends (append_event E ExternalOperationGranted None None (Some i) (granted_payload i p)) u
      (\<lambda>r t. same_grants u t)"
    by (rule ends_obeys [OF same_grants_append])
  from assms(3) show ?thesis
  proof
    assume n: "n = 0 \<and> authorised u = A"
    have "granted k A r t" if "same_grants u t" "\<forall>i. r = Inr i \<longrightarrow> grant_id_of u k = Some i" for r t
      using n that same_grants_authorised [OF that(1)] assms(1) grant_id_authorised [of u k]
      by (auto simp: granted_def split: sum.splits)
    with n show ?thesis
      unfolding grant_outcome_def by (auto simp: ends_return intro!: ends_bindI [OF sel])
  next
    assume n: "n = 1 \<and> authorised u = insert k A \<and> grant_id_of u k = Some i"
    have "granted k A r t" if "same_grants u t" "\<forall>j. r = Inr j \<longrightarrow> j = i" for r t
      using n that same_grants_authorised [OF that(1)] assms(1)
      by (auto simp: granted_def split: sum.splits)
    with n show ?thesis
      unfolding grant_outcome_def by (auto simp: ends_bind ends_return intro!: ends_thenI [OF app])
  qed
qed

lemma create_grant_effect:
  assumes "grants_ok s" and k: "k = params_key p"
  shows "ends (create_external_operation_grant E p) s (granted k (authorised s))"
proof -
  note keep = same_grants_authorised
  have lck: "ends (lock E) u (\<lambda>r t. same_grants s t)" if "same_grants s u" for u
    by (rule ends_use [OF ends_obeys [OF same_grants_lock]]) (rule sg.frame_trans [OF that])
  have ins: "ends (op_bind (tx E (insert_grant_or_ignore (grant_row i now p))) (grant_outcome E p i)) t
      (granted k (authorised s))" if t: "same_grants s t" for i now t
  proof (rule ends_bindI [OF tx_insert_grant [OF _ k]])
    show "grants_ok t" using keep [OF t] assms by simp
  next
    fix e u
    assume "grants_ok u \<and> (case (Inl e :: string + nat) of Inl _ \<Rightarrow> same_grants t u | Inr n \<Rightarrow>
      n = 0 \<and> same_grants t u \<or> n = 1 \<and> authorised u = insert k (authorised t) \<and> grant_id_of u k = Some i)"
    then show "granted k (authorised s) (Inl e) u"
      using keep [of t u] keep [OF t] by (simp add: granted_def)
  next
    fix n u
    assume "grants_ok u \<and> (case (Inr n :: string + nat) of Inl _ \<Rightarrow> same_grants t u | Inr n \<Rightarrow>
      n = 0 \<and> same_grants t u \<or> n = 1 \<and> authorised u = insert k (authorised t) \<and> grant_id_of u k = Some i)"
    then show "ends (grant_outcome E p i n) u (granted k (authorised s))"
      using keep [of t u] keep [OF t] by (intro grant_outcome_effect k) auto
  qed
  show ?thesis
    unfolding create_external_operation_grant_def ends_bind [of "new_id _ _"]
      ends_bind [of "utc_now _"] ends_new_id ends_now sum.case
  proof (rule ends_thenI [OF lck])
    show "granted k (authorised s) (Inl e) t" if "same_grants s t" for e t
      using keep [OF that] assms(1) by (simp add: granted_def)
  qed (simp_all add: ins same_grants_def)
qed

lemma grant_id_iff:
  assumes "grants_ok s"
  shows "grant_id_of s k = Some i \<longleftrightarrow>
    (\<exists>r \<in> set (external_operation_grants s). is_active r \<and> row_key r = k \<and> eg_grant_id r = i)"
proof -
  have inj: "inj_on row_key (set (filter is_active (external_operation_grants s)))"
    using assms by (simp add: grants_ok_def distinct_map)
  show ?thesis
  proof
    assume "grant_id_of s k = Some i"
    then obtain r where "find (\<lambda>r. row_key r = k \<and> is_active r) (external_operation_grants s) = Some r"
      "eg_grant_id r = i" by (auto simp: grant_id_of_def)
    then show "\<exists>r \<in> set (external_operation_grants s). is_active r \<and> row_key r = k \<and> eg_grant_id r = i"
      by (auto simp: find_Some_iff)
  next
    assume "\<exists>r \<in> set (external_operation_grants s). is_active r \<and> row_key r = k \<and> eg_grant_id r = i"
    then obtain r where r: "r \<in> set (external_operation_grants s)" "is_active r" "row_key r = k"
      "eg_grant_id r = i" by blast
    then obtain x where x: "find (\<lambda>r. row_key r = k \<and> is_active r) (external_operation_grants s) = Some x"
      by (metis (mono_tags, lifting) find_None_iff not_None_eq)
    then have "x \<in> set (external_operation_grants s)" "is_active x" "row_key x = k"
      by (auto simp: find_Some_iff)
    with r inj have "x = r" by (auto simp: inj_on_def)
    with x r show "grant_id_of s k = Some i" by (simp add: grant_id_of_def)
  qed
qed

lemma revoked_rows:
  fixes s :: store and i :: string and now :: instant
  assumes "grants_ok s"
  defines "t \<equiv> s\<lparr>external_operation_grants :=
    update_where (\<lambda>r. eg_grant_id r = i \<and> is_active r)
      (\<lambda>r. r\<lparr>eg_status := ''revoked'', eg_revoked_at := Some now\<rparr>) (external_operation_grants s)\<rparr>"
  shows "grants_ok t" "authorised t = {k \<in> authorised s. grant_id_of s k \<noteq> Some i}"
proof -
  let ?T = "external_operation_grants s"
  let ?f = "\<lambda>r. if eg_grant_id r = i \<and> is_active r
    then r\<lparr>eg_status := ''revoked'', eg_revoked_at := Some now\<rparr> else r"
  have T: "external_operation_grants t = map ?f ?T"
    by (simp add: t_def update_where_def)
  have act: "is_active (?f r) \<longleftrightarrow> is_active r \<and> eg_grant_id r \<noteq> i" for r by (auto simp: is_active_def)
  have key: "row_key (?f r) = row_key r" for r by (simp add: row_key_def)
  have inj: "inj_on row_key (set (filter is_active ?T))"
    using assms by (simp add: grants_ok_def distinct_map)
  have uniq: "x = y" if "x \<in> set ?T" "y \<in> set ?T" "is_active x" "is_active y" "row_key x = row_key y"
    for x y using inj_onD [OF inj that(5)] that by simp
  show "authorised t = {k \<in> authorised s. grant_id_of s k \<noteq> Some i}"
  proof (rule set_eqI)
    fix k
    have "k \<in> authorised t \<longleftrightarrow> (\<exists>r \<in> set ?T. is_active (?f r) \<and> row_key (?f r) = k)"
      unfolding authorised_def T set_map bex_simps(7) mem_Collect_eq by (rule refl)
    also have "\<dots> \<longleftrightarrow> (\<exists>r \<in> set ?T. is_active r \<and> row_key r = k \<and> eg_grant_id r \<noteq> i)"
      unfolding act key by blast
    also have "\<dots> \<longleftrightarrow> (\<exists>r \<in> set ?T. is_active r \<and> row_key r = k) \<and>
        \<not> (\<exists>r \<in> set ?T. is_active r \<and> row_key r = k \<and> eg_grant_id r = i)"
      using uniq by metis
    also have "\<dots> \<longleftrightarrow> k \<in> {k \<in> authorised s. grant_id_of s k \<noteq> Some i}"
      by (simp add: grant_id_iff [OF assms(1)] authorised_def)
    finally show "k \<in> authorised t \<longleftrightarrow> k \<in> {k \<in> authorised s. grant_id_of s k \<noteq> Some i}" .
  qed
  have "map row_key (filter is_active (map ?f xs)) =
      map row_key (filter (\<lambda>r. is_active r \<and> eg_grant_id r \<noteq> i) xs)" for xs
    by (induction xs) (simp_all add: act key)
  moreover have "distinct (map row_key (filter (\<lambda>r. is_active r \<and> eg_grant_id r \<noteq> i) ?T))"
    using inj assms(1) by (auto simp: grants_ok_def distinct_map inj_on_def)
  moreover have "map eg_grant_id (map ?f xs) = map eg_grant_id xs" for xs
    by (induction xs) simp_all
  moreover have "\<forall>r \<in> set (map ?f ?T). eg_status r \<in> {''active'', ''revoked''} \<and>
      eg_conversation_kind r \<in> {''p2p'', ''group'', ''cli''}"
    using assms(1) unfolding grants_ok_def set_map ball_simps(9) by auto
  ultimately show "grants_ok t"
    using assms(1) unfolding grants_ok_def T by presburger
qed

definition withdrawn :: "grant_key set \<Rightarrow> grant_key set \<Rightarrow> string + unit \<Rightarrow> store \<Rightarrow> bool" where
  "withdrawn B A r t \<longleftrightarrow> grants_ok t \<and> (case r of
      Inl _ \<Rightarrow> authorised t \<in> {A, B} | Inr _ \<Rightarrow> authorised t = B)"

lemma revoke_grant_effect:
  assumes "grants_ok s"
  shows "ends (revoke_external_operation_grant E i) s
    (withdrawn {k \<in> authorised s. grant_id_of s k \<noteq> Some i} (authorised s))"
proof -
  note keep = same_grants_authorised
  let ?B = "{k \<in> authorised s. grant_id_of s k \<noteq> Some i}"
  let ?m = "\<lambda>now. update_grants (\<lambda>r. eg_grant_id r = i \<and> is_active r)
       (\<lambda>r. r\<lparr>eg_status := ''revoked'', eg_revoked_at := Some now\<rparr>)"
  have upd: "ends (tx E (?m now)) t (\<lambda>r u. grants_ok u \<and>
      (case r of Inl _ \<Rightarrow> authorised u = authorised s | Inr _ \<Rightarrow> authorised u = ?B))"
    if t: "same_grants s t" for t now
  proof (rule ends_tx_cases)
    let ?t = "t\<lparr>tick := Suc (tick t)\<rparr>"
    have u: "same_grants s ?t" using t by (simp add: same_grants_def)
    from revoked_rows [of ?t i now] keep [OF u] assms
    show "ends (?m now) ?t (\<lambda>r u. case r of Inl _ \<Rightarrow> True | Inr x \<Rightarrow> grants_ok u \<and>
        (case Inr x of Inl _ \<Rightarrow> authorised u = authorised s | Inr _ \<Rightarrow> authorised u = ?B))"
      by (simp add: update_grants_def ends_rules)
  next
    show "grants_ok u \<and> (case (Inl e :: string + nat) of Inl _ \<Rightarrow> authorised u = authorised s
      | Inr _ \<Rightarrow> authorised u = ?B)" if "unchanged t u" for e u
      using keep [OF unchanged_same_grants [OF that]] keep [OF t] assms by simp
  qed
  have fin: "ends (if 0 < changed then op_then (append_event E ExternalOperationRevoked None None
      (Some i) (jobj [(''grant_id'', JStr i), (''revoked_at'', JStr (rfc3339 E now))])) (op_return ())
      else op_return ()) u (withdrawn ?B (authorised s))"
    if "grants_ok u" "authorised u = ?B" for u now changed
  proof -
    have "withdrawn ?B (authorised s) r t" if "same_grants u t" for r t
      using keep [OF that] \<open>grants_ok u\<close> \<open>authorised u = ?B\<close>
      by (auto simp: withdrawn_def split: sum.splits)
    then show ?thesis
      by (auto simp: ends_return sg.frame_refl intro!: ends_thenI [OF ends_obeys [OF same_grants_append]])
  qed
  have lck: "ends (lock E) u (\<lambda>r t. same_grants s t)" if "same_grants s u" for u
    by (rule ends_use [OF ends_obeys [OF same_grants_lock]]) (rule sg.frame_trans [OF that])
  show ?thesis
    unfolding revoke_external_operation_grant_def ends_bind [of "utc_now _"] ends_now sum.case
  proof (rule ends_thenI [OF lck])
    show "withdrawn ?B (authorised s) (Inl e) t" if "same_grants s t" for e t
      using keep [OF that] assms by (simp add: withdrawn_def)
  next
    fix x t assume "same_grants s t"
    then show "ends (op_bind (tx E (?m (clock_at E (tick s)))) (\<lambda>changed. if 0 < changed
      then op_then (append_event E ExternalOperationRevoked None None (Some i)
        (jobj [(''grant_id'', JStr i), (''revoked_at'', JStr (rfc3339 E (clock_at E (tick s))))]))
        (op_return ()) else op_return ())) t (withdrawn ?B (authorised s))"
      by (intro ends_bindI [OF upd] fin) (auto simp: withdrawn_def)
  qed (simp add: same_grants_def)
qed

lemma load_grants_effect:
  "ends (load_active_external_operation_grants E who channel kind scope snapshot) s
     (\<lambda>r t. same_grants s t \<and> (\<forall>gs. r = Inr gs \<longrightarrow>
       xg_operation ` set gs = {op_name. (op_name, who, channel, kind, scope, snapshot) \<in> authorised s} \<and>
       (\<forall>g \<in> set gs. xg_scope g = scope)))"
  unfolding load_active_external_operation_grants_def
  by (rule ends_thenI [OF ends_obeys [OF same_grants_lock]])
     (force simp: ends_rules same_grants_def authorised_def row_key_def grant_of_row_def image_iff)+

subsection \<open>The grants of a run\<close>

definition granted_operations :: "RunPrincipal \<Rightarrow> string set" where
  "granted_operations who = cg_operation ` set (rp_grants who)"

lemma push_grant_operations [simp]:
  "granted_operations (push_grant op_name scope who) = insert op_name (granted_operations who)"
  by (auto simp: granted_operations_def push_grant_def list_ex_iff)

lemma push_grant_prefix: "prefix (rp_grants who) (rp_grants (push_grant op_name scope who))"
  by (simp add: push_grant_def)

lemma augment_grants_operations:
  "granted_operations (augment_grants snapshot is_owner who) = granted_operations who \<union>
    (if is_owner then {os_name op_spec | op_spec. op_spec \<in> set (rs_operations snapshot) \<and>
       os_binding_kind op_spec = External \<and> os_name op_spec \<in> set owner_development_operations} else {})"
proof -
  let ?f = "\<lambda>op_spec p. if os_binding_kind op_spec \<noteq> External then p
       else if os_name op_spec \<notin> set owner_development_operations then p
       else push_grant (os_name op_spec) ''current_session'' p"
  have "granted_operations (fold ?f xs who) = granted_operations who \<union> {os_name op_spec | op_spec.
      op_spec \<in> set xs \<and> os_binding_kind op_spec = External \<and>
      os_name op_spec \<in> set owner_development_operations}" for xs :: "OperationSpec list"
    by (induction xs arbitrary: who) auto
  then show ?thesis by (simp add: augment_grants_def)
qed

subsection \<open>Properties\<close>


definition sample_grant :: CreateGrantParams where
  "sample_grant = \<lparr>gp_op = ''external.calculator'', gp_grantee = ''p1'', gp_channel = ''Cli'',
     gp_conversation_kind = ''cli'', gp_scope_of = ''principal_channel'', gp_risk = ''Write'',
     gp_capability_id = None, gp_snapshot_id = ''s1'', gp_created_by = None,
     gp_decision_reference = None\<rparr>"


text \<open>The row and its journal event are two transactions. When the second one fails, the grant is in
  force and no later call records it: a repeated creation finds the row and appends nothing.\<close>

definition unrecorded :: "(string + string) \<times> store" where
  "unrecorded = create_external_operation_grant (sample_env\<lparr>fault_at := \<lambda>n. n = 6\<rparr>) sample_grant empty_store"

definition repeated :: "(string + string) \<times> store" where
  "repeated = create_external_operation_grant (sample_env\<lparr>fault_at := \<lambda>n. n = 6\<rparr>) sample_grant (snd unrecorded)"

lemma grant_without_event:
  "fst unrecorded = Inl db_error" "map is_active (external_operation_grants (snd unrecorded)) = [True]"
  "\<not> isl (fst repeated)" "journal_events (snd repeated) = []"
  by code_simp+

end
