(* ===== verification/Journal_Logic.thy ===== *)
theory Journal_Logic
  imports Hash_Chain Op_Logic
begin

section \<open>Reasoning about appended events\<close>

text \<open>
  The contract of \<open>append_event\<close> in the two styles the components use: as a postcondition (\<open>ends\<close>), and
  as a frame that says which kinds of event an operation may append (\<open>emits\<close>).
\<close>

subsection \<open>Postconditions\<close>

lemma ends_append_event_tx:
  "ends (append_event_tx E k ri si ci p) s Q \<longleftrightarrow>
   Q (Inr (tx_event E k ri si ci p s)) (s\<lparr>tick := Suc (Suc (tick s)),
        journal_events := journal_events s @ [tx_row E k ri si ci p s]\<rparr>)"
  by (simp add: ends_def append_event_tx_run)

lemma tx_event_kind [simp]: "je_kind (tx_event E k ri si ci p s) = k"
  by (simp add: tx_event_def append_event_tx_def op_simps append_row_result Let_def)

text \<open>What the row of an event records.\<close>

definition event_row ::
  "env \<Rightarrow> JournalEventKind \<Rightarrow> RunId option \<Rightarrow> SessionId option \<Rightarrow> string option \<Rightarrow> json \<Rightarrow> JournalRow \<Rightarrow> bool" where
  "event_row E k ri si ci p row \<longleftrightarrow>
     jr_kind row = storage_name k \<and> jr_run_id row = ri \<and> jr_session_id row = si \<and>
     jr_correlation_id row = ci \<and> jr_payload_json row = json_text E p"

text \<open>Every table but the journal is as before.\<close>

definition only_journal :: "store \<Rightarrow> store \<Rightarrow> bool" where
  "only_journal s t \<longleftrightarrow> t = s\<lparr>tick := tick t, journal_events := journal_events t\<rparr>"

lemma only_journalD:
  assumes "only_journal s t"
  shows "sessions t = sessions s" "runs t = runs s" "worker_jobs t = worker_jobs s"
    "outbox_dispatches t = outbox_dispatches s" "session_continuations t = session_continuations s"
    "external_operation_grants t = external_operation_grants s" "ingress_dedup t = ingress_dedup s"
    "registry_snapshots t = registry_snapshots s" "registry_state t = registry_state s"
    "harness_manifests t = harness_manifests s"
  using assms by (cases s; cases t; simp add: only_journal_def)+

lemma only_journal_unchanged: "unchanged s t \<Longrightarrow> only_journal s t"
  by (cases s; cases t) (simp add: unchanged_def only_journal_def)

interpretation oj: store_frame only_journal
proof
  show "only_journal s s" for s by (simp add: only_journal_def)
  show "only_journal s u" if "only_journal s t" "only_journal t u" for s t u
    using that by (cases s; cases t; cases u) (simp add: only_journal_def)
  show "only_journal s (s\<lparr>tick := n\<rparr>)" for s n by (simp add: only_journal_def)
qed

definition appended_event ::
  "env \<Rightarrow> JournalEventKind \<Rightarrow> RunId option \<Rightarrow> SessionId option \<Rightarrow> string option \<Rightarrow> json \<Rightarrow> store \<Rightarrow>
   string + JournalEvent \<Rightarrow> store \<Rightarrow> bool" where
  "appended_event E k ri si ci p s r t \<longleftrightarrow> (case r of
     Inl _ \<Rightarrow> unchanged s t
   | Inr e \<Rightarrow> only_journal s t \<and>
      (\<exists>row. journal_events t = journal_events s @ [row] \<and> event_row E k ri si ci p row))"

lemma append_row_appends:
  "ends (append_row E i c k ri si ci p) s (\<lambda>r t. \<not> isl r \<and> only_journal s t \<and>
     (\<exists>row. journal_events t = journal_events s @ [row] \<and> event_row E k ri si ci p row))"
  by (rule endsI) (auto simp: append_row_result Let_def event_row_def only_journal_def)

lemma append_event_appended: "ends (append_event E k ri si ci p) s (appended_event E k ri si ci p s)"
proof -
  let ?s = "s\<lparr>tick := Suc (Suc (tick s))\<rparr>"
  have "ends (tx E (append_row E i c k ri si ci p)) ?s (appended_event E k ri si ci p s)" for i c
  proof (rule ends_tx_cases)
    show "appended_event E k ri si ci p s (Inl e) t" if "unchanged ?s t" for e t
      using that unchanged_trans [of s ?s t] by (simp add: appended_event_def)
    let ?u = "?s\<lparr>tick := Suc (tick ?s)\<rparr>"
    have su: "only_journal s ?u" by (simp add: only_journal_def)
    show "ends (append_row E i c k ri si ci p) ?u
        (\<lambda>r t. case r of Inr x \<Rightarrow> appended_event E k ri si ci p s (Inr x) t | Inl _ \<Rightarrow> True)"
    proof (rule ends_use [OF append_row_appends])
      fix r :: "string + JournalEvent" and t assume a: "\<not> isl r \<and> only_journal ?u t \<and>
        (\<exists>row. journal_events t = journal_events ?u @ [row] \<and> event_row E k ri si ci p row)"
      with oj.frame_trans [OF su] show "case r of Inr x \<Rightarrow> appended_event E k ri si ci p s (Inr x) t | Inl _ \<Rightarrow> True"
        by (auto simp: appended_event_def split: sum.split)
    qed
  qed
  then show ?thesis
    unfolding append_event_def ends_bind [of "new_id _ _"] ends_bind [of "utc_now _"] ends_new_id ends_now sum.case
    by simp
qed

subsection \<open>Steps that change no table\<close>

lemma ends_bind_unchanged:
  assumes "obeys unchanged m" and "\<And>e t. unchanged s t \<Longrightarrow> Q (Inl e) t"
    and "\<And>x t. unchanged s t \<Longrightarrow> ends (f x) t Q"
  shows "ends (op_bind m f) s Q"
  by (rule ends_bindI [OF ends_obeys [OF assms(1)]]) (use assms(2,3) in auto)

lemma ends_bind_try:
  assumes "ends m s P" and "\<And>r t. P r t \<Longrightarrow> ends (f r) t Q"
  shows "ends (op_bind (op_try m) f) s Q"
  unfolding ends_bind ends_try sum.case by (rule ends_use [OF assms])

subsection \<open>Kinds of event\<close>

definition emits :: "JournalEventKind set \<Rightarrow> store \<Rightarrow> store \<Rightarrow> bool" where
  "emits K s t \<longleftrightarrow> (\<exists>rows. journal_events t = journal_events s @ rows \<and>
     (\<forall>r \<in> set rows. jr_kind r \<in> storage_name ` K))"

interpretation em: store_frame "emits K" for K
proof
  show "emits K s s" for s by (simp add: emits_def)
  show "emits K s u" if "emits K s t" "emits K t u" for s t u
    using that unfolding emits_def by force
  show "emits K s (s\<lparr>tick := n\<rparr>)" for s n by (simp add: emits_def)
qed

lemma emits_mono: "emits K s t \<Longrightarrow> K \<subseteq> L \<Longrightarrow> emits L s t"
  unfolding emits_def by blast

lemma emits_append_event: "k \<in> K \<Longrightarrow> obeys (emits K) (append_event E k ri si ci p)"
proof (rule obeysI)
  fix s assume k: "k \<in> K"
  obtain r t where run: "append_event E k ri si ci p s = (r, t)" by (cases "append_event E k ri si ci p s")
  from endsD [OF append_event_appended run] k show "emits K s (snd (append_event E k ri si ci p s))"
    by (cases r) (auto simp: run appended_event_def emits_def event_row_def unchangedD)
qed

lemma emits_other_tables: "(\<And>s. journal_events (f s) = journal_events s) \<Longrightarrow> obeys (emits K) (op_update f)"
  by (simp add: obeys_def op_update_def emits_def)

end
