(* ===== verification/Model_Records.thy ===== *)
theory Model_Records
  imports Journal_Logic Text_Parsing Sample_Env
begin

section \<open>The journal record of model calls\<close>

text \<open>
  \<open>src/src/journal/model_invocation.rs\<close>: an invocation of the model has one \<open>started\<close> fact and at most
  one terminal fact in the journal, however often the runtime reports them. The check for an
  existing fact and the write share one transaction.
\<close>

definition started_kind :: string where "started_kind = ''model.invocation.started.v0''"
definition completed_kind :: string where "completed_kind = ''model.invocation.completed.v0''"
definition failed_kind :: string where "failed_kind = ''model.invocation.failed.v0''"

definition facts_of :: "string \<Rightarrow> string list \<Rightarrow> JournalRow list \<Rightarrow> JournalRow list" where
  "facts_of invocation_id kinds rows =
    filter (\<lambda>r. jr_correlation_id r = Some invocation_id \<and> jr_kind r \<in> set kinds) rows"

definition query_existing :: "env \<Rightarrow> string \<Rightarrow> string list \<Rightarrow> JournalEvent option jop" where
  "query_existing E invocation_id kinds = op_query (\<lambda>s.
     map_option (row_to_event E) (first_by jr_sequence (facts_of invocation_id kinds (journal_events s))))"

definition ensure_same_identity :: "JournalEvent \<Rightarrow> RunId \<Rightarrow> SessionId \<Rightarrow> string + unit" where
  "ensure_same_identity event run_id session_id =
    require (je_run_id event = Some run_id \<and> je_session_id event = Some session_id)
      ''MODEL_INVOCATION_IDENTITY_CONFLICT''"

definition payload_identity :: "JournalEventKind \<Rightarrow> RunId \<Rightarrow> string \<Rightarrow> json \<Rightarrow> bool" where
  "payload_identity kind run_id invocation_id payload \<longleftrightarrow>
     str_field payload ''schema_version'' = Some (storage_name kind) \<and>
     str_field payload ''invocation_id'' = Some invocation_id \<and>
     str_field payload ''run_id'' = Some run_id"

definition record_model_invocation_event ::
  "env \<Rightarrow> JournalEventKind \<Rightarrow> RunId \<Rightarrow> SessionId \<Rightarrow> string \<Rightarrow> json \<Rightarrow> JournalEvent jop" where
  "record_model_invocation_event E kind run_id session_id invocation_id payload =
    (if kind \<notin> {ModelInvocationStarted, ModelInvocationCompleted, ModelInvocationFailed}
     then op_bail ''MODEL_INVOCATION_EVENT_KIND_INVALID''
     else if invocation_id = [] \<or> 256 < length invocation_id
     then op_bail ''MODEL_INVOCATION_ID_INVALID''
     else if \<not> payload_identity kind run_id invocation_id payload
     then op_bail ''MODEL_INVOCATION_PAYLOAD_IDENTITY_MISMATCH''
     else
       tx E (op_bind (query_existing E invocation_id
         (if kind = ModelInvocationStarted then [started_kind] else [completed_kind, failed_kind]))
         (\<lambda>existing.
       case existing of
         Some found \<Rightarrow>
           op_then (op_lift (ensure_same_identity found run_id session_id))
             (if je_kind found \<noteq> kind then op_bail ''MODEL_INVOCATION_TERMINAL_CONFLICT''
              else op_return found)
       | None \<Rightarrow>
           op_then
             (if kind \<noteq> ModelInvocationStarted
              then op_bind (query_existing E invocation_id [started_kind]) (\<lambda>started.
                case started of
                  None \<Rightarrow> op_bail ''MODEL_INVOCATION_STARTED_MISSING''
                | Some x \<Rightarrow> op_lift (ensure_same_identity x run_id session_id))
              else op_bind (query_existing E invocation_id [completed_kind, failed_kind]) (\<lambda>terminal.
                if terminal \<noteq> None then op_bail ''MODEL_INVOCATION_TERMINAL_WITHOUT_STARTED''
                else op_return ()))
             (append_event_tx E kind (Some run_id) (Some session_id) (Some invocation_id) payload))))"

subsection \<open>Well-formed facts\<close>

abbreviation fact_kinds :: "string list" where
  "fact_kinds \<equiv> [started_kind, completed_kind, failed_kind]"

lemma kind_names:
  "storage_name ModelInvocationStarted = started_kind"
  "storage_name ModelInvocationCompleted = completed_kind"
  "storage_name ModelInvocationFailed = failed_kind"
  "distinct fact_kinds"
  by (simp_all add: storage_name_def started_kind_def completed_kind_def failed_kind_def)

text \<open>A new row may be a \<open>started\<close> fact only when its invocation has no fact yet, and a terminal one
  only when it has started and not ended.\<close>

definition fact_allowed :: "JournalRow list \<Rightarrow> JournalRow \<Rightarrow> bool" where
  "fact_allowed rows r \<longleftrightarrow> (\<forall>i. jr_correlation_id r = Some i \<longrightarrow>
     (jr_kind r = started_kind \<longrightarrow> facts_of i fact_kinds rows = []) \<and>
     (jr_kind r \<in> {completed_kind, failed_kind} \<longrightarrow>
        facts_of i [started_kind] rows \<noteq> [] \<and> facts_of i [completed_kind, failed_kind] rows = []))"

definition facts_ok :: "JournalRow list \<Rightarrow> bool" where
  "facts_ok rows \<longleftrightarrow> (\<forall>xs r ys. rows = xs @ r # ys \<longrightarrow> fact_allowed xs r)"

lemma facts_of_Nil [simp]: "facts_of i ks [] = []"
  by (simp add: facts_of_def)

lemma facts_of_append [simp]: "facts_of i ks (xs @ ys) = facts_of i ks xs @ facts_of i ks ys"
  by (simp add: facts_of_def)

lemma facts_ok_Nil [simp]: "facts_ok []"
  by (simp add: facts_ok_def)

lemma facts_ok_snoc: "facts_ok (rows @ [r]) \<longleftrightarrow> facts_ok rows \<and> fact_allowed rows r"
proof
  assume ok: "facts_ok (rows @ [r])"
  have "fact_allowed xs x" if "rows = xs @ x # ys" for xs x ys
    using ok that unfolding facts_ok_def by (metis append.assoc append_Cons)
  with ok show "facts_ok rows \<and> fact_allowed rows r" unfolding facts_ok_def by blast
next
  assume ok: "facts_ok rows \<and> fact_allowed rows r"
  show "facts_ok (rows @ [r])"
    unfolding facts_ok_def
  proof (intro allI impI)
    fix xs x ys assume eq: "rows @ [r] = xs @ x # ys"
    show "fact_allowed xs x"
    proof (cases ys rule: rev_cases)
      case Nil
      with eq ok show ?thesis by simp
    next
      case (snoc zs z)
      with eq have "rows = xs @ x # zs" by simp
      with ok show ?thesis unfolding facts_ok_def by blast
    qed
  qed
qed

lemma facts_none: "facts_of i fact_kinds rows = [] \<Longrightarrow> set ks \<subseteq> set fact_kinds \<Longrightarrow> facts_of i ks rows = []"
  by (auto simp: facts_of_def filter_empty_conv)

text \<open>The facts of one invocation, in order.\<close>

lemma facts_shape:
  assumes "facts_ok rows"
  shows "map jr_kind (facts_of i fact_kinds rows) \<in>
    {[], [started_kind], [started_kind, completed_kind], [started_kind, failed_kind]}"
  using assms
proof (induction rows rule: rev_induct)
  case (snoc r rows)
  then have ih: "map jr_kind (facts_of i fact_kinds rows) \<in>
    {[], [started_kind], [started_kind, completed_kind], [started_kind, failed_kind]}"
    and a: "fact_allowed rows r" by (auto simp: facts_ok_snoc)
  show ?case
  proof (cases "jr_correlation_id r = Some i \<and> jr_kind r \<in> set fact_kinds")
    case False
    then have "facts_of i fact_kinds [r] = []" by (auto simp: facts_of_def)
    with ih show ?thesis by simp
  next
    case True
    then have eq: "facts_of i fact_kinds (rows @ [r]) = facts_of i fact_kinds rows @ [r]"
      by (simp add: facts_of_def [of _ _ "[r]"])
    have sub: "map jr_kind (facts_of i ks rows) = filter (\<lambda>k. k \<in> set ks) (map jr_kind (facts_of i fact_kinds rows))"
      if "set ks \<subseteq> set fact_kinds" for ks
      using that unfolding facts_of_def filter_map filter_filter comp_def
      by (intro arg_cong [where f = "map jr_kind"] filter_cong) auto
    show ?thesis
    proof (cases "jr_kind r = started_kind")
      case s: True
      with a True have "facts_of i fact_kinds rows = []" by (simp add: fact_allowed_def)
      with eq s show ?thesis by simp
    next
      case False
      with True have k: "jr_kind r \<in> {completed_kind, failed_kind}" by auto
      with a True have "map jr_kind (facts_of i [started_kind] rows) \<noteq> []"
        "map jr_kind (facts_of i [completed_kind, failed_kind] rows) = []"
        by (auto simp: fact_allowed_def)
      with ih sub [of "[started_kind]"] sub [of "[completed_kind, failed_kind]"] kind_names(4)
      have "map jr_kind (facts_of i fact_kinds rows) = [started_kind]" by auto
      with eq k show ?thesis by auto
    qed
  qed
qed simp

subsection \<open>What recording does\<close>

definition fact_row :: "JournalEventKind \<Rightarrow> RunId \<Rightarrow> SessionId \<Rightarrow> string \<Rightarrow> JournalEvent \<Rightarrow> JournalRow \<Rightarrow> bool" where
  "fact_row kind run_id session_id i e row \<longleftrightarrow>
     jr_correlation_id row = Some i \<and> jr_kind row = storage_name kind \<and>
     jr_run_id row = Some run_id \<and> jr_session_id row = Some session_id \<and>
     jr_event_id row = je_event_id e \<and> je_kind e = kind"

lemma found_row:
  assumes "first_by jr_sequence (facts_of i ks rows) = Some row"
  shows "row \<in> set rows" and "jr_correlation_id row = Some i" and "jr_kind row \<in> set ks"
  using first_by_SomeD(1) [OF assms] by (auto simp: facts_of_def)

text \<open>Recording appends nothing, or one allowed row; on success the row of the fact is in the journal.\<close>

definition recorded ::
  "JournalEventKind \<Rightarrow> RunId \<Rightarrow> SessionId \<Rightarrow> string \<Rightarrow> JournalRow list \<Rightarrow> string + JournalEvent \<Rightarrow> store \<Rightarrow> bool" where
  "recorded kind run_id session_id i rows r t \<longleftrightarrow> (case r of
     Inl _ \<Rightarrow> journal_events t = rows
   | Inr e \<Rightarrow>
       (journal_events t = rows \<or>
        (\<exists>row. journal_events t = rows @ [row] \<and> fact_allowed rows row)) \<and>
       (\<exists>row \<in> set (journal_events t). fact_row kind run_id session_id i e row))"

lemma facts_none_iff:
  "facts_of i fact_kinds rows = [] \<longleftrightarrow>
   facts_of i [started_kind] rows = [] \<and> facts_of i [completed_kind, failed_kind] rows = []"
  by (auto simp: facts_of_def filter_empty_conv)

lemma allowed_started:
  assumes "facts_of i [started_kind] rows = []" and "facts_of i [completed_kind, failed_kind] rows = []"
    and "jr_correlation_id r = Some i" and "jr_kind r = started_kind"
  shows "fact_allowed rows r"
  using assms kind_names(4) by (simp add: fact_allowed_def facts_none_iff)

lemma allowed_terminal:
  assumes "facts_of i [started_kind] rows \<noteq> []" and "facts_of i [completed_kind, failed_kind] rows = []"
    and "jr_correlation_id r = Some i" and "jr_kind r \<in> {completed_kind, failed_kind}"
  shows "fact_allowed rows r"
  using assms kind_names(4) by (auto simp: fact_allowed_def)

lemma ends_query_existing:
  "ends (query_existing E i ks) s Q \<longleftrightarrow>
   Q (Inr (map_option (row_to_event E) (first_by jr_sequence (facts_of i ks (journal_events s))))) s"
  by (simp add: query_existing_def ends_rules)

lemma replayed:
  assumes row: "first_by jr_sequence (facts_of i ks (journal_events s)) = Some row"
    and same: "ensure_same_identity (row_to_event E row) run_id session_id = Inr ()"
    and k: "je_kind (row_to_event E row) = kind" "kind \<noteq> JournalEventKind.Unknown"
  shows "\<exists>x \<in> set (journal_events s). fact_row kind run_id session_id i (row_to_event E row) x"
proof (rule bexI [OF _ found_row(1) [OF row]])
  from k have "jr_kind row = storage_name kind"
    using parse_kind_known by (force simp: row_to_event_def)
  with same k found_row(2) [OF row] show "fact_row kind run_id session_id i (row_to_event E row) row"
    by (simp add: fact_row_def row_to_event_def ensure_same_identity_def)
qed

lemma appended:
  assumes "fact_allowed (journal_events s) (tx_row E kind (Some run_id) (Some session_id) (Some i) p s)"
  shows "ends (append_event_tx E kind (Some run_id) (Some session_id) (Some i) p) s
    (recorded kind run_id session_id i (journal_events s))"
  using assms by (auto simp: ends_append_event_tx recorded_def fact_row_def)

lemma transaction_records:
  assumes "ends m (s\<lparr>tick := Suc (tick s)\<rparr>) (\<lambda>r t. isl r \<or> recorded kind run_id session_id i (journal_events s) r t)"
  shows "ends (tx E m) s (recorded kind run_id session_id i (journal_events s))"
proof (rule ends_tx_cases)
  show "recorded kind run_id session_id i (journal_events s) (Inl e) t" if "unchanged s t" for e t
    using that by (simp add: recorded_def unchangedD)
  show "ends m (s\<lparr>tick := Suc (tick s)\<rparr>)
      (\<lambda>r t. case r of Inr x \<Rightarrow> recorded kind run_id session_id i (journal_events s) (Inr x) t | Inl _ \<Rightarrow> True)"
    by (rule ends_use [OF assms]) (auto split: sum.split)
qed

lemma recording:
  "ends (record_model_invocation_event E kind run_id session_id i payload) s
     (recorded kind run_id session_id i (journal_events s))"
proof (cases "kind \<in> {ModelInvocationStarted, ModelInvocationCompleted, ModelInvocationFailed} \<and>
    \<not> (i = [] \<or> 256 < length i) \<and> payload_identity kind run_id i payload")
  case False
  then show ?thesis by (auto simp: record_model_invocation_event_def ends_rules recorded_def)
next
  case True
  then have known: "kind \<noteq> JournalEventKind.Unknown" by auto
  let ?s = "s\<lparr>tick := Suc (tick s)\<rparr>" and ?R = "recorded kind run_id session_id i (journal_events s)"
  have app: "ends (append_event_tx E kind (Some run_id) (Some session_id) (Some i) payload) ?s
      (\<lambda>r t. isl r \<or> ?R r t)"
    if "fact_allowed (journal_events s) (tx_row E kind (Some run_id) (Some session_id) (Some i) payload ?s)"
  proof (rule ends_use)
    show "ends (append_event_tx E kind (Some run_id) (Some session_id) (Some i) payload) ?s
        (recorded kind run_id session_id i (journal_events ?s))"
      using that by (intro appended) simp
  qed simp
  have re: "?R (Inr (row_to_event E row)) ?s"
    if "first_by jr_sequence (facts_of i ks (journal_events s)) = Some row"
      "ensure_same_identity (row_to_event E row) run_id session_id = Inr ()"
      "je_kind (row_to_event E row) = kind" for ks row
    using replayed [OF that known] by (simp add: recorded_def)
  have found: "first_by jr_sequence (facts_of i ks (journal_events s)) = Some row \<Longrightarrow>
    facts_of i ks (journal_events s) \<noteq> []" for ks row by (metis first_by_None option.distinct(1))
  show ?thesis
  proof (cases "kind = ModelInvocationStarted")
    case st: True
    have "fact_allowed (journal_events s) (tx_row E kind (Some run_id) (Some session_id) (Some i) payload ?s)"
      if "facts_of i [started_kind] (journal_events s) = []" "facts_of i [completed_kind, failed_kind] (journal_events s) = []"
      using allowed_started [OF that] st by (simp add: kind_names)
    with st True re app show ?thesis
      by (auto simp: record_model_invocation_event_def ends_rules ends_query_existing
          intro!: transaction_records split: sum.split)
  next
    case te: False
    then have k: "storage_name kind \<in> {completed_kind, failed_kind}" using True by (auto simp: kind_names)
    have "fact_allowed (journal_events s) (tx_row E kind (Some run_id) (Some session_id) (Some i) payload ?s)"
      if "first_by jr_sequence (facts_of i [started_kind] (journal_events s)) = Some row"
        "facts_of i [completed_kind, failed_kind] (journal_events s) = []" for row
      using allowed_terminal [OF found [OF that(1)] that(2)] k by simp
    with te True re app show ?thesis
      by (auto simp: record_model_invocation_event_def ends_rules ends_query_existing
          intro!: transaction_records split: sum.split)
  qed
qed

subsection \<open>Replays\<close>

lemma fact_found:
  assumes "row \<in> set rows" and "jr_correlation_id row = Some i" and "jr_kind row \<in> set ks"
  obtains x where "first_by jr_sequence (facts_of i ks rows) = Some x"
proof -
  have "facts_of i ks rows \<noteq> []" using assms by (auto simp: facts_of_def filter_empty_conv)
  then show ?thesis by (metis first_by_None not_None_eq that)
qed

lemma first_by_Nil [simp]: "first_by k [] = None"
  by simp

lemma replay_appends_nothing:
  assumes row: "row \<in> set (journal_events u)" "fact_row kind run_id session_id i e row"
  shows "ends (record_model_invocation_event E kind run' session' i payload') u
      (\<lambda>r t. journal_events t = journal_events u)"
proof -
  let ?ks = "if kind = ModelInvocationStarted then [started_kind] else [completed_kind, failed_kind]"
  show "ends (record_model_invocation_event E kind run' session' i payload') u
      (\<lambda>r t. journal_events t = journal_events u)"
  proof (cases "kind \<in> {ModelInvocationStarted, ModelInvocationCompleted, ModelInvocationFailed}")
    case True
    with row(2) have "jr_kind row \<in> set ?ks" "jr_correlation_id row = Some i"
      by (auto simp: fact_row_def kind_names)
    then obtain x where "first_by jr_sequence (facts_of i ?ks (journal_events u)) = Some x"
      using fact_found [OF row(1)] by blast
    then show ?thesis
      by (auto simp: record_model_invocation_event_def ends_rules ends_query_existing ends_tx Let_def
          split: sum.split)
  qed (simp add: record_model_invocation_event_def ends_rules)
qed

lemma sole_terminal:
  assumes ok: "facts_ok rows" and x: "x \<in> set rows" "jr_correlation_id x = Some i" "jr_kind x \<in> {completed_kind, failed_kind}"
  shows "facts_of i [completed_kind, failed_kind] rows = [x]"
proof -
  let ?f = "facts_of i fact_kinds rows" and ?g = "facts_of i [completed_kind, failed_kind] rows"
  have sub: "?g = filter (\<lambda>r. jr_kind r \<in> {completed_kind, failed_kind}) ?f"
    by (simp add: facts_of_def) (rule filter_cong; auto)
  have "length ?g \<le> 1"
    using facts_shape [OF ok, of i] kind_names(4)
    by (auto simp: sub map_eq_Cons_conv)
  moreover have "x \<in> set ?g" using x by (simp add: facts_of_def)
  ultimately show ?thesis by (cases ?g) auto
qed

lemma conflicting_refused:
  assumes ok: "facts_ok (journal_events u)"
    and row: "row \<in> set (journal_events u)" "fact_row kind run_id session_id i e row"
    and k: "{kind, kind'} = {ModelInvocationCompleted, ModelInvocationFailed}"
  shows "ends (record_model_invocation_event E kind' run' session' i payload') u (\<lambda>r t. isl r)"
proof -
  from k have kk: "kind' \<noteq> kind" "kind \<in> {ModelInvocationCompleted, ModelInvocationFailed}"
    "kind' \<noteq> ModelInvocationStarted" by (auto simp: doubleton_eq_iff)
  with row have "first_by jr_sequence (facts_of i [completed_kind, failed_kind] (journal_events u)) = Some row"
    using sole_terminal [OF ok row(1)] by (auto simp: fact_row_def kind_names first_by_def)
  moreover have "je_kind (row_to_event E row) = kind"
    using row(2) by (simp add: row_to_event_def fact_row_def parse_kind_storage_name)
  ultimately show ?thesis using kk
    by (auto simp: record_model_invocation_event_def ends_rules ends_query_existing ends_tx Let_def
        split: sum.split)
qed

subsection \<open>Model facts are recorded once\<close>

text \<open>
  C32: In a journal whose model facts are well formed, recording a fact keeps them so: each
  invocation has no fact, a start, or a start followed by exactly one completion or failure. A
  failed call leaves the journal as it was. After a success the fact is stored under its run and
  session, and in every later well-formed journal a repetition of the same report, whatever it
  carries, appends nothing, and the opposite outcome of a finished invocation is refused.
\<close>

theorem model_facts_once:
  assumes ok: "facts_ok (journal_events s)"
    and run: "record_model_invocation_event E kind run_id session_id i payload s = (r, t)"
  shows "facts_ok (journal_events t) \<and>
    (\<forall>j. map jr_kind (facts_of j fact_kinds (journal_events t)) \<in>
      {[], [started_kind], [started_kind, completed_kind], [started_kind, failed_kind]}) \<and>
    (case r of Inl _ \<Rightarrow> journal_events t = journal_events s
     | Inr e \<Rightarrow>
        (\<exists>row \<in> set (journal_events t). fact_row kind run_id session_id i e row) \<and>
        (\<forall>u. prefix (journal_events t) (journal_events u) \<and> facts_ok (journal_events u) \<longrightarrow>
           (\<forall>run' session' payload'.
              journal_events (snd (record_model_invocation_event E kind run' session' i payload' u)) =
                journal_events u \<and>
              (\<forall>kind'. {kind, kind'} = {ModelInvocationCompleted, ModelInvocationFailed} \<longrightarrow>
                 isl (fst (record_model_invocation_event E kind' run' session' i payload' u))))))"
proof (intro conjI allI)
  have rec: "recorded kind run_id session_id i (journal_events s) r t"
    by (rule endsD [OF recording run])
  then show ok': "facts_ok (journal_events t)"
    using ok by (auto simp: recorded_def facts_ok_snoc split: sum.splits)
  show "map jr_kind (facts_of j fact_kinds (journal_events t)) \<in>
      {[], [started_kind], [started_kind, completed_kind], [started_kind, failed_kind]}" for j
    by (rule facts_shape [OF ok'])
  show "case r of Inl _ \<Rightarrow> journal_events t = journal_events s
     | Inr e \<Rightarrow>
        (\<exists>row \<in> set (journal_events t). fact_row kind run_id session_id i e row) \<and>
        (\<forall>u. prefix (journal_events t) (journal_events u) \<and> facts_ok (journal_events u) \<longrightarrow>
           (\<forall>run' session' payload'.
              journal_events (snd (record_model_invocation_event E kind run' session' i payload' u)) =
                journal_events u \<and>
              (\<forall>kind'. {kind, kind'} = {ModelInvocationCompleted, ModelInvocationFailed} \<longrightarrow>
                 isl (fst (record_model_invocation_event E kind' run' session' i payload' u)))))"
  proof (cases r)
    case (Inr e)
    with rec obtain row where row: "row \<in> set (journal_events t)" "fact_row kind run_id session_id i e row"
      by (auto simp: recorded_def)
    have "row \<in> set (journal_events u)" if "prefix (journal_events t) (journal_events u)" for u
      using that row(1) by (auto simp: prefix_def)
    with row Inr show ?thesis
      by (auto simp: ends_def case_prod_beta intro: replay_appends_nothing [unfolded ends_def case_prod_beta]
          conflicting_refused [unfolded ends_def case_prod_beta])
  qed (use rec in \<open>simp add: recorded_def\<close>)
qed

definition started_payload :: json where
  "started_payload = jobj [(''schema_version'', JStr started_kind), (''invocation_id'', JStr ''inv_1''),
     (''run_id'', JStr ''run_1'')]"

theorem model_facts_once_witness:
  "\<exists>e t. record_model_invocation_event sample_env ModelInvocationStarted ''run_1'' ''session_1'' ''inv_1''
       started_payload empty_store = (Inr e, t) \<and>
     facts_ok (journal_events t) \<and> (\<exists>row \<in> set (journal_events t).
       fact_row ModelInvocationStarted ''run_1'' ''session_1'' ''inv_1'' e row)"
proof -
  let ?m = "record_model_invocation_event sample_env ModelInvocationStarted ''run_1'' ''session_1'' ''inv_1''
       started_payload empty_store"
  have "case fst ?m of Inl _ \<Rightarrow> False | Inr _ \<Rightarrow> True" by code_simp
  then obtain e t where run: "?m = (Inr e, t)" by (cases ?m) (auto split: sum.splits)
  have "facts_ok (journal_events empty_store)" by (simp add: empty_store_def)
  from model_facts_once [OF this run] run show ?thesis by auto
qed

end
