(* ===== verification/Model_Client.thy ===== *)
theory Model_Client
  imports Gateway_Policy Kernel_Configuration Sample_Env
begin

section \<open>The model client\<close>

text \<open>
  \<open>src/src/llm\<close>: the input and output of a model call, the parsing of tool calls from the response
  of a provider, the counters taken from its usage report, the artifact a context provider may
  rewrite, and the client with its primary and fallback endpoint. A struct that \<open>serde\<close> prints is
  the object of its fields in their order. The HTTP exchange, the tokenizer and the texts of parse
  errors are the fields of \<open>model_port\<close>; the exchange is indexed by the tick of the call and the
  attempt within it.
\<close>

subsection \<open>JSON pointers\<close>

text \<open>\<open>Value::pointer\<close> on the components of a path; an array takes a decimal index.\<close>

definition pointer_index :: "string \<Rightarrow> nat option" where
  "pointer_index s =
    (if prefix ''+'' s \<or> prefix ''0'' s \<and> length s \<noteq> 1 then None else parse_uint (2 ^ 64) s)"

fun jpointer :: "string list \<Rightarrow> json \<Rightarrow> json option" where
  "jpointer [] v = Some v"
| "jpointer (k # ks) v = (case v of
     JObj m \<Rightarrow> Option.bind (map_of m k) (jpointer ks)
   | JArr vs \<Rightarrow> Option.bind (pointer_index k)
       (\<lambda>i. if i < length vs then jpointer ks (vs ! i) else None)
   | _ \<Rightarrow> None)"

fun is_object :: "json \<Rightarrow> bool" where
  "is_object (JObj m) = True"
| "is_object _ = False"

lemma is_object_iff: "is_object v \<longleftrightarrow> (\<exists>m. v = JObj m)"
  by (cases v) auto

subsection \<open>Context blocks\<close>

datatype ContextBlockKind =
    RootSystem | RuntimeContract | AgentProfile | SkillCatalog | ToolCatalog | ToolResult
  | ActiveSkill | RecentMessages | UserMessage

fun block_kind_debug :: "ContextBlockKind \<Rightarrow> string" where
  "block_kind_debug RootSystem = ''RootSystem''"
| "block_kind_debug RuntimeContract = ''RuntimeContract''"
| "block_kind_debug AgentProfile = ''AgentProfile''"
| "block_kind_debug SkillCatalog = ''SkillCatalog''"
| "block_kind_debug ToolCatalog = ''ToolCatalog''"
| "block_kind_debug ToolResult = ''ToolResult''"
| "block_kind_debug ActiveSkill = ''ActiveSkill''"
| "block_kind_debug RecentMessages = ''RecentMessages''"
| "block_kind_debug UserMessage = ''UserMessage''"

record ContextBlock =
  cb_kind :: ContextBlockKind
  cb_content :: string
  cb_source_ref :: "string option"

subsection \<open>Input and output\<close>

datatype EndpointChoice = Primary | Fallback

record ProviderToolTurn =
  pt_endpoint :: EndpointChoice
  pt_provider_tool_call_id :: string
  pt_wire_name :: string
  pt_canonical_operation :: string
  pt_arguments_json :: string
  pt_reasoning_content :: "string option"

record LlmFollowUp =
  fu_provider_turn :: ProviderToolTurn
  fu_result_content :: string

record LlmInput =
  li_blocks :: "ContextBlock list"
  li_user_text :: string
  li_granted_operations :: "string list"
  li_provider_tools :: "json list"
  li_follow_ups :: "LlmFollowUp list"
  li_timeout_override_ms :: "64 word option"

datatype ToolCallResult = Absent | Valid ToolCall | Malformed string

definition is_absent :: "ToolCallResult \<Rightarrow> bool" where
  "is_absent r \<longleftrightarrow> (case r of Absent \<Rightarrow> True | _ \<Rightarrow> False)"

record LlmOutput =
  lo_provider :: string
  lo_model :: string
  lo_content :: string
  lo_journal_payload :: json
  lo_tool_call :: ToolCallResult
  lo_provider_turn :: "ProviderToolTurn option"

definition tool_call_id_hash :: "env \<Rightarrow> string \<Rightarrow> string" where
  "tool_call_id_hash E provider_id = sha256_hex E provider_id"

datatype ToolNameMode = Passthrough | IndexedMapping "string \<rightharpoonup> string"

subsection \<open>Parsing a tool call\<close>

datatype model_response = Received "json option" | StatusCode nat | RequestTimeout | RequestFailed

record model_request =
  mq_url :: string
  mq_api_key :: string
  mq_timeout_ms :: "64 word"
  mq_body :: json

record model_port =
  mp_post :: "nat \<Rightarrow> nat \<Rightarrow> model_request \<Rightarrow> model_response"
  mp_tokens :: "string \<Rightarrow> nat option"
  mp_parse_error :: "string \<Rightarrow> string"

definition max_provider_id_len :: nat where "max_provider_id_len = 256"
definition max_wire_name_len :: nat where "max_wire_name_len = 128"
definition max_args_json_len :: nat where "max_args_json_len = 8192"

fun type_name :: "json \<Rightarrow> string" where
  "type_name JNull = ''null''"
| "type_name (JBool b) = ''boolean''"
| "type_name (JNum n) = ''number''"
| "type_name (JStr s) = ''string''"
| "type_name (JArr vs) = ''array''"
| "type_name (JObj m) = ''object''"

definition message_path :: "string list" where
  "message_path = [''choices'', ''0'', ''message'']"

text \<open>A field that is there and not blank.\<close>

definition nonblank :: "string option \<Rightarrow> string option" where
  "nonblank x = (case x of None \<Rightarrow> None | Some s \<Rightarrow> if trim s = [] then None else Some s)"

definition canonical_name :: "ToolNameMode \<Rightarrow> string \<Rightarrow> string option" where
  "canonical_name mode raw = (case mode of Passthrough \<Rightarrow> Some raw | IndexedMapping m \<Rightarrow> m raw)"

definition parse_tool_call ::
  "env \<Rightarrow> model_port \<Rightarrow> json \<Rightarrow> ToolNameMode \<Rightarrow> EndpointChoice \<Rightarrow>
   ToolCallResult \<times> ProviderToolTurn option" where
  "parse_tool_call E M value mode choice =
    (case jpointer (message_path @ [''tool_calls'', ''0'']) value of
       None \<Rightarrow> (Absent, None)
     | Some call \<Rightarrow>
     if call = JNull then (Absent, None) else
     case jget call ''function'' of
       None \<Rightarrow> (Malformed ''missing function block'', None)
     | Some f \<Rightarrow>
     case nonblank (str_field call ''id'') of
       None \<Rightarrow> (Malformed ''missing tool_call id'', None)
     | Some raw_id \<Rightarrow>
     if max_provider_id_len < length raw_id then (Malformed ''provider id too long'', None) else
     case nonblank (str_field f ''name'') of
       None \<Rightarrow> (Malformed ''missing function name'', None)
     | Some raw_operation \<Rightarrow>
     if max_wire_name_len < length raw_operation then (Malformed ''wire name too long'', None) else
     case canonical_name mode raw_operation of
       None \<Rightarrow> (Malformed ''unknown function name'', None)
     | Some operation \<Rightarrow>
     case str_field f ''arguments'' of
       None \<Rightarrow> (Malformed ''missing arguments'', None)
     | Some arguments \<Rightarrow>
     if max_args_json_len < length arguments then (Malformed ''arguments too long'', None) else
     case json_parse E arguments of
       None \<Rightarrow> (Malformed (''arguments JSON parse error: '' @ mp_parse_error M arguments), None)
     | Some v \<Rightarrow>
     if \<not> is_object v
     then (Malformed (''arguments must be a JSON object, got '' @ type_name v), None)
     else
       (Valid \<lparr>tc_id = tool_call_id_hash E raw_id, tc_operation = operation, tc_arguments = v\<rparr>,
        Some \<lparr>pt_endpoint = choice, pt_provider_tool_call_id = raw_id, pt_wire_name = raw_operation,
          pt_canonical_operation = operation, pt_arguments_json = arguments,
          pt_reasoning_content =
            Option.bind (jpointer (message_path @ [''reasoning_content'']) value) as_str\<rparr>))"

definition audit_tool_call :: "ToolCallResult \<Rightarrow> json" where
  "audit_tool_call r = (case r of
     Valid call \<Rightarrow> jobj
       [(''operation'', JStr (case lookup (tc_operation call) of
           None \<Rightarrow> ''unknown_operation'' | Some s \<Rightarrow> cs_name s)), (''id'', JStr (tc_id call))]
   | Malformed _ \<Rightarrow> jobj [(''malformed'', JStr ''malformed_tool_call'')]
   | Absent \<Rightarrow> JNull)"

subsection \<open>Usage\<close>

record ModelUsage =
  mu_input_tokens :: "nat option"
  mu_cached_input_tokens :: "nat option"
  mu_output_tokens :: "nat option"
  mu_reasoning_tokens :: "nat option"
  mu_total_tokens :: "nat option"
  mu_estimated_cost :: "rat option"
  mu_provider_usage_extensions :: json

definition normalized_usage :: "LlmOutput \<Rightarrow> ModelUsage" where
  "normalized_usage out =
    (let usage = jindex (lo_journal_payload out) ''usage'';
         counter = (\<lambda>k. Option.bind (jget usage k) as_u64) in
     \<lparr>mu_input_tokens = counter ''input_tokens'',
      mu_cached_input_tokens = counter ''cached_input_tokens'',
      mu_output_tokens = counter ''output_tokens'',
      mu_reasoning_tokens = counter ''reasoning_tokens'',
      mu_total_tokens = counter ''total_tokens'',
      mu_estimated_cost = Option.bind (jget usage ''estimated_cost'') as_f64,
      mu_provider_usage_extensions = (case jget usage ''provider_usage_extensions'' of
        None \<Rightarrow> jobj [] | Some v \<Rightarrow> if is_object v then v else jobj [])\<rparr>)"

definition finish_reason :: "LlmOutput \<Rightarrow> string option" where
  "finish_reason out = str_field (lo_journal_payload out) ''finish_reason''"

definition failure_category :: "LlmOutput \<Rightarrow> string option" where
  "failure_category out =
    (if str_field (lo_journal_payload out) ''status'' \<in> {Some ''error'', Some ''needs_config''}
     then (case str_field (lo_journal_payload out) ''error_category'' of
         None \<Rightarrow> Some ''model_request_failed'' | Some c \<Rightarrow> Some c)
     else None)"

definition jnat_opt :: "nat option \<Rightarrow> json" where
  "jnat_opt x = (case x of None \<Rightarrow> JNull | Some n \<Rightarrow> jnat n)"

definition jcost_opt :: "rat option \<Rightarrow> json" where
  "jcost_opt x = (case x of None \<Rightarrow> JNull | Some r \<Rightarrow> JNum (JFloat r))"

fun first_some :: "('a \<Rightarrow> 'b option) \<Rightarrow> 'a list \<Rightarrow> 'b option" where
  "first_some f [] = None"
| "first_some f (x # xs) = (case f x of None \<Rightarrow> first_some f xs | Some y \<Rightarrow> Some y)"

definition usage_counter :: "json \<Rightarrow> string list \<Rightarrow> nat option" where
  "usage_counter v keys = first_some (\<lambda>k. Option.bind (jget v k) as_u64) keys"

definition usage_counter_at_paths :: "json \<Rightarrow> string list list \<Rightarrow> nat option" where
  "usage_counter_at_paths v paths = first_some (\<lambda>p. Option.bind (jpointer p v) as_u64) paths"

definition sensitive_usage_key :: "string \<Rightarrow> bool" where
  "sensitive_usage_key key =
    (let k = lowercase key in
     contains ''secret'' k \<or> contains ''api_key'' k \<or> contains ''apikey'' k \<or>
     contains ''password'' k \<or> k = ''authorization'' \<or> k = ''access_token'' \<or> k = ''refresh_token'')"

function numeric_extension :: "json \<Rightarrow> nat \<Rightarrow> json option" where
  "numeric_extension value depth =
    (if 4 < depth then None else
     case value of
       JNull \<Rightarrow> Some value
     | JBool b \<Rightarrow> Some value
     | JNum n \<Rightarrow> Some value
     | JStr s \<Rightarrow> None
     | JArr vs \<Rightarrow>
         if length vs \<le> 32
         then Some (JArr (List.map_filter (\<lambda>v. numeric_extension v (depth + 1)) vs)) else None
     | JObj m \<Rightarrow>
         if length m \<le> 64
         then Some (JObj (mcollect (List.map_filter (\<lambda>(k, v).
           if sensitive_usage_key k then None
           else map_option (Pair k) (numeric_extension v (depth + 1))) m))) else None)"
  by pat_completeness auto
termination
  by (relation "measure (\<lambda>(value, depth). 5 - depth)") auto

declare numeric_extension.simps [simp del]

definition standard_usage_keys :: "string list" where
  "standard_usage_keys =
    [''input_tokens'', ''prompt_tokens'', ''cached_input_tokens'', ''input_tokens_details'',
     ''prompt_tokens_details'', ''output_tokens'', ''completion_tokens'', ''reasoning_tokens'',
     ''output_tokens_details'', ''completion_tokens_details'', ''total_tokens'', ''estimated_cost'']"

definition sanitize_usage_extensions :: "json \<Rightarrow> json" where
  "sanitize_usage_extensions value =
    (case as_object value of
       None \<Rightarrow> JObj []
     | Some source \<Rightarrow> JObj (mcollect (List.map_filter (\<lambda>(k, item).
         if k \<in> set standard_usage_keys \<or> sensitive_usage_key k then None
         else map_option (Pair k) (numeric_extension item 0)) source)))"

definition checked_sum :: "nat option \<Rightarrow> nat option \<Rightarrow> nat option" where
  "checked_sum a b = (case (a, b) of
     (Some x, Some y) \<Rightarrow> if int x + int y < 2 ^ 64 then Some (x + y) else None | _ \<Rightarrow> None)"

definition usage_json ::
  "nat option \<Rightarrow> nat option \<Rightarrow> nat option \<Rightarrow> nat option \<Rightarrow> nat option \<Rightarrow> rat option \<Rightarrow> json \<Rightarrow> json" where
  "usage_json input cached out_tokens reasoning total_tokens cost extensions = jobj
    [(''input_tokens'', jnat_opt input), (''cached_input_tokens'', jnat_opt cached),
     (''output_tokens'', jnat_opt out_tokens), (''reasoning_tokens'', jnat_opt reasoning),
     (''total_tokens'', jnat_opt total_tokens), (''estimated_cost'', jcost_opt cost),
     (''provider_usage_extensions'', extensions)]"

definition sanitize_usage :: "json option \<Rightarrow> json" where
  "sanitize_usage v = (case v of
     Some (JObj m) \<Rightarrow>
       (let value = JObj m;
            input_tokens = usage_counter value [''input_tokens'', ''prompt_tokens''];
            cached = usage_counter_at_paths value
              [[''cached_input_tokens''], [''input_tokens_details'', ''cached_tokens''],
               [''prompt_tokens_details'', ''cached_tokens'']];
            output_tokens = usage_counter value [''output_tokens'', ''completion_tokens''];
            reasoning = usage_counter_at_paths value
              [[''reasoning_tokens''], [''output_tokens_details'', ''reasoning_tokens''],
               [''completion_tokens_details'', ''reasoning_tokens'']];
            total_tokens = (case usage_counter value [''total_tokens''] of
               None \<Rightarrow> checked_sum input_tokens output_tokens | Some n \<Rightarrow> Some n);
            cost = (case Option.bind (jget value ''estimated_cost'') as_f64 of
               None \<Rightarrow> None | Some c \<Rightarrow> if 0 \<le> c then Some c else None) in
        usage_json input_tokens cached output_tokens reasoning total_tokens cost
          (sanitize_usage_extensions value))
   | _ \<Rightarrow> usage_json None None None None None None (jobj []))"

subsection \<open>Outputs\<close>

definition empty_to_null :: "string \<Rightarrow> json" where
  "empty_to_null s = (if s = [] then JNull else JStr s)"

definition needs_config_text :: string where
  "needs_config_text = utf8 [230, 168, 161, 229, 158, 139, 233, 133, 141, 231, 189, 174, 232, 191, 152, 230, 178,
     161, 229, 135, 134, 229, 164, 135, 229, 165, 189, 239, 188, 154, 232, 175, 183, 229,
     133, 136, 233, 133, 141, 231, 189, 174, 32, 65, 71, 69, 78, 84, 95, 67, 79, 82, 69, 95,
     79, 80, 69, 78, 65, 73, 95, 65, 80, 73, 95, 75, 69, 89, 32, 229, 146, 140, 32, 65, 71,
     69, 78, 84, 95, 67, 79, 82, 69, 95, 77, 79, 68, 69, 76, 227, 128, 130]"

definition request_failed_text :: string where
  "request_failed_text = utf8 [230, 168, 161, 229, 158, 139, 232, 176, 131, 231, 148, 168, 229, 164, 177, 232, 180,
     165, 228, 186, 134, 239, 188, 140, 230, 136, 145, 232, 191, 153, 232, 190, 185, 229,
     183, 178, 231, 187, 143, 232, 174, 176, 229, 189, 149, 228, 184, 186, 228, 184, 128,
     230, 172, 161, 229, 164, 177, 232, 180, 165, 231, 154, 132, 230, 168, 161, 229, 158,
     139, 232, 175, 183, 230, 177, 130, 239, 188, 140, 231, 168, 141, 229, 144, 142, 229,
     143, 175, 228, 187, 165, 233, 135, 141, 232, 175, 149, 227, 128, 130]"

definition calling_tool_text :: string where
  "calling_tool_text = utf8 [230, 173, 163, 229, 156, 168, 232, 176, 131, 231, 148, 168, 229, 183, 165, 229, 133,
     183, 230, 159, 165, 232, 175, 162, 228, 191, 161, 230, 129, 175, 226, 128, 166]"

definition openai_compatible :: string where
  "openai_compatible = ''openai-compatible''"

definition config_required_output :: "string \<Rightarrow> nat \<Rightarrow> LlmOutput" where
  "config_required_output model context_blocks =
    \<lparr>lo_provider = openai_compatible, lo_model = model, lo_content = needs_config_text,
     lo_journal_payload = jobj
       [(''provider'', JStr openai_compatible), (''model'', empty_to_null model),
        (''context_blocks'', jnat context_blocks), (''status'', JStr ''needs_config''),
        (''error_category'', JStr ''model_config_required'')],
     lo_tool_call = Absent, lo_provider_turn = None\<rparr>"

definition request_failed_output :: "string \<Rightarrow> nat \<Rightarrow> string \<Rightarrow> LlmOutput" where
  "request_failed_output model context_blocks failure =
    \<lparr>lo_provider = openai_compatible, lo_model = model, lo_content = request_failed_text,
     lo_journal_payload = jobj
       [(''provider'', JStr openai_compatible), (''model'', JStr model),
        (''context_blocks'', jnat context_blocks), (''status'', JStr ''error''),
        (''error_category'', JStr failure)],
     lo_tool_call = Absent, lo_provider_turn = None\<rparr>"

definition success_output ::
  "env \<Rightarrow> model_port \<Rightarrow> string \<Rightarrow> nat \<Rightarrow> json \<Rightarrow> ToolNameMode \<Rightarrow> EndpointChoice \<Rightarrow> LlmOutput" where
  "success_output E M model context_blocks value mode choice =
    (let content = (case Option.bind (jpointer (message_path @ [''content'']) value) as_str of
           None \<Rightarrow> [] | Some t \<Rightarrow> trim t);
         (call, turn) = parse_tool_call E M value mode choice;
         shown = (case call of
             Malformed _ \<Rightarrow> if content = []
               then ''The tool call could not be parsed. Please try again.'' else content
           | Valid _ \<Rightarrow> if content = [] then calling_tool_text else content
           | Absent \<Rightarrow> content);
         used_model = (case str_field value ''model'' of None \<Rightarrow> model | Some m \<Rightarrow> m) in
     \<lparr>lo_provider = openai_compatible, lo_model = used_model, lo_content = shown,
      lo_journal_payload = jobj
        [(''provider'', JStr openai_compatible), (''model'', JStr used_model),
         (''context_blocks'', jnat context_blocks), (''status'', JStr ''ok''),
         (''usage'', sanitize_usage (jget value ''usage'')),
         (''finish_reason'',
            jopt (Option.bind (jpointer [''choices'', ''0'', ''finish_reason''] value) as_str)),
         (''tool_call'', audit_tool_call call)],
      lo_tool_call = call, lo_provider_turn = turn\<rparr>)"

definition mark_fallback :: "LlmOutput \<Rightarrow> string \<Rightarrow> string \<Rightarrow> LlmOutput" where
  "mark_fallback out primary_model primary_error =
    (case lo_journal_payload out of
       JObj m \<Rightarrow> out\<lparr>lo_journal_payload := JObj (minsert ''fallback'' (jobj
         [(''used'', JBool True), (''primary_model'', empty_to_null primary_model),
          (''primary_error_category'', JStr primary_error)]) m)\<rparr>
     | _ \<Rightarrow> out)"

subsection \<open>Requests\<close>

definition in_system_context :: "ContextBlock \<Rightarrow> bool" where
  "in_system_context b \<longleftrightarrow> cb_kind b \<noteq> UserMessage \<and> cb_kind b \<noteq> ContextBlockKind.ToolResult"

definition serialize_system_context :: "ContextBlock list \<Rightarrow> string" where
  "serialize_system_context blocks = join_with (newline @ newline)
     (map (\<lambda>b. ''## '' @ block_kind_debug (cb_kind b) @ newline @ cb_content b)
        (filter in_system_context blocks))"

definition is_zai_endpoint :: "string \<Rightarrow> bool" where
  "is_zai_endpoint base_url \<longleftrightarrow>
     contains ''z.ai'' (lowercase base_url) \<or> contains ''bigmodel.cn'' (lowercase base_url)"

definition normalize_model_name :: "string \<Rightarrow> string \<Rightarrow> string" where
  "normalize_model_name base_url model =
    (let t = trim model in
     if is_zai_endpoint base_url
     then (case strip_prefix ''zai/'' t of
         Some m \<Rightarrow> m
       | None \<Rightarrow> (case strip_prefix ''z.ai/'' t of Some m \<Rightarrow> m | None \<Rightarrow> t))
     else t)"

record ModelEndpoint =
  me_base_url :: string
  me_api_key :: string
  me_model :: string
  me_tool_name_mode :: ToolNameMode

definition new_endpoint :: "string \<Rightarrow> string \<Rightarrow> string \<Rightarrow> ModelEndpoint" where
  "new_endpoint base_url api_key model =
    \<lparr>me_base_url = trim_end_slashes base_url, me_api_key = api_key,
     me_model = normalize_model_name base_url model, me_tool_name_mode = Passthrough\<rparr>"

definition with_indexed_tool_name :: "ModelEndpoint \<Rightarrow> ModelEndpoint" where
  "with_indexed_tool_name e = e\<lparr>me_tool_name_mode := IndexedMapping Map.empty\<rparr>"

definition is_configured :: "ModelEndpoint \<Rightarrow> bool" where
  "is_configured e \<longleftrightarrow>
     trim (me_base_url e) \<noteq> [] \<and> trim (me_api_key e) \<noteq> [] \<and> trim (me_model e) \<noteq> []"

definition chat_completions_url :: "ModelEndpoint \<Rightarrow> string" where
  "chat_completions_url e =
    (if suffix ''/chat/completions'' (me_base_url e) then me_base_url e
     else me_base_url e @ ''/chat/completions'')"

definition rename_tool :: "string \<Rightarrow> json \<Rightarrow> json" where
  "rename_tool name tool = (case tool of
     JObj m \<Rightarrow> (case map_of m ''function'' of
         Some (JObj f) \<Rightarrow> JObj (minsert ''function'' (JObj (minsert ''name'' (JStr name) f)) m)
       | _ \<Rightarrow> tool)
   | _ \<Rightarrow> tool)"

definition tool_name :: "json \<Rightarrow> string option" where
  "tool_name tool = Option.bind (jpointer [''function'', ''name''] tool) as_str"

fun index_tools :: "nat \<Rightarrow> json list \<Rightarrow> json list \<times> (string \<rightharpoonup> string)" where
  "index_tools i [] = ([], Map.empty)"
| "index_tools i (t # ts) =
    (let (rest, m) = index_tools (Suc i) ts in
     case tool_name t of
       None \<Rightarrow> (t # rest, m)
     | Some name \<Rightarrow> (rename_tool (''fn_'' @ dec i) t # rest, m(''fn_'' @ dec i \<mapsto> name)))"

definition follow_up_messages :: "LlmFollowUp \<Rightarrow> json list" where
  "follow_up_messages f = (let turn = fu_provider_turn f in
    [jobj ([(''role'', JStr ''assistant'')] @
       (case pt_reasoning_content turn of None \<Rightarrow> [] | Some r \<Rightarrow> [(''reasoning_content'', JStr r)]) @
       [(''tool_calls'', JArr [jobj
          [(''id'', JStr (pt_provider_tool_call_id turn)), (''type'', JStr ''function''),
           (''function'', jobj [(''name'', JStr (pt_wire_name turn)),
              (''arguments'', JStr (pt_arguments_json turn))])]])]),
     jobj [(''role'', JStr ''tool''), (''tool_call_id'', JStr (pt_provider_tool_call_id turn)),
       (''content'', JStr (fu_result_content f))]])"

definition materialized_request_body :: "ModelEndpoint \<Rightarrow> LlmInput \<Rightarrow> json \<times> ToolNameMode" where
  "materialized_request_body endpoint input =
    (let (tools, mode) = (case me_tool_name_mode endpoint of
           Passthrough \<Rightarrow> (li_provider_tools input, Passthrough)
         | IndexedMapping _ \<Rightarrow>
             (let (ts, m) = index_tools 0 (li_provider_tools input) in (ts, IndexedMapping m)));
         messages =
           [jobj [(''role'', JStr ''system''),
              (''content'', JStr (serialize_system_context (li_blocks input)))],
            jobj [(''role'', JStr ''user''), (''content'', JStr (li_user_text input))]] @
           concat (map follow_up_messages (li_follow_ups input)) in
     (jobj [(''model'', JStr (me_model endpoint)), (''messages'', JArr messages),
        (''temperature'', JNum (JFloat (1 / 5))), (''tools'', JArr tools),
        (''tool_choice'', JStr ''auto'')], mode))"

subsection \<open>The client\<close>

record OpenAiCompatibleLlm =
  oc_primary :: ModelEndpoint
  oc_fallback :: "ModelEndpoint option"
  oc_timeout_ms :: "64 word"
  oc_context_window_tokens :: nat
  oc_reserved_output_tokens :: nat

definition default_context_window_tokens :: nat where "default_context_window_tokens = 128000"
definition default_reserved_output_tokens :: nat where "default_reserved_output_tokens = 4096"

definition new_client :: "string \<Rightarrow> string \<Rightarrow> string \<Rightarrow> 64 word \<Rightarrow> OpenAiCompatibleLlm" where
  "new_client base_url api_key model timeout_ms =
    \<lparr>oc_primary = new_endpoint base_url api_key model, oc_fallback = None,
     oc_timeout_ms = timeout_ms, oc_context_window_tokens = default_context_window_tokens,
     oc_reserved_output_tokens = default_reserved_output_tokens\<rparr>"

definition with_hard_budget :: "nat \<Rightarrow> nat \<Rightarrow> OpenAiCompatibleLlm \<Rightarrow> OpenAiCompatibleLlm" where
  "with_hard_budget window reserved c =
    c\<lparr>oc_context_window_tokens := window, oc_reserved_output_tokens := reserved\<rparr>"

definition with_fallback :: "string \<Rightarrow> string \<Rightarrow> string \<Rightarrow> OpenAiCompatibleLlm \<Rightarrow> OpenAiCompatibleLlm" where
  "with_fallback base_url api_key model c =
    (let e = new_endpoint base_url api_key model in
     if is_configured e then c\<lparr>oc_fallback := Some e\<rparr> else c)"

definition with_indexed_fallback ::
  "string \<Rightarrow> string \<Rightarrow> string \<Rightarrow> OpenAiCompatibleLlm \<Rightarrow> OpenAiCompatibleLlm" where
  "with_indexed_fallback base_url api_key model c =
    (let e = with_indexed_tool_name (new_endpoint base_url api_key model) in
     if is_configured e then c\<lparr>oc_fallback := Some e\<rparr> else c)"

definition with_indexed_primary :: "OpenAiCompatibleLlm \<Rightarrow> OpenAiCompatibleLlm" where
  "with_indexed_primary c = c\<lparr>oc_primary := with_indexed_tool_name (oc_primary c)\<rparr>"

text \<open>One HTTP exchange, at a tick and an attempt.\<close>

definition request_endpoint ::
  "env \<Rightarrow> model_port \<Rightarrow> OpenAiCompatibleLlm \<Rightarrow> nat \<Rightarrow> nat \<Rightarrow> ModelEndpoint \<Rightarrow> EndpointChoice \<Rightarrow>
   LlmInput \<Rightarrow> string + LlmOutput" where
  "request_endpoint E M c n attempt endpoint choice input =
    (let (body, mode) = materialized_request_body endpoint input;
         timeout = (case li_timeout_override_ms input of
           None \<Rightarrow> oc_timeout_ms c | Some t \<Rightarrow> min (oc_timeout_ms c) t) in
     case mp_post M n attempt \<lparr>mq_url = chat_completions_url endpoint,
         mq_api_key = me_api_key endpoint, mq_timeout_ms = timeout, mq_body = body\<rparr> of
       Received (Some value) \<Rightarrow>
         Inr (success_output E M (me_model endpoint) (length (li_blocks input)) value mode choice)
     | Received None \<Rightarrow> Inl ''model_response_parse_failed''
     | StatusCode code \<Rightarrow> Inl (''model_http_'' @ dec code)
     | RequestTimeout \<Rightarrow> Inl ''model_timeout''
     | RequestFailed \<Rightarrow> Inl ''model_request_failed'')"

definition try_fallback ::
  "env \<Rightarrow> model_port \<Rightarrow> OpenAiCompatibleLlm \<Rightarrow> nat \<Rightarrow> LlmInput \<Rightarrow> string \<Rightarrow> LlmOutput option" where
  "try_fallback E M c n input primary_error =
    (case oc_fallback c of
       None \<Rightarrow> None
     | Some fallback \<Rightarrow>
         (let out = (case request_endpoint E M c n 1 fallback Fallback input of
              Inr out \<Rightarrow> out
            | Inl e \<Rightarrow> request_failed_output (me_model fallback) (length (li_blocks input)) e) in
          Some (mark_fallback out (me_model (oc_primary c)) primary_error)))"

definition sticky_endpoint :: "OpenAiCompatibleLlm \<Rightarrow> EndpointChoice \<Rightarrow> ModelEndpoint" where
  "sticky_endpoint c choice = (case choice of
     Primary \<Rightarrow> oc_primary c
   | Fallback \<Rightarrow> (case oc_fallback c of None \<Rightarrow> oc_primary c | Some fb \<Rightarrow> fb))"

definition complete ::
  "env \<Rightarrow> model_port \<Rightarrow> OpenAiCompatibleLlm \<Rightarrow> nat \<Rightarrow> LlmInput \<Rightarrow> string + LlmOutput" where
  "complete E M c n input =
    (if li_follow_ups input \<noteq> [] then
       (let choice = pt_endpoint (fu_provider_turn (last (li_follow_ups input))) in
        request_endpoint E M c n 0 (sticky_endpoint c choice) choice input)
     else if \<not> is_configured (oc_primary c) then
       Inr (case try_fallback E M c n input ''model_config_required'' of
           Some out \<Rightarrow> out
         | None \<Rightarrow> config_required_output (me_model (oc_primary c)) (length (li_blocks input)))
     else case request_endpoint E M c n 0 (oc_primary c) Primary input of
         Inr out \<Rightarrow> Inr out
       | Inl e \<Rightarrow> Inr (case try_fallback E M c n input e of
             Some out \<Rightarrow> out
           | None \<Rightarrow> request_failed_output (me_model (oc_primary c)) (length (li_blocks input)) e))"

subsection \<open>What a parsed tool call satisfies\<close>

lemma nonblank_Some: "nonblank x = Some s \<longleftrightarrow> x = Some s \<and> trim s \<noteq> []"
  by (auto simp: nonblank_def split: option.splits if_splits)

lemma parse_tool_call_Valid:
  assumes "parse_tool_call E M value mode choice = (Valid call, turn)"
  obtains t where "turn = Some t" "pt_endpoint t = choice"
    "trim (pt_provider_tool_call_id t) \<noteq> []" "trim (pt_wire_name t) \<noteq> []"
    "length (pt_provider_tool_call_id t) \<le> max_provider_id_len"
    "length (pt_wire_name t) \<le> max_wire_name_len"
    "length (pt_arguments_json t) \<le> max_args_json_len"
    "canonical_name mode (pt_wire_name t) = Some (tc_operation call)"
    "pt_canonical_operation t = tc_operation call"
    "json_parse E (pt_arguments_json t) = Some (tc_arguments call)" "is_object (tc_arguments call)"
    "tc_id call = tool_call_id_hash E (pt_provider_tool_call_id t)"
  using assms unfolding parse_tool_call_def
  by (auto simp: nonblank_Some split: option.splits if_splits)

lemma parse_tool_call_other:
  "parse_tool_call E M value mode choice = (r, turn) \<Longrightarrow> (\<And>call. r \<noteq> Valid call) \<Longrightarrow> turn = None"
  unfolding parse_tool_call_def by (auto split: option.splits if_splits)

text \<open>The indexed names of a request stand for its tools, by position.\<close>

lemma index_tools_names:
  "snd (index_tools i tools) w = Some name \<longleftrightarrow>
   (\<exists>k < length tools. w = ''fn_'' @ dec (i + k) \<and> tool_name (tools ! k) = Some name)"
proof (induction tools arbitrary: i)
  case (Cons t ts)
  have shift: "(\<exists>k < length (t # ts). w = ''fn_'' @ dec (i + k) \<and> tool_name ((t # ts) ! k) = Some name) \<longleftrightarrow>
      w = ''fn_'' @ dec i \<and> tool_name t = Some name \<or>
      (\<exists>k < length ts. w = ''fn_'' @ dec (Suc i + k) \<and> tool_name (ts ! k) = Some name)"
    by (auto simp: less_Suc_eq_0_disj)
  have fresh: "\<not> (\<exists>k < length ts. ''fn_'' @ dec i = ''fn_'' @ dec (Suc i + k) \<and> tool_name (ts ! k) = Some name)"
    by auto
  show ?case
    unfolding shift using Cons.IH [of "Suc i"] fresh
    by (auto simp: Let_def case_prod_beta split: option.splits)
qed simp

lemma materialized_mode:
  assumes "materialized_request_body endpoint input = (body, mode)"
  shows "mode = (case me_tool_name_mode endpoint of Passthrough \<Rightarrow> Passthrough
    | IndexedMapping _ \<Rightarrow> IndexedMapping (snd (index_tools 0 (li_provider_tools input))))"
  using assms by (auto simp: materialized_request_body_def Let_def case_prod_beta split: ToolNameMode.splits)

lemma success_output_call [simp]:
  "lo_tool_call (success_output E M model n v mode choice) = fst (parse_tool_call E M v mode choice)"
  "lo_provider_turn (success_output E M model n v mode choice) = snd (parse_tool_call E M v mode choice)"
  by (simp_all add: success_output_def Let_def case_prod_beta)

lemma request_endpoint_Inr:
  assumes "request_endpoint E M c n attempt endpoint choice input = Inr out"
  obtains v where "out = success_output E M (me_model endpoint) (length (li_blocks input)) v
    (snd (materialized_request_body endpoint input)) choice"
  using assms unfolding request_endpoint_def
  by (auto simp: Let_def case_prod_beta split: model_response.splits option.splits)

subsection \<open>Usage carries no text\<close>

function no_text :: "json \<Rightarrow> bool" where
  "no_text JNull = True"
| "no_text (JBool b) = True"
| "no_text (JNum n) = True"
| "no_text (JStr s) = False"
| "no_text (JArr vs) = (\<forall>v \<in> set vs. no_text v)"
| "no_text (JObj m) = (\<forall>(k, v) \<in> set m. \<not> sensitive_usage_key k \<and> no_text v)"
  by pat_completeness auto
termination
proof (relation "measure size")
  show "(v, JArr vs) \<in> measure size" if "v \<in> set vs" for v vs
    using that by (induction vs) auto
  show "(v, JObj m) \<in> measure size" if "x \<in> set m" "(k, v) = x" for x k v and m :: jmap
    using that size_json_member by auto
qed simp

lemma no_text_mcollect:
  assumes "\<forall>(k, v) \<in> set kvs. \<not> sensitive_usage_key k \<and> no_text v"
  shows "no_text (JObj (mcollect kvs))"
proof -
  have "(k, v) \<in> set kvs" if "(k, v) \<in> set (mcollect kvs)" for k v
  proof -
    from that have "map_of (mcollect kvs) k = Some v"
      using mcollect_ok [of kvs] by (simp add: mkeys_ok_def)
    then show ?thesis by (metis map_of_SomeD map_of_mcollect set_rev)
  qed
  with assms show ?thesis by auto
qed

lemma numeric_extension_no_text: "numeric_extension v d = Some w \<Longrightarrow> no_text w"
proof (induction v d arbitrary: w rule: numeric_extension.induct)
  case (1 v d)
  then have d: "\<not> 4 < d" by (auto simp: numeric_extension.simps [of v d] split: if_splits)
  show ?case
  proof (cases v)
    case (JArr vs)
    with 1(3) d have w: "w = JArr (List.map_filter (\<lambda>v. numeric_extension v (d + 1)) vs)" and l: "length vs \<le> 32"
      by (auto simp: numeric_extension.simps [of "JArr vs" d] split: if_splits)
    with 1(1) [OF d JArr l] show ?thesis by (auto simp: map_filter_def)
  next
    case (JObj m)
    with 1(3) d have w: "w = JObj (mcollect (List.map_filter (\<lambda>(k, v).
           if sensitive_usage_key k then None
           else map_option (Pair k) (numeric_extension v (d + 1))) m))" and l: "length m \<le> 64"
      by (auto simp: numeric_extension.simps [of "JObj m" d] split: if_splits)
    show ?thesis
      unfolding w
    proof (rule no_text_mcollect, safe)
      fix k x assume "(k, x) \<in> set (List.map_filter (\<lambda>(k, v). if sensitive_usage_key k then None
           else map_option (Pair k) (numeric_extension v (d + 1))) m)"
      then obtain y where y: "(k, y) \<in> set m" "\<not> sensitive_usage_key k" "numeric_extension y (d + 1) = Some x"
        by (auto simp: map_filter_def split: if_splits)
      then show "no_text x" using 1(2) [OF d JObj l y(2,3)] by blast
      assume "sensitive_usage_key k" with y(2) show False by simp
    qed
  qed (use 1(3) d in \<open>auto simp: numeric_extension.simps [of "JStr _" d] numeric_extension.simps [of JNull d]
      numeric_extension.simps [of "JBool _" d] numeric_extension.simps [of "JNum _" d]\<close>)
qed

lemma sanitize_extensions_no_text: "no_text (sanitize_usage_extensions v)"
proof (cases "as_object v")
  case (Some m)
  show ?thesis
    unfolding sanitize_usage_extensions_def Some option.case
    by (rule no_text_mcollect) (auto simp: map_filter_def numeric_extension_no_text split: if_splits)
qed (simp add: sanitize_usage_extensions_def)

lemma usage_json_no_text: "no_text ext \<Longrightarrow> no_text (usage_json a b c d e f ext)"
  unfolding usage_json_def jobj_def
  by (rule no_text_mcollect) (auto simp: jnat_opt_def jcost_opt_def jnat_def sensitive_usage_key_def Let_def
      lowercase_def ascii_lower_def split: option.splits)

lemma sanitize_usage_no_text: "no_text (sanitize_usage v)"
  by (auto simp: sanitize_usage_def Let_def usage_json_no_text sanitize_extensions_no_text jobj_def mcollect_def
      split: option.splits json.splits)

subsection \<open>What a completion carries\<close>

text \<open>Where the parts of an output come from: the answer of one of the endpoints, or no answer.\<close>

definition answered ::
  "env \<Rightarrow> model_port \<Rightarrow> LlmInput \<Rightarrow> ModelEndpoint \<Rightarrow> EndpointChoice \<Rightarrow> json \<Rightarrow> LlmOutput \<Rightarrow> bool" where
  "answered E M input endpoint choice v out \<longleftrightarrow>
     parse_tool_call E M v (snd (materialized_request_body endpoint input)) choice =
       (lo_tool_call out, lo_provider_turn out) \<and>
     jget (lo_journal_payload out) ''usage'' = Some (sanitize_usage (jget v ''usage''))"

definition unanswered :: "LlmOutput \<Rightarrow> bool" where
  "unanswered out \<longleftrightarrow> lo_tool_call out = Absent \<and> lo_provider_turn out = None \<and>
     jget (lo_journal_payload out) ''usage'' = None"

lemma success_usage:
  "jget (lo_journal_payload (success_output E M model n v mode choice)) ''usage'' =
     Some (sanitize_usage (jget v ''usage''))"
  by (simp add: success_output_def Let_def case_prod_beta)

lemma mark_fallback_simps [simp]:
  "lo_tool_call (mark_fallback out m e) = lo_tool_call out"
  "lo_provider_turn (mark_fallback out m e) = lo_provider_turn out"
  "jget (lo_journal_payload (mark_fallback out m e)) ''usage'' = jget (lo_journal_payload out) ''usage''"
  by (auto simp: mark_fallback_def split: json.splits)

lemma no_answer:
  "unanswered (config_required_output m n)" "unanswered (request_failed_output m n e)"
  by (simp_all add: unanswered_def config_required_output_def request_failed_output_def)

lemma request_endpoint_answered:
  assumes "request_endpoint E M c n attempt endpoint choice input = Inr out"
  shows "\<exists>v. answered E M input endpoint choice v out"
proof -
  from request_endpoint_Inr [OF assms] obtain v where "out = success_output E M (me_model endpoint)
      (length (li_blocks input)) v (snd (materialized_request_body endpoint input)) choice" .
  then have "answered E M input endpoint choice v out"
    by (simp add: answered_def success_usage)
  then show ?thesis ..
qed


lemma try_fallback_cases:
  assumes "try_fallback E M c n input e = Some out"
  shows "unanswered out \<or>
    (\<exists>fb v. oc_fallback c = Some fb \<and> answered E M input fb Fallback v out)"
proof -
  from assms obtain fb where fb: "oc_fallback c = Some fb"
    by (auto simp: try_fallback_def split: option.splits)
  show ?thesis
  proof (cases "request_endpoint E M c n 1 fb Fallback input")
    case (Inl x)
    with assms fb have "out = mark_fallback (request_failed_output (me_model fb) (length (li_blocks input)) x)
        (me_model (oc_primary c)) e" by (simp add: try_fallback_def)
    with no_answer(2) show ?thesis by (simp add: unanswered_def)
  next
    case (Inr o')
    with assms fb have "out = mark_fallback o' (me_model (oc_primary c)) e" by (simp add: try_fallback_def)
    with request_endpoint_answered [OF Inr] fb show ?thesis by (auto simp: answered_def)
  qed
qed

lemma sticky_endpoint_cases: "sticky_endpoint c choice = oc_primary c \<or> oc_fallback c = Some (sticky_endpoint c choice)"
  by (simp add: sticky_endpoint_def split: EndpointChoice.split option.split)

lemma complete_eq:
  "li_follow_ups input \<noteq> [] \<Longrightarrow> complete E M c n input =
     (let choice = pt_endpoint (fu_provider_turn (last (li_follow_ups input))) in
      request_endpoint E M c n 0 (sticky_endpoint c choice) choice input)"
  "li_follow_ups input = [] \<Longrightarrow> \<not> is_configured (oc_primary c) \<Longrightarrow> complete E M c n input =
     Inr (case try_fallback E M c n input ''model_config_required'' of Some out \<Rightarrow> out
       | None \<Rightarrow> config_required_output (me_model (oc_primary c)) (length (li_blocks input)))"
  "li_follow_ups input = [] \<Longrightarrow> is_configured (oc_primary c) \<Longrightarrow> complete E M c n input =
     (case request_endpoint E M c n 0 (oc_primary c) Primary input of Inr out \<Rightarrow> Inr out
      | Inl e \<Rightarrow> Inr (case try_fallback E M c n input e of Some out \<Rightarrow> out
         | None \<Rightarrow> request_failed_output (me_model (oc_primary c)) (length (li_blocks input)) e))"
  by (simp_all add: complete_def)

lemma complete_cases:
  assumes "complete E M c n input = Inr out"
  shows "unanswered out \<or> (\<exists>endpoint choice v.
    (endpoint = oc_primary c \<or> oc_fallback c = Some endpoint) \<and> answered E M input endpoint choice v out)"
proof (cases "li_follow_ups input = []")
  case False
  let ?choice = "pt_endpoint (fu_provider_turn (last (li_follow_ups input)))"
  from assms have "request_endpoint E M c n 0 (sticky_endpoint c ?choice) ?choice input = Inr out"
    unfolding complete_eq(1) [OF False] by (simp only: Let_def)
  from request_endpoint_answered [OF this] sticky_endpoint_cases [of c ?choice] show ?thesis by blast
next
  case True
  have fallback: ?thesis if "(case try_fallback E M c n input e of Some x \<Rightarrow> x | None \<Rightarrow> d) = out"
    and "unanswered d" for e d
    using that try_fallback_cases [of E M c n input e] by (cases "try_fallback E M c n input e") auto
  show ?thesis
  proof (cases "is_configured (oc_primary c)")
    case False
    from assms show ?thesis
      unfolding complete_eq(2) [OF True False] sum.inject by (rule fallback [OF _ no_answer(1)])
  next
    case c: True
    show ?thesis
    proof (cases "request_endpoint E M c n 0 (oc_primary c) Primary input")
      case (Inl e)
      from assms show ?thesis
        unfolding complete_eq(3) [OF True c] Inl sum.case sum.inject by (rule fallback [OF _ no_answer(2)])
    next
      case (Inr x)
      with assms request_endpoint_answered [OF Inr] show ?thesis unfolding complete_eq(3) [OF True c] by auto
    qed
  qed
qed

subsection \<open>Properties\<close>

text \<open>
  C37: Whatever a provider answers, a tool call that the client reports as valid is within the limits
  of the protocol: its identifier, wire name and argument text are not blank where they must not be
  and have at most 256, 128 and 8192 bytes, its arguments are the JSON object the text parses to,
  and an endpoint with indexed names can only name one of the tools that were offered to it. No
  other result carries a provider turn.
\<close>

theorem provider_call_within_limits:
  assumes run: "complete E M c n input = Inr out"
  shows "(case lo_tool_call out of
      Valid call \<Rightarrow> (\<exists>t. lo_provider_turn out = Some t \<and>
        trim (pt_provider_tool_call_id t) \<noteq> [] \<and> length (pt_provider_tool_call_id t) \<le> 256 \<and>
        trim (pt_wire_name t) \<noteq> [] \<and> length (pt_wire_name t) \<le> 128 \<and>
        length (pt_arguments_json t) \<le> 8192 \<and>
        json_parse E (pt_arguments_json t) = Some (tc_arguments call) \<and> is_object (tc_arguments call) \<and>
        (me_tool_name_mode (oc_primary c) \<noteq> Passthrough \<and>
         (\<forall>fb. oc_fallback c = Some fb \<longrightarrow> me_tool_name_mode fb \<noteq> Passthrough) \<longrightarrow>
         tc_operation call \<in> {name. \<exists>tool \<in> set (li_provider_tools input). tool_name tool = Some name}))
    | _ \<Rightarrow> lo_provider_turn out = None)"
proof (cases "lo_tool_call out")
  case (Valid call)
  with complete_cases [OF run] obtain endpoint choice v where e: "endpoint = oc_primary c \<or> oc_fallback c = Some endpoint"
    and p: "parse_tool_call E M v (snd (materialized_request_body endpoint input)) choice =
      (Valid call, lo_provider_turn out)"
    by (auto simp: unanswered_def answered_def)
  from p obtain t where t: "lo_provider_turn out = Some t" "trim (pt_provider_tool_call_id t) \<noteq> []"
    "trim (pt_wire_name t) \<noteq> []" "length (pt_provider_tool_call_id t) \<le> max_provider_id_len"
    "length (pt_wire_name t) \<le> max_wire_name_len" "length (pt_arguments_json t) \<le> max_args_json_len"
    "canonical_name (snd (materialized_request_body endpoint input)) (pt_wire_name t) = Some (tc_operation call)"
    "json_parse E (pt_arguments_json t) = Some (tc_arguments call)" "is_object (tc_arguments call)"
    by (rule parse_tool_call_Valid)
  have "\<exists>tool \<in> set (li_provider_tools input). tool_name tool = Some (tc_operation call)"
    if "me_tool_name_mode endpoint \<noteq> Passthrough"
  proof -
    from that have "snd (materialized_request_body endpoint input) =
        IndexedMapping (snd (index_tools 0 (li_provider_tools input)))"
      using materialized_mode [of endpoint input] by (cases "materialized_request_body endpoint input")
        (auto split: ToolNameMode.splits)
    with t(7) have "snd (index_tools 0 (li_provider_tools input)) (pt_wire_name t) = Some (tc_operation call)"
      by (simp add: canonical_name_def)
    then show ?thesis unfolding index_tools_names by (metis nth_mem)
  qed
  with t e Valid show ?thesis
    by (auto simp: max_provider_id_len_def max_wire_name_len_def max_args_json_len_def)
next
  case Absent
  with complete_cases [OF run] parse_tool_call_other show ?thesis
    by (auto simp: unanswered_def answered_def)
next
  case (Malformed r)
  with complete_cases [OF run] parse_tool_call_other show ?thesis
    by (auto simp: unanswered_def answered_def)
qed

definition sample_answer :: json where
  "sample_answer = jobj
    [(''choices'', JArr [jobj [(''message'', jobj [(''tool_calls'', JArr [jobj
       [(''id'', JStr ''call_1''), (''function'', jobj [(''name'', JStr ''fn_0''),
          (''arguments'', JStr ''{}'')])]])])]]),
     (''usage'', jobj [(''prompt_tokens'', jnat 7), (''completion_tokens'', jnat 5),
        (''note'', JStr ''text''), (''api_key'', jnat 1), (''cache'', jnat 2)])]"

definition sample_port :: model_port where
  "sample_port = \<lparr>mp_post = (\<lambda>_ _ _. Received (Some sample_answer)),
     mp_tokens = (\<lambda>s. Some (length s)), mp_parse_error = (\<lambda>_. [])\<rparr>"

definition sample_client :: OpenAiCompatibleLlm where
  "sample_client = with_indexed_primary \<lparr>oc_primary = new_endpoint ''http://m/'' ''k'' ''m'',
     oc_fallback = None, oc_timeout_ms = 1000, oc_context_window_tokens = 900,
     oc_reserved_output_tokens = 9\<rparr>"

definition sample_input :: LlmInput where
  "sample_input = \<lparr>li_blocks = [], li_user_text = ''hi'', li_granted_operations = [''system.status''],
     li_provider_tools = [jobj [(''type'', JStr ''function''), (''function'', jobj
       [(''name'', JStr ''system.status''), (''parameters'', jobj [])])]],
     li_follow_ups = [], li_timeout_override_ms = None\<rparr>"

definition sample_completion :: "string + LlmOutput" where
  "sample_completion = complete sample_env sample_port sample_client 0 sample_input"

lemma sample_completion_call:
  "\<exists>out. sample_completion = Inr out \<and>
     lo_tool_call out = Valid \<lparr>tc_id = digest_text ''call_1'', tc_operation = ''system.status'', tc_arguments = JObj []\<rparr> \<and>
     jget (lo_journal_payload out) ''usage'' \<noteq> None"
proof -
  have "case sample_completion of Inl _ \<Rightarrow> False | Inr out \<Rightarrow>
     lo_tool_call out = Valid \<lparr>tc_id = digest_text ''call_1'', tc_operation = ''system.status'', tc_arguments = JObj []\<rparr> \<and>
     jget (lo_journal_payload out) ''usage'' \<noteq> None"
    by code_simp
  then show ?thesis by (auto split: sum.splits)
qed

theorem provider_call_within_limits_witness:
  "\<exists>out t. sample_completion = Inr out \<and> lo_provider_turn out = Some t \<and>
     length (pt_provider_tool_call_id t) \<le> 256"
proof -
  obtain out call where o: "sample_completion = Inr out" "lo_tool_call out = Valid call"
    using sample_completion_call by blast
  from provider_call_within_limits [OF o(1) [unfolded sample_completion_def]] o show ?thesis by auto
qed

text \<open>
  No text of a provider reaches the journal through its usage report, whatever the report holds:
  the usage that a completion records has no string value and no key that names a credential, at
  any depth.
\<close>

theorem usage_carries_no_text:
  assumes run: "complete E M c n input = Inr out" and u: "jget (lo_journal_payload out) ''usage'' = Some u"
  shows "no_text u"
  using complete_cases [OF run] u sanitize_usage_no_text by (auto simp: unanswered_def answered_def)

theorem usage_carries_no_text_witness:
  "\<exists>out u. sample_completion = Inr out \<and> jget (lo_journal_payload out) ''usage'' = Some u \<and> no_text u"
proof -
  obtain out u where o: "sample_completion = Inr out" "jget (lo_journal_payload out) ''usage'' = Some u"
    using sample_completion_call by blast
  from usage_carries_no_text [OF o(1) [unfolded sample_completion_def] o(2)] o show ?thesis by blast
qed

end
