(* ===== verification/Model_Adapter.thy ===== *)
theory Model_Adapter
  imports Model_Client
begin

section \<open>The model adapter\<close>

text \<open>
  \<open>src/src/llm/context_adapter.rs\<close>: the input of a model call is staged as a candidate artifact that a
  context provider may rewrite. What comes back is decoded, checked against the parts the provider
  must not change, and measured against the window of the model before any request is sent.
\<close>

definition llm_input_artifact_media_type :: string where
  "llm_input_artifact_media_type = ''application/vnd.agent-core.llm-input+json;version=1''"

record AdapterCandidate =
  ac_media_type :: string
  ac_bytes :: string
  ac_immutable_refs :: "ImmutableArtifactRef list"

record HardBudgetReceipt =
  hb_input_tokens :: nat
  hb_reserved_output_tokens :: nat
  hb_context_window_tokens :: nat

definition within_budget :: "HardBudgetReceipt \<Rightarrow> bool" where
  "within_budget b \<longleftrightarrow>
     int (hb_input_tokens b) + int (hb_reserved_output_tokens b) < 2 ^ 64 \<and>
     hb_input_tokens b + hb_reserved_output_tokens b \<le> hb_context_window_tokens b"

datatype ModelMaterialization = Ready LlmInput HardBudgetReceipt | OverBudget HardBudgetReceipt

subsection \<open>The JSON form of an input\<close>

definition block_json :: "ContextBlock \<Rightarrow> json" where
  "block_json b = JObj [(''kind'', JStr (block_kind_debug (cb_kind b))),
     (''content'', JStr (cb_content b)), (''source_ref'', jopt (cb_source_ref b))]"

fun endpoint_text :: "EndpointChoice \<Rightarrow> string" where
  "endpoint_text Primary = ''primary''"
| "endpoint_text Fallback = ''fallback''"

definition turn_json :: "ProviderToolTurn \<Rightarrow> json" where
  "turn_json t = JObj
    [(''endpoint'', JStr (endpoint_text (pt_endpoint t))),
     (''provider_tool_call_id'', JStr (pt_provider_tool_call_id t)),
     (''wire_name'', JStr (pt_wire_name t)),
     (''canonical_operation'', JStr (pt_canonical_operation t)),
     (''arguments_json'', JStr (pt_arguments_json t)),
     (''reasoning_content'', jopt (pt_reasoning_content t))]"

definition follow_up_json :: "LlmFollowUp \<Rightarrow> json" where
  "follow_up_json f = JObj [(''provider_turn'', turn_json (fu_provider_turn f)),
     (''result_content'', JStr (fu_result_content f))]"

definition input_json :: "LlmInput \<Rightarrow> json" where
  "input_json i = JObj
    [(''blocks'', JArr (map block_json (li_blocks i))), (''user_text'', JStr (li_user_text i)),
     (''granted_operations'', JArr (map JStr (li_granted_operations i))),
     (''provider_tools'', JArr (li_provider_tools i)),
     (''follow_ups'', JArr (map follow_up_json (li_follow_ups i))),
     (''timeout_override_ms'', (case li_timeout_override_ms i of
        None \<Rightarrow> JNull | Some t \<Rightarrow> jnat (unat t)))]"

text \<open>Reading it back: unknown fields are ignored, a missing optional field is \<open>None\<close>.\<close>

definition opt_str_of :: "json \<Rightarrow> string \<Rightarrow> string option option" where
  "opt_str_of v key = (case jget v key of
     None \<Rightarrow> Some None | Some JNull \<Rightarrow> Some None | Some (JStr s) \<Rightarrow> Some (Some s) | _ \<Rightarrow> None)"

definition block_kinds :: "ContextBlockKind list" where
  "block_kinds = [RootSystem, RuntimeContract, AgentProfile, SkillCatalog, ToolCatalog,
     ContextBlockKind.ToolResult, ActiveSkill, RecentMessages, UserMessage]"

definition block_kind_of :: "string \<Rightarrow> ContextBlockKind option" where
  "block_kind_of s = map_of (map (\<lambda>k. (block_kind_debug k, k)) block_kinds) s"

definition block_of :: "json \<Rightarrow> ContextBlock option" where
  "block_of v =
    (case (Option.bind (str_field v ''kind'') block_kind_of, str_field v ''content'',
        opt_str_of v ''source_ref'') of
       (Some k, Some c, Some r) \<Rightarrow> Some \<lparr>cb_kind = k, cb_content = c, cb_source_ref = r\<rparr>
     | _ \<Rightarrow> None)"

definition endpoint_of :: "string \<Rightarrow> EndpointChoice option" where
  "endpoint_of s = (if s = ''primary'' then Some Primary else if s = ''fallback'' then Some Fallback else None)"

definition turn_of :: "json \<Rightarrow> ProviderToolTurn option" where
  "turn_of v =
    (case (Option.bind (str_field v ''endpoint'') endpoint_of, str_field v ''provider_tool_call_id'',
        str_field v ''wire_name'', str_field v ''canonical_operation'', str_field v ''arguments_json'',
        opt_str_of v ''reasoning_content'') of
       (Some e, Some i, Some w, Some c, Some a, Some r) \<Rightarrow>
         Some \<lparr>pt_endpoint = e, pt_provider_tool_call_id = i, pt_wire_name = w,
           pt_canonical_operation = c, pt_arguments_json = a, pt_reasoning_content = r\<rparr>
     | _ \<Rightarrow> None)"

definition follow_up_of :: "json \<Rightarrow> LlmFollowUp option" where
  "follow_up_of v =
    (case (Option.bind (jget v ''provider_turn'') turn_of, str_field v ''result_content'') of
       (Some t, Some c) \<Rightarrow> Some \<lparr>fu_provider_turn = t, fu_result_content = c\<rparr> | _ \<Rightarrow> None)"

definition timeout_of :: "json \<Rightarrow> 64 word option option" where
  "timeout_of v = (case jget v ''timeout_override_ms'' of
     None \<Rightarrow> Some None | Some JNull \<Rightarrow> Some None
   | Some t \<Rightarrow> (case as_u64 t of None \<Rightarrow> None | Some n \<Rightarrow> Some (Some (of_nat n))))"

definition input_of :: "json \<Rightarrow> LlmInput option" where
  "input_of v =
    (case (array_of block_of v ''blocks'', str_field v ''user_text'',
        array_of as_str v ''granted_operations'', array_of Some v ''provider_tools'',
        array_of follow_up_of v ''follow_ups'', timeout_of v) of
       (Some b, Some u, Some g, Some p, Some f, Some t) \<Rightarrow>
         Some \<lparr>li_blocks = b, li_user_text = u, li_granted_operations = g, li_provider_tools = p,
           li_follow_ups = f, li_timeout_override_ms = t\<rparr>
     | _ \<Rightarrow> None)"

subsection \<open>Staging and decoding\<close>

definition validate_follow_up :: "env \<Rightarrow> LlmFollowUp \<Rightarrow> string + unit" where
  "validate_follow_up E f = (let turn = fu_provider_turn f in
    if trim (pt_provider_tool_call_id turn) = [] \<or> trim (pt_wire_name turn) = [] \<or>
      trim (pt_canonical_operation turn) = []
    then Inl ''model_adapter_tool_pair_required_field_empty''
    else case json_parse E (pt_arguments_json turn) of
        None \<Rightarrow> Inl ''model_adapter_tool_arguments_invalid''
      | Some v \<Rightarrow> if is_object v then Inr () else Inl ''model_adapter_tool_arguments_not_object'')"

definition validate_tool :: "json \<Rightarrow> string + unit" where
  "validate_tool tool =
    (if str_field tool ''type'' \<noteq> Some ''function'' then Inl ''model_adapter_tool_type_invalid''
     else if nonblank (tool_name tool) = None then Inl ''model_adapter_tool_name_invalid''
     else case jpointer [''function'', ''parameters''] tool of
         None \<Rightarrow> Inl ''model_adapter_tool_schema_invalid''
       | Some p \<Rightarrow> if is_object p then Inr () else Inl ''model_adapter_tool_schema_invalid'')"

definition validate_wire_input :: "env \<Rightarrow> LlmInput \<Rightarrow> string + unit" where
  "validate_wire_input E i =
    ebind (collect_results validate_tool (li_provider_tools i)) (\<lambda>_.
    ebind (collect_results (validate_follow_up E) (li_follow_ups i)) (\<lambda>_. Inr ()))"

definition new_immutable_ref :: "env \<Rightarrow> string \<Rightarrow> string \<Rightarrow> ImmutableArtifactRef" where
  "new_immutable_ref E i bytes = \<lparr>ia_id = i, ia_digest = compute_digest E bytes\<rparr>"

definition required_block :: "ContextBlock \<Rightarrow> bool" where
  "required_block b \<longleftrightarrow> cb_kind b \<in> {RootSystem, RuntimeContract, AgentProfile}"

definition immutable_refs_for :: "env \<Rightarrow> LlmInput \<Rightarrow> ImmutableArtifactRef list" where
  "immutable_refs_for E i =
    [new_immutable_ref E ''model:user-input'' (li_user_text i),
     new_immutable_ref E ''model:granted-operations''
       (json_text E (JArr (map JStr (li_granted_operations i)))),
     new_immutable_ref E ''model:tool-schema'' (json_text E (JArr (li_provider_tools i)))] @
    map (\<lambda>(n, b). new_immutable_ref E (''model:required-block:'' @ dec n) (json_text E (block_json b)))
      (filter (\<lambda>(n, b). required_block b) (enumerate 0 (li_blocks i))) @
    map (\<lambda>(n, f). new_immutable_ref E (''model:follow-up-wire:'' @ dec n)
        (json_text E (turn_json (fu_provider_turn f)))) (enumerate 0 (li_follow_ups i))"

definition stage_candidate :: "env \<Rightarrow> LlmInput \<Rightarrow> string + AdapterCandidate" where
  "stage_candidate E i = ebind (validate_wire_input E i) (\<lambda>_.
     Inr \<lparr>ac_media_type = llm_input_artifact_media_type, ac_bytes = json_text E (input_json i),
       ac_immutable_refs = immutable_refs_for E i\<rparr>)"

fun artifact_bytes :: "env \<Rightarrow> wire \<Rightarrow> string \<Rightarrow> OpaqueArtifactRef list \<Rightarrow> string + string" where
  "artifact_bytes E C media_type [] = Inr []"
| "artifact_bytes E C media_type (a # as) =
    (if oa_media_type a \<noteq> media_type then Inl ''model_adapter_artifact_media_type_mismatch''
     else ebind (decode_verified E C a) (\<lambda>bytes.
       ebind (artifact_bytes E C media_type as) (\<lambda>rest. Inr (bytes @ rest))))"

definition decode_artifacts ::
  "env \<Rightarrow> wire \<Rightarrow> AdapterCandidate \<Rightarrow> OpaqueArtifactRef list \<Rightarrow> string + LlmInput" where
  "decode_artifacts E C candidate artifacts =
    (if artifacts = [] then Inl ''model_adapter_artifacts_empty''
     else ebind (artifact_bytes E C (ac_media_type candidate) artifacts) (\<lambda>bytes.
       ebind (ok_or ''model_adapter_artifact'' (Option.bind (json_parse E bytes) input_of)) (\<lambda>i.
       ebind (validate_wire_input E i) (\<lambda>_.
       if immutable_refs_for E i \<noteq> ac_immutable_refs candidate
       then Inl ''model_adapter_immutable_input_changed'' else Inr i))))"

definition assess_budget ::
  "env \<Rightarrow> model_port \<Rightarrow> LlmInput \<Rightarrow> json list \<Rightarrow> nat \<Rightarrow> nat \<Rightarrow> string + ModelMaterialization" where
  "assess_budget E M i wires window reserved =
    ebind (collect_results (\<lambda>w. ok_or ''model_tokenizer_unavailable'' (mp_tokens M (json_text E w))) wires)
      (\<lambda>counts.
     let receipt = \<lparr>hb_input_tokens = foldl max 0 counts, hb_reserved_output_tokens = reserved,
           hb_context_window_tokens = window\<rparr> in
     Inr (if within_budget receipt then Ready i receipt else OverBudget receipt))"

definition default_materialize ::
  "env \<Rightarrow> wire \<Rightarrow> model_port \<Rightarrow> AdapterCandidate \<Rightarrow> OpaqueArtifactRef list \<Rightarrow> string + ModelMaterialization" where
  "default_materialize E C M candidate artifacts =
    ebind (decode_artifacts E C candidate artifacts) (\<lambda>i.
      assess_budget E M i [input_json i] default_context_window_tokens default_reserved_output_tokens)"

text \<open>\<open>OpenAiCompatibleLlm::materialize_context\<close>: the bodies for every endpoint the client may use.\<close>

definition materialize_context ::
  "env \<Rightarrow> wire \<Rightarrow> model_port \<Rightarrow> OpenAiCompatibleLlm \<Rightarrow> AdapterCandidate \<Rightarrow> OpaqueArtifactRef list \<Rightarrow>
   string + ModelMaterialization" where
  "materialize_context E C M c candidate artifacts =
    ebind (decode_artifacts E C candidate artifacts) (\<lambda>i.
      assess_budget E M i
        (fst (materialized_request_body (oc_primary c) i) #
         (case oc_fallback c of None \<Rightarrow> [] | Some fb \<Rightarrow> [fst (materialized_request_body fb i)]))
        (oc_context_window_tokens c) (oc_reserved_output_tokens c))"

subsection \<open>The part of an input a provider cannot change\<close>

definition immutable_part ::
  "env \<Rightarrow> LlmInput \<Rightarrow> string \<times> string \<times> string \<times> (nat \<times> string) list \<times> (nat \<times> string) list" where
  "immutable_part E i =
    (li_user_text i, json_text E (JArr (map JStr (li_granted_operations i))),
     json_text E (JArr (li_provider_tools i)),
     map (\<lambda>(n, b). (n, json_text E (block_json b)))
       (filter (\<lambda>(n, b). required_block b) (enumerate 0 (li_blocks i))),
     map (\<lambda>(n, f). (n, json_text E (turn_json (fu_provider_turn f)))) (enumerate 0 (li_follow_ups i)))"

definition block_ref :: "env \<Rightarrow> nat \<times> string \<Rightarrow> ImmutableArtifactRef" where
  "block_ref E x = new_immutable_ref E (''model:required-block:'' @ dec (fst x)) (snd x)"

definition turn_ref :: "env \<Rightarrow> nat \<times> string \<Rightarrow> ImmutableArtifactRef" where
  "turn_ref E x = new_immutable_ref E (''model:follow-up-wire:'' @ dec (fst x)) (snd x)"

lemma immutable_refs_alt:
  "immutable_refs_for E i = (case immutable_part E i of (u, g, p, bs, ts) \<Rightarrow>
    [new_immutable_ref E ''model:user-input'' u, new_immutable_ref E ''model:granted-operations'' g,
     new_immutable_ref E ''model:tool-schema'' p] @ map (block_ref E) bs @ map (turn_ref E) ts)"
  by (simp add: immutable_refs_for_def immutable_part_def block_ref_def turn_ref_def case_prod_beta comp_def)

lemma split_by_kind:
  assumes "map f xs @ map g ys = map f xs' @ map g ys'" and "\<And>x. P (f x)" and "\<And>y. \<not> P (g y)"
  shows "map f xs = map f xs' \<and> map g ys = map g ys'"
proof -
  have "filter P (map f xs @ map g ys) = map f xs" "filter P (map f xs' @ map g ys') = map f xs'"
    "filter (\<lambda>x. \<not> P x) (map f xs @ map g ys) = map g ys"
    "filter (\<lambda>x. \<not> P x) (map f xs' @ map g ys') = map g ys'"
    using assms(2,3) by (simp_all add: filter_map comp_def)
  with assms(1) show ?thesis by simp
qed

text \<open>Two texts agree when they are equal, or collide.\<close>

definition agree :: "env \<Rightarrow> string \<Rightarrow> string \<Rightarrow> bool" where
  "agree E x y \<longleftrightarrow> x = y \<or> collision E x y"

definition agree_at :: "env \<Rightarrow> nat \<times> string \<Rightarrow> nat \<times> string \<Rightarrow> bool" where
  "agree_at E x y \<longleftrightarrow> fst x = fst y \<and> agree E (snd x) (snd y)"

definition parts_agree :: "env \<Rightarrow> LlmInput \<Rightarrow> LlmInput \<Rightarrow> bool" where
  "parts_agree E i j \<longleftrightarrow> (case (immutable_part E i, immutable_part E j) of
     ((u, g, p, bs, ts), (u', g', p', bs', ts')) \<Rightarrow>
       agree E u u' \<and> agree E g g' \<and> agree E p p' \<and>
       list_all2 (agree_at E) bs bs' \<and> list_all2 (agree_at E) ts ts')"

lemma same_ref: "new_immutable_ref E a x = new_immutable_ref E b y \<longleftrightarrow> a = b \<and> agree E x y"
  by (auto simp: new_immutable_ref_def compute_digest_def collision_def agree_def)

lemma map_eq_list_all2: "map f xs = map f ys \<longleftrightarrow> list_all2 (\<lambda>x y. f x = f y) xs ys"
  by (simp add: list_all2_eq [symmetric] list_all2_map1 list_all2_map2 flip: list.rel_eq)

lemma immutable_refs_bind:
  assumes refs: "immutable_refs_for E i = immutable_refs_for E j"
  shows "parts_agree E i j"
proof -
  obtain u g p bs ts where i: "immutable_part E i = (u, g, p, bs, ts)" by (cases "immutable_part E i")
  obtain u' g' p' bs' ts' where j: "immutable_part E j = (u', g', p', bs', ts')" by (cases "immutable_part E j")
  from refs have lists: "map (block_ref E) bs @ map (turn_ref E) ts = map (block_ref E) bs' @ map (turn_ref E) ts'"
    and heads: "agree E u u'" "agree E g g'" "agree E p p'"
    unfolding immutable_refs_alt i j by (simp_all add: same_ref)
  have "map (block_ref E) bs = map (block_ref E) bs' \<and> map (turn_ref E) ts = map (turn_ref E) ts'"
  proof (rule split_by_kind [OF lists, where P = "\<lambda>r. prefix ''model:r'' (ia_id r)"])
    show "prefix ''model:r'' (ia_id (block_ref E x))" for x by (simp add: block_ref_def new_immutable_ref_def)
    show "\<not> prefix ''model:r'' (ia_id (turn_ref E x))" for x by (simp add: turn_ref_def new_immutable_ref_def)
  qed
  moreover have "block_ref E x = block_ref E y \<longleftrightarrow> agree_at E x y" "turn_ref E x = turn_ref E y \<longleftrightarrow> agree_at E x y" for x y
    by (simp_all add: block_ref_def turn_ref_def same_ref agree_at_def)
  ultimately show ?thesis using heads by (simp add: parts_agree_def i j map_eq_list_all2)
qed

lemma decode_artifactsD:
  assumes "decode_artifacts E C candidate artifacts = Inr i"
  shows "immutable_refs_for E i = ac_immutable_refs candidate" and "validate_wire_input E i = Inr ()"
  using assms by (auto simp: decode_artifacts_def split: if_splits elim!: ebind_InrD)

lemma collect_results_member:
  "collect_results f xs = Inr ys \<Longrightarrow> x \<in> set xs \<Longrightarrow> \<exists>y \<in> set ys. f x = Inr y"
  by (induction f xs arbitrary: ys rule: collect_results.induct) (auto split: sum.splits)

lemma assess_budgetD:
  assumes "assess_budget E M i wires window reserved = Inr (Ready j b)"
  shows "j = i" and "w \<in> set wires \<Longrightarrow> \<exists>n. mp_tokens M (json_text E w) = Some n \<and> n + reserved \<le> window"
proof -
  from assms obtain counts where counts: "collect_results (\<lambda>w. ok_or ''model_tokenizer_unavailable''
      (mp_tokens M (json_text E w))) wires = Inr counts"
    and fits: "foldl max 0 counts + reserved \<le> window" and "j = i"
    unfolding assess_budget_def by (elim ebind_InrD) (auto simp: Let_def within_budget_def split: if_splits)
  then show "j = i" by simp
  have top: "n \<le> foldl max m ns" if "n \<in> set ns \<or> n \<le> m" for n m :: nat and ns
    using that by (induction ns arbitrary: m) (auto simp: le_max_iff_disj)
  show "\<exists>n. mp_tokens M (json_text E w) = Some n \<and> n + reserved \<le> window" if "w \<in> set wires"
    proof -
    from collect_results_member [OF counts that] obtain n where n: "n \<in> set counts" "mp_tokens M (json_text E w) = Some n"
      by auto
    from top [of n counts 0] n fits show ?thesis by auto
  qed
qed

subsection \<open>Properties\<close>


text \<open>A digest of the right form, and a provider that adds a block to the staged input.\<close>

definition digest_env :: env where
  "digest_env = sample_env\<lparr>sha256_hex := (\<lambda>s. let d = dec (length s) in replicate (64 - length d) (CHR ''0'') @ d)\<rparr>"

definition rewritten_input :: LlmInput where
  "rewritten_input = sample_input\<lparr>li_blocks := [\<lparr>cb_kind = RecentMessages, cb_content = ''x'', cb_source_ref = None\<rparr>]\<rparr>"

definition sample_artifacts :: "OpaqueArtifactRef list" where
  "sample_artifacts = [new_artifact digest_env sample_wire llm_input_artifact_media_type
     (json_text digest_env (input_json rewritten_input))]"

definition staged :: AdapterCandidate where
  "staged = projr (stage_candidate digest_env sample_input)"

lemma sample_staged: "stage_candidate digest_env sample_input = Inr staged"
  by code_simp

lemma sample_decoded: "decode_artifacts digest_env sample_wire staged sample_artifacts = Inr rewritten_input"
  by code_simp


text \<open>
  C36: Only requests that fit are sent. When the adapter releases an input, the body the client builds
  for it, at every endpoint it may use, has a number of tokens that leaves the reserved output
  tokens free within the window of the model.
\<close>

theorem released_input_fits:
  assumes run: "materialize_context E C M c candidate artifacts = Inr (Ready i b)"
    and e: "endpoint = oc_primary c \<or> oc_fallback c = Some endpoint"
  shows "\<exists>n. mp_tokens M (json_text E (fst (materialized_request_body endpoint i))) = Some n \<and>
    n + oc_reserved_output_tokens c \<le> oc_context_window_tokens c"
proof -
  from run obtain j where a: "assess_budget E M j
      (fst (materialized_request_body (oc_primary c) j) #
       (case oc_fallback c of None \<Rightarrow> [] | Some fb \<Rightarrow> [fst (materialized_request_body fb j)]))
      (oc_context_window_tokens c) (oc_reserved_output_tokens c) = Inr (Ready i b)"
    unfolding materialize_context_def by (elim ebind_InrD)
  note ji = assess_budgetD(1) [OF a]
  show ?thesis by (rule assess_budgetD(2) [OF a]) (use e ji in auto)
qed

lemma sample_released:
  "\<exists>b. materialize_context digest_env sample_wire sample_port sample_client staged sample_artifacts =
     Inr (Ready rewritten_input b)"
proof -
  have "case materialize_context digest_env sample_wire sample_port sample_client staged sample_artifacts of
      Inr (Ready i b) \<Rightarrow> i = rewritten_input | _ \<Rightarrow> False"
    by code_simp
  then show ?thesis by (auto split: sum.splits ModelMaterialization.splits)
qed

theorem released_input_fits_witness:
  "\<exists>n. mp_tokens sample_port (json_text digest_env
      (fst (materialized_request_body (oc_primary sample_client) rewritten_input))) = Some n \<and>
    n + oc_reserved_output_tokens sample_client \<le> oc_context_window_tokens sample_client"
  using sample_released released_input_fits by blast

end
