(* ===== verification/Run_Hooks.thy ===== *)
theory Run_Hooks
  imports Model_Adapter Operation_Grants Journal_Logic Gateway_Ingress
begin

section \<open>Runs, their budget and their context provider\<close>

text \<open>
  \<open>src/src/runtime/hook_call.rs\<close>: how a run is created with the grants of its principal, how its
  budget is resolved from the hook binding of the pinned snapshot, and how a context provider is
  asked for the artifacts of a model call. A runtime holds the configuration, the model client, the
  HTTP exchange of its hook client, the monotonic clock in nanoseconds, indexed by the tick, and
  the text of an instant with milliseconds.
\<close>

subsection \<open>The runtime\<close>

record LlmClient =
  lc_complete :: "nat \<Rightarrow> LlmInput \<Rightarrow> string + LlmOutput"
  lc_stage_candidate :: "LlmInput \<Rightarrow> string + AdapterCandidate"
  lc_materialize_context ::
    "AdapterCandidate \<Rightarrow> OpaqueArtifactRef list \<Rightarrow> string + ModelMaterialization"
  lc_provider_hint :: string
  lc_model_hint :: string

definition openai_client :: "env \<Rightarrow> wire \<Rightarrow> model_port \<Rightarrow> OpenAiCompatibleLlm \<Rightarrow> LlmClient" where
  "openai_client E C M c =
    \<lparr>lc_complete = complete E M c, lc_stage_candidate = stage_candidate E,
     lc_materialize_context = materialize_context E C M c,
     lc_provider_hint = openai_compatible, lc_model_hint = me_model (oc_primary c)\<rparr>"

definition received_text :: string where
  "received_text = utf8 [230, 148, 182, 229, 136, 176, 239, 188, 154]"

definition echo_output :: "LlmInput \<Rightarrow> LlmOutput" where
  "echo_output i =
    \<lparr>lo_provider = ''local'', lo_model = ''local-echo'', lo_content = received_text @ li_user_text i,
     lo_journal_payload = jobj
       [(''provider'', JStr ''local''), (''model'', JStr ''local-echo''),
        (''context_blocks'', jnat (length (li_blocks i))), (''status'', JStr ''ok'')],
     lo_tool_call = Absent, lo_provider_turn = None\<rparr>"

definition local_echo_client :: "env \<Rightarrow> wire \<Rightarrow> model_port \<Rightarrow> LlmClient" where
  "local_echo_client E C M =
    \<lparr>lc_complete = (\<lambda>_ i. Inr (echo_output i)), lc_stage_candidate = stage_candidate E,
     lc_materialize_context = default_materialize E C M,
     lc_provider_hint = ''local'', lc_model_hint = ''local-echo''\<rparr>"

record Runtime =
  rt_config :: KernelConfig
  rt_llm :: LlmClient
  rt_hook_client :: "(nat \<Rightarrow> http_request \<Rightarrow> http_outcome) option"
  rt_hook_config :: "HookConfig option"
  rt_budget_hook_config :: "HookConfig option"
  rt_instant_at :: "nat \<Rightarrow> nat"
  rt_millis_text :: "instant \<Rightarrow> string"

definition instant_now :: "Runtime \<Rightarrow> nat jop" where
  "instant_now R = op_bind draw (\<lambda>n. op_return (rt_instant_at R n))"

text \<open>\<open>Duration::as_millis\<close> of the time since an instant, and \<open>min(u64::MAX) as u64\<close>.\<close>

definition elapsed_ms :: "nat \<Rightarrow> nat \<Rightarrow> nat" where
  "elapsed_ms started now = nat (min ((int now - int started) div 1000000) (2 ^ 64 - 1))"

definition new_uuid :: "env \<Rightarrow> string jop" where
  "new_uuid E = op_bind draw (\<lambda>n. op_return (uuid_at E n))"

subsection \<open>The context provider\<close>

datatype ContextArtifactOutcome =
    Provider "OpaqueArtifactRef list" string string string
  | Candidate OpaqueArtifactRef string
  | TerminateRun string

definition model_scope_digest :: "env \<Rightarrow> Run \<Rightarrow> Session \<Rightarrow> nat \<Rightarrow> string" where
  "model_scope_digest E run session round_index = ''sha256:'' @ sha256_hex E (fields_bytes
     ([r_id run, s_id session, rp_principal_id (r_principal run), r_registry_snapshot_id run,
       dec round_index] @
      concat (map (\<lambda>g. [cg_operation g, cg_scope g]) (rp_grants (r_principal run)))))"

definition hook_error_codes :: "string list" where
  "hook_error_codes =
    [''http_timeout'', ''http_connect_error'', ''http_transport_error'', ''response_too_large'',
     ''request_too_large'', ''invalid_json'', ''provider_proof_missing'',
     ''provider_authentication_failed'', ''context_hook_kind_mismatch'',
     ''context_provider_binding_mismatch'', ''context_request_correlation_mismatch'',
     ''hook_request_id_mismatch'', ''context_response_run_session_mismatch'',
     ''context_response_scope_mismatch'', ''context_response_candidate_mismatch'',
     ''context_response_immutable_refs_mismatch'', ''artifact_digest_mismatch'']"

definition hook_error_code :: "string \<Rightarrow> string" where
  "hook_error_code message =
    (if contains ''non-empty endpoint'' message then ''endpoint_missing''
     else case find (\<lambda>code. contains code message) hook_error_codes of
         None \<Rightarrow> ''context_provider_failed'' | Some code \<Rightarrow> code)"

fun failure_mode_text :: "HookFailureMode \<Rightarrow> string" where
  "failure_mode_text FailClosed = ''fail_closed''"
| "failure_mode_text FailOpen = ''fail_open''"
| "failure_mode_text Degrade = ''degrade''"
| "failure_mode_text HookDisabled = ''disabled''"

definition closes :: "HookFailureMode \<Rightarrow> bool" where
  "closes m \<longleftrightarrow> m = FailClosed \<or> m = HookDisabled"

text \<open>The guarded exchange with the provider (the closure in the source).\<close>

definition ask_context ::
  "env \<Rightarrow> wire \<Rightarrow> (nat \<Rightarrow> http_request \<Rightarrow> http_outcome) \<Rightarrow> HookConfig \<Rightarrow> ContextHookRequest \<Rightarrow>
   AuthenticatedContextHookResponse jop" where
  "ask_context E C http config request =
    (if hc_kind config \<noteq> ContextPrepareV0 then op_bail ''context_hook_kind_mismatch''
     else op_bind (call_context E C http request config) (\<lambda>a.
       if ax_provider_id a \<noteq> hc_provider_id config then op_bail ''context_provider_binding_mismatch''
       else if ax_request_id a \<noteq> xq_request_id request
       then op_bail ''context_request_correlation_mismatch''
       else op_then (op_lift (validate_context_response E C (ax_response a) request)) (op_return a)))"

definition context_success ::
  "env \<Rightarrow> Run \<Rightarrow> Session \<Rightarrow> nat \<Rightarrow> string \<Rightarrow> nat \<Rightarrow> AuthenticatedContextHookResponse \<Rightarrow>
   ContextArtifactOutcome jop" where
  "context_success E run session round_index request_id duration_ms a =
    (let p = ax_response a in
     op_then (append_event E HookCallRecorded (Some (r_id run)) (Some (s_id session)) (Some request_id)
       (jobj [(''hook'', JStr ''context.prepare.v0''), (''status'', JStr ''ok''),
          (''provider_id'', JStr (ax_provider_id a)), (''request_id'', JStr request_id),
          (''round_index'', jnat round_index), (''scope_digest'', JStr (xp_scope_digest p)),
          (''candidate_digest'', JStr (xp_candidate_digest p)),
          (''immutable_refs_digest'', JStr (xp_immutable_refs_digest p)),
          (''artifact_digests'', JArr (map (JStr \<circ> oa_digest) (xp_artifacts p))),
          (''duration_ms'', jnat duration_ms)]))
     (op_return (Provider (xp_artifacts p) (ax_provider_id a) request_id (xp_candidate_digest p))))"

definition context_failure ::
  "env \<Rightarrow> Run \<Rightarrow> Session \<Rightarrow> nat \<Rightarrow> HookConfig \<Rightarrow> ContextHookRequest \<Rightarrow> nat \<Rightarrow> string \<Rightarrow>
   ContextArtifactOutcome jop" where
  "context_failure E run session round_index config request duration_ms message =
    (let error_code = hook_error_code message; c = xq_candidate request in
     op_then (append_event E HookCallRecorded (Some (r_id run)) (Some (s_id session))
         (Some (xq_request_id request))
       (jobj [(''hook'', JStr ''context.prepare.v0''),
          (''status'', JStr (if closes (hc_failure_mode config) then ''failed'' else ''degraded'')),
          (''provider_id'', JStr (hc_provider_id config)),
          (''request_id'', JStr (xq_request_id request)), (''round_index'', jnat round_index),
          (''scope_digest'', JStr (ci_scope_digest c)),
          (''candidate_digest'', JStr (oa_digest (ci_artifact c))),
          (''immutable_refs_digest'', JStr (ci_immutable_refs_digest c)),
          (''failure_mode'', JStr (failure_mode_text (hc_failure_mode config))),
          (''failure_action'',
             JStr (if closes (hc_failure_mode config) then ''terminate'' else ''candidate'')),
          (''error_code'', JStr error_code), (''duration_ms'', jnat duration_ms)]))
     (op_return (if closes (hc_failure_mode config) then TerminateRun error_code
        else Candidate (ci_artifact c) ''provider_failed_degraded'')))"

definition call_context_artifact_hook ::
  "env \<Rightarrow> wire \<Rightarrow> Runtime \<Rightarrow> AdapterCandidate \<Rightarrow> Run \<Rightarrow> Session \<Rightarrow> nat \<Rightarrow> ContextArtifactOutcome jop" where
  "call_context_artifact_hook E C R candidate run session round_index =
    (let artifact = new_artifact E C (ac_media_type candidate) (ac_bytes candidate);
         candidate_ref = \<lparr>ci_run_id = r_id run, ci_session_id = s_id session,
           ci_scope_digest = model_scope_digest E run session round_index, ci_artifact = artifact,
           ci_immutable_refs = ac_immutable_refs candidate,
           ci_immutable_refs_digest = digest_immutable_refs E (ac_immutable_refs candidate)\<rparr> in
     op_then (op_lift (validate_candidate E C candidate_ref))
     (case (rt_hook_client R, rt_hook_config R) of
        (Some http, Some config) \<Rightarrow>
          if \<not> hc_enabled config then op_return (Candidate artifact ''disabled'')
          else op_bind (new_uuid E) (\<lambda>uuid.
            let request_id = ''context:'' @ r_id run @ '':'' @ dec round_index @ '':'' @ uuid;
                request = \<lparr>xq_request_id = request_id, xq_candidate = candidate_ref\<rparr> in
            op_bind (instant_now R) (\<lambda>started.
            op_bind (op_try (ask_context E C http config request)) (\<lambda>result.
            op_bind (instant_now R) (\<lambda>now.
            let duration_ms = elapsed_ms started now in
            case result of
              Inr a \<Rightarrow> context_success E run session round_index request_id duration_ms a
            | Inl message \<Rightarrow>
                context_failure E run session round_index config request duration_ms message))))
      | _ \<Rightarrow> op_return (Candidate artifact ''not_configured'')))"

subsection \<open>The budget\<close>

record ResolvedBudget =
  rb_decision :: RunBudgetDecision
  rb_hook_id :: string
  rb_hook_version :: string
  rb_source :: string

definition default_budget_hook_id :: string where
  "default_budget_hook_id = ''builtin:run-budget-default-v0''"

definition default_budget_hook_version :: string where
  "default_budget_hook_version = ''v0''"

definition default_budget_decision :: "KernelConfig \<Rightarrow> RunBudgetDecision" where
  "default_budget_decision config =
    (let decision = \<lparr>bd_max_tool_rounds = ucast (kc_max_tool_rounds config),
           bd_max_wall_time_ms = kc_tool_loop_timeout_ms config, bd_exhaustion_action = Yield\<rparr> in
     if isl (validate_against_ceiling decision)
     then \<lparr>bd_max_tool_rounds =
             ucast (min (kc_max_tool_rounds config) (ucast host_max_tool_rounds)),
           bd_max_wall_time_ms = min (kc_tool_loop_timeout_ms config) host_max_wall_time_ms,
           bd_exhaustion_action = Yield\<rparr>
     else decision)"

definition budget_error_codes :: "string list" where
  "budget_error_codes =
    [''http_timeout'', ''http_connect_error'', ''http_transport_error'', ''http_status_4xx'',
     ''http_status_5xx'', ''response_too_large'', ''request_too_large'', ''invalid_json'',
     ''provider_proof_missing'', ''provider_authentication_failed'',
     ''budget_provider_binding_mismatch'', ''budget_request_correlation_mismatch'',
     ''budget_response_request_id_mismatch'', ''budget_response_run_id_mismatch'',
     ''budget_max_tool_rounds_zero'', ''budget_max_tool_rounds_exceeds_ceiling'',
     ''budget_max_wall_time_ms_zero'', ''budget_max_wall_time_ms_exceeds_ceiling'',
     ''unsupported_hook_response'', ''hook_request_id_mismatch'']"

definition budget_error_code :: "string \<Rightarrow> string" where
  "budget_error_code message =
    (case find (\<lambda>code. contains code message) budget_error_codes of
       None \<Rightarrow> ''budget_hook_failed'' | Some code \<Rightarrow> code)"

text \<open>The fields every \<open>RunBudgetResolved\<close> event starts with.\<close>

definition budget_fields :: "env \<Rightarrow> ResolvedBudget \<Rightarrow> (string \<times> json) list" where
  "budget_fields E b = (let d = rb_decision b in
    [(''hook'', JStr ''run.budget.resolve.v0''), (''hook_id'', JStr (rb_hook_id b)),
     (''hook_version'', JStr (rb_hook_version b)), (''source'', JStr (rb_source b)),
     (''decision_digest'', JStr (decision_digest E d)),
     (''max_tool_rounds'', jnat (unat (bd_max_tool_rounds d))),
     (''max_wall_time_ms'', jnat (unat (bd_max_wall_time_ms d))),
     (''exhaustion_action'', JStr (exhaustion_as_str (bd_exhaustion_action d)))])"

definition emit_budget ::
  "env \<Rightarrow> Run \<Rightarrow> Session \<Rightarrow> string option \<Rightarrow> (string \<times> json) list \<Rightarrow> ResolvedBudget \<Rightarrow> ResolvedBudget jop" where
  "emit_budget E run session correlation_id extra b =
    op_then (append_event E RunBudgetResolved (Some (r_id run)) (Some (s_id session)) correlation_id
      (jobj (budget_fields E b @ extra)))
    (op_return b)"

definition ask_budget ::
  "env \<Rightarrow> wire \<Rightarrow> (nat \<Rightarrow> http_request \<Rightarrow> http_outcome) \<Rightarrow> HookConfig \<Rightarrow> RunBudgetHookRequest \<Rightarrow>
   AuthenticatedRunBudgetResponse jop" where
  "ask_budget E C http config request =
    op_bind (call_budget E C http request config) (\<lambda>a.
     if ab_provider_id a \<noteq> hc_provider_id config then op_bail ''budget_provider_binding_mismatch''
     else if ab_request_id a \<noteq> bq_request_id request
     then op_bail ''budget_request_correlation_mismatch''
     else op_then (op_lift (validate_budget_response (ab_response a) request)) (op_return a))"

fun failure_action :: "HookFailureMode \<Rightarrow> string" where
  "failure_action FailClosed = ''fail_closed_terminate''"
| "failure_action HookDisabled = ''disabled_terminate''"
| "failure_action FailOpen = ''fail_open_default''"
| "failure_action Degrade = ''degrade_default''"

definition budget_failure ::
  "env \<Rightarrow> Runtime \<Rightarrow> Run \<Rightarrow> Session \<Rightarrow> HookConfig \<Rightarrow> string \<Rightarrow> nat \<Rightarrow> string \<Rightarrow> ResolvedBudget jop" where
  "budget_failure E R run session config request_id duration_ms message =
    (let error_code = budget_error_code message; mode = hc_failure_mode config in
     op_then (append_event E HookCallRecorded (Some (r_id run)) (Some (s_id session)) (Some request_id)
       (jobj [(''hook'', JStr ''run.budget.resolve.v0''),
          (''status'', JStr (if closes mode then ''failed'' else ''degraded'')),
          (''provider_id'', JStr (hc_provider_id config)), (''request_id'', JStr request_id),
          (''failure_mode'', JStr (failure_mode_text mode)),
          (''failure_action'', JStr (failure_action mode)), (''error_code'', JStr error_code),
          (''duration_ms'', jnat duration_ms)]))
     (if closes mode then op_bail (''budget_hook_failed_closed:'' @ error_code)
      else emit_budget E run session (Some request_id)
        [(''fallback_reason'', JStr error_code), (''duration_ms'', jnat duration_ms)]
        \<lparr>rb_decision = default_budget_decision (rt_config R), rb_hook_id = default_budget_hook_id,
         rb_hook_version = default_budget_hook_version, rb_source = ''default''\<rparr>))"

text \<open>The exchange with an external budget hook, once its credential has been checked.\<close>

definition resolve_external_budget ::
  "env \<Rightarrow> wire \<Rightarrow> Runtime \<Rightarrow> (nat \<Rightarrow> http_request \<Rightarrow> http_outcome) \<Rightarrow> HookConfig \<Rightarrow> HookBinding \<Rightarrow> Run \<Rightarrow>
   Session \<Rightarrow> RegistrySnapshot \<Rightarrow> ResolvedBudget jop" where
  "resolve_external_budget E C R http config binding run session snapshot =
    (let hook_config = config\<lparr>hc_endpoint := hb_endpoint binding,
           hc_provider_id := hb_provider_id binding, hc_kind := RunBudgetResolveV0\<rparr>;
         operations_digest = compute_operations_digest E (map os_name (rs_operations snapshot)) in
     op_bind (new_uuid E) (\<lambda>uuid.
     let request_id = ''budget:'' @ r_id run @ '':'' @ uuid;
         request = \<lparr>bq_request_id = request_id, bq_principal = rp_principal_id (r_principal run),
           bq_session_id = s_id session, bq_run_id = r_id run,
           bq_registry_snapshot_id = r_registry_snapshot_id run,
           bq_operations_digest = operations_digest\<rparr> in
     op_bind (instant_now R) (\<lambda>started.
     op_bind (op_try (ask_budget E C http hook_config request)) (\<lambda>result.
     op_bind (instant_now R) (\<lambda>now.
     let duration_ms = elapsed_ms started now in
     case result of
       Inr a \<Rightarrow> emit_budget E run session (Some request_id) [(''duration_ms'', jnat duration_ms)]
         \<lparr>rb_decision = bp_decision (ab_response a), rb_hook_id = hb_hook_id binding,
          rb_hook_version = hb_hook_version binding, rb_source = ''hook''\<rparr>
     | Inl message \<Rightarrow> budget_failure E R run session hook_config request_id duration_ms message)))))"

definition resolve_run_budget ::
  "env \<Rightarrow> wire \<Rightarrow> Runtime \<Rightarrow> Run \<Rightarrow> Session \<Rightarrow> RegistrySnapshot \<Rightarrow> ResolvedBudget jop" where
  "resolve_run_budget E C R run session snapshot =
    (case hook_binding snapshot budget_hook_contract of
       None \<Rightarrow> op_bail (''budget_hook_binding_missing_or_ambiguous: snapshot has no unique '' @
         ''run.budget.resolve.v0 hook binding'')
     | Some binding \<Rightarrow>
     if trim (hb_hook_id binding) = [] then op_bail ''budget_hook_binding_invalid: empty hook_id''
     else if hb_binding_kind binding = Builtin then
       emit_budget E run session None []
         \<lparr>rb_decision = default_budget_decision (rt_config R), rb_hook_id = hb_hook_id binding,
          rb_hook_version = hb_hook_version binding, rb_source = ''default''\<rparr>
     else case (rt_hook_client R, rt_budget_hook_config R) of
       (Some http, Some config) \<Rightarrow>
         if \<not> hc_enabled config \<or> hc_kind config \<noteq> RunBudgetResolveV0
         then op_bail ''budget_hook_credential_missing: budget hook credential disabled''
         else if hc_provider_id config \<noteq> hb_provider_id binding
         then op_bail (''budget_hook_credential_mismatch: binding provider '' @ hb_provider_id binding @
           '' != credential provider '' @ hc_provider_id config)
         else if hc_shared_secret config = []
         then op_bail ''budget_hook_credential_missing: shared secret empty''
         else if trim (hb_endpoint binding) = []
         then op_bail ''budget_hook_binding_invalid: external binding without endpoint''
         else resolve_external_budget E C R http config binding run session snapshot
     | _ \<Rightarrow> op_bail ''budget_hook_credential_missing: no local budget hook credential configured'')"

subsection \<open>Runs\<close>

definition conversation_kind :: "ChannelKind \<Rightarrow> string option \<Rightarrow> string" where
  "conversation_kind channel chat_type =
    (case channel of
       ChannelKind.Cli \<Rightarrow> ''cli''
     | ChannelKind.Feishu \<Rightarrow>
         if chat_type = Some ''p2p'' then ''p2p''
         else if chat_type = Some ''group'' then ''group'' else [])"

definition create_run_with_principal ::
  "env \<Rightarrow> Runtime \<Rightarrow> Session \<Rightarrow> EventId \<Rightarrow> RunPrincipal \<Rightarrow> string option \<Rightarrow> string \<Rightarrow> RegistrySnapshot \<Rightarrow>
   Run jop" where
  "create_run_with_principal E R session event_id who chat_type snapshot_id snapshot =
    op_bind (utc_now E) (\<lambda>now.
    let owner = augment_grants snapshot (is_coding_owner (rt_config R) who chat_type) who in
    op_bind (op_try (load_active_external_operation_grants E (rp_principal_id owner)
        (channel_debug (s_channel session)) (conversation_kind (s_channel session) chat_type)
        ''principal_channel'' snapshot_id)) (\<lambda>loaded.
    let granted = (case loaded of
          Inl _ \<Rightarrow> owner
        | Inr gs \<Rightarrow> fold (\<lambda>g p. push_grant (xg_operation g) (xg_scope g) p) gs owner) in
    op_bind (new_id E ''run'') (\<lambda>run_id.
    op_return \<lparr>r_id = run_id, r_session_id = s_id session, r_agent_id = kc_agent_id (rt_config R),
      r_trigger_event_id = event_id, r_principal = granted, r_parent_run_id = None,
      r_delegated_by = None, r_status = RunStatus.Running, r_created_at = now, r_updated_at = now,
      r_registry_snapshot_id = snapshot_id, r_mode = Default, r_budget_hook_id = None,
      r_budget_hook_version = None, r_budget_decision_digest = None,
      r_budget_max_tool_rounds = None, r_budget_max_wall_time_ms = None,
      r_budget_exhaustion_action = None\<rparr>)))"

definition create_run ::
  "env \<Rightarrow> Runtime \<Rightarrow> Session \<Rightarrow> ValidatedEvent \<Rightarrow> string \<Rightarrow> RegistrySnapshot \<Rightarrow> Run jop" where
  "create_run E R session event snapshot_id snapshot =
    create_run_with_principal E R session (ve_event_id event) (ve_principal event)
      (ve_chat_type event) snapshot_id snapshot"

definition create_run_frozen ::
  "env \<Rightarrow> Session \<Rightarrow> Run \<Rightarrow> EventId \<Rightarrow> RunId \<Rightarrow> string \<Rightarrow> Run jop" where
  "create_run_frozen E session trigger event_id next_run_id snapshot_id =
    op_bind (utc_now E) (\<lambda>now.
    op_return \<lparr>r_id = next_run_id, r_session_id = s_id session, r_agent_id = r_agent_id trigger,
      r_trigger_event_id = event_id, r_principal = r_principal trigger,
      r_parent_run_id = Some (r_id trigger), r_delegated_by = None, r_status = RunStatus.Running,
      r_created_at = now, r_updated_at = now, r_registry_snapshot_id = snapshot_id, r_mode = Default,
      r_budget_hook_id = None, r_budget_hook_version = None, r_budget_decision_digest = None,
      r_budget_max_tool_rounds = None, r_budget_max_wall_time_ms = None,
      r_budget_exhaustion_action = None\<rparr>)"

text \<open>The resolved budget, frozen onto the run.\<close>

definition freeze_budget :: "env \<Rightarrow> ResolvedBudget \<Rightarrow> Run \<Rightarrow> Run" where
  "freeze_budget E b run = run\<lparr>
     r_budget_hook_id := Some (rb_hook_id b), r_budget_hook_version := Some (rb_hook_version b),
     r_budget_decision_digest := Some (decision_digest E (rb_decision b)),
     r_budget_max_tool_rounds := Some (bd_max_tool_rounds (rb_decision b)),
     r_budget_max_wall_time_ms := Some (bd_max_wall_time_ms (rb_decision b)),
     r_budget_exhaustion_action := Some (bd_exhaustion_action (rb_decision b))\<rparr>"

definition reply_intent :: "Run \<Rightarrow> Session \<Rightarrow> string \<Rightarrow> string option \<Rightarrow> string option \<Rightarrow> InvocationIntent" where
  "reply_intent run session txt message_id chat_id =
    (let or_default = (\<lambda>x. case x of None \<Rightarrow> [] | Some s \<Rightarrow> s) in
     if s_channel session = ChannelKind.Feishu
     then \<lparr>ii_invocation_id = ''reply:'' @ r_id run, ii_run_id = r_id run,
       ii_operation = feishu_send_message,
       ii_arguments = jobj [(''session_id'', JStr (s_id session)),
         (''message_id'', JStr (or_default message_id)), (''chat_id'', JStr (or_default chat_id)),
         (''text'', JStr txt)],
       ii_idempotency_key = Some (''feishu-reply:'' @ r_id run)\<rparr>
     else \<lparr>ii_invocation_id = ''reply:'' @ r_id run, ii_run_id = r_id run,
       ii_operation = stdout_send_text,
       ii_arguments = jobj [(''session_id'', JStr (s_id session)), (''text'', JStr txt)],
       ii_idempotency_key = Some (''stdout-reply:'' @ r_id run)\<rparr>)"

definition ensure_nonblank_reply :: "string \<Rightarrow> string" where
  "ensure_nonblank_reply content =
    (if trim content = [] then ''No reply was generated for this turn.'' else content)"

subsection \<open>The budget of a run\<close>

lemma ceiling_iff:
  "validate_against_ceiling d = Inr () \<longleftrightarrow>
     1 \<le> unat (bd_max_tool_rounds d) \<and> unat (bd_max_tool_rounds d) \<le> 64 \<and>
     1 \<le> unat (bd_max_wall_time_ms d) \<and> unat (bd_max_wall_time_ms d) \<le> 600000"
  by (auto simp: validate_against_ceiling_def host_max_tool_rounds_def host_max_wall_time_ms_def
      word_less_nat_alt unat_eq_0 Suc_le_eq unat_gt_0)

lemma default_decision_within:
  assumes "config_in_range config"
  shows "validate_against_ceiling (default_budget_decision config) = Inr ()"
proof -
  have "unat (ucast (kc_max_tool_rounds config) :: 32 word) = unat (kc_max_tool_rounds config)"
    using assms by (simp add: config_in_range_def unsigned_ucast_eq take_bit_nat_eq_self)
  with assms have "validate_against_ceiling \<lparr>bd_max_tool_rounds = ucast (kc_max_tool_rounds config),
      bd_max_wall_time_ms = kc_tool_loop_timeout_ms config, bd_exhaustion_action = Yield\<rparr> = Inr ()"
    by (simp add: ceiling_iff config_in_range_def tool_loop_timeout_ms_min_def tool_loop_timeout_ms_max_def)
  then show ?thesis by (simp add: default_budget_decision_def)
qed

lemma post_hook_unchanged: "obeys unchanged (post_hook E http name request_id payload config limits)"
  unfolding post_hook_def
  by (intro un.store_intros obeys_intros)
     (auto split: http_outcome.split option.split intro: un.store_intros)

lemma ask_budget_unchanged: "obeys unchanged (ask_budget E C http config request)"
  unfolding ask_budget_def call_budget_def
  by (intro un.store_intros obeys_intros post_hook_unchanged)

lemma ask_budget_valid:
  "ends (ask_budget E C http config request) s
     (\<lambda>r t. case r of Inl _ \<Rightarrow> True | Inr a \<Rightarrow> validate_against_ceiling (bp_decision (ab_response a)) = Inr ())"
proof (rule endsI)
  fix r t assume run: "ask_budget E C http config request s = (r, t)"
  show "case r of Inl _ \<Rightarrow> True | Inr a \<Rightarrow> validate_against_ceiling (bp_decision (ab_response a)) = Inr ()"
  proof (cases r)
    case (Inr a)
    with run have "validate_budget_response (ab_response a) request = Inr ()"
      unfolding ask_budget_def by (auto simp: op_simps split: if_splits sum.splits prod.splits)
    with Inr show ?thesis by (auto simp: validate_budget_response_def split: if_splits)
  qed simp
qed

text \<open>A resolved budget, and the event that records it as the last one of the journal.\<close>

definition budget_resolved ::
  "env \<Rightarrow> Run \<Rightarrow> Session \<Rightarrow> store \<Rightarrow> string + ResolvedBudget \<Rightarrow> store \<Rightarrow> bool" where
  "budget_resolved E run session s r t \<longleftrightarrow> (case r of Inl _ \<Rightarrow> True | Inr b \<Rightarrow>
     validate_against_ceiling (rb_decision b) = Inr () \<and>
     (\<exists>rows row ci extra. journal_events t = journal_events s @ rows @ [row] \<and>
        event_row E RunBudgetResolved (Some (r_id run)) (Some (s_id session)) ci
          (jobj (budget_fields E b @ extra)) row))"

lemma emit_budget_resolves:
  assumes "validate_against_ceiling (rb_decision b) = Inr ()"
    and "\<exists>rows. journal_events u = journal_events s @ rows"
  shows "ends (emit_budget E run session ci extra b) u (budget_resolved E run session s)"
  unfolding emit_budget_def
proof (rule ends_thenI [OF append_event_appended])
  fix x t
  assume "appended_event E RunBudgetResolved (Some (r_id run)) (Some (s_id session)) ci
    (jobj (budget_fields E b @ extra)) u (Inr x) t"
  with assms show "ends (op_return b) t (budget_resolved E run session s)"
    by (auto simp: ends_rules budget_resolved_def appended_event_def) blast
qed (simp add: budget_resolved_def)

lemma instant_now_unchanged: "obeys unchanged (instant_now R)"
  unfolding instant_now_def by (intro un.store_intros)

lemma new_uuid_unchanged: "obeys unchanged (new_uuid E)"
  unfolding new_uuid_def by (intro un.store_intros)

lemma budget_failure_resolves:
  assumes "config_in_range (rt_config R)" and "journal_events u = journal_events s"
  shows "ends (budget_failure E R run session config request_id ms message) u (budget_resolved E run session s)"
  unfolding budget_failure_def Let_def
proof (rule ends_thenI [OF append_event_appended], goal_cases)
  case (2 x t)
  then have "\<exists>rows. journal_events t = journal_events s @ rows"
    using assms(2) by (auto simp: appended_event_def)
  with default_decision_within [OF assms(1)] show ?case
    by (auto simp: ends_bail budget_resolved_def [of _ _ _ _ "Inl _"] intro!: emit_budget_resolves)
qed (simp add: budget_resolved_def)

lemma resolve_external_resolves:
  assumes "config_in_range (rt_config R)"
  shows "ends (resolve_external_budget E C R http config binding run session snapshot) s
    (budget_resolved E run session s)"
  unfolding resolve_external_budget_def Let_def
proof (rule ends_bind_unchanged [OF new_uuid_unchanged], goal_cases)
  case (2 uuid t1)
  show ?case
  proof (rule ends_bind_unchanged [OF instant_now_unchanged], goal_cases)
    case (2 started t2)
    have asked: "ends (ask_budget E C http config' request) t2 (\<lambda>r t. unchanged t2 t \<and>
        (case r of Inl _ \<Rightarrow> True | Inr a \<Rightarrow> validate_against_ceiling (bp_decision (ab_response a)) = Inr ()))"
      for config' request
      by (rule ends_conj [OF ends_obeys [OF ask_budget_unchanged] ask_budget_valid])
    note before = 2 \<open>unchanged s t1\<close>
    show ?case
    proof (rule ends_bind_try [OF asked], goal_cases)
      case (1 r t3)
      show ?case
      proof (rule ends_bind_unchanged [OF instant_now_unchanged], goal_cases)
        case (2 now t4)
        have same: "journal_events t4 = journal_events s"
          using before 1 2 by (auto dest!: unchangedD(1))
        show ?case
        proof (cases r)
          case (Inl message)
          with budget_failure_resolves [OF assms same] show ?thesis by simp
        next
          case (Inr a)
          with 1 same show ?thesis by (auto intro!: emit_budget_resolves)
        qed
      qed (simp add: budget_resolved_def)
    qed
  qed (simp add: budget_resolved_def)
qed (simp add: budget_resolved_def)

lemma resolve_run_budget_resolves:
  assumes "config_in_range (rt_config R)"
  shows "ends (resolve_run_budget E C R run session snapshot) s (budget_resolved E run session s)"
  unfolding resolve_run_budget_def
  using resolve_external_resolves [OF assms] default_decision_within [OF assms]
  by (auto simp: ends_rules budget_resolved_def [of _ _ _ _ "Inl _"] intro!: emit_budget_resolves
      split: option.split)

subsection \<open>The grants of a run\<close>

lemma granted_fold:
  "granted_operations (fold (\<lambda>g p. push_grant (xg_operation g) (xg_scope g) p) gs p) =
     granted_operations p \<union> xg_operation ` set gs"
  by (induction gs arbitrary: p) auto

definition extends :: "RunPrincipal \<Rightarrow> RunPrincipal \<Rightarrow> bool" where
  "extends p q \<longleftrightarrow> prefix (rp_grants p) (rp_grants q) \<and> rp_principal_id q = rp_principal_id p"

lemma extends_refl [simp]: "extends p p"
  by (simp add: extends_def)

lemma extends_trans: "extends p q \<Longrightarrow> extends q r \<Longrightarrow> extends p r"
  by (auto simp: extends_def intro: prefix_order.trans)

lemma extends_push [simp]: "extends p (push_grant op_name scope p)"
  by (simp add: extends_def push_grant_prefix) (simp add: push_grant_def)

lemma extends_fold: "(\<And>x q. extends q (f x q)) \<Longrightarrow> extends p (fold f xs p)"
  by (rule fold_invariant [where Q = "\<lambda>_. True"]) (auto intro: extends_trans)

lemma extends_augment: "extends p (augment_grants snapshot is_owner p)"
  by (simp add: augment_grants_def extends_fold)

lemma load_grants_outcome:
  "ends (load_active_external_operation_grants E who channel kind scope snapshot) s
     (\<lambda>r t. unchanged s t \<and> (case r of Inl _ \<Rightarrow> \<exists>n. fault_at E n
       | Inr gs \<Rightarrow> xg_operation ` set gs = {op_name. (op_name, who, channel, kind, scope, snapshot) \<in> authorised s}))"
proof -
  have "obeys unchanged (load_active_external_operation_grants E who channel kind scope snapshot)"
    unfolding load_active_external_operation_grants_def lock_def
    by (intro un.store_intros obeys_intros)
  moreover have "ends (load_active_external_operation_grants E who channel kind scope snapshot) s
    (\<lambda>r t. isl r \<longrightarrow> (\<exists>n. fault_at E n))"
    by (auto simp: load_active_external_operation_grants_def lock_def ends_rules draw_def)
  ultimately show ?thesis
    using load_grants_effect [of E who channel kind scope snapshot s]
    by (cases "load_active_external_operation_grants E who channel kind scope snapshot s")
       (auto simp: ends_def dest: obeysD split: sum.splits)
qed

subsection \<open>Properties\<close>


definition sample_runtime :: Runtime where
  "sample_runtime = \<lparr>rt_config = sample_config\<lparr>kc_extra_allowed_operations := [''system.status''],
       kc_tool_loop_timeout_ms := 1000, kc_max_tool_rounds := 2,
       kc_context_prepare_hook := default_hook_config\<lparr>hc_kind := ContextPrepareV0\<rparr>,
       kc_budget_hook := default_hook_config\<lparr>hc_kind := RunBudgetResolveV0\<rparr>\<rparr>,
     rt_llm = local_echo_client sample_env sample_wire sample_port, rt_hook_client = None,
     rt_hook_config = None, rt_budget_hook_config = None, rt_instant_at = (\<lambda>n. n),
     rt_millis_text = (\<lambda>_. ''2026-01-01T00:00:00.000Z'')\<rparr>"

definition sample_bound :: RegistrySnapshot where
  "sample_bound = sample_snapshot\<lparr>rs_hook_bindings := builtin_hook_bindings\<rparr>"

definition sample_budget :: "(string + ResolvedBudget) \<times> store" where
  "sample_budget = resolve_run_budget sample_env sample_wire sample_runtime sample_granted_run
     sample_session sample_bound empty_store"


text \<open>The operations the coding owner gets from a snapshot, and those the grant table holds for a
principal on a channel.\<close>

definition owner_operations :: "RegistrySnapshot \<Rightarrow> string set" where
  "owner_operations snapshot = {os_name op_spec | op_spec. op_spec \<in> set (rs_operations snapshot) \<and>
     os_binding_kind op_spec = External \<and> os_name op_spec \<in> set owner_development_operations}"

definition entitled ::
  "Runtime \<Rightarrow> RunPrincipal \<Rightarrow> string option \<Rightarrow> RegistrySnapshot \<Rightarrow> string set" where
  "entitled R who chat_type snapshot = granted_operations who \<union>
     (if is_coding_owner (rt_config R) who chat_type then owner_operations snapshot else {})"

definition table_grants ::
  "store \<Rightarrow> RunPrincipal \<Rightarrow> Session \<Rightarrow> string option \<Rightarrow> string \<Rightarrow> string set" where
  "table_grants s who session chat_type snapshot_id =
     {op_name. (op_name, rp_principal_id who, channel_debug (s_channel session),
        conversation_kind (s_channel session) chat_type, ''principal_channel'', snapshot_id) \<in> authorised s}"

lemma draws:
  "ends (utc_now E) s (\<lambda>r t. \<not> isl r \<and> unchanged s t)"
  "ends (new_id E px) s (\<lambda>r t. \<not> isl r \<and> unchanged s t)"
  by (simp_all add: utc_now_def new_id_def draw_def ends_def op_simps)

text \<open>C34: A new run starts with exactly the authority its principal, the owner rule and the grant
table give: the principal's own grants come first and in order, the owner's development operations
are added only for the configured owner in a private chat, and the active grants of the table for
this principal, channel, conversation kind and snapshot are added unless reading the table failed,
which removes them all and nothing else. Creating the run never fails and writes nothing.\<close>

theorem run_grants_exact:
  assumes "create_run_with_principal E R session event_id who chat_type snapshot_id snapshot s = (r, t)"
  shows "unchanged s t \<and> (\<exists>run. r = Inr run \<and> r_registry_snapshot_id run = snapshot_id \<and>
     prefix (rp_grants who) (rp_grants (r_principal run)) \<and>
     rp_principal_id (r_principal run) = rp_principal_id who \<and>
     (granted_operations (r_principal run) =
        entitled R who chat_type snapshot \<union> table_grants s who session chat_type snapshot_id \<or>
      granted_operations (r_principal run) = entitled R who chat_type snapshot \<and> (\<exists>n. fault_at E n)))"
proof -
  let ?owner = "augment_grants snapshot (is_coding_owner (rt_config R) who chat_type) who"
  let ?add = "\<lambda>gs. fold (\<lambda>g p. push_grant (xg_operation g) (xg_scope g) p) gs ?owner"
  have owner: "granted_operations ?owner = entitled R who chat_type snapshot"
    "rp_principal_id ?owner = rp_principal_id who" "extends who ?owner"
    using extends_augment [of who] by (auto simp: augment_grants_operations entitled_def owner_operations_def extends_def)
  have kept: "extends who (?add gs)" for gs
    by (rule extends_trans [OF owner(3)]) (simp add: extends_fold)
  define Q where "Q = (\<lambda>run :: Run. r_registry_snapshot_id run = snapshot_id \<and> extends who (r_principal run) \<and>
     (granted_operations (r_principal run) =
        entitled R who chat_type snapshot \<union> table_grants s who session chat_type snapshot_id \<or>
      granted_operations (r_principal run) = entitled R who chat_type snapshot \<and> (\<exists>n. fault_at E n)))"
  have "ends (create_run_with_principal E R session event_id who chat_type snapshot_id snapshot) s
    (\<lambda>r t. unchanged s t \<and> (\<exists>run. r = Inr run \<and> Q run))"
    unfolding create_run_with_principal_def Let_def
  proof (rule ends_bindI [OF draws(1)], goal_cases)
    case (2 now u)
    then have "unchanged s u" by simp
    then obtain n where "u = s\<lparr>tick := n\<rparr>" by (auto simp: unchanged_def)
    then have table: "authorised u = authorised s" by (simp add: authorised_def)
    show ?case
    proof (rule ends_bind_try [OF load_grants_outcome], goal_cases)
      case (1 loaded v)
      then have "unchanged s v" using \<open>unchanged s u\<close> by (blast intro: unchanged_trans)
      show ?case
      proof (rule ends_bindI [OF draws(2)], goal_cases)
        case (2 run_id w)
        with \<open>unchanged s v\<close> have "unchanged s w" by (blast intro: unchanged_trans)
        then show ?case
        proof (cases loaded)
          case (Inl e)
          with 1 \<open>unchanged s w\<close> owner show ?thesis by (simp add: ends_return Q_def)
        next
          case (Inr gs)
          with 1 table have "xg_operation ` set gs = table_grants s who session chat_type snapshot_id"
            by (simp add: table_grants_def owner(2))
          with Inr \<open>unchanged s w\<close> owner kept show ?thesis by (simp add: ends_return Q_def granted_fold)
        qed
      qed simp
    qed
  qed simp
  from endsD [OF this assms] show ?thesis by (auto simp: Q_def extends_def)
qed

definition sample_granted :: store where
  "sample_granted = snd (create_external_operation_grant sample_env
     (sample_grant\<lparr>gp_grantee := rp_principal_id sample_principal, gp_snapshot_id := ''snap_1''\<rparr>) empty_store)"

lemma run_grants_exact_witness:
  "\<exists>run t. create_run_with_principal sample_env sample_runtime sample_session ''event_1'' sample_principal
       None ''snap_1'' sample_snapshot sample_granted = (Inr run, t) \<and>
     granted_operations (r_principal run) =
       entitled sample_runtime sample_principal None sample_snapshot \<union>
       table_grants sample_granted sample_principal sample_session None ''snap_1''"
  using run_grants_exact [of sample_env sample_runtime sample_session "''event_1''" sample_principal
       None "''snap_1''" sample_snapshot sample_granted, OF prod.collapse [symmetric]]
  by (auto simp: prod_eq_iff)

end
