(* ===== verification/Model_Invocation.thy ===== *)
theory Model_Invocation
  imports Run_Hooks Model_Records
begin

section \<open>Invocations of the model\<close>

text \<open>
  \<open>src/src/runtime/model_invocation.rs\<close>, the only way the runtime calls the model: the context
  provider is asked first, the input must fit the token budget, a started fact is recorded before
  the call and one terminal fact after it, and the payload of the client is bound to that fact.
\<close>

subsection \<open>Labels\<close>

text \<open>
  \<open>char::is_control\<close> on the bytes of a text: the C0 codes, DEL, and the C1 codes, which are the byte
  \<open>0xC2\<close> followed by one of \<open>0x80\<close> to \<open>0x9F\<close>.
\<close>

fun has_control :: "string \<Rightarrow> bool" where
  "has_control [] = False"
| "has_control (c # s) =
    (of_char c < (32 :: nat) \<or> of_char c = (127 :: nat) \<or>
     (of_char c = (194 :: nat) \<and> (case s of [] \<Rightarrow> False | d # _ \<Rightarrow> of_char d < (160 :: nat))) \<or>
     has_control s)"

definition safe_optional_label :: "string \<Rightarrow> string option" where
  "safe_optional_label v =
    (let v = trim v in if v = [] \<or> 128 < length v \<or> has_control v then None else Some v)"

definition safe_label :: "string \<Rightarrow> string \<Rightarrow> string" where
  "safe_label v fallback = (case safe_optional_label v of None \<Rightarrow> fallback | Some s \<Rightarrow> s)"

definition safe_category :: "string \<Rightarrow> string" where
  "safe_category v =
    (if v \<in> {''model_config_required'', ''model_response_parse_failed'', ''model_timeout'',
         ''model_request_failed''} then v
     else case strip_prefix ''model_http_'' v of
         Some code \<Rightarrow>
           if length code = 3 \<and> list_all ascii_digit code then v else ''model_request_failed''
       | None \<Rightarrow> ''model_request_failed'')"

definition bind_legacy_receipt :: "json \<Rightarrow> string \<Rightarrow> string \<Rightarrow> string \<Rightarrow> json" where
  "bind_legacy_receipt payload invocation_id receipt_id receipt_event_id =
    (let members = (case payload of JObj m \<Rightarrow> m | _ \<Rightarrow> minsert ''legacy_payload'' payload []) in
     JObj (minsert ''model_receipt_event_id'' (JStr receipt_event_id)
       (minsert ''model_receipt_id'' (JStr receipt_id)
         (minsert ''model_invocation_id'' (JStr invocation_id) members))))"

subsection \<open>The facts of a call\<close>

text \<open>What the facts of one call have in common.\<close>

record model_call =
  mc_run :: Run
  mc_session :: Session
  mc_round :: nat
  mc_profile :: string
  mc_provider :: string
  mc_model :: string

definition mc_invocation_id :: "model_call \<Rightarrow> string" where
  "mc_invocation_id c = ''model:'' @ r_id (mc_run c) @ '':'' @ dec (mc_round c)"

definition mc_receipt_id :: "model_call \<Rightarrow> string" where
  "mc_receipt_id c = ''model-receipt:'' @ mc_invocation_id c"

definition new_call :: "Runtime \<Rightarrow> Run \<Rightarrow> Session \<Rightarrow> nat \<Rightarrow> model_call" where
  "new_call R run session round_index =
    \<lparr>mc_run = run, mc_session = session, mc_round = round_index,
     mc_profile = safe_label (kc_agent_id (rt_config R)) ''default'',
     mc_provider = safe_label (lc_provider_hint (rt_llm R)) ''unknown'',
     mc_model = safe_label (lc_model_hint (rt_llm R)) ''unknown''\<rparr>"

definition record_fact :: "env \<Rightarrow> JournalEventKind \<Rightarrow> model_call \<Rightarrow> (string \<times> json) list \<Rightarrow> JournalEvent jop" where
  "record_fact E kind c members =
    record_model_invocation_event E kind (r_id (mc_run c)) (s_id (mc_session c)) (mc_invocation_id c)
      (jobj ([(''schema_version'', JStr (storage_name kind)), (''run_id'', JStr (r_id (mc_run c))),
         (''invocation_id'', JStr (mc_invocation_id c)), (''profile'', JStr (mc_profile c))] @ members))"

definition budget_receipt_fields :: "HardBudgetReceipt \<Rightarrow> (string \<times> json) list" where
  "budget_receipt_fields b =
    [(''input_tokens'', jnat (hb_input_tokens b)),
     (''reserved_output_tokens'', jnat (hb_reserved_output_tokens b)),
     (''context_window_tokens'', jnat (hb_context_window_tokens b))]"

text \<open>
  The artifacts to materialise, with what the started fact says of the context: the provider, its
  request, the digest of the candidate and the status of the hook.
\<close>

fun context_parts :: "ContextArtifactOutcome \<Rightarrow> string + (OpaqueArtifactRef list \<times> (string \<times> json) list)" where
  "context_parts (Provider artifacts provider_id request_id digest) = Inr (artifacts,
     [(''context_provider_id'', JStr provider_id), (''context_request_id'', JStr request_id),
      (''context_hook_status'', JStr ''provider''), (''candidate_digest'', JStr digest)])"
| "context_parts (Candidate artifact status) = Inr ([artifact],
     [(''context_provider_id'', JStr ''kernel-bound-candidate''), (''context_request_id'', JNull),
      (''context_hook_status'', JStr status), (''candidate_digest'', JStr (oa_digest artifact))])"
| "context_parts (TerminateRun error_code) = Inl (''context_hook_terminated:'' @ error_code)"

definition record_started ::
  "env \<Rightarrow> model_call \<Rightarrow> string \<Rightarrow> bool \<Rightarrow> (string \<times> json) list \<Rightarrow> OpaqueArtifactRef list \<Rightarrow> HardBudgetReceipt \<Rightarrow>
   JournalEvent jop" where
  "record_started E c started permitted context artifacts budget =
    record_fact E ModelInvocationStarted c
      ([(''requested_provider'', JStr (mc_provider c)), (''requested_model'', JStr (mc_model c)),
        (''started_at'', JStr started), (''round_index'', jnat (mc_round c)),
        (''model_call_permitted'', JBool permitted)] @ context @
       [(''artifact_digests'', JArr (map (JStr \<circ> oa_digest) artifacts))] @
       budget_receipt_fields budget)"

definition record_failed ::
  "env \<Rightarrow> model_call \<Rightarrow> string \<Rightarrow> string \<Rightarrow> string \<Rightarrow> string \<Rightarrow> nat \<Rightarrow> string \<Rightarrow> (string \<times> json) list \<Rightarrow> JournalEvent jop" where
  "record_failed E c provider model started finished latency reason extra =
    record_fact E ModelInvocationFailed c
      ([(''receipt_id'', JStr (mc_receipt_id c)), (''provider'', JStr provider), (''model'', JStr model),
        (''started_at'', JStr started), (''finished_at'', JStr finished), (''latency_ms'', jnat latency),
        (''error_category'', JStr reason), (''round_index'', jnat (mc_round c))] @ extra)"

definition record_completed ::
  "env \<Rightarrow> model_call \<Rightarrow> string \<Rightarrow> string \<Rightarrow> string \<Rightarrow> string \<Rightarrow> nat \<Rightarrow> LlmOutput \<Rightarrow> JournalEvent jop" where
  "record_completed E c provider model started finished latency out =
    (let usage = normalized_usage out in
     record_fact E ModelInvocationCompleted c
       [(''receipt_id'', JStr (mc_receipt_id c)), (''provider'', JStr provider), (''model'', JStr model),
        (''started_at'', JStr started), (''finished_at'', JStr finished), (''latency_ms'', jnat latency),
        (''input_tokens'', jnat_opt (mu_input_tokens usage)),
        (''cached_input_tokens'', jnat_opt (mu_cached_input_tokens usage)),
        (''output_tokens'', jnat_opt (mu_output_tokens usage)),
        (''reasoning_tokens'', jnat_opt (mu_reasoning_tokens usage)),
        (''total_tokens'', jnat_opt (mu_total_tokens usage)),
        (''finish_reason'', (case Option.bind (finish_reason out) safe_optional_label of
           None \<Rightarrow> JNull | Some s \<Rightarrow> JStr s)),
        (''error_category'', JNull), (''estimated_cost'', jcost_opt (mu_estimated_cost usage)),
        (''provider_usage_extensions'', mu_provider_usage_extensions usage),
        (''round_index'', jnat (mc_round c))])"

subsection \<open>The call\<close>

definition millis_now :: "env \<Rightarrow> Runtime \<Rightarrow> string jop" where
  "millis_now E R = op_bind (utc_now E) (\<lambda>now. op_return (rt_millis_text R now))"

text \<open>\<open>saturating_duration_since\<close> in milliseconds, \<open>as u64\<close>.\<close>

definition remaining_ms :: "nat \<Rightarrow> nat \<Rightarrow> 64 word" where
  "remaining_ms deadline now = word_of_nat ((deadline - now) div 1000000)"

definition deadline_guard :: "Runtime \<Rightarrow> nat option \<Rightarrow> unit jop" where
  "deadline_guard R deadline = (case deadline of
     None \<Rightarrow> op_return ()
   | Some d \<Rightarrow> op_bind (instant_now R) (\<lambda>now.
       if d - now = 0 then op_bail ''run_deadline_exceeded:no_new_llm_invocation'' else op_return ()))"

definition bound_input :: "Runtime \<Rightarrow> nat option \<Rightarrow> LlmInput \<Rightarrow> LlmInput jop" where
  "bound_input R deadline i = (case deadline of
     None \<Rightarrow> op_return i
   | Some d \<Rightarrow> op_bind (instant_now R) (\<lambda>now. op_return
       (if 0 < remaining_ms d now
        then i\<lparr>li_timeout_override_ms :=
               Some (min (remaining_ms d now) (max (kc_model_timeout_ms (rt_config R)) 1))\<rparr>
        else i)))"

definition record_terminal ::
  "env \<Rightarrow> model_call \<Rightarrow> string \<Rightarrow> string \<Rightarrow> nat \<Rightarrow> LlmOutput \<Rightarrow> LlmOutput jop" where
  "record_terminal E c started finished latency out =
    (let provider = safe_label (lo_provider out) ''unknown''; model = safe_label (lo_model out) ''unknown'' in
     op_bind (case failure_category out of
         Some reason \<Rightarrow>
           record_failed E c provider model started finished latency (safe_category reason) []
       | None \<Rightarrow> record_completed E c provider model started finished latency out) (\<lambda>terminal.
     let payload = bind_legacy_receipt (lo_journal_payload out) (mc_invocation_id c) (mc_receipt_id c)
           (je_event_id terminal) in
     op_then (append_event E LlmCompleted (Some (r_id (mc_run c))) (Some (s_id (mc_session c)))
       (Some (mc_invocation_id c)) payload)
     (op_return (out\<lparr>lo_journal_payload := payload\<rparr>))))"

definition call_model ::
  "env \<Rightarrow> Runtime \<Rightarrow> model_call \<Rightarrow> string \<Rightarrow> nat option \<Rightarrow> LlmInput \<Rightarrow> LlmOutput jop" where
  "call_model E R c started deadline i =
    op_bind (bound_input R deadline i) (\<lambda>i.
    op_bind (instant_now R) (\<lambda>timer.
    op_bind draw (\<lambda>n.
    let result = lc_complete (rt_llm R) n i in
    op_bind (instant_now R) (\<lambda>now.
    op_bind (millis_now E R) (\<lambda>finished.
    case result of
      Inl _ \<Rightarrow> op_then (record_failed E c (mc_provider c) (mc_model c) started finished
          (elapsed_ms timer now) ''model_client_error'' [])
        (op_bail ''model invocation failed'')
    | Inr out \<Rightarrow> record_terminal E c started finished (elapsed_ms timer now) out)))))"

definition refuse_call ::
  "env \<Rightarrow> Runtime \<Rightarrow> model_call \<Rightarrow> string \<Rightarrow> (string \<times> json) list \<Rightarrow> OpaqueArtifactRef list \<Rightarrow> HardBudgetReceipt \<Rightarrow>
   LlmOutput jop" where
  "refuse_call E R c started context artifacts budget =
    op_then (record_started E c started False context artifacts budget)
    (op_bind (millis_now E R) (\<lambda>finished.
     op_then (record_failed E c (mc_provider c) (mc_model c) started finished 0
       ''model_input_over_budget'' ((''model_called'', JBool False) # budget_receipt_fields budget))
     (op_bail ''model_input_over_budget'')))"

definition complete_model_invocation ::
  "env \<Rightarrow> wire \<Rightarrow> Runtime \<Rightarrow> Run \<Rightarrow> Session \<Rightarrow> nat \<Rightarrow> LlmInput \<Rightarrow> nat option \<Rightarrow> LlmOutput jop" where
  "complete_model_invocation E C R run session round_index i deadline =
    op_then (deadline_guard R deadline)
    (let c = new_call R run session round_index in
     op_bind (op_lift (lc_stage_candidate (rt_llm R) i)) (\<lambda>candidate.
     op_bind (call_context_artifact_hook E C R candidate run session round_index) (\<lambda>outcome.
     op_bind (op_lift (context_parts outcome)) (\<lambda>(artifacts, context).
     op_bind (op_lift (lc_materialize_context (rt_llm R) candidate artifacts)) (\<lambda>materialized.
     op_bind (millis_now E R) (\<lambda>started.
     case materialized of
       OverBudget budget \<Rightarrow> refuse_call E R c started context artifacts budget
     | Ready j budget \<Rightarrow>
         op_then (record_started E c started True context artifacts budget)
           (call_model E R c started deadline j)))))))"

subsection \<open>What a call leaves in the journal\<close>

text \<open>The journal grows, and the facts of model invocations stay in order.\<close>

definition grows :: "store \<Rightarrow> store \<Rightarrow> bool" where
  "grows s t \<longleftrightarrow> prefix (journal_events s) (journal_events t) \<and>
     (facts_ok (journal_events s) \<longrightarrow> facts_ok (journal_events t))"

interpretation gr: store_frame grows
proof
  show "grows s s" for s by (simp add: grows_def)
  show "grows s u" if "grows s t" "grows t u" for s t u
    using that unfolding grows_def by (blast intro: prefix_order.trans)
  show "grows s (s\<lparr>tick := n\<rparr>)" for s n by (simp add: grows_def)
qed

lemma grows_unchanged: "unchanged s t \<Longrightarrow> grows s t"
  by (simp add: grows_def unchangedD)

lemma grows_append:
  assumes "storage_name k \<notin> set fact_kinds"
  shows "obeys grows (append_event E k ri si ci p)"
proof (rule obeysI)
  fix s
  obtain r t where run: "append_event E k ri si ci p s = (r, t)" by (cases "append_event E k ri si ci p s")
  from endsD [OF append_event_appended run] assms show "grows s (snd (append_event E k ri si ci p s))"
    by (cases r) (auto simp: run appended_event_def unchangedD grows_def facts_ok_snoc
        fact_allowed_def event_row_def)
qed

lemma grows_record: "obeys grows (record_fact E k c ms)"
proof (rule obeysI)
  fix s
  obtain r t where run: "record_fact E k c ms s = (r, t)" by (cases "record_fact E k c ms s")
  from endsD [OF recording run [unfolded record_fact_def]] show "grows s (snd (record_fact E k c ms s))"
    by (cases r) (auto simp: run recorded_def grows_def facts_ok_snoc)
qed

lemma obeys_weaken: "obeys R m \<Longrightarrow> (\<And>s t. R s t \<Longrightarrow> S s t) \<Longrightarrow> obeys S m"
  by (simp add: obeys_def)

lemma ask_context_unchanged: "obeys unchanged (ask_context E C http config request)"
  unfolding ask_context_def call_context_def
  by (intro un.store_intros obeys_intros post_hook_unchanged)

context store_frame
begin

lemma frame_instant: "obeys R (instant_now rt)"
  unfolding instant_now_def by (intro store_intros)

lemma frame_uuid: "obeys R (new_uuid E)"
  unfolding new_uuid_def by (intro store_intros)

lemma frame_millis: "obeys R (millis_now E rt)"
  unfolding millis_now_def by (intro store_intros)

lemmas clock_intros = frame_instant frame_uuid frame_millis

end

lemma other_kinds:
  "storage_name HookCallRecorded \<notin> set fact_kinds" "storage_name LlmCompleted \<notin> set fact_kinds"
  by (simp_all add: storage_name_def started_kind_def completed_kind_def failed_kind_def)

lemma grows_context: "obeys grows (call_context_artifact_hook E C R candidate run session n)"
  unfolding call_context_artifact_hook_def context_success_def context_failure_def
  by (intro gr.store_intros obeys_intros gr.clock_intros grows_append other_kinds
      obeys_weaken [OF ask_context_unchanged grows_unchanged])

lemma grows_guard: "obeys grows (deadline_guard R deadline)"
  unfolding deadline_guard_def by (intro gr.store_intros obeys_intros gr.clock_intros)

lemma grows_call: "obeys grows (call_model E R c started deadline i)"
  unfolding call_model_def bound_input_def record_terminal_def record_failed_def record_completed_def
  by (intro gr.store_intros obeys_intros gr.clock_intros grows_append other_kinds grows_record)

lemma grows_refuse: "obeys grows (refuse_call E R c started context artifacts budget)"
  unfolding refuse_call_def record_started_def record_failed_def
  by (intro gr.store_intros obeys_intros gr.clock_intros grows_record)

lemma obeys_materialization [obeys_intros]:
  "(\<And>j b. obeys R (f j b)) \<Longrightarrow> (\<And>b. obeys R (g b)) \<Longrightarrow>
   obeys R (case m of Ready j b \<Rightarrow> f j b | OverBudget b \<Rightarrow> g b)"
  by (cases m) simp_all

lemma grows_complete: "obeys grows (complete_model_invocation E C R run session n i deadline)"
  unfolding complete_model_invocation_def record_started_def
  by (intro gr.store_intros obeys_intros gr.clock_intros grows_guard grows_context grows_record
      grows_refuse grows_call)

subsection \<open>The outcome of a call\<close>

lemma bound_payload:
  "str_field (bind_legacy_receipt p i r e) ''model_receipt_event_id'' = Some e"
  "k \<in> {''status'', ''error_category''} \<Longrightarrow> str_field (bind_legacy_receipt p i r e) k = str_field p k"
  by (cases p; simp add: bind_legacy_receipt_def str_field_def Let_def; fail)+
     (cases p; auto simp: bind_legacy_receipt_def str_field_def Let_def)

lemma failure_category_bound [simp]:
  "failure_category (out\<lparr>lo_journal_payload := bind_legacy_receipt (lo_journal_payload out) i r e\<rparr>) =
   failure_category out"
  by (simp add: failure_category_def bound_payload)

definition terminal_kind :: "LlmOutput \<Rightarrow> JournalEventKind" where
  "terminal_kind out = (if failure_category out = None then ModelInvocationCompleted else ModelInvocationFailed)"

definition call_recorded :: "env \<Rightarrow> model_call \<Rightarrow> LlmOutput \<Rightarrow> store \<Rightarrow> bool" where
  "call_recorded E c out t \<longleftrightarrow> (\<exists>rows row terminal. journal_events t = rows @ [row] \<and>
     event_row E LlmCompleted (Some (r_id (mc_run c))) (Some (s_id (mc_session c)))
       (Some (mc_invocation_id c)) (lo_journal_payload out) row \<and>
     terminal \<in> set rows \<and> jr_correlation_id terminal = Some (mc_invocation_id c) \<and>
     jr_kind terminal = storage_name (terminal_kind out) \<and>
     str_field (lo_journal_payload out) ''model_receipt_event_id'' = Some (jr_event_id terminal))"

lemma terminal_fact:
  "ends (case failure_category out of
       Some reason \<Rightarrow> record_failed E c p m started finished latency (safe_category reason) []
     | None \<Rightarrow> record_completed E c p m started finished latency out) s
     (\<lambda>r t. \<forall>e. r = Inr e \<longrightarrow> (\<exists>row \<in> set (journal_events t).
        jr_correlation_id row = Some (mc_invocation_id c) \<and> jr_kind row = storage_name (terminal_kind out) \<and>
        jr_event_id row = je_event_id e))"
proof -
  have "ends (record_fact E kind c ms) s (\<lambda>r t. \<forall>e. r = Inr e \<longrightarrow> (\<exists>row \<in> set (journal_events t).
        jr_correlation_id row = Some (mc_invocation_id c) \<and> jr_kind row = storage_name kind \<and>
        jr_event_id row = je_event_id e))" for kind ms
    unfolding record_fact_def by (rule ends_use [OF recording]) (auto simp: recorded_def fact_row_def)
  then show ?thesis
    by (simp add: record_failed_def record_completed_def Let_def terminal_kind_def split: option.split)
qed

lemma record_terminal_records:
  "ends (record_terminal E c started finished latency out) s (\<lambda>r t. \<forall>o'. r = Inr o' \<longrightarrow> call_recorded E c o' t)"
  unfolding record_terminal_def Let_def
proof (rule ends_bindI [OF terminal_fact], goal_cases)
  case (2 e u)
  then obtain terminal where terminal: "terminal \<in> set (journal_events u)"
    "jr_correlation_id terminal = Some (mc_invocation_id c)"
    "jr_kind terminal = storage_name (terminal_kind out)" "je_event_id e = jr_event_id terminal" by metis
  show ?case
  proof (rule ends_thenI [OF append_event_appended], goal_cases)
    case (2 x t)
    with terminal show ?case
      by (auto simp: ends_rules call_recorded_def appended_event_def bound_payload terminal_kind_def)
  qed simp
qed simp

text \<open>What holds whenever an operation returns a value, whatever it started from.\<close>

definition gives :: "('s, 'a) op \<Rightarrow> ('a \<Rightarrow> 's \<Rightarrow> bool) \<Rightarrow> bool" where
  "gives m P \<longleftrightarrow> (\<forall>s. ends m s (\<lambda>r t. \<forall>x. r = Inr x \<longrightarrow> P x t))"

lemma givesI: "(\<And>s. ends m s (\<lambda>r t. \<forall>x. r = Inr x \<longrightarrow> P x t)) \<Longrightarrow> gives m P"
  by (simp add: gives_def)

lemma givesD: "gives m P \<Longrightarrow> m s = (Inr x, t) \<Longrightarrow> P x t"
  using endsD [of m s "\<lambda>r t. \<forall>x. r = Inr x \<longrightarrow> P x t"] by (simp add: gives_def)

lemma gives_bind: "(\<And>x. gives (f x) P) \<Longrightarrow> gives (op_bind m f) P"
  unfolding gives_def by (auto simp: ends_bind intro: ends_use [OF endsI] split: sum.split)

lemma gives_then: "gives m' P \<Longrightarrow> gives (op_then m m') P"
  unfolding gives_def by (auto simp: ends_then intro: ends_use [OF endsI] split: sum.split)

lemma gives_bail: "gives (op_bail e) P"
  by (simp add: gives_def ends_rules)

lemmas gives_intros = gives_bind gives_then gives_bail

lemma call_model_records: "gives (call_model E R c started deadline i) (call_recorded E c)"
  unfolding call_model_def Let_def
  by (intro gives_intros)
     (auto intro!: gives_intros givesI [OF record_terminal_records] split: sum.split)

lemma complete_records:
  "gives (complete_model_invocation E C R run session n i deadline) (call_recorded E (new_call R run session n))"
  unfolding complete_model_invocation_def refuse_call_def Let_def
  by (intro gives_intros)
     (auto intro!: gives_intros call_model_records split: ModelMaterialization.split prod.split)

subsection \<open>What is sent to the model\<close>

text \<open>Two operations that end alike unless the first one ends in a state with \<open>Q\<close>.\<close>

definition same_until :: "('s \<Rightarrow> bool) \<Rightarrow> ('s, 'a) op \<Rightarrow> ('s, 'a) op \<Rightarrow> 's \<Rightarrow> bool" where
  "same_until Q m m' s \<longleftrightarrow> m s = m' s \<or> Q (snd (m s))"

lemma same_until_refl [simp]: "same_until Q m m s"
  by (simp add: same_until_def)

lemma same_until_bind:
  "(\<And>x t. m s = (Inr x, t) \<Longrightarrow> same_until Q (f x) (f' x) t) \<Longrightarrow>
   same_until Q (op_bind m f) (op_bind m f') s"
  by (auto simp: same_until_def op_bind_def split: prod.splits sum.splits)

lemma same_until_then:
  "(\<And>x t. m s = (Inr x, t) \<Longrightarrow> same_until Q n n' t) \<Longrightarrow> same_until Q (op_then m n) (op_then m n') s"
  unfolding op_then_def by (rule same_until_bind)

lemma same_until_reached:
  assumes "obeys R m" and "\<And>t. R s t \<Longrightarrow> Q t"
  shows "same_until Q m m' s"
  using assms obeysD [OF assms(1), of s "fst (m s)" "snd (m s)"] by (simp add: same_until_def)

definition start_recorded :: "model_call \<Rightarrow> store \<Rightarrow> bool" where
  "start_recorded c t \<longleftrightarrow> (\<exists>row \<in> set (journal_events t).
     jr_correlation_id row = Some (mc_invocation_id c) \<and> jr_kind row = started_kind)"

lemma started_recorded:
  "gives (record_started E c started permitted context artifacts budget) (\<lambda>_. start_recorded c)"
  unfolding record_started_def record_fact_def
  by (rule givesI, rule ends_use [OF recording])
     (auto simp: recorded_def fact_row_def start_recorded_def kind_names)

lemma start_kept: "start_recorded c s \<Longrightarrow> grows s t \<Longrightarrow> start_recorded c t"
  by (auto simp: start_recorded_def grows_def prefix_def)

lemma call_after_start:
  "same_until (start_recorded (new_call R run session n))
     (complete_model_invocation E C R run session n i deadline)
     (complete_model_invocation E C (R\<lparr>rt_llm := (rt_llm R)\<lparr>lc_complete := f\<rparr>\<rparr>) run session n i deadline) s"
proof -
  let ?R = "R\<lparr>rt_llm := (rt_llm R)\<lparr>lc_complete := f\<rparr>\<rparr>"
  have parts: "instant_now ?R = instant_now R" "rt_hook_client ?R = rt_hook_client R"
    "rt_hook_config ?R = rt_hook_config R" "lc_stage_candidate (rt_llm ?R) = lc_stage_candidate (rt_llm R)"
    "lc_materialize_context (rt_llm ?R) = lc_materialize_context (rt_llm R)" "new_call ?R = new_call R"
    "millis_now E ?R = millis_now E R"
    by (simp_all add: instant_now_def new_call_def millis_now_def fun_eq_iff)
  have same: "deadline_guard ?R = deadline_guard R" "refuse_call E ?R = refuse_call E R"
    "call_context_artifact_hook E C ?R = call_context_artifact_hook E C R"
    unfolding fun_eq_iff deadline_guard_def call_context_artifact_hook_def refuse_call_def parts
    by (rule allI refl)+
  have called: "same_until (start_recorded c)
      (op_then (record_started E c started permitted ctx artifacts budget) m)
      (op_then (record_started E c started permitted ctx artifacts budget) m') u"
    if "obeys grows m" for c started permitted ctx artifacts budget m m' u
    by (rule same_until_then, rule same_until_reached [OF that])
       (blast intro: start_kept givesD [OF started_recorded])
  show ?thesis
    unfolding complete_model_invocation_def same parts Let_def
    by (rule same_until_then, rule same_until_bind, rule same_until_bind, rule same_until_bind)
       (auto intro!: same_until_bind called grows_call split: ModelMaterialization.split prod.split)
qed

subsection \<open>Properties\<close>

text \<open>
  C38: The journal accounts for every call of the model. Whatever the provider, the context hook and
  the database do, a call only appends to the journal and keeps the order of the facts; when it
  returns an answer, the invocation has exactly its start and one outcome there, failed when the
  client reports an error and completed otherwise, and the last event carries the payload of the
  answer, bound to the row of that outcome.
\<close>

theorem model_call_recorded:
  assumes ok: "facts_ok (journal_events s)"
    and run: "complete_model_invocation E C R run session n i deadline s = (r, t)"
  shows "prefix (journal_events s) (journal_events t) \<and> facts_ok (journal_events t) \<and>
    (\<forall>out. r = Inr out \<longrightarrow> call_recorded E (new_call R run session n) out t \<and>
       map jr_kind (facts_of (''model:'' @ r_id run @ '':'' @ dec n) fact_kinds (journal_events t)) =
         [started_kind, storage_name (terminal_kind out)])"
proof -
  from obeysD [OF grows_complete run] ok
  have t: "prefix (journal_events s) (journal_events t)" "facts_ok (journal_events t)"
    by (simp_all add: grows_def)
  have "map jr_kind (facts_of (''model:'' @ r_id run @ '':'' @ dec n) fact_kinds (journal_events t)) =
         [started_kind, storage_name (terminal_kind out)]"
    if "call_recorded E (new_call R run session n) out t" for out
  proof -
    let ?i = "''model:'' @ r_id run @ '':'' @ dec n"
    have names: "storage_name (terminal_kind out) \<in> {completed_kind, failed_kind}"
      by (simp add: terminal_kind_def kind_names)
    from that obtain row where "row \<in> set (journal_events t)" "jr_correlation_id row = Some ?i"
      "jr_kind row = storage_name (terminal_kind out)"
      unfolding call_recorded_def mc_invocation_id_def new_call_def
      by (force simp del: append.simps)
    with names have "storage_name (terminal_kind out) \<in> set (map jr_kind (facts_of ?i fact_kinds (journal_events t)))"
      by (force simp: facts_of_def)
    with facts_shape [OF t(2), of ?i] names kind_names(4) show ?thesis by auto
  qed
  with t givesD [OF complete_records] run show ?thesis by blast
qed

definition quick_env :: env where
  "quick_env = sample_env\<lparr>sha256_hex := \<lambda>_. replicate 64 (CHR ''0''), json_text := \<lambda>_. ''{}''\<rparr>"

definition sample_model_runtime :: Runtime where
  "sample_model_runtime = sample_runtime\<lparr>rt_llm := (local_echo_client quick_env sample_wire sample_port)
     \<lparr>lc_materialize_context := \<lambda>_ _. Inr (Ready sample_input \<lparr>hb_input_tokens = 1,
        hb_reserved_output_tokens = 1, hb_context_window_tokens = 4\<rparr>)\<rparr>\<rparr>"

definition sample_invocation :: "(string + LlmOutput) \<times> store" where
  "sample_invocation = complete_model_invocation quick_env sample_wire sample_model_runtime
     sample_granted_run sample_session 0 sample_input None empty_store"

theorem model_call_recorded_witness:
  "\<exists>out. fst sample_invocation = Inr out \<and>
     map jr_kind (facts_of (''model:'' @ r_id sample_granted_run @ '':'' @ dec 0) fact_kinds
       (journal_events (snd sample_invocation))) = [started_kind, completed_kind]"
proof -
  have "case fst sample_invocation of Inl _ \<Rightarrow> False | Inr out \<Rightarrow> failure_category out = None" by code_simp
  then obtain out where o: "fst sample_invocation = Inr out" "failure_category out = None"
    by (cases "fst sample_invocation") auto
  then have run: "sample_invocation = (Inr out, snd sample_invocation)" by (simp add: prod_eq_iff)
  have "facts_ok (journal_events empty_store)" by (simp add: empty_store_def)
  note model_call_recorded [OF this run [unfolded sample_invocation_def], folded sample_invocation_def]
  then have "map jr_kind (facts_of (''model:'' @ r_id sample_granted_run @ '':'' @ dec 0) fact_kinds
      (journal_events (snd sample_invocation))) = [started_kind, storage_name (terminal_kind out)]" by blast
  also have "storage_name (terminal_kind out) = completed_kind" by (simp add: terminal_kind_def o kind_names)
  finally show ?thesis using o(1) by simp
qed


definition sample_refusal :: "(string + LlmOutput) \<times> store" where
  "sample_refusal = complete_model_invocation quick_env sample_wire
     (sample_model_runtime\<lparr>rt_llm := (rt_llm sample_model_runtime)\<lparr>lc_complete := \<lambda>_ _. Inl ''down''\<rparr>\<rparr>)
     sample_granted_run sample_session 0 sample_input None empty_store"


end
