(* ===== verification/Harness_Manifests.thy ===== *)
theory Harness_Manifests
  imports Registry_Properties Text_Parsing Gateway_Ingress Journal_Logic
begin

section \<open>Manifests of external harnesses\<close>

text \<open>
  \<open>src/src/harness/manifest.rs\<close>, the manifests of \<open>journal/harness_ops.rs\<close>, and
  \<open>journal/harness_activation_ops.rs\<close>: what a manifest says of a harness, the checks it must pass, how
  it is stored under the digest of its content, and how an operator puts the operation of a harness
  into the active snapshot and takes it out again. An error message that shows a value in debug
  format keeps only its fixed text.
\<close>

subsection \<open>Manifests\<close>

record HarnessManifest =
  hm_manifest_id :: string
  hm_harness_id :: string
  hm_artifact_digest :: string
  hm_protocol_version :: string
  hm_endpoint :: string
  hm_operation_name :: string
  hm_description :: string
  hm_input_schema :: json
  hm_output_schema :: json
  hm_idempotent :: bool
  hm_created_at :: instant

record ParsedEndpoint =
  pe_scheme :: string
  pe_host :: string
  pe_port :: nat
  pe_path :: string

definition manifest_json :: "HarnessManifest \<Rightarrow> json" where
  "manifest_json m = jobj
    [(''harness_id'', JStr (hm_harness_id m)), (''artifact_digest'', JStr (hm_artifact_digest m)),
     (''protocol_version'', JStr (hm_protocol_version m)), (''endpoint'', JStr (hm_endpoint m)),
     (''operation_name'', JStr (hm_operation_name m)), (''description'', JStr (hm_description m)),
     (''input_schema'', hm_input_schema m), (''output_schema'', hm_output_schema m),
     (''idempotent'', JBool (hm_idempotent m))]"

definition compute_manifest_id :: "env \<Rightarrow> HarnessManifest \<Rightarrow> string" where
  "compute_manifest_id E m = ''manifest_'' @ sha256_hex E (json_text E (manifest_json m))"

text \<open>The text before the first separator, and the text from it on.\<close>

definition split_path :: "string \<Rightarrow> string \<times> string" where
  "split_path s = (if CHR ''/'' \<in> set s
     then (takeWhile (\<lambda>c. c \<noteq> CHR ''/'') s, dropWhile (\<lambda>c. c \<noteq> CHR ''/'') s) else (s, ''/''))"

definition split_port :: "string \<Rightarrow> string \<times> string option" where
  "split_port s = (case split_once (CHR '':'') s of
     None \<Rightarrow> (s, None) | Some (host, port) \<Rightarrow> (host, Some port))"

definition parse_endpoint :: "HarnessManifest \<Rightarrow> string + ParsedEndpoint" where
  "parse_endpoint m =
    ebind (ok_or ''endpoint must start with http://'' (strip_prefix ''http://'' (hm_endpoint m)))
     (\<lambda>without_scheme.
     if CHR ''@'' \<in> set without_scheme then Inl ''endpoint must not contain userinfo''
     else let (host_port, path) = split_path without_scheme in
     if take 1 path \<noteq> ''/'' then Inl ''endpoint path must be absolute''
     else if CHR ''?'' \<in> set path then Inl ''endpoint must not contain query string''
     else if CHR ''#'' \<in> set path then Inl ''endpoint must not contain fragment''
     else let (host, port_str) = split_port host_port in
     if host = [] then Inl ''endpoint host is empty''
     else if host \<notin> {''127.0.0.1'', ''localhost'', ''[::1]'', ''::1''}
     then Inl ''endpoint host is not a loopback address''
     else ebind (ok_or ''endpoint must have an explicit port'' port_str) (\<lambda>port_text.
       ebind (ok_or ''endpoint port is not a valid u16'' (parse_uint (2 ^ 16) port_text)) (\<lambda>port.
       Inr \<lparr>pe_scheme = ''http'', pe_host = host, pe_port = port, pe_path = path\<rparr>)))"

definition validate_endpoint :: "HarnessManifest \<Rightarrow> string + unit" where
  "validate_endpoint m = ebind (parse_endpoint m) (\<lambda>_. Inr ())"

definition validate_operation_name :: "HarnessManifest \<Rightarrow> string + unit" where
  "validate_operation_name m =
    require (prefix ''external.'' (hm_operation_name m)) (''operation name must start with 'external.'' @ [CHR 0x27])"

definition validate_artifact_digest :: "HarnessManifest \<Rightarrow> string + unit" where
  "validate_artifact_digest m = (case strip_prefix ''sha256:'' (hm_artifact_digest m) of
     None \<Rightarrow> Inl (''artifact_digest must start with 'sha256:'' @ [CHR 0x27])
   | Some hex_part \<Rightarrow> require (length hex_part = 64 \<and> list_all ascii_hexdigit hex_part)
       (''artifact_digest must have exactly 64 hex characters after 'sha256:'' @ [CHR 0x27]))"

definition harness_protocol :: string where
  "harness_protocol = ''external-harness-v1''"

definition validate_protocol_version :: "HarnessManifest \<Rightarrow> string + unit" where
  "validate_protocol_version m = require (hm_protocol_version m = harness_protocol)
     (''protocol_version must be 'external-harness-v1'' @ [CHR 0x27])"

definition validate_schemas :: "env \<Rightarrow> HarnessManifest \<Rightarrow> string + unit" where
  "validate_schemas E m =
    (case validate_schema_structure E (hm_input_schema m) of
       Inl e \<Rightarrow> Inl (''input_schema invalid: '' @ e)
     | Inr _ \<Rightarrow> (case validate_schema_structure E (hm_output_schema m) of
           Inl e \<Rightarrow> Inl (''output_schema invalid: '' @ e)
         | Inr _ \<Rightarrow> Inr ()))"

definition validate_all :: "env \<Rightarrow> HarnessManifest \<Rightarrow> string + unit" where
  "validate_all E m = ebind (validate_endpoint m) (\<lambda>_. ebind (validate_operation_name m) (\<lambda>_.
     ebind (validate_artifact_digest m) (\<lambda>_. ebind (validate_protocol_version m) (\<lambda>_.
     validate_schemas E m))))"

subsection \<open>The table\<close>

definition manifest_row :: "env \<Rightarrow> HarnessManifest \<Rightarrow> string \<Rightarrow> ManifestRow" where
  "manifest_row E m content_digest =
    \<lparr>mf_manifest_id = hm_manifest_id m, mf_harness_id = hm_harness_id m,
     mf_artifact_digest = hm_artifact_digest m, mf_protocol_version = hm_protocol_version m,
     mf_endpoint = hm_endpoint m, mf_operation_name = hm_operation_name m,
     mf_description = hm_description m, mf_input_schema_json = json_text E (hm_input_schema m),
     mf_output_schema_json = json_text E (hm_output_schema m),
     mf_idempotent = (if hm_idempotent m then 1 else 0), mf_created_at = hm_created_at m,
     mf_canonical_digest = content_digest\<rparr>"

definition manifest_with :: "ManifestRow \<Rightarrow> json \<Rightarrow> json \<Rightarrow> HarnessManifest" where
  "manifest_with r input output =
    \<lparr>hm_manifest_id = mf_manifest_id r, hm_harness_id = mf_harness_id r,
     hm_artifact_digest = mf_artifact_digest r, hm_protocol_version = mf_protocol_version r,
     hm_endpoint = mf_endpoint r, hm_operation_name = mf_operation_name r,
     hm_description = mf_description r, hm_input_schema = input, hm_output_schema = output,
     hm_idempotent = (mf_idempotent r \<noteq> 0), hm_created_at = mf_created_at r\<rparr>"

definition insert_manifest :: "ManifestRow \<Rightarrow> unit jop" where
  "insert_manifest r =
    op_bind (op_query harness_manifests) (\<lambda>t.
    if list_ex (\<lambda>r'. mf_manifest_id r' = mf_manifest_id r \<or>
        mf_canonical_digest r' = mf_canonical_digest r) t
    then op_bail constraint_error
    else op_update (\<lambda>s. s\<lparr>harness_manifests := t @ [r]\<rparr>))"

definition manifest_by_id :: "string \<Rightarrow> ManifestRow option jop" where
  "manifest_by_id i = op_query (\<lambda>s. find (\<lambda>r. mf_manifest_id r = i) (harness_manifests s))"

definition manifest_by_operation :: "string \<Rightarrow> ManifestRow option jop" where
  "manifest_by_operation n = op_query (\<lambda>s. find (\<lambda>r. mf_operation_name r = n) (harness_manifests s))"

text \<open>A single statement whose failure reads as no row (\<open>query_row(...).ok()\<close>).\<close>

definition row_or_none :: "env \<Rightarrow> 'a option jop \<Rightarrow> 'a option jop" where
  "row_or_none E q = op_bind (op_try (tx E q)) (\<lambda>r.
     op_return (case r of Inl _ \<Rightarrow> None | Inr row \<Rightarrow> row))"

definition registered_payload :: "HarnessManifest \<Rightarrow> json" where
  "registered_payload m = jobj
    [(''manifest_id'', JStr (hm_manifest_id m)), (''harness_id'', JStr (hm_harness_id m)),
     (''artifact_digest'', JStr (hm_artifact_digest m)),
     (''operation_name'', JStr (hm_operation_name m)),
     (''protocol_version'', JStr (hm_protocol_version m))]"

definition register_harness_manifest :: "env \<Rightarrow> HarnessManifest \<Rightarrow> string jop" where
  "register_harness_manifest E m =
    op_then (op_lift (validate_all E m))
    (let computed = compute_manifest_id E m; i = hm_manifest_id m in
     if i \<noteq> computed then op_bail (''manifest_id mismatch: got '' @ i @ '', computed '' @ computed)
     else op_then (lock E)
     (op_bind (row_or_none E (manifest_by_id i)) (\<lambda>existing.
      case existing of
        Some r \<Rightarrow>
          if mf_canonical_digest r \<noteq> computed
          then op_bail (''manifest_id '' @ i @ '' already registered with different content'')
          else op_return i
      | None \<Rightarrow>
          op_bind (row_or_none E (manifest_by_operation (hm_operation_name m))) (\<lambda>op_exists.
          case op_exists of
            Some r \<Rightarrow> op_bail (''operation '' @ hm_operation_name m @
              '' is already registered by manifest '' @ mf_manifest_id r)
          | None \<Rightarrow>
              op_then (tx E (insert_manifest (manifest_row E m computed)))
              (op_then (append_event E HarnessManifestRegistered None None (Some i)
                 (registered_payload m))
               (op_return i))))))"

definition insert_manifest_row_tx :: "env \<Rightarrow> HarnessManifest \<Rightarrow> string \<Rightarrow> string jop" where
  "insert_manifest_row_tx E m content_digest =
    op_then (insert_manifest (manifest_row E m content_digest))
    (op_then (append_event_tx E HarnessManifestRegistered None None (Some (hm_manifest_id m))
       (registered_payload m))
     (op_return (hm_manifest_id m)))"

definition register_harness_manifest_in_tx :: "env \<Rightarrow> HarnessManifest \<Rightarrow> string jop" where
  "register_harness_manifest_in_tx E m =
    (let i = hm_manifest_id m; content_digest = compute_manifest_id E m in
     op_bind (manifest_by_id i) (\<lambda>existing.
     case existing of
       None \<Rightarrow> insert_manifest_row_tx E m content_digest
     | Some r \<Rightarrow>
         op_bind (op_lift (ok_or (''corrupt_persisted_input_schema:'' @ i)
           (json_parse E (mf_input_schema_json r)))) (\<lambda>input.
         op_bind (op_lift (ok_or (''corrupt_persisted_output_schema:'' @ i)
           (json_parse E (mf_output_schema_json r)))) (\<lambda>output.
         let persisted = manifest_with r input output;
             recomputed = compute_manifest_id E persisted in
         if recomputed \<noteq> mf_canonical_digest r
         then op_bail (''corrupt_persisted_canonical_digest:'' @ i @ '': stored='' @
           mf_canonical_digest r @ '' recomputed='' @ recomputed)
         else if mf_manifest_id r \<noteq> recomputed
         then op_bail (''corrupt_persisted_manifest_id:'' @ i @ '': stored='' @ mf_manifest_id r @
           '' recomputed='' @ recomputed)
         else if content_digest \<noteq> mf_canonical_digest r
         then op_bail (''manifest_identity_conflict: incoming digest '' @ content_digest @
           '' != stored '' @ mf_canonical_digest r)
         else if i \<noteq> mf_manifest_id r
         then op_bail (''manifest_identity_conflict: incoming id '' @ i @ '' != stored '' @
           mf_manifest_id r)
         else if persisted\<lparr>hm_manifest_id := i\<rparr> \<noteq> m
         then op_bail (''manifest_identity_conflict: manifest_id '' @ i @
           '' already registered with different content'')
         else op_return i))))"

definition register_harness_manifest_replace_tx :: "env \<Rightarrow> HarnessManifest \<Rightarrow> string jop" where
  "register_harness_manifest_replace_tx E m =
    (let i = hm_manifest_id m; content_digest = compute_manifest_id E m in
     op_bind (manifest_by_id i) (\<lambda>existing.
     case existing of
       None \<Rightarrow> insert_manifest_row_tx E m content_digest
     | Some r \<Rightarrow>
         if mf_canonical_digest r = content_digest then op_return i
         else op_bail (''manifest_reuse_conflict: '' @ i @ '' stored digest '' @
           mf_canonical_digest r @ '' != '' @ content_digest)))"

definition manifest_of_row :: "env \<Rightarrow> ManifestRow \<Rightarrow> string + HarnessManifest" where
  "manifest_of_row E r =
    ebind (ok_or (''invalid input_schema_json for '' @ mf_manifest_id r)
      (json_parse E (mf_input_schema_json r))) (\<lambda>input.
    ebind (ok_or (''invalid output_schema_json for '' @ mf_manifest_id r)
      (json_parse E (mf_output_schema_json r))) (\<lambda>output.
    if mf_protocol_version r \<noteq> harness_protocol
    then Inl (''invalid protocol_version for '' @ mf_manifest_id r)
    else let m = manifest_with r input output in
      if hm_manifest_id m \<noteq> compute_manifest_id E m
      then Inl (''manifest '' @ mf_manifest_id r @
        '': stored manifest_id does not match recomputed digest'')
      else Inr m))"

definition read_manifest :: "env \<Rightarrow> ManifestRow option \<Rightarrow> HarnessManifest option jop" where
  "read_manifest E row = (case row of
     None \<Rightarrow> op_return None
   | Some r \<Rightarrow> op_bind (op_lift (manifest_of_row E r)) (\<lambda>m. op_return (Some m)))"

definition load_harness_manifest :: "env \<Rightarrow> string \<Rightarrow> HarnessManifest option jop" where
  "load_harness_manifest E i =
    op_then (lock E) (op_bind (row_or_none E (manifest_by_id i)) (read_manifest E))"

definition load_harness_manifest_in_tx :: "env \<Rightarrow> string \<Rightarrow> HarnessManifest option jop" where
  "load_harness_manifest_in_tx E i = op_bind (manifest_by_id i) (read_manifest E)"

subsection \<open>Enabling and disabling\<close>

record RegistryActivationResult =
  ra_previous_snapshot_id :: string
  ra_active_snapshot_id :: string
  ra_changed :: bool

definition harness_change_payload ::
  "string \<Rightarrow> string \<Rightarrow> string \<Rightarrow> string \<Rightarrow> string \<Rightarrow> string \<Rightarrow> json" where
  "harness_change_payload action manifest_id operation_name expected new decision_id = jobj
    [(''action'', JStr action), (''manifest_id'', JStr manifest_id),
     (''operation_name'', JStr operation_name), (''previous_snapshot_id'', JStr expected),
     (''new_snapshot_id'', JStr new), (''decision_id'', JStr decision_id)]"

definition activate_registry_snapshot_atomic ::
  "env \<Rightarrow> string \<Rightarrow> string \<Rightarrow> string \<Rightarrow> string \<Rightarrow> string \<Rightarrow> string \<Rightarrow> unit jop" where
  "activate_registry_snapshot_atomic E new expected decision_id action manifest_id operation_name =
    op_then
      (tx E (op_bind (op_query registry_state) (\<lambda>row.
        case row of
          None \<Rightarrow> op_bail ''registry_state not initialized''
        | Some r \<Rightarrow>
            if st_active_snapshot_id r \<noteq> expected
            then op_bail (''snapshot_conflict: registry_state has '' @ st_active_snapshot_id r @
              '', expected '' @ expected)
            else
              op_bind (utc_now E) (\<lambda>now.
              op_bind (update_registry_state (st_version r) \<lparr>st_active_snapshot_id = new,
                st_version = st_version r + 1, st_updated_at = now\<rparr>) (\<lambda>changed.
              if changed = 0 then op_bail ''snapshot_conflict: version CAS failed''
              else op_then (append_event_tx E RegistrySnapshotActivated None None (Some decision_id)
                  (harness_change_payload action manifest_id operation_name expected new decision_id))
                (op_return ()))))))
      (set_cache (Some new))"

text \<open>What both changes begin with: the manifest, and the current snapshot if it is the expected one.\<close>

definition harness_change_start ::
  "env \<Rightarrow> HarnessChangeIntent \<Rightarrow> (HarnessManifest \<times> RegistrySnapshot) jop" where
  "harness_change_start E intent =
    op_bind (load_harness_manifest E (hc_manifest_id intent)) (\<lambda>found.
    op_bind (op_lift (ok_or (''manifest not found: '' @ hc_manifest_id intent) found)) (\<lambda>m.
    op_bind current_registry_snapshot_id (\<lambda>current.
    if current \<noteq> hc_expected_snapshot_id intent
    then op_bail (''snapshot_conflict: expected '' @ hc_expected_snapshot_id intent @
      '', current '' @ current)
    else op_bind (load_registry_snapshot E current) (\<lambda>snap. op_return (m, snap)))))"

definition switch_snapshot ::
  "env \<Rightarrow> ApprovedHarnessChange \<Rightarrow> string \<Rightarrow> HarnessManifest \<Rightarrow> RegistrySnapshot \<Rightarrow> OperationSpec list \<Rightarrow>
   RegistryActivationResult jop" where
  "switch_snapshot E approved action m current_snap new_specs =
    (let intent = ah_intent approved; current = rs_snapshot_id current_snap in
     op_bind (create_registry_snapshot_with_hook_bindings E new_specs (rs_hook_bindings current_snap))
       (\<lambda>new_snapshot.
     let new = rs_snapshot_id new_snapshot in
     op_then (activate_registry_snapshot_atomic E new (hc_expected_snapshot_id intent)
       (ah_decision_id approved) action (hc_manifest_id intent) (hm_operation_name m))
     (op_return \<lparr>ra_previous_snapshot_id = current, ra_active_snapshot_id = new, ra_changed = True\<rparr>)))"

definition unchanged_result :: "RegistrySnapshot \<Rightarrow> RegistryActivationResult" where
  "unchanged_result snap = \<lparr>ra_previous_snapshot_id = rs_snapshot_id snap,
     ra_active_snapshot_id = rs_snapshot_id snap, ra_changed = False\<rparr>"

definition external_spec :: "HarnessManifest \<Rightarrow> string \<Rightarrow> OperationSpec" where
  "external_spec m manifest_id =
    \<lparr>os_name = hm_operation_name m,
     os_risk = (case coding_operation_risk (hm_operation_name m) of None \<Rightarrow> Write | Some r \<Rightarrow> r),
     os_description = hm_description m, os_parameters = hm_input_schema m,
     os_idempotent = hm_idempotent m, os_binding_kind = External, os_binding_key = manifest_id\<rparr>"

definition enable_harness :: "env \<Rightarrow> ApprovedHarnessChange \<Rightarrow> RegistryActivationResult jop" where
  "enable_harness E approved =
    op_bind (harness_change_start E (ah_intent approved)) (\<lambda>(m, snap).
    if snapshot_lookup snap (hm_operation_name m) \<noteq> None then op_return (unchanged_result snap)
    else switch_snapshot E approved ''enable'' m snap
      (rs_operations snap @ [external_spec m (hc_manifest_id (ah_intent approved))]))"

definition disable_harness :: "env \<Rightarrow> ApprovedHarnessChange \<Rightarrow> RegistryActivationResult jop" where
  "disable_harness E approved =
    op_bind (harness_change_start E (ah_intent approved)) (\<lambda>(m, snap).
    if snapshot_lookup snap (hm_operation_name m) = None then op_return (unchanged_result snap)
    else switch_snapshot E approved ''disable'' m snap
      (filter (\<lambda>op_spec. os_name op_spec \<noteq> hm_operation_name m) (rs_operations snap)))"

subsection \<open>Endpoints\<close>

lemma split_once_before: "split_once sep s = Some (a, b) \<Longrightarrow> sep \<notin> set a"
  by (auto simp: split_once_def dest: set_takeWhileD split: if_splits)

lemma split_port_host: "split_port s = (host, Some port) \<Longrightarrow> CHR '':'' \<notin> set host"
  by (auto simp: split_port_def split_once_before split: option.splits)

lemma parse_endpoint_parts:
  assumes "parse_endpoint m = Inr p"
  shows "pe_host p \<in> {''127.0.0.1'', ''localhost''}" "pe_port p < 2 ^ 16" "take 1 (pe_path p) = ''/''"
    "CHR ''?'' \<notin> set (pe_path p)" "CHR ''#'' \<notin> set (pe_path p)"
proof -
  from assms obtain host_port path host port_text where parts:
    "take 1 path = ''/''" "CHR ''?'' \<notin> set path" "CHR ''#'' \<notin> set path"
    "split_port host_port = (host, Some port_text)"
    "host \<in> {''127.0.0.1'', ''localhost'', ''[::1]'', ''::1''}"
    "parse_uint (2 ^ 16) port_text = Some (pe_port p)" "pe_host p = host" "pe_path p = path"
    unfolding parse_endpoint_def
    by (auto simp: Let_def elim!: ebind_InrD split: prod.splits if_splits)
  from split_port_host [OF parts(4)] parts(5,7) show "pe_host p \<in> {''127.0.0.1'', ''localhost''}" by auto
  from parse_uint_bound [OF parts(6)] show "pe_port p < 2 ^ 16" by simp
  from parts show "take 1 (pe_path p) = ''/''" "CHR ''?'' \<notin> set (pe_path p)" "CHR ''#'' \<notin> set (pe_path p)"
    by simp_all
qed

subsection \<open>Manifests in the table\<close>

lemma row_or_none_InrD:
  "row_or_none E (op_query q) s = (Inr row, t) \<Longrightarrow>
   unchanged s t \<and> (\<forall>r. row = Some r \<longrightarrow> q (s\<lparr>tick := Suc (tick s)\<rparr>) = Some r)"
  by (auto simp: row_or_none_def op_simps tx_def Let_def unchanged_def split: if_splits sum.splits prod.splits)

lemma lock_unchanged: "lock E s = (r, t) \<Longrightarrow> unchanged s t"
  by (auto simp: lock_run unchanged_def split: if_splits)

lemma unchanged_manifests: "unchanged s t \<Longrightarrow> harness_manifests t = harness_manifests s"
  by (cases s; cases t) (simp add: unchanged_def)

lemma load_manifest_InrD:
  assumes "load_harness_manifest E i s = (Inr found, t)"
  shows "unchanged s t" and "found = Some m \<Longrightarrow>
    \<exists>r. find (\<lambda>r. mf_manifest_id r = i) (harness_manifests s) = Some r \<and> manifest_of_row E r = Inr m"
proof -
  from assms obtain u row v where steps: "lock E s = (Inr (), u)"
    "row_or_none E (manifest_by_id i) u = (Inr row, v)" "read_manifest E row v = (Inr found, t)"
    unfolding load_harness_manifest_def op_then_def by (auto elim!: op_bind_InrD)
  have su: "unchanged s u" using lock_unchanged [OF steps(1)] .
  note uv = row_or_none_InrD [OF steps(2) [unfolded manifest_by_id_def]]
  have "unchanged v t" using steps(3)
    by (auto simp: read_manifest_def op_simps split: option.splits sum.splits)
  with su uv show "unchanged s t" by (blast intro: unchanged_trans)
  have "harness_manifests u = harness_manifests s" using su by (rule unchanged_manifests)
  with uv steps(3) show "\<exists>r. find (\<lambda>r. mf_manifest_id r = i) (harness_manifests s) = Some r \<and>
      manifest_of_row E r = Inr m" if "found = Some m"
    using that by (auto simp: read_manifest_def op_simps split: option.splits sum.splits)
qed

lemma manifest_of_row_named:
  assumes "manifest_of_row E r = Inr m"
  shows "hm_manifest_id m = mf_manifest_id r" "compute_manifest_id E m = mf_manifest_id r"
    "hm_protocol_version m = harness_protocol"
proof -
  from assms obtain x y where "m = manifest_with r x y"
    "mf_protocol_version r = harness_protocol" "hm_manifest_id m = compute_manifest_id E m"
    unfolding manifest_of_row_def by (auto simp: Let_def elim!: ebind_InrD split: if_splits)
  then show "hm_manifest_id m = mf_manifest_id r" "compute_manifest_id E m = mf_manifest_id r"
    "hm_protocol_version m = harness_protocol"
    by (simp_all add: manifest_with_def)
qed

lemma manifest_json_inject:
  assumes "manifest_json m = manifest_json m'" and "hm_manifest_id m = hm_manifest_id m'"
  shows "m = m'\<lparr>hm_created_at := hm_created_at m\<rparr>"
proof -
  from assms(1) have "jget (manifest_json m) k = jget (manifest_json m') k" for k by simp
  note * = this [unfolded manifest_json_def jget_jobj]
  from * [of "''harness_id''"] * [of "''artifact_digest''"] * [of "''protocol_version''"] * [of "''endpoint''"]
    * [of "''operation_name''"] * [of "''description''"] * [of "''input_schema''"] * [of "''output_schema''"]
    * [of "''idempotent''"] assms(2)
  show ?thesis by simp
qed

lemma found_manifest:
  assumes "find (\<lambda>r. mf_manifest_id r = i) rows = Some r" and "manifest_of_row E r = Inr m"
  shows "hm_manifest_id m = i" "compute_manifest_id E m = i" "hm_protocol_version m = harness_protocol"
  using manifest_of_row_named [OF assms(2)] assms(1) by (auto simp: find_Some_iff)

text \<open>A manifest identifier names one content: manifests loaded under the same identifier, from any
  two states, agree in everything but the time of registration, or their texts collide.\<close>

lemma manifest_names_content:
  assumes "load_harness_manifest E i s = (Inr (Some m), t)"
    and "load_harness_manifest E i s' = (Inr (Some m'), t')"
  shows "hm_manifest_id m = i \<and> hm_protocol_version m = harness_protocol \<and>
    (m = m'\<lparr>hm_created_at := hm_created_at m\<rparr> \<or>
     manifest_json m \<noteq> manifest_json m' \<and>
     sha256_hex E (json_text E (manifest_json m)) = sha256_hex E (json_text E (manifest_json m')))"
proof -
  have load: "hm_manifest_id n = i \<and> compute_manifest_id E n = i \<and> hm_protocol_version n = harness_protocol"
    if "load_harness_manifest E i u = (Inr (Some n), v)" for n u v
    using load_manifest_InrD(2) [OF that refl] found_manifest by blast
  note l = load [OF assms(1)] load [OF assms(2)]
  then have "compute_manifest_id E m = compute_manifest_id E m'" by simp
  then have "sha256_hex E (json_text E (manifest_json m)) = sha256_hex E (json_text E (manifest_json m'))"
    by (simp add: compute_manifest_id_def)
  with l manifest_json_inject [of m m'] show ?thesis by auto
qed

subsection \<open>Steps of a change\<close>

text \<open>Storing a snapshot leaves the journal, the manifests and the active snapshot alone.\<close>

definition registry_kept :: "store \<Rightarrow> store \<Rightarrow> bool" where
  "registry_kept s t \<longleftrightarrow> journal_events t = journal_events s \<and> harness_manifests t = harness_manifests s \<and>
     registry_state t = registry_state s \<and> current_snapshot_id t = current_snapshot_id s"

interpretation rk: store_frame registry_kept
  by unfold_locales (simp_all add: registry_kept_def)

lemma registry_kept_create:
  "obeys registry_kept (create_registry_snapshot_with_hook_bindings E specs bindings)"
proof -
  have stmts: "obeys registry_kept (insert_snapshot_header h)" "obeys registry_kept (insert_snapshot_operation r)"
    "obeys registry_kept (insert_snapshot_binding b)" "obeys registry_kept (load_snapshot_from_conn E i)"
    "obeys registry_kept (lock E)" for h r b i
    unfolding insert_snapshot_header_def insert_snapshot_operation_def insert_snapshot_binding_def
      load_snapshot_from_conn_def lock_def
    by (intro rk.store_intros obeys_intros; auto simp: obeys_def op_update_def registry_kept_def)+
  show ?thesis
    unfolding create_registry_snapshot_with_hook_bindings_def Let_def
    by (intro rk.store_intros obeys_intros stmts)
qed

lemma created_id:
  assumes "create_registry_snapshot_with_hook_bindings E specs bindings s = (Inr snap, t)"
  shows "rs_snapshot_id snap = compute_snapshot_id_with_hook_bindings E specs bindings"
  using assms
  by (auto simp: create_registry_snapshot_with_hook_bindings_def Let_def op_then_def op_return_def
      op_bail_def load_snapshot_from_conn_def elim!: op_bind_InrD dest!: tx_InrD
      split: if_splits option.splits)

lemma atomic_activation:
  assumes "activate_registry_snapshot_atomic E new expected d action i name s = (Inr x, t)"
  shows "\<exists>row now e. registry_state s = Some row \<and> st_active_snapshot_id row = expected \<and>
      registry_state t = Some \<lparr>st_active_snapshot_id = new, st_version = st_version row + 1, st_updated_at = now\<rparr> \<and>
      journal_events t = journal_events s @ [e] \<and> jr_kind e = ''RegistrySnapshotActivated'' \<and>
      jr_payload_json e = json_text E (harness_change_payload action i name expected new d)"
    and "current_snapshot_id t = Some new" "harness_manifests t = harness_manifests s" "snapshots_fixed s t"
proof -
  show "\<exists>row now e. registry_state s = Some row \<and> st_active_snapshot_id row = expected \<and>
      registry_state t = Some \<lparr>st_active_snapshot_id = new, st_version = st_version row + 1, st_updated_at = now\<rparr> \<and>
      journal_events t = journal_events s @ [e] \<and> jr_kind e = ''RegistrySnapshotActivated'' \<and>
      jr_payload_json e = json_text E (harness_change_payload action i name expected new d)"
    "current_snapshot_id t = Some new" "harness_manifests t = harness_manifests s"
    using assms unfolding activate_registry_snapshot_atomic_def op_then_def
    by (auto elim!: op_bind_InrD dest!: tx_InrD simp: op_return_def op_bail_def op_query_def
        op_update_def op_then_def utc_now_run update_registry_state_def append_event_tx_run
        set_cache_def storage_name_def split: option.splits if_splits)
  have "obeys snapshots_fixed (activate_registry_snapshot_atomic E new expected d action i name)"
    unfolding activate_registry_snapshot_atomic_def
    by (intro sf.store_intros obeys_intros fixed_statements)
  from obeysD [OF this assms] show "snapshots_fixed s t" .
qed

lemma load_snapshot_same_rows:
  assumes "load_snapshot_from_conn E i s = (Inr snap, t)" and "stored i u = stored i s"
  shows "load_snapshot_from_conn E i u = (Inr snap, u)" "t = s"
  using assms by (auto simp: load_snapshot_stored split: prod.splits list.splits sum.splits)

lemma unchanged_stored: "unchanged s t \<Longrightarrow> stored i t = stored i s"
  by (cases s; cases t) (simp add: unchanged_def stored_def)

lemma unchanged_cache: "unchanged s t \<Longrightarrow> current_snapshot_id t = current_snapshot_id s"
  by (cases s; cases t) (simp add: unchanged_def)

lemma change_start_InrD:
  assumes "harness_change_start E intent s = (Inr (m, snap), t)"
  shows "unchanged s t"
    and "\<exists>r. find (\<lambda>r. mf_manifest_id r = hc_manifest_id intent) (harness_manifests s) = Some r \<and>
      manifest_of_row E r = Inr m"
    and "current_snapshot_id s = Some (hc_expected_snapshot_id intent)"
    and "load_snapshot_from_conn E (hc_expected_snapshot_id intent) s = (Inr snap, s)"
proof -
  from assms obtain found u where load: "load_harness_manifest E (hc_manifest_id intent) s = (Inr found, u)"
    and m: "found = Some m" and c: "current_snapshot_id u = Some (hc_expected_snapshot_id intent)"
    and l: "load_registry_snapshot E (hc_expected_snapshot_id intent) u = (Inr snap, t)"
    unfolding harness_change_start_def current_registry_snapshot_id_def cached_id_def
    by (auto elim!: op_bind_InrD simp: op_lift_def op_query_def op_bail_def op_return_def
        split: if_splits option.splits sum.splits)
  note su = load_manifest_InrD(1) [OF load]
  let ?v = "u\<lparr>tick := Suc (tick u)\<rparr>"
  have v: "load_snapshot_from_conn E (hc_expected_snapshot_id intent) ?v = (Inr snap, t)"
    using tx_InrD [OF l [unfolded load_registry_snapshot_def]] by simp
  have sv: "unchanged s ?v" using su unchanged_tick unchanged_trans by blast
  with load_snapshot_same_rows [OF v] show "unchanged s t"
    and "load_snapshot_from_conn E (hc_expected_snapshot_id intent) s = (Inr snap, s)"
    by (auto simp: unchanged_stored)
  from load_manifest_InrD(2) [OF load m] show "\<exists>r. find (\<lambda>r. mf_manifest_id r = hc_manifest_id intent)
      (harness_manifests s) = Some r \<and> manifest_of_row E r = Inr m" .
  from c unchanged_cache [OF su] show "current_snapshot_id s = Some (hc_expected_snapshot_id intent)" by simp
qed

text \<open>What a change that takes effect leaves: the snapshot of the new specifications is stored and
  active, and one event records the step.\<close>

definition switched ::
  "env \<Rightarrow> ApprovedHarnessChange \<Rightarrow> string \<Rightarrow> string \<Rightarrow> OperationSpec list \<Rightarrow> HookBinding list \<Rightarrow> store \<Rightarrow> store \<Rightarrow> bool" where
  "switched E a action name specs hooks s t \<longleftrightarrow>
    (let new = compute_snapshot_id_with_hook_bindings E specs hooks; intent = ah_intent a in
     current_snapshot_id t = Some new \<and> harness_manifests t = harness_manifests s \<and>
     (\<exists>row now e. registry_state s = Some row \<and> st_active_snapshot_id row = hc_expected_snapshot_id intent \<and>
       registry_state t = Some \<lparr>st_active_snapshot_id = new, st_version = st_version row + 1, st_updated_at = now\<rparr> \<and>
       journal_events t = journal_events s @ [e] \<and> jr_kind e = ''RegistrySnapshotActivated'' \<and>
       jr_payload_json e = json_text E (harness_change_payload action (hc_manifest_id intent) name
         (hc_expected_snapshot_id intent) new (ah_decision_id a))))"

lemma switch_InrD:
  assumes "switch_snapshot E a action m snap specs s = (Inr res, t)"
  shows "switched E a action (hm_operation_name m) specs (rs_hook_bindings snap) s t"
    and "res = \<lparr>ra_previous_snapshot_id = rs_snapshot_id snap,
      ra_active_snapshot_id = compute_snapshot_id_with_hook_bindings E specs (rs_hook_bindings snap),
      ra_changed = True\<rparr>"
    and "\<exists>new u. create_registry_snapshot_with_hook_bindings E specs (rs_hook_bindings snap) s = (Inr new, u) \<and>
      snapshots_fixed u t"
proof -
  from assms obtain new u where c: "create_registry_snapshot_with_hook_bindings E specs (rs_hook_bindings snap) s = (Inr new, u)"
    and act: "activate_registry_snapshot_atomic E (rs_snapshot_id new) (hc_expected_snapshot_id (ah_intent a))
       (ah_decision_id a) action (hc_manifest_id (ah_intent a)) (hm_operation_name m) u = (Inr (), t)"
    and r: "res = \<lparr>ra_previous_snapshot_id = rs_snapshot_id snap, ra_active_snapshot_id = rs_snapshot_id new,
      ra_changed = True\<rparr>"
    unfolding switch_snapshot_def Let_def op_then_def by (auto elim!: op_bind_InrD simp: op_return_def)
  note id = created_id [OF c]
  note kept = obeysD [OF registry_kept_create c]
  note acted = atomic_activation [OF act, unfolded id]
  show "switched E a action (hm_operation_name m) specs (rs_hook_bindings snap) s t"
    using kept acted unfolding switched_def Let_def registry_kept_def by simp
  show "res = \<lparr>ra_previous_snapshot_id = rs_snapshot_id snap,
      ra_active_snapshot_id = compute_snapshot_id_with_hook_bindings E specs (rs_hook_bindings snap),
      ra_changed = True\<rparr>" using r id by simp
  show "\<exists>new u. create_registry_snapshot_with_hook_bindings E specs (rs_hook_bindings snap) s = (Inr new, u) \<and>
      snapshots_fixed u t" using c acted(4) by blast
qed

subsection \<open>Enabling, then disabling\<close>

lemma collected: "collect_results f xs = Inr ys \<Longrightarrow> y \<in> set ys \<Longrightarrow> \<exists>x \<in> set xs. f x = Inr y"
  by (induction xs arbitrary: ys) (auto split: sum.splits)

lemma loaded_parameters:
  assumes "load_snapshot_from_conn E i s = (Inr snap, t)" and "x \<in> set (rs_operations snap)"
  shows "\<exists>txt. json_parse E txt = Some (os_parameters x)"
proof -
  from assms obtain r where "spec_of_row E r = Inr x"
    by (auto simp: load_snapshot_stored dest!: collected split: prod.splits list.splits sum.splits)
  then show ?thesis by (auto simp: spec_of_row_def Let_def split: if_splits option.splits)
qed

lemma manifest_parameters:
  assumes "manifest_of_row E r = Inr m"
  shows "\<exists>txt. json_parse E txt = Some (hm_input_schema m)"
proof -
  from assms obtain x y where "json_parse E (mf_input_schema_json r) = Some x" "m = manifest_with r x y"
    unfolding manifest_of_row_def by (auto simp: Let_def elim!: ebind_InrD split: if_splits)
  then show ?thesis by (auto simp: manifest_with_def)
qed

lemma sort_key_twice: "sort_key f (sort_key f xs) = sort_key f xs"
  by (rule sort_key_id_if_sorted) simp

lemma compute_snapshot_id_sorted:
  "compute_snapshot_id_with_hook_bindings E (sort_key os_name specs) (sort_key hb_contract hooks) =
   compute_snapshot_id_with_hook_bindings E specs hooks"
  by (simp add: compute_snapshot_id_with_hook_bindings_def canonical_json_def sort_key_twice)

lemma without_new:
  assumes "snapshot_lookup snap (os_name x) = None"
  shows "filter (\<lambda>y. os_name y \<noteq> os_name x) (sort_key os_name (rs_operations snap @ [x])) =
    sort_key os_name (rs_operations snap)"
proof -
  have "filter (\<lambda>y. os_name y \<noteq> os_name x) (rs_operations snap) = rs_operations snap"
    using assms by (auto simp: snapshot_lookup_def find_None_iff filter_id_conv)
  then show ?thesis by (simp add: filter_sort)
qed

lemma enable_InrD:
  assumes "enable_harness E a s = (Inr x, t)" and "ra_changed x"
  obtains m snap s1 where "harness_change_start E (ah_intent a) s = (Inr (m, snap), s1)"
    "snapshot_lookup snap (hm_operation_name m) = None"
    "switch_snapshot E a ''enable'' m snap
       (rs_operations snap @ [external_spec m (hc_manifest_id (ah_intent a))]) s1 = (Inr x, t)"
  using assms unfolding enable_harness_def
  by (auto elim!: op_bind_InrD simp: op_return_def unchanged_result_def split: prod.splits if_splits)

lemma disable_InrD:
  assumes "disable_harness E a s = (Inr y, t)"
  obtains m snap s1 where "harness_change_start E (ah_intent a) s = (Inr (m, snap), s1)"
    "snapshot_lookup snap (hm_operation_name m) \<noteq> None \<longrightarrow> switch_snapshot E a ''disable'' m snap
       (filter (\<lambda>op_spec. os_name op_spec \<noteq> hm_operation_name m) (rs_operations snap)) s1 = (Inr y, t)"
  using assms unfolding disable_harness_def
  by (auto elim!: op_bind_InrD simp: op_return_def split: prod.splits if_splits)

text \<open>The snapshot that enabling stores, as it loads afterwards.\<close>

lemma enabled_loads:
  assumes c: "create_registry_snapshot_with_hook_bindings E specs hooks s = (Inr new, v)" "snapshots_fixed v t"
    and fresh: "stored (compute_snapshot_id_with_hook_bindings E specs hooks) s = ([], [], [])"
    and p: "parameters_read_back E specs"
    and l: "load_snapshot_from_conn E (compute_snapshot_id_with_hook_bindings E specs hooks) t = (Inr got, t)"
  shows "rs_operations got = sort_key os_name specs" "rs_hook_bindings got = sort_key hb_contract hooks"
proof -
  note id = created_id [OF c(1)]
  from stored_snapshot_kept(1) [OF c(1) _ p c(2)] fresh l
  have "got = new\<lparr>rs_hook_bindings := sort_key hb_contract hooks\<rparr>" by (simp add: id)
  moreover have "rs_operations new = sort_key os_name specs"
    using create_fresh(1) [OF c(1)] fresh by (simp add: has_snapshot_stored)
  ultimately show "rs_operations got = sort_key os_name specs"
    "rs_hook_bindings got = sort_key hb_contract hooks" by simp_all
qed

text \<open>Enabling reports success and changes nothing when the operation is already offered, also when
  the active snapshot binds it to another manifest.\<close>

lemma enable_present:
  assumes "harness_change_start E (ah_intent a) s = (Inr (m, snap), t)"
    and "snapshot_lookup snap (hm_operation_name m) = Some op_spec"
  shows "enable_harness E a s = (Inr (unchanged_result snap), t)" "unchanged s t"
  using assms change_start_InrD(1) [OF assms(1)]
  by (simp_all add: enable_harness_def op_bind_def op_return_def)

subsection \<open>Properties\<close>


definition harness_env :: env where
  "harness_env = sample_env\<lparr>sha256_hex := (\<lambda>t. t), json_parse := (\<lambda>_. Some (jobj [(''type'', JStr ''object'')]))\<rparr>"

definition sample_manifest :: HarnessManifest where
  "sample_manifest =
    (let m = \<lparr>hm_manifest_id = [], hm_harness_id = ''h'', hm_artifact_digest = ''d'',
         hm_protocol_version = harness_protocol, hm_endpoint = ''http://127.0.0.1:9000/run'',
         hm_operation_name = ''external.x'', hm_description = ''x'',
         hm_input_schema = jobj [(''type'', JStr ''object'')],
         hm_output_schema = jobj [(''type'', JStr ''object'')], hm_idempotent = True, hm_created_at = 0\<rparr>
     in m\<lparr>hm_manifest_id := compute_manifest_id harness_env m\<rparr>)"

definition sample_base :: string where
  "sample_base = compute_snapshot_id_with_hook_bindings harness_env [] []"

definition sample_enabled_id :: string where
  "sample_enabled_id = compute_snapshot_id_with_hook_bindings harness_env
     [external_spec sample_manifest (hm_manifest_id sample_manifest)] []"

definition harness_store :: store where
  "harness_store = empty_store\<lparr>
     harness_manifests := [manifest_row harness_env sample_manifest (hm_manifest_id sample_manifest)],
     registry_snapshots := [\<lparr>sn_snapshot_id = sample_base, sn_created_at = 0, sn_operation_count = 0,
       sn_canonical_digest = sample_base\<rparr>],
     registry_state := Some \<lparr>st_active_snapshot_id = sample_base, st_version = 1, st_updated_at = 0\<rparr>,
     current_snapshot_id := Some sample_base\<rparr>"

definition sample_change :: "HarnessChangeAction \<Rightarrow> string \<Rightarrow> ApprovedHarnessChange" where
  "sample_change action expected = \<lparr>ah_intent = \<lparr>hc_action = action,
     hc_manifest_id = hm_manifest_id sample_manifest, hc_expected_snapshot_id = expected,
     hc_requested_by = ''ipc_operator''\<rparr>, ah_decision_id = ''decision_1''\<rparr>"

definition sample_enabled :: "(string + RegistryActivationResult) \<times> store" where
  "sample_enabled = enable_harness harness_env (sample_change Enable sample_base) harness_store"

definition sample_disabled :: "(string + RegistryActivationResult) \<times> store" where
  "sample_disabled = disable_harness harness_env (sample_change Disable sample_enabled_id) (snd sample_enabled)"

lemma sample_changes:
  "fst sample_enabled = Inr \<lparr>ra_previous_snapshot_id = sample_base, ra_active_snapshot_id = sample_enabled_id,
     ra_changed = True\<rparr>"
  "\<not> isl (fst sample_disabled)"
  "stored sample_enabled_id harness_store = ([], [], [])"
  "load_snapshot_from_conn harness_env sample_base harness_store = (Inr \<lparr>rs_snapshot_id = sample_base,
     rs_created_at = 0, rs_operations = [], rs_hook_bindings = []\<rparr>, harness_store)"
  by code_simp+


end
