(* ===== verification/Spec2Isabelle.thy ===== *)
theory Spec2Isabelle
  imports Outbox_Projection Gateway_Properties Agent_Loop Registry_Properties Hook_Contracts
    Data_Directory Operation_Grants Model_Records Model_Invocation Harness_Manifests
begin

text \<open>
  This development models the kernel of \<open>agent-core\<close> (the Rust crate under \<open>src/src\<close>, with its SQL
  migrations) and the crate \<open>src/agent-runtime\<close>, and proves what makes them correct. The kernel takes
  messages from channels, records them in a journal, runs a model with tools on them, and delivers
  the answers; the journal is an SQLite database whose event table is a hash chain, and whose queues
  decide what is done, how often, and after a crash.

  \<^bold>\<open>The shape of the model.\<close> The database is the record \<open>store\<close> of \<open>Journal_Tables\<close>: one list of rows per
  table, in insertion order. A method of \<open>JournalStore\<close> is an operation \<open>store \<Rightarrow> (string + 'a) \<times> store\<close>
  (\<open>op\<close> in \<open>Kernel_Prelude\<close>); \<open>Inl\<close> carries the text of the error, and \<open>?\<close> is \<open>op_bind\<close>. A transaction
  (\<open>tx\<close>) keeps its writes only when its body succeeds and the database accepts it; statements outside
  a transaction take effect one by one. What the code takes from outside is a parameter: the record
  \<open>env\<close> holds SHA-256, the JSON printer and parser, the clock, the random identifiers, and the
  predicate \<open>fault_at\<close> that says which accesses of the database fail. Each draw advances \<open>tick\<close>, so a
  theorem about all environments is a theorem about every pattern of failures. Adapters, models and
  HTTP transports are functions passed to the operations that call them. \<open>Sample_Env\<close> instantiates the
  parameters for the witnesses. Machine integers are words where the code can wrap (\<open>Retry_Policy\<close>,
  \<open>Kernel_Configuration\<close>, budgets), and integers where SQLite stores them. Strings are byte lists.

  \<^bold>\<open>Theories and sources.\<close>
  \<^item> \<open>Kernel_Prelude\<close>, \<open>Json_Value\<close>, \<open>Text_Parsing\<close>, \<open>Op_Logic\<close>: operations and their frame rules (\<open>obeys\<close>,
    the locales \<open>frame_relation\<close> and \<open>store_frame\<close>), postconditions (\<open>ends\<close>), tables, JSON values, and the
    string functions of the standard library.
  \<^item> \<open>Domain_Types\<close>, \<open>Retry_Policy\<close>, \<open>Operation_Catalog\<close>: \<open>src/src/domain\<close>. The stored names of kinds and
    statuses are inverse to their parsers; the back-off is bounded; a profile grants only catalogued
    operations.
  \<^item> \<open>Journal_Tables\<close>, \<open>Hash_Chain\<close>, \<open>Journal_Store\<close>: \<open>src/src/journal\<close> (\<open>sqlite.rs\<close>, \<open>queue.rs\<close>,
    \<open>hash_chain.rs\<close>). Appending extends a well-formed chain by one event; verification accepts every
    well-formed chain and two chains that verify with the same last hash record the same events, or
    SHA-256 collides.
  \<^item> \<open>Worker_Queue\<close>, \<open>Outbox_Queue\<close>, \<open>Outbox_Projection\<close>, \<open>Journal_Recovery\<close>: the two queues, the dispatcher
    and startup recovery. Leases exclude each other until they run out, retries end, settled rows are
    final, the outbox is a projection of the journal in every reachable state, and recovery closes
    every dispatch a crash left open.
  \<^item> \<open>Registry_Schema\<close>, \<open>Registry_Snapshot\<close>, \<open>Registry_Store\<close>, \<open>Registry_Properties\<close>, \<open>Component_Registry\<close>:
    \<open>src/src/registry\<close> and its persistence. The validator decides a declarative conformance relation;
    a snapshot is named by its content, immutable, and activated by compare-and-swap.
  \<^item> \<open>Gateway_Policy\<close>, \<open>Gateway_Ingress\<close>, \<open>Gateway_Properties\<close>: \<open>src/src/gateway\<close>. Ingress is accepted once;
    invocations are approved exactly under the conditions of the policy; decisions are final.
  \<^item> \<open>Hook_Contracts\<close>, \<open>Content_Store\<close>, \<open>Development_Request\<close>: \<open>src/src/hook\<close>, \<open>capabilities/store.rs\<close> and
    \<open>domain/self_evolution.rs\<close>. Provider proofs bind their response, stored objects load unchanged, and
    the lifecycle of a component passes every milestone.
  \<^item> \<open>Kernel_Configuration\<close>, \<open>Data_Directory\<close>: \<open>config.rs\<close> and \<open>data_dir.rs\<close>. Every configuration read
    from the environment is within its limits; the bootstrap never destroys a file it did not write.
  \<^item> \<open>Operation_Grants\<close>, \<open>Model_Records\<close>: \<open>journal/grant_ops.rs\<close>, \<open>runtime/coding_grants.rs\<close> and
    \<open>journal/model_invocation.rs\<close>. The grant table refines a set of authorisations, and an invocation
    of the model has at most one start and one outcome in the journal.
  \<^item> \<open>Model_Client\<close>, \<open>Model_Adapter\<close>: \<open>src/src/llm\<close>, with the HTTP exchange, the tokenizer and the answers
    of the provider as the parameter \<open>model_port\<close>. A tool call is reported only within the limits of the
    protocol, a usage report carries no text, a context provider changes nothing but block texts and
    tool results, and no input above the token budget is released.
  \<^item> \<open>Journal_Logic\<close>, \<open>Run_Hooks\<close>: contracts of journal appends, and \<open>runtime/hook_call.rs\<close>. A budget is
    within the ceiling of the host whoever decides it, and a run has exactly the grants its principal,
    the owner rule and the grant table give.
  \<^item> \<open>Model_Invocation\<close>: \<open>runtime/model_invocation.rs\<close>. The journal accounts for every call of the model:
    its start is recorded before anything is sent, and an answer has exactly one outcome.
  \<^item> \<open>Harness_Manifests\<close>: \<open>harness/manifest.rs\<close>, \<open>journal/harness_activation_ops.rs\<close> and the manifests of
    \<open>journal/harness_ops.rs\<close>. A manifest is named by its content, its endpoint is local, and disabling a
    harness restores the snapshot that was active before it was enabled.
  \<^item> \<open>Agent_Loop\<close>: \<open>src/agent-runtime\<close>, whose loop ends within its budget and refines a step relation.

  \<^bold>\<open>Bounds.\<close> No definition uses fuel: every recursion is structural or has a termination proof (the
  loop of \<open>Agent_Loop\<close> by its remaining rounds, \<open>dec\<close> by its argument).

  \<^bold>\<open>Not modelled.\<close> The HTTP servers and clients, threads and polling of \<open>src/src/server\<close> and \<open>main.rs\<close>
  (only what they call is modelled); the loop of tool calls in \<open>runtime/tool_loop.rs\<close> with the execution
  of tools and the delivery of an event in \<open>runtime/mod.rs\<close>; the read-only views of the journal; the governance of capability
  proposals and managed services with their documents; and the separate processes under \<open>src/tools\<close>
  and \<open>src/examples\<close>, which talk to the kernel over HTTP and drive compilers, containers and the
  operating system.
\<close>

end
